(* ===== verification/Go_Prelude.thy ===== *)
theory Go_Prelude
  imports "HOL-Library.State_Monad" "HOL-Library.Sublist"
begin

text \<open>
  The part of Go and of its standard library that every component uses: errors as values
  with the \<open>if err != nil { return }\<close> idiom over the state monad, Hoare triples for
  programs written with it, and the functions of packages \<open>strings\<close> and \<open>strconv\<close>
  that the sources call. A Go string is a sequence of bytes, here a \<open>char list\<close>.
\<close>

named_theorems triple_rules \<open>Hoare rules of the operating-system calls\<close>

section \<open>Errors as values\<close>

text \<open>
  \<open>Errorf\<close> and \<open>Wrapf\<close> carry the format string of \<open>fmt.Errorf\<close> or \<open>errors.New\<close>
  and its string arguments; \<open>Wrapf\<close> also carries the error behind the verb \<open>%w\<close>.
\<close>

datatype errno = ENOENT | EEXIST | ENOTDIR | EISDIR | ENOTEMPTY | ELOOP | EPERM | EIO
  | ENOSPC | EBUSY | ENODEV | EWOULDBLOCK | EBADF | EINVAL | EINTR | ECHILD | EADDRINUSE

datatype goerr =
    Errno errno
  | Errorf string "string list"
  | Wrapf string "string list" goerr
  | EOF
  | ErrClosed
  | Canceled
  | ExitError int

type_synonym 'a go = "goerr + 'a"

text \<open>
  \<open>or_fail m wrap k\<close> is \<open>x, err := m; if err != nil { return wrap(err) }; k(x)\<close>.
\<close>

definition or_fail ::
  "('s, 'e + 'a) state \<Rightarrow> ('e \<Rightarrow> 'f) \<Rightarrow> ('a \<Rightarrow> ('s, 'f + 'b) state) \<Rightarrow> ('s, 'f + 'b) state" where
  "or_fail m wrap k = do {
     r \<leftarrow> m;
     case r of Inl e \<Rightarrow> State_Monad.return (Inl (wrap e)) | Inr x \<Rightarrow> k x
   }"

lemma run_or_fail [simp]:
  "run_state (or_fail m wrap k) s =
     (case run_state m s of (r, s') \<Rightarrow>
        (case r of Inl e \<Rightarrow> (Inl (wrap e), s') | Inr x \<Rightarrow> run_state (k x) s'))"
  by (auto simp: or_fail_def split: prod.splits sum.splits)

text \<open>A \<open>for\<close> loop over a slice whose body may return early with an error.\<close>

fun for_each :: "('a \<Rightarrow> ('s, 'e + unit) state) \<Rightarrow> 'a list \<Rightarrow> ('s, 'e + unit) state" where
  "for_each f [] = State_Monad.return (Inr ())"
| "for_each f (x # xs) = or_fail (f x) (\<lambda>e. e) (\<lambda>_. for_each f xs)"

section \<open>Hoare triples for programs in the state monad\<close>

definition triple :: "('s \<Rightarrow> bool) \<Rightarrow> ('s, 'a) state \<Rightarrow> ('a \<Rightarrow> 's \<Rightarrow> bool) \<Rightarrow> bool" where
  "triple P m Q \<longleftrightarrow> (\<forall>s. P s \<longrightarrow> (case run_state m s of (r, s') \<Rightarrow> Q r s'))"

lemma tripleI: "(\<And>s r s'. P s \<Longrightarrow> run_state m s = (r, s') \<Longrightarrow> Q r s') \<Longrightarrow> triple P m Q"
  by (auto simp: triple_def)

lemma tripleD: "triple P m Q \<Longrightarrow> P s \<Longrightarrow> run_state m s = (r, s') \<Longrightarrow> Q r s'"
  by (fastforce simp: triple_def)

lemma triple_weaken:
  "triple P' m Q' \<Longrightarrow> (\<And>s. P s \<Longrightarrow> P' s) \<Longrightarrow> (\<And>r s. Q' r s \<Longrightarrow> Q r s) \<Longrightarrow> triple P m Q"
  by (fastforce simp: triple_def split: prod.splits)

lemma triple_return: "(\<And>s. P s \<Longrightarrow> Q x s) \<Longrightarrow> triple P (State_Monad.return x) Q"
  by (simp add: triple_def)

lemma triple_bind:
  assumes "triple P m R" and "\<And>x. triple (R x) (f x) Q"
  shows "triple P (State_Monad.bind m f) Q"
  using assms by (fastforce simp: triple_def split: prod.splits)

lemma triple_or_fail:
  assumes "triple P m R" and "\<And>e s. R (Inl e) s \<Longrightarrow> Q (Inl (wrap e)) s"
    and "\<And>x. triple (R (Inr x)) (k x) Q"
  shows "triple P (or_fail m wrap k) Q"
proof (rule tripleI)
  fix s r s' assume P: "P s" and run: "run_state (or_fail m wrap k) s = (r, s')"
  obtain a t where m: "run_state m s = (a, t)" by fastforce
  with assms(1) P have R: "R a t" by (blast dest: tripleD)
  show "Q r s'"
  proof (cases a)
    case (Inl e)
    with m run R assms(2) show ?thesis by auto
  next
    case (Inr x)
    with m run R assms(3)[of x] show ?thesis by (auto dest: tripleD)
  qed
qed

text \<open>An invariant of the body is an invariant of the loop, whichever way the loop ends.\<close>

lemma triple_for_each:
  assumes "\<And>x. x \<in> set xs \<Longrightarrow> triple I (f x) (\<lambda>_. I)"
  shows "triple I (for_each f xs) (\<lambda>_. I)"
  using assms
proof (induction xs)
  case Nil
  then show ?case by (simp add: triple_return)
next
  case (Cons x xs)
  have "triple I (f x) (\<lambda>_. I)" using Cons.prems by simp
  moreover have "triple I (for_each f xs) (\<lambda>_. I)" using Cons by simp
  ultimately show ?case by (auto intro: triple_or_fail)
qed

text \<open>
  A loop that establishes \<open>G x\<close> for every element: the body establishes it for its own
  element and keeps it for the others.
\<close>

lemma triple_for_each_all:
  assumes "\<And>x. x \<in> set xs \<Longrightarrow> triple (\<lambda>_. True) (f x) (\<lambda>r s. r = Inr () \<longrightarrow> G x s)"
    and "\<And>x y. x \<in> set xs \<Longrightarrow> y \<in> set xs \<Longrightarrow> triple (G x) (f y) (\<lambda>_. G x)"
  shows "triple (\<lambda>_. True) (for_each f xs) (\<lambda>r s. r = Inr () \<longrightarrow> (\<forall>x \<in> set xs. G x s))"
  using assms
proof (induction xs)
  case Nil
  then show ?case by (simp add: triple_return)
next
  case (Cons x xs)
  have hd: "triple (\<lambda>_. True) (f x) (\<lambda>r s. r = Inr () \<longrightarrow> G x s)" using Cons.prems(1) by simp
  have tl: "triple (\<lambda>_. True) (for_each f xs) (\<lambda>r s. r = Inr () \<longrightarrow> (\<forall>y \<in> set xs. G y s))"
    using Cons by simp
  have keep: "triple (G x) (for_each f xs) (\<lambda>_. G x)"
    using Cons.prems(2) by (intro triple_for_each) simp
  show ?case
  proof (rule tripleI, intro impI)
    fix s r s' assume run: "run_state (for_each f (x # xs)) s = (r, s')" and ok: "r = Inr ()"
    obtain a t where m: "run_state (f x) s = (a, t)" by fastforce
    with run ok have a: "a = Inr ()" and rest: "run_state (for_each f xs) t = (Inr (), s')"
      by (auto split: sum.splits)
    from hd m a have "G x t" by (auto dest: tripleD)
    with keep rest have "G x s'" by (auto dest: tripleD)
    moreover from tl rest have "\<forall>y \<in> set xs. G y s'" by (auto dest: tripleD)
    ultimately show "\<forall>y \<in> set (x # xs). G y s'" by simp
  qed
qed

section \<open>Programs that respect a relation between worlds\<close>

text \<open>
  \<open>obeys R m\<close>: whichever way \<open>m\<close> ends, \<open>R\<close> relates the state before to the state after. For a
  preorder \<open>R\<close> the property follows the shape of the program, by the rules of the locale.
\<close>

definition obeys :: "('s \<Rightarrow> 's \<Rightarrow> bool) \<Rightarrow> ('s, 'a) state \<Rightarrow> bool" where
  "obeys R m \<longleftrightarrow> (\<forall>s r s'. run_state m s = (r, s') \<longrightarrow> R s s')"

lemma obeysI: "(\<And>s r s'. run_state m s = (r, s') \<Longrightarrow> R s s') \<Longrightarrow> obeys R m"
  by (simp add: obeys_def)

lemma obeysD: "obeys R m \<Longrightarrow> run_state m s = (r, s') \<Longrightarrow> R s s'"
  by (simp add: obeys_def)

lemma obeys_mono: "obeys R m \<Longrightarrow> (\<And>s s'. R s s' \<Longrightarrow> S s s') \<Longrightarrow> obeys S m"
  by (simp add: obeys_def)

locale state_preorder =
  fixes R :: "'s \<Rightarrow> 's \<Rightarrow> bool"
  assumes refl: "R s s"
    and trans: "R s t \<Longrightarrow> R t u \<Longrightarrow> R s u"
begin

lemma ret: "obeys R (State_Monad.return x)"
  by (simp add: obeys_def refl)

lemma bind: "obeys R m \<Longrightarrow> (\<And>x. obeys R (f x)) \<Longrightarrow> obeys R (State_Monad.bind m f)"
  unfolding obeys_def by (auto split: prod.splits) (blast intro: trans)

lemma case_sum: "(\<And>e. obeys R (f e)) \<Longrightarrow> (\<And>x. obeys R (g x)) \<Longrightarrow> obeys R (case_sum f g r)"
  by (cases r) auto

lemma case_option: "obeys R m \<Longrightarrow> (\<And>x. obeys R (f x)) \<Longrightarrow> obeys R (case_option m f r)"
  by (cases r) auto

lemma case_prod: "(\<And>x y. obeys R (f x y)) \<Longrightarrow> obeys R (case_prod f p)"
  by (cases p) auto

lemma cond: "(c \<Longrightarrow> obeys R m) \<Longrightarrow> (\<not> c \<Longrightarrow> obeys R n) \<Longrightarrow> obeys R (if c then m else n)"
  by simp

lemma let_in: "(\<And>x. obeys R (f x)) \<Longrightarrow> obeys R (Let v f)"
  by (simp add: Let_def)

lemma or_fails: "obeys R m \<Longrightarrow> (\<And>x. obeys R (k x)) \<Longrightarrow> obeys R (or_fail m wrap k)"
  unfolding or_fail_def by (intro bind case_sum ret)

lemma loop: "(\<And>x. x \<in> set xs \<Longrightarrow> obeys R (f x)) \<Longrightarrow> obeys R (for_each f xs)"
  by (induction xs) (auto intro: ret or_fails)

lemmas rules = ret bind or_fails loop case_sum case_option case_prod cond let_in

end

end
