(* ===== verification/Go_Strings.thy ===== *)
theory Go_Strings
  imports Go_Prelude "HOL-Library.Char_ord"
begin

text \<open>
  The functions of packages \<open>strings\<close>, \<open>strconv\<close> and \<open>unicode\<close> that the sources call,
  on byte strings. White space is that of \<open>unicode.IsSpace\<close>, each code point in its UTF-8
  encoding. No encoding of a space starts with a continuation byte, so looking for them at
  every byte finds the same code points as decoding the string from the left.
\<close>

section \<open>White space\<close>

definition space_runes :: "string list" where
  "space_runes =
    [[CHR 0x20], [CHR 0x09], [CHR 0x0A], [CHR 0x0B], [CHR 0x0C], [CHR 0x0D],
     [CHR 0xC2, CHR 0x85], [CHR 0xC2, CHR 0xA0],
     [CHR 0xE1, CHR 0x9A, CHR 0x80],
     [CHR 0xE2, CHR 0x80, CHR 0x80], [CHR 0xE2, CHR 0x80, CHR 0x81],
     [CHR 0xE2, CHR 0x80, CHR 0x82], [CHR 0xE2, CHR 0x80, CHR 0x83],
     [CHR 0xE2, CHR 0x80, CHR 0x84], [CHR 0xE2, CHR 0x80, CHR 0x85],
     [CHR 0xE2, CHR 0x80, CHR 0x86], [CHR 0xE2, CHR 0x80, CHR 0x87],
     [CHR 0xE2, CHR 0x80, CHR 0x88], [CHR 0xE2, CHR 0x80, CHR 0x89],
     [CHR 0xE2, CHR 0x80, CHR 0x8A], [CHR 0xE2, CHR 0x80, CHR 0xA8],
     [CHR 0xE2, CHR 0x80, CHR 0xA9], [CHR 0xE2, CHR 0x80, CHR 0xAF],
     [CHR 0xE2, CHR 0x81, CHR 0x9F], [CHR 0xE3, CHR 0x80, CHR 0x80]]"

fun has_prefix :: "string \<Rightarrow> string \<Rightarrow> bool" where
  "has_prefix [] s = True"
| "has_prefix (p # ps) [] = False"
| "has_prefix (p # ps) (c # cs) = (p = c \<and> has_prefix ps cs)"

definition trim_prefix :: "string \<Rightarrow> string \<Rightarrow> string" where
  "trim_prefix p s = (if has_prefix p s then drop (length p) s else s)"

lemma has_prefix_iff: "has_prefix p s \<longleftrightarrow> (\<exists>t. s = p @ t)"
  by (induction p s rule: has_prefix.induct) auto

lemma has_prefix_append [simp]: "has_prefix p (p @ t)"
  by (simp add: has_prefix_iff)

lemma trim_prefix_append [simp]: "trim_prefix p (p @ t) = t"
  by (simp add: trim_prefix_def)

text \<open>The bytes of the white-space rune a string starts with, or \<open>None\<close>.\<close>

definition leading_space :: "string list \<Rightarrow> string \<Rightarrow> string option" where
  "leading_space runes s = find (\<lambda>r. has_prefix r s) runes"

lemma leading_space_Some:
  "leading_space runes s = Some r \<Longrightarrow> r \<in> set runes \<and> (\<exists>t. s = r @ t)"
  by (auto simp: leading_space_def find_Some_iff has_prefix_iff in_set_conv_nth)

lemma space_runes_nonempty: "r \<in> set space_runes \<Longrightarrow> r \<noteq> []"
  by (auto simp: space_runes_def)

text \<open>
  Trimming with a set of runes; the guard on the empty rune only makes the recursion total.
\<close>

function trim_with :: "string list \<Rightarrow> string \<Rightarrow> string" where
  "trim_with runes s =
    (case leading_space runes s of
       Some (c # r) \<Rightarrow> trim_with runes (drop (Suc (length r)) s)
     | _ \<Rightarrow> s)"
  by pat_completeness auto
termination
  by (relation "measure (\<lambda>(runes, s). length s)") (auto dest: leading_space_Some)

declare trim_with.simps [simp del]

definition trim_left :: "string \<Rightarrow> string" where
  "trim_left s = trim_with space_runes s"

definition trim_right :: "string \<Rightarrow> string" where
  "trim_right s = rev (trim_with (map rev space_runes) (rev s))"

definition trim_space :: "string \<Rightarrow> string" where
  "trim_space s = trim_right (trim_left s)"

text \<open>\<open>strings.TrimSpace(s) == ""\<close>.\<close>

definition blank :: "string \<Rightarrow> bool" where
  "blank s \<longleftrightarrow> trim_space s = []"

lemma trim_with_suffix: "\<exists>p. s = p @ trim_with runes s"
proof (induction runes s rule: trim_with.induct)
  case (1 runes s)
  show ?case
  proof (cases "leading_space runes s")
    case None
    then show ?thesis by (simp add: trim_with.simps)
  next
    case (Some r)
    show ?thesis
    proof (cases r)
      case Nil
      with Some show ?thesis by (simp add: trim_with.simps)
    next
      case (Cons c r')
      obtain p where "drop (Suc (length r')) s = p @ trim_with runes (drop (Suc (length r')) s)"
        using 1 Some Cons by metis
      then have "s = (take (Suc (length r')) s @ p) @ trim_with runes (drop (Suc (length r')) s)"
        by (metis append.assoc append_take_drop_id)
      moreover have "trim_with runes s = trim_with runes (drop (Suc (length r')) s)"
        using Some Cons by (simp add: trim_with.simps[of runes s])
      ultimately show ?thesis by metis
    qed
  qed
qed

lemma length_trim_left: "length (trim_left s) \<le> length s"
  using trim_with_suffix[of s space_runes] unfolding trim_left_def
  by (metis length_append le_add2)

lemma trim_with_Nil [simp]: "trim_with runes [] = []"
  using trim_with_suffix[of "[]" runes] by simp

lemma blank_Nil [simp]: "blank []"
  by (simp add: blank_def trim_space_def trim_left_def trim_right_def)

text \<open>A string without a white-space rune at either end is left alone.\<close>

lemma trim_space_id:
  "leading_space space_runes s = None \<Longrightarrow> leading_space (map rev space_runes) (rev s) = None \<Longrightarrow>
   trim_space s = s"
  by (simp add: trim_space_def trim_left_def trim_right_def trim_with.simps)

lemma not_blank: "leading_space space_runes s = None \<Longrightarrow>
   leading_space (map rev space_runes) (rev s) = None \<Longrightarrow> s \<noteq> [] \<Longrightarrow> \<not> blank s"
  by (simp add: blank_def trim_space_id)

section \<open>Splitting around white space: strings.Fields\<close>

fun take_word :: "string \<Rightarrow> string \<times> string" where
  "take_word [] = ([], [])"
| "take_word (c # cs) =
    (case leading_space space_runes (c # cs) of
       Some _ \<Rightarrow> ([], c # cs)
     | None \<Rightarrow> (case take_word cs of (w, rest) \<Rightarrow> (c # w, rest)))"

lemma take_word_append: "take_word s = (w, rest) \<Longrightarrow> s = w @ rest"
  by (induction s arbitrary: w) (auto split: option.splits prod.splits)

lemma trim_left_no_space: "leading_space space_runes (trim_left s) = None"
proof -
  have "leading_space space_runes (trim_with runes s) = None" if "runes = space_runes" for runes
    using that
  proof (induction runes s rule: trim_with.induct)
    case (1 runes s)
    then show ?case
      by (subst trim_with.simps)
        (auto split: option.splits list.splits dest: leading_space_Some space_runes_nonempty)
  qed
  then show ?thesis by (simp add: trim_left_def)
qed

function fields_of :: "string \<Rightarrow> string list" where
  "fields_of s =
    (case trim_left s of
       [] \<Rightarrow> []
     | c # cs \<Rightarrow> (case take_word (c # cs) of (w, rest) \<Rightarrow> w # fields_of rest))"
  by pat_completeness auto
termination
proof (relation "measure length", simp)
  fix s c cs w rest
  assume s: "trim_left s = c # cs" and w: "(w, rest) = take_word (c # cs)"
  from w trim_left_no_space[of s] s have "w \<noteq> []" by (auto split: prod.splits)
  moreover from w have "c # cs = w @ rest" by (metis take_word_append)
  ultimately have "length rest < length (c # cs)" by (cases w) auto
  with s length_trim_left[of s] show "(rest, s) \<in> measure length" by simp
qed

declare fields_of.simps [simp del]

section \<open>Case\<close>

text \<open>
  \<open>strings.ToLower\<close>. Two non-ASCII letters have an ASCII lower case, the dotted capital I
  (C4 B0) and the Kelvin sign (E2 84 AA); every other non-ASCII letter stays non-ASCII. The
  callers compare the result with ASCII literals only, so those letters are left as they are.
\<close>

definition lower_byte :: "char \<Rightarrow> char" where
  "lower_byte c =
    (if 65 \<le> (of_char c :: nat) \<and> (of_char c :: nat) \<le> 90 then char_of ((of_char c :: nat) + 32) else c)"

fun to_lower :: "string \<Rightarrow> string" where
  "to_lower [] = []"
| "to_lower (c # cs) =
    (case cs of
       d # ds \<Rightarrow>
         if c = CHR 0xC4 \<and> d = CHR 0xB0 then CHR ''i'' # to_lower ds
         else (case ds of
           e # es \<Rightarrow>
             if c = CHR 0xE2 \<and> d = CHR 0x84 \<and> e = CHR 0xAA then CHR ''k'' # to_lower es
             else lower_byte c # to_lower cs
         | [] \<Rightarrow> lower_byte c # to_lower cs)
     | [] \<Rightarrow> [lower_byte c])"

section \<open>Numbers\<close>

definition digit_char :: "nat \<Rightarrow> char" where
  "digit_char d = char_of (48 + d)"

definition digit_val :: "char \<Rightarrow> nat option" where
  "digit_val c = (let n = of_char c in if 48 \<le> n \<and> n \<le> 57 then Some (n - 48) else None)"

fun show_nat :: "nat \<Rightarrow> string" where
  "show_nat n = (if n < 10 then [digit_char n] else show_nat (n div 10) @ [digit_char (n mod 10)])"

declare show_nat.simps [simp del]

text \<open>\<open>strconv.Itoa\<close> and \<open>strconv.FormatBool\<close>.\<close>

definition itoa :: "int \<Rightarrow> string" where
  "itoa i = (if i < 0 then CHR ''-'' # show_nat (nat (- i)) else show_nat (nat i))"

definition format_bool :: "bool \<Rightarrow> string" where
  "format_bool b = (if b then ''true'' else ''false'')"

fun parse_digits :: "nat \<Rightarrow> string \<Rightarrow> nat option" where
  "parse_digits acc [] = Some acc"
| "parse_digits acc (c # cs) =
    (case digit_val c of None \<Rightarrow> None | Some d \<Rightarrow> parse_digits (10 * acc + d) cs)"

text \<open>
  \<open>strconv.Atoi\<close> on a 64-bit platform: an optional sign, at least one digit, no underscores,
  and a value in the range of \<open>int64\<close>; \<open>None\<close> is the error.
\<close>

definition atoi :: "string \<Rightarrow> int option" where
  "atoi s =
    (let neg = (s \<noteq> [] \<and> hd s = CHR ''-'');
         body = (if s \<noteq> [] \<and> hd s \<in> {CHR ''-'', CHR ''+''} then tl s else s)
     in if body = [] then None
        else case parse_digits 0 body of
            None \<Rightarrow> None
          | Some n \<Rightarrow>
              (let i = (if neg then - int n else int n)
               in if - (2 ^ 63) \<le> i \<and> i < 2 ^ 63 then Some i else None))"

lemma digit_val_char: "d < 10 \<Longrightarrow> digit_val (digit_char d) = Some d"
  by (simp add: digit_val_def digit_char_def)

lemma parse_digits_append:
  "parse_digits acc (xs @ ys) = Option.bind (parse_digits acc xs) (\<lambda>a. parse_digits a ys)"
  by (induction acc xs rule: parse_digits.induct) (auto split: option.splits)

lemma parse_show_nat: "parse_digits 0 (show_nat n) = Some n"
proof (induction n rule: show_nat.induct)
  case (1 n)
  show ?case
  proof (cases "n < 10")
    case True
    then show ?thesis by (simp add: show_nat.simps digit_val_char)
  next
    case False
    with 1 show ?thesis
      by (subst show_nat.simps) (simp add: parse_digits_append digit_val_char)
  qed
qed

lemma show_nat_digits: "c \<in> set (show_nat n) \<Longrightarrow> \<exists>d < 10. c = digit_char d"
proof (induction n rule: show_nat.induct)
  case (1 n)
  show ?case
  proof (cases "n < 10")
    case True
    with 1 show ?thesis by (auto simp: show_nat.simps)
  next
    case False
    with 1 have "c \<in> set (show_nat (n div 10)) \<or> c = digit_char (n mod 10)"
      by (subst (asm) (2) show_nat.simps) auto
    with 1 False show ?thesis by (auto intro: exI[of _ "n mod 10"])
  qed
qed

lemma show_nat_nonempty [simp]: "show_nat n \<noteq> []"
  by (subst show_nat.simps) simp

lemma digit_char_not_sign: "d < 10 \<Longrightarrow> digit_char d \<noteq> CHR ''-'' \<and> digit_char d \<noteq> CHR ''+''"
  by (auto simp: digit_char_def dest: arg_cong[where f = "of_char :: char \<Rightarrow> nat"])

lemma hd_show_nat: "hd (show_nat n) \<noteq> CHR ''-'' \<and> hd (show_nat n) \<noteq> CHR ''+''"
proof -
  obtain d where "d < 10" and "hd (show_nat n) = digit_char d"
    using show_nat_digits[OF hd_in_set[OF show_nat_nonempty]] by blast
  with digit_char_not_sign show ?thesis by simp
qed

text \<open>Reading back what \<open>Itoa\<close> prints gives the number, for every \<open>int64\<close>.\<close>

lemma atoi_itoa: "- (2 ^ 63) \<le> i \<Longrightarrow> i < 2 ^ 63 \<Longrightarrow> atoi (itoa i) = Some i"
  using hd_show_nat[of "nat i"] by (auto simp: atoi_def itoa_def Let_def parse_show_nat)

section \<open>Splitting at a byte: strings.Split\<close>

fun split_at :: "char \<Rightarrow> string \<Rightarrow> string list" where
  "split_at d [] = [[]]"
| "split_at d (c # cs) =
    (if c = d then [] # split_at d cs
     else (case split_at d cs of w # ws \<Rightarrow> (c # w) # ws | [] \<Rightarrow> [[c]]))"

lemma split_at_nonempty [simp]: "split_at d s \<noteq> []"
  by (induction s) (auto split: list.splits)

lemma split_at_append: "split_at d (a @ d # b) = split_at d a @ split_at d b"
  by (induction a) (auto split: list.splits)

lemma split_at_word: "d \<notin> set w \<Longrightarrow> split_at d w = [w]"
  by (induction w) auto

end
