(* ===== verification/Go_Path.thy ===== *)
theory Go_Path
  imports Go_Strings
begin

text \<open>
  Package \<open>path/filepath\<close> on Unix: \<open>Clean\<close>, \<open>Join\<close>, \<open>Dir\<close>, \<open>Rel\<close>, \<open>IsAbs\<close> and
  \<open>Abs\<close>. A path string is taken apart into its components, cleaned on a stack of
  components and put together again.
\<close>

section \<open>Components\<close>

abbreviation slash :: char where "slash \<equiv> CHR ''/''"
abbreviation dot :: string where "dot \<equiv> ''.''"
abbreviation dotdot :: string where "dotdot \<equiv> ''..''"

fun split_slash :: "string \<Rightarrow> string list" where
  "split_slash [] = [[]]"
| "split_slash (c # cs) =
    (if c = slash then [] # split_slash cs
     else (case split_slash cs of w # ws \<Rightarrow> (c # w) # ws | [] \<Rightarrow> [[c]]))"

definition comps :: "string \<Rightarrow> string list" where
  "comps s = filter (\<lambda>c. c \<noteq> []) (split_slash s)"

fun join_slash :: "string list \<Rightarrow> string" where
  "join_slash [] = []"
| "join_slash [x] = x"
| "join_slash (x # y # ys) = x @ slash # join_slash (y # ys)"

definition is_abs :: "string \<Rightarrow> bool" where
  "is_abs s \<longleftrightarrow> (case s of c # _ \<Rightarrow> c = slash | [] \<Rightarrow> False)"

text \<open>One component on the stack, which is kept in reverse.\<close>

definition push :: "bool \<Rightarrow> string \<Rightarrow> string list \<Rightarrow> string list" where
  "push rooted c st =
    (if c = dot then st
     else if c = dotdot then
       (if st = [] then (if rooted then [] else [dotdot])
        else if hd st = dotdot then dotdot # st
        else tl st)
     else c # st)"

definition clean_comps :: "bool \<Rightarrow> string list \<Rightarrow> string list" where
  "clean_comps rooted cs = rev (fold (push rooted) cs [])"

definition render :: "bool \<Rightarrow> string list \<Rightarrow> string" where
  "render rooted cs =
    (if rooted then slash # join_slash cs else if cs = [] then dot else join_slash cs)"

definition clean :: "string \<Rightarrow> string" where
  "clean s = render (is_abs s) (clean_comps (is_abs s) (comps s))"

definition join_path :: "string list \<Rightarrow> string" where
  "join_path elems =
    (case dropWhile (\<lambda>e. e = []) elems of [] \<Rightarrow> [] | e # es \<Rightarrow> clean (join_slash (e # es)))"

text \<open>\<open>filepath.Dir\<close>: everything up to the last slash, cleaned.\<close>

definition dir :: "string \<Rightarrow> string" where
  "dir s = clean (rev (dropWhile (\<lambda>c. c \<noteq> slash) (rev s)))"

definition abs_path :: "string \<Rightarrow> string \<Rightarrow> string" where
  "abs_path cwd s = (if is_abs s then clean s else join_path [cwd, s])"

fun strip_common :: "string list \<Rightarrow> string list \<Rightarrow> string list \<times> string list" where
  "strip_common (b # bs) (t # ts) = (if b = t then strip_common bs ts else (b # bs, t # ts))"
| "strip_common bs ts = (bs, ts)"

text \<open>
  \<open>filepath.Rel\<close>: \<open>None\<close> is its error, a target that no lexical path reaches.
\<close>

definition rel_path :: "string \<Rightarrow> string \<Rightarrow> string option" where
  "rel_path basepath targpath =
    (let base = clean basepath; targ = clean targpath in
     if targ = base then Some dot
     else
       (let base = (if base = dot then [] else base) in
        if is_abs base \<noteq> is_abs targ then None
        else
          (case strip_common (comps base) (comps targ) of (bs, ts) \<Rightarrow>
             if bs \<noteq> [] \<and> hd bs = dotdot then None
             else Some (join_slash (replicate (length bs) dotdot @ ts)))))"

section \<open>Lemmas\<close>

definition good_comp :: "string \<Rightarrow> bool" where
  "good_comp c \<longleftrightarrow> c \<noteq> [] \<and> slash \<notin> set c"

lemma split_slash_nonempty [simp]: "split_slash s \<noteq> []"
  by (induction s) (auto split: list.splits)

lemma split_slash_no_slash: "c \<in> set (split_slash s) \<Longrightarrow> slash \<notin> set c"
  by (induction s arbitrary: c) (auto split: list.splits if_splits)

lemma comps_good: "c \<in> set (comps s) \<Longrightarrow> good_comp c"
  by (auto simp: comps_def good_comp_def dest: split_slash_no_slash)

lemma split_slash_append:
  "split_slash (a @ slash # b) = split_slash a @ split_slash b"
  by (induction a) (auto split: list.splits)

lemma split_slash_word: "slash \<notin> set w \<Longrightarrow> split_slash w = [w]"
  by (induction w) auto

lemma comps_append [simp]: "comps (a @ slash # b) = comps a @ comps b"
  by (simp add: comps_def split_slash_append)

lemma comps_Nil [simp]: "comps [] = []"
  by (simp add: comps_def)

lemma comps_slash [simp]: "comps (slash # s) = comps s"
  using comps_append[of "[]" s] by simp

lemma comps_word: "good_comp w \<Longrightarrow> comps w = [w]"
  by (simp add: comps_def good_comp_def split_slash_word)

lemma comps_join_slash: "(\<And>c. c \<in> set cs \<Longrightarrow> good_comp c) \<Longrightarrow> comps (join_slash cs) = cs"
  by (induction cs rule: join_slash.induct) (auto simp: comps_word)

lemma comps_join_slash_gen: "comps (join_slash cs) = concat (map comps cs)"
  by (induction cs rule: join_slash.induct) auto

lemma is_abs_append: "a \<noteq> [] \<Longrightarrow> is_abs (a @ b) = is_abs a"
  by (cases a) (auto simp: is_abs_def)

lemma is_abs_join_slash: "is_abs (join_slash (e # es)) = (if e = [] then es \<noteq> [] else is_abs e)"
  by (cases es) (auto simp: is_abs_append, simp_all add: is_abs_def)

lemma is_abs_comp: "good_comp c \<Longrightarrow> \<not> is_abs c"
  by (cases c) (auto simp: is_abs_def good_comp_def)

subsection \<open>What a cleaned list of components looks like\<close>

text \<open>
  On the stack no component is a dot, and a dot-dot stands on dot-dots only, and only in a
  relative path.
\<close>

fun stack_ok :: "bool \<Rightarrow> string list \<Rightarrow> bool" where
  "stack_ok rooted [] = True"
| "stack_ok rooted (c # st) =
    (c \<noteq> dot \<and> stack_ok rooted st \<and>
     (c = dotdot \<longrightarrow> \<not> rooted \<and> (st = [] \<or> hd st = dotdot)))"

lemma push_stack_ok: "stack_ok r st \<Longrightarrow> stack_ok r (push r c st)"
  by (cases st) (auto simp: push_def)

lemma fold_push_stack_ok: "stack_ok r st \<Longrightarrow> stack_ok r (fold (push r) cs st)"
  by (induction cs arbitrary: st) (simp_all add: push_stack_ok)

lemma stack_ok_suffix: "stack_ok r (xs @ ys) \<Longrightarrow> stack_ok r ys"
  by (induction xs) auto

lemma push_stack_ok_id: "stack_ok r (c # st) \<Longrightarrow> push r c st = c # st"
  by (auto simp: push_def)

lemma fold_push_id: "stack_ok r (rev cs @ st) \<Longrightarrow> fold (push r) cs st = rev cs @ st"
proof (induction cs arbitrary: st)
  case Nil
  then show ?case by simp
next
  case (Cons c cs)
  then have "stack_ok r (c # st)" using stack_ok_suffix[of r "rev cs" "c # st"] by simp
  with Cons show ?case by (simp add: push_stack_ok_id del: stack_ok.simps)
qed

lemma clean_comps_id: "stack_ok r (rev cs) \<Longrightarrow> clean_comps r cs = cs"
  using fold_push_id[of r cs "[]"] by (simp add: clean_comps_def)

lemma stack_ok_rooted: "stack_ok True st \<Longrightarrow> dotdot \<notin> set st"
  by (induction st) auto

lemma stack_ok_no_dotdot:
  "stack_ok r (rev ts @ st) \<Longrightarrow> ts \<noteq> [] \<Longrightarrow> hd ts \<noteq> dotdot \<Longrightarrow> dotdot \<notin> set ts"
proof (induction ts rule: rev_induct)
  case Nil
  then show ?case by simp
next
  case (snoc x us)
  show ?case
  proof (cases us rule: rev_cases)
    case Nil
    with snoc show ?thesis by auto
  next
    case us: (snoc ws w)
    have "stack_ok r (rev us @ st)" and x: "x = dotdot \<longrightarrow> hd (rev us @ st) = dotdot"
      using snoc.prems us by auto
    then have "dotdot \<notin> set us" using snoc.IH snoc.prems us by (cases ws) auto
    with us x show ?thesis by auto
  qed
qed

lemma set_push: "set (push r c st) \<subseteq> insert c (set st)"
  by (cases st) (auto simp: push_def)

lemma set_fold_push: "set (fold (push r) cs st) \<subseteq> set cs \<union> set st"
proof (induction cs arbitrary: st)
  case Nil
  then show ?case by simp
next
  case (Cons c cs)
  have "set (fold (push r) cs (push r c st)) \<subseteq> set cs \<union> set (push r c st)" by (rule Cons)
  with set_push[of r c st] show ?case by auto
qed

subsection \<open>Cleaned strings\<close>

definition cleaned :: "string \<Rightarrow> string list" where
  "cleaned s = clean_comps (is_abs s) (comps s)"

lemma cleaned_stack_ok: "stack_ok (is_abs s) (rev (cleaned s))"
  by (simp add: cleaned_def clean_comps_def fold_push_stack_ok)

lemma cleaned_good: "c \<in> set (cleaned s) \<Longrightarrow> good_comp c"
  using set_fold_push[of "is_abs s" "comps s" "[]"]
  by (auto simp: cleaned_def clean_comps_def comps_good)

lemma cleaned_abs: "is_abs s \<Longrightarrow> dotdot \<notin> set (cleaned s)"
  using stack_ok_rooted[of "rev (cleaned s)"] cleaned_stack_ok[of s] by simp

lemma is_abs_Cons [simp]: "is_abs (c # s) = (c = slash)"
  by (simp add: is_abs_def)

lemma is_abs_Nil [simp]: "\<not> is_abs []"
  by (simp add: is_abs_def)

lemma comps_join_cleaned [simp]: "comps (join_slash (cleaned s)) = cleaned s"
  by (rule comps_join_slash) (rule cleaned_good)

lemma join_slash_rel: "(\<And>c. c \<in> set cs \<Longrightarrow> good_comp c) \<Longrightarrow> \<not> is_abs (join_slash cs)"
  by (cases cs) (auto simp: is_abs_join_slash is_abs_comp good_comp_def)

lemma clean_eq: "clean s = render (is_abs s) (cleaned s)"
  by (simp add: clean_def cleaned_def)

lemma good_dot [simp]: "good_comp dot"
  by (simp add: good_comp_def)

lemma is_abs_clean [simp]: "is_abs (clean s) = is_abs s"
proof -
  have "\<not> is_abs (join_slash (cleaned s))" by (rule join_slash_rel) (rule cleaned_good)
  then show ?thesis by (simp add: clean_eq render_def)
qed

lemma comps_clean: "comps (clean s) = (if \<not> is_abs s \<and> cleaned s = [] then [dot] else cleaned s)"
  by (simp add: clean_eq render_def comps_word)

lemma cleaned_clean [simp]: "cleaned (clean s) = cleaned s"
  using clean_comps_id[OF cleaned_stack_ok[of s]]
  by (simp add: cleaned_def[of "clean s"] comps_clean) (simp add: clean_comps_def push_def)

lemma clean_clean [simp]: "clean (clean s) = clean s"
proof -
  have "clean (clean s) = render (is_abs (clean s)) (cleaned (clean s))" by (rule clean_eq)
  also have "\<dots> = clean s" unfolding is_abs_clean cleaned_clean by (rule clean_eq[symmetric])
  finally show ?thesis .
qed

lemma clean_nonempty [simp]: "clean s \<noteq> []"
proof -
  have "join_slash (cleaned s) \<noteq> []" if "cleaned s \<noteq> []"
    using that by (metis comps_Nil comps_join_cleaned)
  then show ?thesis by (auto simp: clean_eq render_def)
qed

lemma clean_inject: "clean s = clean t \<longleftrightarrow> is_abs s = is_abs t \<and> cleaned s = cleaned t"
  by (rule iffI) (metis cleaned_clean is_abs_clean, simp add: clean_eq)

subsection \<open>Joining\<close>

lemma join_path_two: "a \<noteq> [] \<Longrightarrow> join_path [a, b] = clean (a @ slash # b)"
  by (simp add: join_path_def)

lemma cleaned_join:
  "a \<noteq> [] \<Longrightarrow> cleaned (a @ slash # b) = rev (fold (push (is_abs a)) (comps b) (rev (cleaned a)))"
  by (simp add: cleaned_def is_abs_append clean_comps_def)

text \<open>Joining a base with plain names appends them to the cleaned base.\<close>

definition plain :: "string \<Rightarrow> bool" where
  "plain c \<longleftrightarrow> good_comp c \<and> c \<noteq> dot \<and> c \<noteq> dotdot"

lemma fold_push_plain: "(\<And>c. c \<in> set cs \<Longrightarrow> plain c) \<Longrightarrow> fold (push r) cs st = rev cs @ st"
  by (induction cs arbitrary: st) (auto simp: push_def plain_def)

lemma cleaned_join_plain:
  assumes "a \<noteq> []" and "\<And>c. c \<in> set cs \<Longrightarrow> plain c"
  shows "cleaned (join_path (a # cs)) = cleaned a @ cs"
    and "is_abs (join_path (a # cs)) = is_abs a"
proof -
  have jp: "join_path (a # cs) = clean (join_slash (a # cs))"
    using assms(1) by (simp add: join_path_def)
  have "comps (join_slash (a # cs)) = comps a @ cs"
    using comps_join_slash[of cs] assms(2)
    by (cases cs) (auto simp: plain_def comps_join_slash_gen comps_word)
  moreover have abs: "is_abs (join_slash (a # cs)) = is_abs a"
    using assms(1) by (simp add: is_abs_join_slash)
  ultimately show "cleaned (join_path (a # cs)) = cleaned a @ cs"
    using fold_push_plain[of cs "is_abs a"] assms(2)
    by (simp add: jp) (simp add: cleaned_def clean_comps_def)
  show "is_abs (join_path (a # cs)) = is_abs a" by (simp add: jp abs)
qed

lemma join_path_nonempty: "a \<noteq> [] \<Longrightarrow> join_path (a # cs) \<noteq> []"
  by (simp add: join_path_def)

text \<open>Two joins with plain names are equal exactly when they append the same names.\<close>

lemma join_path_plain_eq_iff:
  assumes "a \<noteq> []" and "\<And>c. c \<in> set cs \<union> set ds \<Longrightarrow> plain c"
  shows "join_path (a # cs) = join_path (a # ds) \<longleftrightarrow> cs = ds"
proof
  assume "join_path (a # cs) = join_path (a # ds)"
  then have "cleaned (join_path (a # cs)) = cleaned (join_path (a # ds))" by simp
  with assms show "cs = ds" by (simp add: cleaned_join_plain)
qed simp

text \<open>\<open>p\<close> lies under \<open>root\<close>: the components of \<open>root\<close>, then components that do not climb.\<close>

definition under :: "string \<Rightarrow> string \<Rightarrow> bool" where
  "under root p \<longleftrightarrow> is_abs p = is_abs root \<and>
     (\<exists>rest. cleaned p = cleaned root @ rest \<and> dotdot \<notin> set rest)"

lemma under_join_plain: "a \<noteq> [] \<Longrightarrow> (\<And>c. c \<in> set cs \<Longrightarrow> plain c) \<Longrightarrow> under a (join_path (a # cs))"
  by (auto simp: under_def cleaned_join_plain plain_def)

lemma under_trans: "under a b \<Longrightarrow> under b c \<Longrightarrow> under a c"
  by (auto simp: under_def)

subsection \<open>The directory of a joined path\<close>

lemma join_slash_snoc: "join_slash (cs @ [b]) = (if cs = [] then b else join_slash cs @ slash # b)"
  by (induction cs rule: join_slash.induct) auto

lemma drop_no_slash: "slash \<notin> set b \<Longrightarrow> dropWhile (\<lambda>c. c \<noteq> slash) (rev b @ cs) = dropWhile (\<lambda>c. c \<noteq> slash) cs"
  by (induction b arbitrary: cs) auto

lemma upto_last_slash: "slash \<notin> set b \<Longrightarrow> rev (dropWhile (\<lambda>c. c \<noteq> slash) (rev (a @ slash # b))) = a @ [slash]"
  using drop_no_slash[of b "slash # rev a"] by simp

lemma upto_no_slash: "slash \<notin> set b \<Longrightarrow> rev (dropWhile (\<lambda>c. c \<noteq> slash) (rev b)) = []"
  using drop_no_slash[of b "[]"] by simp

lemma clean_trailing: "a \<noteq> [] \<Longrightarrow> clean (a @ [slash]) = clean a"
  using comps_append[of a "[]"] by (simp add: clean_def is_abs_append)

lemma clean_join_cleaned: "cleaned s \<noteq> [] \<Longrightarrow> \<not> is_abs s \<Longrightarrow> clean (join_slash (cleaned s)) = clean s"
  using clean_clean[of s] by (simp add: clean_eq[of s] render_def)

lemma clean_join [simp]: "a \<noteq> [] \<Longrightarrow> clean (join_path (a # cs)) = join_path (a # cs)"
  by (simp add: join_path_def)

lemma dir_join_plain:
  assumes "a \<noteq> []" and "plain b"
  shows "dir (join_path [a, b]) = clean a"
proof -
  have b: "slash \<notin> set b" using assms(2) by (simp add: plain_def good_comp_def)
  have abs: "is_abs (join_path [a, b]) = is_abs a" and cl: "cleaned (join_path [a, b]) = cleaned a @ [b]"
    using cleaned_join_plain[of a "[b]"] assms by simp_all
  have "clean (join_path [a, b]) = join_path [a, b]" using assms(1) by (rule clean_join)
  then have jp: "join_path [a, b] = render (is_abs a) (cleaned a @ [b])"
    using clean_eq[of "join_path [a, b]"] abs cl by simp
  show ?thesis
  proof (cases "cleaned a = []")
    case True
    have "dir (join_path [a, b]) = clean (if is_abs a then [slash] else [])"
    proof (cases "is_abs a")
      case True
      then have "join_path [a, b] = [] @ slash # b" using jp \<open>cleaned a = []\<close> by (simp add: render_def)
      with True upto_last_slash[OF b, of "[]"] show ?thesis by (simp only: dir_def if_True append_Nil)
    next
      case False
      then have "join_path [a, b] = b" using jp \<open>cleaned a = []\<close> by (simp add: render_def)
      with False upto_no_slash[OF b] show ?thesis by (simp only: dir_def if_False)
    qed
    also have "\<dots> = clean a" using True by (simp add: clean_eq cleaned_def clean_comps_def)
    finally show ?thesis .
  next
    case False
    define pre where "pre = (if is_abs a then slash # join_slash (cleaned a) else join_slash (cleaned a))"
    have ne: "pre \<noteq> []" using False by (auto simp: pre_def) (metis comps_Nil comps_join_cleaned)
    have "join_path [a, b] = pre @ slash # b" using False jp by (simp add: pre_def render_def join_slash_snoc)
    then have "dir (join_path [a, b]) = clean (pre @ [slash])" using upto_last_slash[OF b] by (simp add: dir_def)
    also have "\<dots> = clean pre" using ne by (rule clean_trailing)
    also have "pre = clean a" using False by (simp add: pre_def clean_eq render_def)
    also have "clean (clean a) = clean a" by simp
    finally show ?thesis .
  qed
qed

end
