(* ===== verification/Go_OS.thy ===== *)
theory Go_OS
  imports Go_Path "HOL-Library.AList"
begin

text \<open>
  The operating system under packages \<open>os\<close> and \<open>syscall\<close>: a tree of directories, regular
  files (names for inodes) and symbolic links per file system, a mount table, open files with
  their offsets, advisory locks, and a script of faults. Every system call first consults the
  script at the current tick, so that a theorem that quantifies over worlds quantifies over
  every way the calls can fail. The host and the guest each have a world of their own.
  Permission bits are recorded at creation; access checks are left to the script.
\<close>

type_synonym path = "string list"

datatype node = Dir nat | Reg nat | Link string

datatype event =
    EvExec string "string list"
  | EvMount string path string string
  | EvLog string "string list"
  | EvKill

record world =
  tree :: "((string \<times> path) \<times> node) list"
  inodes :: "nat \<Rightarrow> nat \<times> string"
  next_ino :: nat
  open_files :: "nat \<Rightarrow> (nat \<times> nat) option"
  next_fd :: nat
  flocks :: "nat \<Rightarrow> nat option"
  mounts :: "(path \<times> string) list"
  cwd :: string
  env :: "string \<Rightarrow> string option"
  link_follows :: bool
  faults :: "nat \<Rightarrow> (errno \<times> nat) option"
  tick :: nat
  trace :: "event list"

type_synonym 'a sys = "(world, 'a go) state"

section \<open>Names to nodes\<close>

text \<open>The most recent mount above a path decides which file system serves it.\<close>

definition locate :: "(path \<times> string) list \<Rightarrow> path \<Rightarrow> string \<times> path" where
  "locate ms p =
    (case find (\<lambda>(t, fs). prefix t p) ms of
       None \<Rightarrow> (''root'', p)
     | Some (t, fs) \<Rightarrow> (fs, drop (length t) p))"

definition look :: "world \<Rightarrow> path \<Rightarrow> node option" where
  "look w p = map_of (tree w) (locate (mounts w) p)"

text \<open>
  Path resolution. \<open>b\<close> symbolic links may still be followed (the kernel's limit), \<open>fl\<close> says
  whether a link in the last component is followed; a missing last component is not an error.
\<close>

definition link_base :: "string \<Rightarrow> path \<Rightarrow> path" where
  "link_base t cur = (if is_abs t then [] else cur)"

function walk ::
  "(path \<Rightarrow> node option) \<Rightarrow> nat \<Rightarrow> path \<Rightarrow> string list \<Rightarrow> bool \<Rightarrow> errno + path" where
  "walk lk b cur [] fl = Inr cur"
| "walk lk b cur (c # cs) fl =
    (case lk cur of
       Some (Dir _) \<Rightarrow>
         if c = dot then walk lk b cur cs fl
         else if c = dotdot then walk lk b (butlast cur) cs fl
         else (case lk (cur @ [c]) of
             None \<Rightarrow> if cs = [] then Inr (cur @ [c]) else Inl ENOENT
           | Some (Link t) \<Rightarrow>
               if cs = [] \<and> \<not> fl then Inr (cur @ [c])
               else (case b of
                   0 \<Rightarrow> Inl ELOOP
                 | Suc b' \<Rightarrow> walk lk b' (link_base t cur) (comps t @ cs) fl)
           | Some _ \<Rightarrow> walk lk b (cur @ [c]) cs fl)
     | None \<Rightarrow> Inl ENOENT
     | Some _ \<Rightarrow> Inl ENOTDIR)"
  by pat_completeness auto
termination
  by (relation "measures [\<lambda>(lk, b, cur, cs, fl). b, \<lambda>(lk, b, cur, cs, fl). length cs]") auto

definition max_links :: nat where
  "max_links = 40"

definition resolve :: "world \<Rightarrow> string \<Rightarrow> bool \<Rightarrow> errno + path" where
  "resolve w s fl =
    (if s = [] then Inl ENOENT
     else walk (look w) max_links (if is_abs s then [] else comps (cwd w)) (comps s) fl)"

section \<open>System calls\<close>

definition syscall :: "(world \<Rightarrow> 'a go \<times> world) \<Rightarrow> 'a sys" where
  "syscall f = State (\<lambda>w.
     let w' = w\<lparr>tick := Suc (tick w)\<rparr> in
     case faults w (tick w) of Some (e, _) \<Rightarrow> (Inl (Errno e), w') | None \<Rightarrow> f w')"

lemma run_syscall:
  "run_state (syscall f) w =
     (case faults w (tick w) of
        Some (e, _) \<Rightarrow> (Inl (Errno e), w\<lparr>tick := Suc (tick w)\<rparr>)
      | None \<Rightarrow> f (w\<lparr>tick := Suc (tick w)\<rparr>))"
  by (simp add: syscall_def Let_def)

definition set_node :: "path \<Rightarrow> node \<Rightarrow> world \<Rightarrow> world" where
  "set_node p n w = w\<lparr>tree := AList.update (locate (mounts w) p) n (tree w)\<rparr>"

definition del_node :: "path \<Rightarrow> world \<Rightarrow> world" where
  "del_node p w = w\<lparr>tree := AList.delete (locate (mounts w) p) (tree w)\<rparr>"

definition on_node ::
  "string \<Rightarrow> bool \<Rightarrow> (path \<Rightarrow> node option \<Rightarrow> world \<Rightarrow> 'a go \<times> world) \<Rightarrow> 'a sys" where
  "on_node s fl k = syscall (\<lambda>w.
     case resolve w s fl of
       Inl e \<Rightarrow> (Inl (Errno e), w)
     | Inr p \<Rightarrow> k p (look w p) w)"

definition os_stat :: "string \<Rightarrow> node sys" where
  "os_stat s = on_node s True (\<lambda>p n w.
     case n of None \<Rightarrow> (Inl (Errno ENOENT), w) | Some x \<Rightarrow> (Inr x, w))"

definition os_lstat :: "string \<Rightarrow> node sys" where
  "os_lstat s = on_node s False (\<lambda>p n w.
     case n of None \<Rightarrow> (Inl (Errno ENOENT), w) | Some x \<Rightarrow> (Inr x, w))"

definition os_mkdir :: "string \<Rightarrow> nat \<Rightarrow> unit sys" where
  "os_mkdir s mode = on_node s False (\<lambda>p n w.
     case n of
       Some _ \<Rightarrow> (Inl (Errno EEXIST), w)
     | None \<Rightarrow> (Inr (), set_node p (Dir mode) w))"

definition is_dir :: "node \<Rightarrow> bool" where
  "is_dir n = (case n of Dir _ \<Rightarrow> True | _ \<Rightarrow> False)"

text \<open>
  \<open>os.MkdirAll\<close>: stat; otherwise the parent first, then the directory itself, and a failed
  \<open>mkdir\<close> is forgiven when a directory stands there. The components come last first.
\<close>

fun mkdir_all_rev :: "bool \<Rightarrow> nat \<Rightarrow> string list \<Rightarrow> unit sys" where
  "mkdir_all_rev ab mode [] = do {
     r \<leftarrow> os_stat (if ab then [slash] else []);
     State_Monad.return
       (case r of Inr n \<Rightarrow> if is_dir n then Inr () else Inl (Errno ENOTDIR) | Inl e \<Rightarrow> Inl e)
   }"
| "mkdir_all_rev ab mode (c # rc) =
     (let s = render ab (rev (c # rc)) in do {
        r \<leftarrow> os_stat s;
        case r of
          Inr n \<Rightarrow> State_Monad.return (if is_dir n then Inr () else Inl (Errno ENOTDIR))
        | Inl _ \<Rightarrow>
            or_fail (if rc = [] then State_Monad.return (Inr ()) else mkdir_all_rev ab mode rc)
              (\<lambda>e. e) (\<lambda>_. do {
              r2 \<leftarrow> os_mkdir s mode;
              case r2 of
                Inr _ \<Rightarrow> State_Monad.return (Inr ())
              | Inl e \<Rightarrow> do {
                  r3 \<leftarrow> os_lstat s;
                  State_Monad.return
                    (case r3 of Inr n \<Rightarrow> if is_dir n then Inr () else Inl e | Inl _ \<Rightarrow> Inl e)
                }
            })
      })"

definition os_mkdir_all :: "string \<Rightarrow> nat \<Rightarrow> unit sys" where
  "os_mkdir_all s mode = mkdir_all_rev (is_abs s) mode (rev (comps s))"

text \<open>\<open>os.OpenFile\<close> with \<open>O_CREATE\<close> (and \<open>O_TRUNC\<close> when \<open>trunc\<close>), for writing.\<close>

definition new_fd :: "nat \<Rightarrow> world \<Rightarrow> nat go \<times> world" where
  "new_fd i w =
    (Inr (next_fd w),
     w\<lparr>open_files := (open_files w)(next_fd w := Some (i, 0)), next_fd := Suc (next_fd w)\<rparr>)"

definition os_create :: "string \<Rightarrow> bool \<Rightarrow> nat \<Rightarrow> nat sys" where
  "os_create s trunc mode = on_node s True (\<lambda>p n w.
     case n of
       None \<Rightarrow>
         (let i = next_ino w in
          new_fd i ((set_node p (Reg i) w)
            \<lparr>inodes := (inodes w)(i := (mode, [])), next_ino := Suc i\<rparr>))
     | Some (Reg i) \<Rightarrow>
         new_fd i (if trunc then w\<lparr>inodes := (inodes w)(i := (fst (inodes w i), []))\<rparr> else w)
     | Some _ \<Rightarrow> (Inl (Errno EISDIR), w))"

definition os_open :: "string \<Rightarrow> nat sys" where
  "os_open s = on_node s True (\<lambda>p n w.
     case n of
       Some (Reg i) \<Rightarrow> new_fd i w
     | Some _ \<Rightarrow> (Inl (Errno EISDIR), w)
     | None \<Rightarrow> (Inl (Errno ENOENT), w))"

definition os_close :: "nat \<Rightarrow> unit sys" where
  "os_close fd = State (\<lambda>w.
     let w' = w\<lparr>tick := Suc (tick w), open_files := (open_files w)(fd := None),
                flocks := (\<lambda>i. if flocks w i = Some fd then None else flocks w i)\<rparr> in
     if open_files w fd = None then (Inl ErrClosed, w)
     else (case faults w (tick w) of Some (e, _) \<Rightarrow> (Inl (Errno e), w') | None \<Rightarrow> (Inr (), w')))"

definition splice_at :: "string \<Rightarrow> nat \<Rightarrow> string \<Rightarrow> string" where
  "splice_at old off bs =
    take off (old @ replicate (off - length old) (CHR 0x00)) @ bs @ drop (off + length bs) old"

definition write_at :: "nat \<Rightarrow> nat \<Rightarrow> nat \<Rightarrow> string \<Rightarrow> world \<Rightarrow> world" where
  "write_at fd i off bs w =
    w\<lparr>inodes := (inodes w)(i := (fst (inodes w i), splice_at (snd (inodes w i)) off bs)),
      open_files := (open_files w)(fd := Some (i, off + length bs))\<rparr>"

text \<open>\<open>File.Write\<close> and the copy loops over it: a fault keeps the bytes written before it.\<close>

definition os_write :: "nat \<Rightarrow> string \<Rightarrow> unit sys" where
  "os_write fd bs = State (\<lambda>w.
     case open_files w fd of
       None \<Rightarrow> (Inl ErrClosed, w)
     | Some (i, off) \<Rightarrow>
         (let w' = w\<lparr>tick := Suc (tick w)\<rparr> in
          case faults w (tick w) of
            Some (e, k) \<Rightarrow> (Inl (Errno e), write_at fd i off (take k bs) w')
          | None \<Rightarrow> (Inr (), write_at fd i off bs w')))"

text \<open>
  \<open>io.Copy\<close> and \<open>File.ReadFrom\<close> between two open files: the rest of the source is appended at
  the destination's offset; a fault on either side keeps what was copied before it.
\<close>

definition os_copy :: "nat \<Rightarrow> nat \<Rightarrow> unit sys" where
  "os_copy dst src = State (\<lambda>w.
     case open_files w src of
       None \<Rightarrow> (Inl ErrClosed, w)
     | Some (i, off) \<Rightarrow> run_state (os_write dst (drop off (snd (inodes w i)))) w)"

definition os_truncate :: "nat \<Rightarrow> nat \<Rightarrow> unit sys" where
  "os_truncate fd sz = syscall (\<lambda>w.
     case open_files w fd of
       None \<Rightarrow> (Inl ErrClosed, w)
     | Some (i, off) \<Rightarrow>
         (Inr (), w\<lparr>inodes := (inodes w)(i := (fst (inodes w i),
            take sz (snd (inodes w i) @ replicate (sz - length (snd (inodes w i))) (CHR 0x00))))\<rparr>))"

definition os_seek0 :: "nat \<Rightarrow> unit sys" where
  "os_seek0 fd = syscall (\<lambda>w.
     case open_files w fd of
       None \<Rightarrow> (Inl ErrClosed, w)
     | Some (i, off) \<Rightarrow> (Inr (), w\<lparr>open_files := (open_files w)(fd := Some (i, 0))\<rparr>))"

text \<open>A directory is empty when its file system holds no path below it.\<close>

definition has_children :: "path \<Rightarrow> world \<Rightarrow> bool" where
  "has_children p w = (case locate (mounts w) p of (fs, q) \<Rightarrow>
     list_ex (\<lambda>((fs', q'), _). fs' = fs \<and> strict_prefix q q') (tree w))"

definition os_remove :: "string \<Rightarrow> unit sys" where
  "os_remove s = on_node s False (\<lambda>p n w.
     case n of
       None \<Rightarrow> (Inl (Errno ENOENT), w)
     | Some (Dir _) \<Rightarrow>
         if p = [] then (Inl (Errno EBUSY), w)
         else if has_children p w then (Inl (Errno ENOTEMPTY), w)
         else (Inr (), del_node p w)
     | Some _ \<Rightarrow> (Inr (), del_node p w))"

definition del_tree :: "path \<Rightarrow> world \<Rightarrow> world" where
  "del_tree p w = (case locate (mounts w) p of (fs, q) \<Rightarrow>
     w\<lparr>tree := filter (\<lambda>((fs', q'), _). \<not> (fs' = fs \<and> prefix q q')) (tree w)\<rparr>)"

definition os_remove_all :: "string \<Rightarrow> unit sys" where
  "os_remove_all s = on_node s False (\<lambda>p n w.
     case n of None \<Rightarrow> (Inr (), w) | Some _ \<Rightarrow> (Inr (), del_tree p w))"

definition os_symlink :: "string \<Rightarrow> string \<Rightarrow> unit sys" where
  "os_symlink target s = on_node s False (\<lambda>p n w.
     case n of
       Some _ \<Rightarrow> (Inl (Errno EEXIST), w)
     | None \<Rightarrow> (Inr (), set_node p (Link target) w))"

text \<open>\<open>os.Link\<close>: whether a link that ends in a symbolic link follows it is the platform's choice.\<close>

definition os_link :: "string \<Rightarrow> string \<Rightarrow> unit sys" where
  "os_link old new = syscall (\<lambda>w.
     case resolve w old (link_follows w) of
       Inl e \<Rightarrow> (Inl (Errno e), w)
     | Inr p \<Rightarrow>
         (case look w p of
            None \<Rightarrow> (Inl (Errno ENOENT), w)
          | Some (Dir _) \<Rightarrow> (Inl (Errno EPERM), w)
          | Some n \<Rightarrow>
              (case resolve w new False of
                 Inl e \<Rightarrow> (Inl (Errno e), w)
               | Inr q \<Rightarrow>
                   if look w q \<noteq> None then (Inl (Errno EEXIST), w)
                   else (Inr (), set_node q n w))))"

definition os_read_file :: "string \<Rightarrow> string sys" where
  "os_read_file s = on_node s True (\<lambda>p n w.
     case n of
       Some (Reg i) \<Rightarrow> (Inr (snd (inodes w i)), w)
     | Some _ \<Rightarrow> (Inl (Errno EISDIR), w)
     | None \<Rightarrow> (Inl (Errno ENOENT), w))"

text \<open>\<open>os.WriteFile\<close>: the first error of writing and closing is the result.\<close>

definition os_write_file :: "string \<Rightarrow> string \<Rightarrow> nat \<Rightarrow> unit sys" where
  "os_write_file s bs mode =
     or_fail (os_create s True mode) (\<lambda>e. e) (\<lambda>fd. do {
       r \<leftarrow> os_write fd bs;
       r' \<leftarrow> os_close fd;
       State_Monad.return (case r of Inl e \<Rightarrow> Inl e | Inr _ \<Rightarrow> r')
     })"

text \<open>\<open>flock(fd, LOCK_EX | LOCK_NB)\<close> and \<open>LOCK_UN\<close>: a lock belongs to an open file.\<close>

definition sys_flock_ex :: "nat \<Rightarrow> unit sys" where
  "sys_flock_ex fd = syscall (\<lambda>w.
     case open_files w fd of
       None \<Rightarrow> (Inl (Errno EBADF), w)
     | Some (i, off) \<Rightarrow>
         if flocks w i \<noteq> None \<and> flocks w i \<noteq> Some fd then (Inl (Errno EWOULDBLOCK), w)
         else (Inr (), w\<lparr>flocks := (flocks w)(i := Some fd)\<rparr>))"

definition sys_flock_un :: "nat \<Rightarrow> unit sys" where
  "sys_flock_un fd = syscall (\<lambda>w.
     case open_files w fd of
       None \<Rightarrow> (Inl (Errno EBADF), w)
     | Some (i, off) \<Rightarrow>
         (Inr (), if flocks w i = Some fd then w\<lparr>flocks := (flocks w)(i := None)\<rparr> else w))"

text \<open>
  \<open>mount(2)\<close>: the same file system on the same mount point twice is \<open>EBUSY\<close>; an overlay is
  a new file system every time, any other one is known by its type and its source.
\<close>

definition fs_id :: "string \<Rightarrow> string \<Rightarrow> nat \<Rightarrow> string" where
  "fs_id source fstype n =
     (if fstype = ''overlay'' then ''overlay#'' @ show_nat n else fstype @ CHR '':'' # source)"

definition sys_mount :: "string \<Rightarrow> string \<Rightarrow> string \<Rightarrow> string \<Rightarrow> unit sys" where
  "sys_mount source target fstype opts = on_node target True (\<lambda>p n w.
     case n of
       Some (Dir m) \<Rightarrow>
         (let fs = fs_id source fstype (length (mounts w)) in
          if find (\<lambda>(t, _). prefix t p) (mounts w) = Some (p, fs) then (Inl (Errno EBUSY), w)
          else (Inr (),
            w\<lparr>mounts := (p, fs) # mounts w,
              tree := (if map_of (tree w) (fs, []) = None then ((fs, []), Dir 493) # tree w else tree w),
              trace := trace w @ [EvMount source p fstype opts]\<rparr>))
     | Some _ \<Rightarrow> (Inl (Errno ENOTDIR), w)
     | None \<Rightarrow> (Inl (Errno ENOENT), w))"

fun drop_mount :: "path \<Rightarrow> (path \<times> string) list \<Rightarrow> (path \<times> string) list option" where
  "drop_mount p [] = None"
| "drop_mount p ((t, fs) # ms) =
    (if t = p then Some ms else map_option (Cons (t, fs)) (drop_mount p ms))"

definition sys_unmount :: "string \<Rightarrow> unit sys" where
  "sys_unmount target = on_node target True (\<lambda>p n w.
     case drop_mount p (mounts w) of
       None \<Rightarrow> (Inl (Errno EINVAL), w)
     | Some ms \<Rightarrow> (Inr (), w\<lparr>mounts := ms\<rparr>))"

text \<open>
  Packages \<open>net\<close> and \<open>os/exec\<close>: the name a Unix listener is bound to is an inode like any
  other; a command named without a slash is searched for in \<open>PATH\<close>, and one found through a
  relative entry is refused.
\<close>

definition net_listen_unix :: "string \<Rightarrow> unit sys" where
  "net_listen_unix s = on_node s False (\<lambda>p n w.
     case n of
       Some _ \<Rightarrow> (Inl (Errno EADDRINUSE), w)
     | None \<Rightarrow>
         (let i = next_ino w in
          (Inr (), (set_node p (Reg i) w)\<lparr>inodes := (inodes w)(i := (493, [])), next_ino := Suc i\<rparr>)))"

fun search_path :: "string list \<Rightarrow> string \<Rightarrow> string sys" where
  "search_path [] file = State_Monad.return (Inl (Errorf ''executable file not found in $PATH'' [file]))"
| "search_path (d # ds) file =
    (let path = join_path [if d = [] then dot else d, file] in do {
       r \<leftarrow> os_stat path;
       case r of
         Inr (Reg _) \<Rightarrow> State_Monad.return
           (if is_abs path then Inr path
            else Inl (Errorf ''cannot run executable found relative to current directory'' [file]))
       | _ \<Rightarrow> search_path ds file
     })"

definition look_path :: "string list \<Rightarrow> string \<Rightarrow> string sys" where
  "look_path dirs file =
    (if slash \<in> set file then State_Monad.return (Inr file) else search_path dirs file)"

definition exec_start :: "string \<Rightarrow> string list \<Rightarrow> unit sys" where
  "exec_start path args = on_node path True (\<lambda>p n w.
     case n of
       Some (Reg _) \<Rightarrow> (Inr (), w\<lparr>trace := trace w @ [EvExec path args]\<rparr>)
     | Some _ \<Rightarrow> (Inl (Errno EPERM), w)
     | None \<Rightarrow> (Inl (Errno ENOENT), w))"

definition get_env :: "string \<Rightarrow> world \<Rightarrow> string" where
  "get_env k w = (case env w k of None \<Rightarrow> [] | Some v \<Rightarrow> v)"

definition os_getenv :: "string \<Rightarrow> (world, string) state" where
  "os_getenv k = State (\<lambda>w. (get_env k w, w))"

definition kill_event :: "(world, unit) state" where
  "kill_event = State (\<lambda>w. ((), w\<lparr>trace := trace w @ [EvKill]\<rparr>))"

definition log_event :: "string \<Rightarrow> string list \<Rightarrow> (world, unit) state" where
  "log_event m args = State (\<lambda>w. ((), w\<lparr>trace := trace w @ [EvLog m args]\<rparr>))"

text \<open>A world with an empty root directory, no faults and no environment.\<close>

definition empty_world :: world where
  "empty_world = \<lparr>tree = [((''root'', []), Dir 493)], inodes = (\<lambda>_. (0, [])), next_ino = 0,
     open_files = (\<lambda>_. None), next_fd = 3, flocks = (\<lambda>_. None), mounts = [], cwd = ''/'',
     env = (\<lambda>_. None), link_follows = False, faults = (\<lambda>_. None), tick = 0, trace = []\<rparr>"

end
