(* ===== verification/Go_OS_Lemmas.thy ===== *)
theory Go_OS_Lemmas
  imports Go_OS
begin

text \<open>
  What the components use of the operating-system model: path resolution is stable when the
  tree only grows, a successful \<open>MkdirAll\<close> leaves a directory, and the calls that neither
  remove nor mount keep what is there. The interface \<open>dir_maker\<close> states what a client of
  \<open>MkdirAll\<close> relies on.
\<close>

section \<open>Resolution in a growing tree\<close>

lemma walk_mono:
  assumes "walk lk b cur cs fl = Inr p" and "lk p \<noteq> None" and "lk \<subseteq>\<^sub>m lk'"
  shows "walk lk' b cur cs fl = Inr p"
  using assms
proof (induction lk b cur cs fl rule: walk.induct)
  case (1 lk b cur fl)
  then show ?case by simp
next
  case (2 lk b cur c cs fl)
  have ext: "lk q = Some x \<Longrightarrow> lk' q = Some x" for q x
    using 2(8) by (auto simp: map_le_def dom_def)
  from 2 show ?case
    by (auto simp: ext split: option.splits node.splits if_splits nat.splits)
qed

lemma walk_created:
  assumes "walk lk b cur cs fl = Inr p" and "lk p = None" and "lk \<subseteq>\<^sub>m lk'"
    and "lk' p = Some n" and "\<And>t. n \<noteq> Link t" and "fl \<longrightarrow> fl'"
  shows "walk lk' b cur cs fl' = Inr p"
  using assms
proof (induction lk b cur cs fl rule: walk.induct)
  case (1 lk b cur fl)
  then show ?case by simp
next
  case (2 lk b cur c cs fl)
  have ext: "lk q = Some x \<Longrightarrow> lk' q = Some x" for q x
    using 2(8) by (auto simp: map_le_def dom_def)
  from 2 show ?case
    by (auto simp: ext split: option.splits node.splits if_splits nat.splits)
qed

lemma walk_nofollow:
  assumes "walk lk b cur cs False = Inr p" and "lk p = Some n" and "\<And>t. n \<noteq> Link t"
  shows "walk lk b cur cs True = Inr p"
  using assms
proof (induction lk b cur cs "False" rule: walk.induct)
  case (1 lk b cur)
  then show ?case by simp
next
  case (2 lk b cur c cs)
  then show ?case
    by (auto split: option.splits node.splits if_splits nat.splits)
qed


section \<open>Worlds that only grow\<close>

definition grows :: "world \<Rightarrow> world \<Rightarrow> bool" where
  "grows w w' \<longleftrightarrow> mounts w' = mounts w \<and> cwd w' = cwd w \<and> map_of (tree w) \<subseteq>\<^sub>m map_of (tree w')"

definition dir_exists :: "string \<Rightarrow> world \<Rightarrow> bool" where
  "dir_exists s w \<longleftrightarrow> (\<exists>p m. resolve w s True = Inr p \<and> look w p = Some (Dir m))"

abbreviation growing :: "(world, 'a) state \<Rightarrow> bool" where
  "growing \<equiv> obeys grows"

named_theorems growing_intros \<open>programs that only add to the tree\<close>

lemma grows_refl [simp]: "grows w w"
  by (simp add: grows_def)

lemma grows_trans: "grows u v \<Longrightarrow> grows v w \<Longrightarrow> grows u w"
  unfolding grows_def using map_le_trans by metis

lemma look_grows: "grows w w' \<Longrightarrow> look w \<subseteq>\<^sub>m look w'"
  unfolding grows_def look_def map_le_def by (metis domD domI)

lemma resolve_grows:
  "resolve w s fl = Inr p \<Longrightarrow> look w p \<noteq> None \<Longrightarrow> grows w w' \<Longrightarrow> resolve w' s fl = Inr p"
  using look_grows[of w w']
  by (auto simp: resolve_def grows_def split: if_splits intro: walk_mono)

lemma look_grows_Some: "grows w w' \<Longrightarrow> look w p = Some n \<Longrightarrow> look w' p = Some n"
  using look_grows[of w w'] by (force simp: map_le_def dom_def)

lemma dir_exists_grows: "dir_exists s w \<Longrightarrow> grows w w' \<Longrightarrow> dir_exists s w'"
  unfolding dir_exists_def by (metis look_grows_Some option.distinct(1) resolve_grows)

interpretation growing: state_preorder grows
  by unfold_locales (simp, rule grows_trans)

lemmas growing_rules [growing_intros] = growing.rules

lemma growing_syscall:
  assumes "\<And>w r w'. f w = (r, w') \<Longrightarrow> grows w w'"
  shows "growing (syscall f)"
proof -
  have "grows w (w\<lparr>tick := Suc (tick w)\<rparr>)" for w by (simp add: grows_def)
  then show ?thesis
    unfolding obeys_def run_syscall using assms
    by (auto split: option.splits) (metis grows_trans)
qed

lemma growing_on_node:
  assumes "\<And>p w r w'. k p (look w p) w = (r, w') \<Longrightarrow> grows w w'"
  shows "growing (on_node s fl k)"
  unfolding on_node_def by (rule growing_syscall) (auto split: sum.splits intro: assms)

lemma grows_set_node: "look w p = None \<Longrightarrow> grows w (set_node p n w)"
  by (auto simp: grows_def set_node_def look_def update_conv' map_le_def)

lemma grows_new_fd: "new_fd i w = (r, w') \<Longrightarrow> grows w w'"
  by (auto simp: new_fd_def grows_def)

lemma look_set_node [simp]: "look (set_node p n w) p = Some n"
  by (simp add: look_def set_node_def update_conv')

lemma grows_update [simp]:
  "grows w (w\<lparr>inodes := x\<rparr>) = True" "grows w (w\<lparr>next_ino := n\<rparr>) = True"
  "grows w (w\<lparr>open_files := f\<rparr>) = True" "grows w (w\<lparr>flocks := g\<rparr>) = True"
  "grows w (w\<lparr>tick := n\<rparr>) = True" "grows w (w\<lparr>trace := t\<rparr>) = True"
  by (simp_all add: grows_def)

lemma growing_calls [growing_intros]:
  "growing (os_stat s)" "growing (os_lstat s)" "growing (os_mkdir s m)" "growing (os_open s)"
  "growing (os_symlink t s)" "growing (os_read_file s)"
  unfolding os_stat_def os_lstat_def os_mkdir_def os_open_def os_symlink_def os_read_file_def
  by (rule growing_on_node; auto split: option.splits node.splits intro: grows_set_node grows_new_fd)+

lemma growing_create [growing_intros]: "growing (os_create s trunc m)"
  unfolding os_create_def
proof (rule growing_on_node)
  fix p w r w'
  assume run: "(case look w p of
       None \<Rightarrow>
         (let i = next_ino w in
          new_fd i ((set_node p (Reg i) w)
            \<lparr>inodes := (inodes w)(i := (m, [])), next_ino := Suc i\<rparr>))
     | Some (Reg i) \<Rightarrow>
         new_fd i (if trunc then w\<lparr>inodes := (inodes w)(i := (fst (inodes w i), []))\<rparr> else w)
     | Some _ \<Rightarrow> (Inl (Errno EISDIR), w)) = (r, w')"
  show "grows w w'"
  proof (cases "look w p")
    case None
    then have "grows w ((set_node p (Reg (next_ino w)) w)
            \<lparr>inodes := (inodes w)(next_ino w := (m, [])), next_ino := Suc (next_ino w)\<rparr>)"
      using grows_set_node[of w p "Reg (next_ino w)"] by (simp add: grows_def)
    with run None show ?thesis by (auto simp: Let_def dest: grows_new_fd intro: grows_trans)
  next
    case (Some n)
    with run show ?thesis
      by (cases n) (auto dest!: grows_new_fd split: if_splits simp: grows_def)
  qed
qed

lemma growing_fd_calls [growing_intros]:
  "growing (os_truncate fd n)" "growing (os_seek0 fd)" "growing (sys_flock_ex fd)" "growing (sys_flock_un fd)"
  unfolding os_truncate_def os_seek0_def sys_flock_ex_def sys_flock_un_def
  by (rule growing_syscall; auto split: option.splits prod.splits if_splits)+

lemma growing_write [growing_intros]: "growing (os_write fd bs)" "growing (os_close fd)"
  by (auto simp: obeys_def os_write_def os_close_def write_at_def grows_def Let_def
      split: option.splits prod.splits if_splits)

lemma growing_copy [growing_intros]: "growing (os_copy dst src)"
  using growing_write(1) by (auto simp: obeys_def os_copy_def split: option.splits prod.splits)

lemma growing_log [growing_intros]: "growing (log_event m args)"
  by (auto simp: obeys_def log_event_def)

lemma growing_write_file [growing_intros]: "growing (os_write_file s bs m)"
  unfolding os_write_file_def by (intro growing_intros)

lemma growing_link [growing_intros]: "growing (os_link old new)"
  unfolding os_link_def
  by (rule growing_syscall) (auto split: sum.splits option.splits node.splits if_splits intro: grows_set_node)

lemma growing_mkdir_all_rev [growing_intros]: "growing (mkdir_all_rev ab m rc)"
  by (induction rc) (auto simp: Let_def intro!: growing_intros)

lemma growing_mkdir_all [growing_intros]: "growing (os_mkdir_all s m)"
  unfolding os_mkdir_all_def by (rule growing_mkdir_all_rev)

lemma look_tick [simp]: "look (w\<lparr>tick := n\<rparr>) = look w"
  by (simp add: look_def fun_eq_iff)

lemma resolve_tick [simp]: "resolve (w\<lparr>tick := n\<rparr>) s fl = resolve w s fl"
  by (simp add: resolve_def)

text \<open>The outcomes of a call on a path: a fault or an unresolved path, a free name, or a node.\<close>

lemma on_nodeE:
  assumes "run_state (on_node s fl k) w = (r, w')"
  obtains (err) e where "r = Inl (Errno e)" "w' = w\<lparr>tick := Suc (tick w)\<rparr>"
  | (none) p where "resolve w s fl = Inr p" "look w p = None"
      "k p None (w\<lparr>tick := Suc (tick w)\<rparr>) = (r, w')"
  | (some) p n where "resolve w s fl = Inr p" "look w p = Some n"
      "k p (Some n) (w\<lparr>tick := Suc (tick w)\<rparr>) = (r, w')"
proof -
  show thesis
  proof (cases "faults w (tick w)")
    case None
    show thesis
    proof (cases "resolve w s fl")
      case (Inl e)
      with None assms err show thesis by (auto simp: on_node_def run_syscall)
    next
      case (Inr p)
      with None assms have "k p (look w p) (w\<lparr>tick := Suc (tick w)\<rparr>) = (r, w')"
        by (simp add: on_node_def run_syscall)
      with Inr none some show thesis by (cases "look w p") auto
    qed
  next
    case (Some a)
    with assms err show thesis by (cases a) (auto simp: on_node_def run_syscall)
  qed
qed

section \<open>Calls that leave no event\<close>

text \<open>Mounts, processes and log lines are the events of the trace; all other calls are quiet.\<close>

definition same_trace :: "world \<Rightarrow> world \<Rightarrow> bool" where
  "same_trace w w' \<longleftrightarrow> trace w' = trace w"

abbreviation quiet :: "(world, 'a) state \<Rightarrow> bool" where
  "quiet \<equiv> obeys same_trace"

interpretation quiet: state_preorder same_trace
  by unfold_locales (simp_all add: same_trace_def)

named_theorems quiet_intros \<open>programs that leave no event\<close>

lemma quietD: "quiet m \<Longrightarrow> run_state m w = (r, w') \<Longrightarrow> trace w' = trace w"
  by (simp add: obeys_def same_trace_def)

lemmas quiet_rules [quiet_intros] = quiet.rules

lemma quiet_syscall: "(\<And>w r w'. f w = (r, w') \<Longrightarrow> trace w' = trace w) \<Longrightarrow> quiet (syscall f)"
  unfolding obeys_def same_trace_def run_syscall by (fastforce split: option.splits)

lemma quiet_on_node:
  "(\<And>p n w r w'. k p n w = (r, w') \<Longrightarrow> trace w' = trace w) \<Longrightarrow> quiet (on_node s fl k)"
  unfolding on_node_def by (rule quiet_syscall) (auto split: sum.splits)

lemma quiet_calls [quiet_intros]:
  "quiet (os_stat s)" "quiet (os_lstat s)" "quiet (os_mkdir s m)" "quiet (os_open s)" "quiet (os_remove s)"
  "quiet (os_remove_all s)" "quiet (os_symlink t s)" "quiet (os_read_file s)" "quiet (os_create s tr m)"
  "quiet (sys_unmount s)"
  unfolding os_stat_def os_lstat_def os_mkdir_def os_open_def os_remove_def os_remove_all_def os_symlink_def
    os_read_file_def os_create_def sys_unmount_def
  by (rule quiet_on_node; auto simp: set_node_def del_node_def del_tree_def new_fd_def Let_def
      split: option.splits node.splits if_splits prod.splits)+

lemma quiet_fd_calls [quiet_intros]:
  "quiet (os_truncate fd n)" "quiet (os_seek0 fd)" "quiet (sys_flock_ex fd)" "quiet (sys_flock_un fd)"
  "quiet (os_link old new)"
  unfolding os_truncate_def os_seek0_def sys_flock_ex_def sys_flock_un_def os_link_def
  by (rule quiet_syscall; auto simp: set_node_def split: sum.splits option.splits prod.splits node.splits if_splits)+

lemma quiet_write [quiet_intros]: "quiet (os_write fd bs)" "quiet (os_close fd)"
  by (auto simp: obeys_def same_trace_def os_write_def os_close_def write_at_def Let_def
      split: option.splits prod.splits if_splits)

lemma quiet_copy [quiet_intros]: "quiet (os_copy dst src)"
  using quiet_write(1) by (auto simp: obeys_def same_trace_def os_copy_def split: option.splits prod.splits)

lemma quiet_write_file [quiet_intros]: "quiet (os_write_file s bs m)"
  unfolding os_write_file_def by (intro quiet_intros)

lemma quiet_mkdir_all [quiet_intros]: "quiet (os_mkdir_all s m)"
proof -
  have "quiet (mkdir_all_rev ab m rc)" for ab rc
    by (induction rc) (auto simp: Let_def intro!: quiet_intros)
  then show ?thesis by (simp add: os_mkdir_all_def)
qed

section \<open>MkdirAll leaves a directory\<close>

lemma run_on_node:
  "run_state (on_node s fl k) w = (r, w') \<Longrightarrow>
   (\<exists>e. r = Inl (Errno e) \<and> w' = w\<lparr>tick := Suc (tick w)\<rparr>) \<or>
   (\<exists>p. resolve w s fl = Inr p \<and> k p (look w p) (w\<lparr>tick := Suc (tick w)\<rparr>) = (r, w'))"
  by (auto simp: on_node_def run_syscall resolve_def look_def[abs_def] split: option.splits sum.splits if_splits)

lemma stat_dir: "run_state (os_stat s) w = (Inr n, w') \<Longrightarrow> is_dir n \<Longrightarrow> dir_exists s w'"
  unfolding os_stat_def
  by (drule run_on_node) (auto simp: dir_exists_def is_dir_def split: option.splits node.splits)

lemma lstat_dir: "run_state (os_lstat s) w = (Inr n, w') \<Longrightarrow> is_dir n \<Longrightarrow> dir_exists s w'"
  unfolding os_lstat_def
  by (drule run_on_node)
    (auto simp: dir_exists_def is_dir_def resolve_def split: option.splits node.splits if_splits
      dest: walk_nofollow)

lemma mkdir_dir: "run_state (os_mkdir s m) w = (Inr u, w') \<Longrightarrow> dir_exists s w'"
  unfolding os_mkdir_def
proof (drule run_on_node, elim disjE exE conjE)
  fix p assume res: "resolve w s False = Inr p"
    and k: "(case look w p of Some _ \<Rightarrow> (Inl (Errno EEXIST), w\<lparr>tick := Suc (tick w)\<rparr>)
      | None \<Rightarrow> (Inr (), set_node p (Dir m) (w\<lparr>tick := Suc (tick w)\<rparr>))) = (Inr u, w')"
  let ?w = "w\<lparr>tick := Suc (tick w)\<rparr>"
  from k have none: "look ?w p = None" and w': "w' = set_node p (Dir m) ?w"
    by (auto split: option.splits)
  have le: "look w \<subseteq>\<^sub>m look w'" using look_grows[OF grows_set_node[OF none]] w' by simp
  have "walk (look w') max_links (if is_abs s then [] else comps (cwd w)) (comps s) True = Inr p"
    by (rule walk_created[where lk = "look w" and n = "Dir m" and fl = False])
      (use res none le w' in \<open>auto simp: resolve_def split: if_splits\<close>)
  moreover have "cwd w' = cwd w" using w' by (simp add: set_node_def)
  ultimately show "dir_exists s w'"
    using res w' by (auto simp: dir_exists_def resolve_def split: if_splits)
qed auto

lemma mkdir_all_rev_dir:
  "run_state (mkdir_all_rev ab m rc) w = (Inr u, w') \<Longrightarrow> rc \<noteq> [] \<Longrightarrow>
   dir_exists (render ab (rev rc)) w'"
  by (cases rc)
    (auto simp: Let_def split: prod.splits sum.splits if_splits
      dest: stat_dir mkdir_dir lstat_dir intro: dir_exists_grows)

lemma dir_exists_render:
  "s \<noteq> [] \<Longrightarrow> dir_exists (render (is_abs s) (comps s)) w = dir_exists s w"
proof -
  assume s: "s \<noteq> []"
  have rel: "\<not> is_abs (join_slash (comps s))" by (rule join_slash_rel) (rule comps_good)
  have "comps (join_slash (comps s)) = comps s" by (rule comps_join_slash) (rule comps_good)
  moreover have "comps s \<noteq> [] \<or> is_abs s" using s
    by (cases s) (auto simp: comps_def split: list.splits if_splits)
  moreover have "join_slash (comps s) \<noteq> []" if "comps s \<noteq> []"
    using that by (metis calculation(1) comps_Nil)
  ultimately show ?thesis
    using s rel by (auto simp: dir_exists_def resolve_def render_def)
qed

lemma mkdir_all_dir:
  assumes "run_state (os_mkdir_all s m) w = (Inr u, w')"
  shows "dir_exists s w'"
proof (cases "comps s = []")
  case True
  then have "s \<noteq> [] \<and> is_abs s" using assms
    by (cases s) (auto simp: os_mkdir_all_def os_stat_def on_node_def run_syscall resolve_def comps_def
        split: option.splits list.splits if_splits)
  then have "dir_exists [slash] w'" using assms True
    by (auto simp: os_mkdir_all_def split: prod.splits sum.splits if_splits dest: stat_dir)
  with True \<open>s \<noteq> [] \<and> is_abs s\<close> show ?thesis by (simp add: dir_exists_def resolve_def)
next
  case False
  then have "s \<noteq> []" by auto
  with mkdir_all_rev_dir[of "is_abs s" m "rev (comps s)"] assms False dir_exists_render[of s]
  show ?thesis by (auto simp: os_mkdir_all_def)
qed

section \<open>The interface of MkdirAll\<close>

text \<open>
  What a client that prepares a set of directories relies on: success means the directory is
  there, and no later call takes one away.
\<close>

locale dir_maker =
  fixes mk :: "string \<Rightarrow> ('s, 'e + unit) state"
    and is_there :: "string \<Rightarrow> 's \<Rightarrow> bool"
  assumes makes: "run_state (mk s) w = (Inr (), w') \<Longrightarrow> is_there s w'"
    and keeps: "is_there s w \<Longrightarrow> run_state (mk t) w = (r, w') \<Longrightarrow> is_there s w'"
begin

lemma makes_all:
  assumes "run_state (for_each mk ds) w = (Inr (), w')"
  shows "\<forall>d \<in> set ds. is_there d w'"
proof -
  have "triple (\<lambda>_. True) (for_each mk ds) (\<lambda>r w. r = Inr () \<longrightarrow> (\<forall>d \<in> set ds. is_there d w))"
    by (rule triple_for_each_all) (auto intro!: tripleI dest: makes keeps)
  with assms show ?thesis by (auto dest: tripleD)
qed

lemma keeps_all:
  assumes "is_there s w" and "run_state (for_each mk ds) w = (r, w')"
  shows "is_there s w'"
proof -
  have "triple (is_there s) (for_each mk ds) (\<lambda>_. is_there s)"
    by (rule triple_for_each) (auto intro!: tripleI dest: keeps)
  with assms show ?thesis by (auto dest: tripleD)
qed

end

interpretation posix_dirs: dir_maker "\<lambda>s. os_mkdir_all s m" dir_exists for m
  by unfold_locales (blast intro: mkdir_all_dir dir_exists_grows obeysD growing_mkdir_all)+

end
