(* ===== verification/Lock.thy ===== *)
theory Lock
  imports Go_OS_Lemmas
begin

text \<open>
  \<open>vm/lock/lock.go\<close>: \<open>acquire\<close> and \<open>release\<close> as whole calls, and the same system calls as
  the steps of any number of launcher processes that run at once (\<open>lock_step\<close>). The steps
  show which exclusion the code gives: one holder per inode always, one holder per path as
  long as no \<open>Release\<close> removes the file, and two holders of the same path once one does.
\<close>

section \<open>Acquire and Release\<close>

text \<open>
  \<open>stamp\<close> is the line \<open>pid=... started=...\<close> that \<open>fmt.Fprintf\<close> writes. The result \<open>None\<close>
  is the nil file of a blank path.
\<close>

definition acquire :: "string \<Rightarrow> string \<Rightarrow> nat option sys" where
  "acquire stamp path =
     (if blank path then State_Monad.return (Inr None)
      else
        or_fail (os_mkdir_all (dir path) 493) (Wrapf ''create vm lock directory: %w'' []) (\<lambda>_.
        or_fail (os_create path False 420) (Wrapf ''open vm lock %q: %w'' [path]) (\<lambda>f. do {
          r \<leftarrow> sys_flock_ex f;
          case r of
            Inl e \<Rightarrow> do {
              _ \<leftarrow> os_close f;
              State_Monad.return (Inl
                (if e = Errno EWOULDBLOCK then Errorf ''vm lock already held: %s'' [path]
                 else Wrapf ''acquire vm lock %q: %w'' [path] e))
            }
          | Inr _ \<Rightarrow> do {
              _ \<leftarrow> os_truncate f 0;
              _ \<leftarrow> os_seek0 f;
              _ \<leftarrow> os_write f stamp;
              State_Monad.return (Inr (Some f))
            }
        })))"

definition release :: "nat option \<Rightarrow> string \<Rightarrow> (world, unit) state" where
  "release file path =
     (case file of
        None \<Rightarrow> State_Monad.return ()
      | Some f \<Rightarrow> do {
          _ \<leftarrow> sys_flock_un f;
          _ \<leftarrow> os_close f;
          if \<not> blank path then do { _ \<leftarrow> os_remove path; State_Monad.return () }
          else State_Monad.return ()
        })"

text \<open>The file \<open>f\<close> is open on an inode whose lock it has.\<close>

definition holds :: "world \<Rightarrow> nat \<Rightarrow> bool" where
  "holds w f \<longleftrightarrow> (\<exists>i off. open_files w f = Some (i, off) \<and> flocks w i = Some f)"

section \<open>The calls as steps of concurrent processes\<close>

datatype pc = Idle | Opened nat | Refused nat | Locked nat | Holding nat | Unlocked nat | Closed

text \<open>
  The next system call of a process, from \<open>os.OpenFile\<close> on (the directory is made once).
  \<open>Holding\<close> is between the return of \<open>Acquire\<close> and the call of \<open>Release\<close>.
\<close>

fun next_call :: "string \<Rightarrow> string \<Rightarrow> pc \<Rightarrow> (world, pc) state" where
  "next_call stamp path Idle = do {
     r \<leftarrow> os_create path False 420;
     State_Monad.return (case r of Inl _ \<Rightarrow> Idle | Inr f \<Rightarrow> Opened f) }"
| "next_call stamp path (Opened f) = do {
     r \<leftarrow> sys_flock_ex f;
     State_Monad.return (case r of Inl _ \<Rightarrow> Refused f | Inr _ \<Rightarrow> Locked f) }"
| "next_call stamp path (Refused f) = do { _ \<leftarrow> os_close f; State_Monad.return Idle }"
| "next_call stamp path (Locked f) = do {
     _ \<leftarrow> os_truncate f 0; _ \<leftarrow> os_seek0 f; _ \<leftarrow> os_write f stamp; State_Monad.return (Holding f) }"
| "next_call stamp path (Holding f) = do { _ \<leftarrow> sys_flock_un f; State_Monad.return (Unlocked f) }"
| "next_call stamp path (Unlocked f) = do { _ \<leftarrow> os_close f; State_Monad.return Closed }"
| "next_call stamp path Closed = do { _ \<leftarrow> os_remove path; State_Monad.return Idle }"

type_synonym procs = "world \<times> (nat \<Rightarrow> pc)"

definition advance :: "string \<Rightarrow> string \<Rightarrow> nat \<Rightarrow> procs \<Rightarrow> procs" where
  "advance stamp path j s =
     (case run_state (next_call stamp path (snd s j)) (fst s) of (c, w) \<Rightarrow> (w, (snd s)(j := c)))"

inductive lock_run :: "string \<Rightarrow> string \<Rightarrow> procs \<Rightarrow> procs \<Rightarrow> bool" for stamp path where
  start: "lock_run stamp path s s"
| step: "lock_run stamp path s t \<Longrightarrow> lock_run stamp path s (advance stamp path j t)"

text \<open>A run in which no process gets to the \<open>os.Remove\<close> of \<open>Release\<close>.\<close>

inductive keeping_run :: "string \<Rightarrow> string \<Rightarrow> procs \<Rightarrow> procs \<Rightarrow> bool" for stamp path where
  keep_start: "keeping_run stamp path s s"
| keep_step: "keeping_run stamp path s t \<Longrightarrow> snd t j \<noteq> Closed \<Longrightarrow>
     keeping_run stamp path s (advance stamp path j t)"

fun fd_of :: "pc \<Rightarrow> nat option" where
  "fd_of Idle = None"
| "fd_of (Opened f) = Some f"
| "fd_of (Refused f) = Some f"
| "fd_of (Locked f) = Some f"
| "fd_of (Holding f) = Some f"
| "fd_of (Unlocked f) = Some f"
| "fd_of Closed = None"

fun owns :: "pc \<Rightarrow> nat option" where
  "owns (Locked f) = Some f"
| "owns (Holding f) = Some f"
| "owns _ = None"

definition fresh_fds :: "world \<Rightarrow> bool" where
  "fresh_fds w \<longleftrightarrow> (\<forall>f \<ge> next_fd w. open_files w f = None) \<and> (\<forall>i f. flocks w i = Some f \<longrightarrow> f < next_fd w)"

text \<open>
  The invariant: every process has a file of its own, open, and a process past its \<open>flock\<close>
  has the lock of its inode.
\<close>

definition lock_inv :: "procs \<Rightarrow> bool" where
  "lock_inv s \<longleftrightarrow>
     fresh_fds (fst s) \<and>
     (\<forall>j f. fd_of (snd s j) = Some f \<longrightarrow> open_files (fst s) f \<noteq> None) \<and>
     (\<forall>j k f. fd_of (snd s j) = Some f \<longrightarrow> fd_of (snd s k) = Some f \<longrightarrow> j = k) \<and>
     (\<forall>j f. owns (snd s j) = Some f \<longrightarrow> holds (fst s) f)"


section \<open>What each call does to open files and locks\<close>

definition inode_of :: "world \<Rightarrow> nat \<Rightarrow> nat option" where
  "inode_of w = (\<lambda>f. map_option fst (open_files w f))"

lemma holds_inode: "holds w f \<longleftrightarrow> (\<exists>i. inode_of w f = Some i \<and> flocks w i = Some f)"
  by (auto simp: holds_def inode_of_def)

lemma open_files_inode: "open_files w f = None \<longleftrightarrow> inode_of w f = None"
  by (simp add: inode_of_def)

text \<open>Calls that touch neither open files nor locks, up to offsets.\<close>

definition same_files :: "world \<Rightarrow> world \<Rightarrow> bool" where
  "same_files w w' \<longleftrightarrow>
     inode_of w' = inode_of w \<and> flocks w' = flocks w \<and> next_fd w' = next_fd w"

lemma same_files_trans: "same_files u v \<Longrightarrow> same_files v w \<Longrightarrow> same_files u w"
  by (simp add: same_files_def)

lemma same_files_truncate: "run_state (os_truncate f n) w = (r, w') \<Longrightarrow> same_files w w'"
  by (auto simp: os_truncate_def run_syscall same_files_def inode_of_def split: option.splits)

lemma same_files_seek: "run_state (os_seek0 f) w = (r, w') \<Longrightarrow> same_files w w'"
  by (auto simp: os_seek0_def run_syscall same_files_def inode_of_def split: option.splits)

lemma same_files_write: "run_state (os_write f bs) w = (r, w') \<Longrightarrow> same_files w w'"
  by (auto simp: os_write_def same_files_def inode_of_def write_at_def Let_def fun_eq_iff
      split: option.splits)

lemma same_files_remove: "run_state (os_remove s) w = (r, w') \<Longrightarrow> same_files w w'"
  unfolding os_remove_def
  by (erule on_nodeE)
    (auto simp: same_files_def inode_of_def del_node_def split: node.splits if_splits)

lemma create_effect:
  assumes "run_state (os_create s trunc m) w = (r, w')"
  shows "(\<exists>e. r = Inl e \<and> same_files w w') \<or>
    (\<exists>i. r = Inr (next_fd w) \<and> inode_of w' = (inode_of w)(next_fd w := Some i) \<and>
      flocks w' = flocks w \<and> next_fd w' = Suc (next_fd w))"
  using assms unfolding os_create_def
  by (rule on_nodeE)
    (auto simp: same_files_def inode_of_def new_fd_def set_node_def Let_def fun_eq_iff
      split: node.splits if_splits)

lemma flock_effect:
  assumes "run_state (sys_flock_ex f) w = (r, w')"
  shows "(\<exists>e. r = Inl e \<and> same_files w w') \<or>
    (\<exists>i. r = Inr () \<and> inode_of w f = Some i \<and> (flocks w i = None \<or> flocks w i = Some f) \<and>
      inode_of w' = inode_of w \<and> flocks w' = (flocks w)(i := Some f) \<and> next_fd w' = next_fd w)"
  using assms
  by (auto simp: sys_flock_ex_def run_syscall same_files_def inode_of_def split: option.splits if_splits)

lemma unlock_effect:
  assumes "run_state (sys_flock_un f) w = (r, w')"
  shows "inode_of w' = inode_of w \<and> next_fd w' = next_fd w \<and>
    (flocks w' = flocks w \<or> (\<exists>i. flocks w i = Some f \<and> flocks w' = (flocks w)(i := None)))"
  using assms
  by (auto simp: sys_flock_un_def run_syscall inode_of_def split: option.splits if_splits)

lemma close_effect:
  assumes "run_state (os_close f) w = (r, w')"
  shows "same_files w w' \<or>
    (inode_of w' = (inode_of w)(f := None) \<and> next_fd w' = next_fd w \<and>
     flocks w' = (\<lambda>i. if flocks w i = Some f then None else flocks w i))"
  using assms
  by (auto simp: os_close_def same_files_def inode_of_def Let_def fun_eq_iff split: option.splits if_splits)

section \<open>The invariant\<close>

text \<open>Steps only ever give a process its own file, and only lose what they do not own.\<close>

lemma lock_inv_alt:
  "lock_inv (w, ps) \<longleftrightarrow>
     (\<forall>f \<ge> next_fd w. inode_of w f = None) \<and> (\<forall>i f. flocks w i = Some f \<longrightarrow> f < next_fd w) \<and>
     (\<forall>j f. fd_of (ps j) = Some f \<longrightarrow> inode_of w f \<noteq> None) \<and>
     (\<forall>j k f. fd_of (ps j) = Some f \<longrightarrow> fd_of (ps k) = Some f \<longrightarrow> j = k) \<and>
     (\<forall>j f. owns (ps j) = Some f \<longrightarrow> (\<exists>i. inode_of w f = Some i \<and> flocks w i = Some f))"
  by (simp add: lock_inv_def fresh_fds_def holds_inode open_files_inode)

lemma owns_fd: "owns c = Some f \<Longrightarrow> fd_of c = Some f"
  by (cases c) auto

lemma lock_inv_same:
  assumes "lock_inv (w, ps)" and "same_files w w'"
    and "fd_of c = fd_of (ps j) \<or> fd_of c = None" and "owns c = owns (ps j) \<or> owns c = None"
  shows "lock_inv (w', ps(j := c))"
  using assms unfolding lock_inv_alt same_files_def
  by (auto split: if_splits) (metis option.distinct(1))+

lemma lock_inv_open:
  assumes "lock_inv (w, ps)" and "inode_of w' = (inode_of w)(next_fd w := Some i)"
    and "flocks w' = flocks w" and "next_fd w' = Suc (next_fd w)"
  shows "lock_inv (w', ps(j := Opened (next_fd w)))"
proof -
  have new: "fd_of (ps k) \<noteq> Some (next_fd w)" for k
    using assms(1) unfolding lock_inv_alt by (metis order_refl)
  then have "owns (ps k) \<noteq> Some (next_fd w)" for k using owns_fd by blast
  with new assms show ?thesis unfolding lock_inv_alt by (auto simp: less_Suc_eq)
qed

lemma lock_inv_lock:
  assumes "lock_inv (w, ps)" and "ps j = Opened f" and "inode_of w f = Some i"
    and "flocks w i = None \<or> flocks w i = Some f"
    and "inode_of w' = inode_of w" and "flocks w' = (flocks w)(i := Some f)" and "next_fd w' = next_fd w"
  shows "lock_inv (w', ps(j := Locked f))"
proof -
  have fj: "fd_of (ps j) = Some f" using assms(2) by simp
  have "f < next_fd w" using assms(1,3) unfolding lock_inv_alt by (metis not_less option.distinct(1))
  moreover have "owns (ps k) \<noteq> Some g \<or> inode_of w g \<noteq> Some i" if "k \<noteq> j" for k g
    using assms(1,4) fj that unfolding lock_inv_alt by (metis option.distinct(1) option.inject owns_fd)
  ultimately show ?thesis
    using assms fj unfolding lock_inv_alt by (auto split: if_splits) metis+
qed

lemma lock_inv_unlock:
  assumes "lock_inv (w, ps)" and "ps j = Holding f" and "inode_of w' = inode_of w"
    and "flocks w' = flocks w \<or> (\<exists>i. flocks w i = Some f \<and> flocks w' = (flocks w)(i := None))"
    and "next_fd w' = next_fd w"
  shows "lock_inv (w', ps(j := Unlocked f))"
proof -
  have fj: "fd_of (ps j) = Some f" using assms(2) by simp
  have other: "owns (ps k) \<noteq> Some f" if "k \<noteq> j" for k
    using assms(1) fj that owns_fd unfolding lock_inv_alt by metis
  have less: "flocks w i = Some g" if "flocks w' i = Some g" for i g
    using assms(4) that by (auto split: if_splits)
  have keep: "flocks w' i = Some g" if "flocks w i = Some g" "g \<noteq> f" for i g
    using assms(4) that by auto
  have "\<exists>i. inode_of w g = Some i \<and> flocks w' i = Some g" if "k \<noteq> j" "owns (ps k) = Some g" for k g
    using assms(1) that other keep unfolding lock_inv_alt by metis
  then show ?thesis
    using assms(1,3,5) fj less unfolding lock_inv_alt by (simp split: if_splits) metis
qed

lemma lock_inv_close:
  assumes "lock_inv (w, ps)" and "fd_of (ps j) = Some f" and "fd_of c = None"
    and "inode_of w' = (inode_of w)(f := None)" and "next_fd w' = next_fd w"
    and "flocks w' = (\<lambda>i. if flocks w i = Some f then None else flocks w i)"
  shows "lock_inv (w', ps(j := c))"
proof -
  have other: "fd_of (ps k) \<noteq> Some f" if "k \<noteq> j" for k
    using assms(1,2) that unfolding lock_inv_alt by metis
  have "owns c = None" using assms(3) owns_fd by (cases "owns c") auto
  then show ?thesis
    using assms other owns_fd unfolding lock_inv_alt by (auto split: if_splits) (metis option.inject)+
qed

lemma advance_inv: "lock_inv s \<Longrightarrow> lock_inv (advance stamp path j s)"
proof -
  assume inv: "lock_inv s"
  obtain w ps where s: "s = (w, ps)" by fastforce
  obtain c w' where run: "run_state (next_call stamp path (ps j)) w = (c, w')" by fastforce
  have "lock_inv (w', ps(j := c))"
  proof (cases "ps j")
    case Idle
    with run inv s show ?thesis
      by (auto split: prod.splits sum.splits dest!: create_effect
          intro: lock_inv_same lock_inv_open)
  next
    case (Opened f)
    with run inv s show ?thesis
      by (auto split: prod.splits sum.splits dest!: flock_effect
          intro: lock_inv_same[where w = w and w' = w'] lock_inv_lock)
  next
    case (Refused f)
    with run inv s show ?thesis
      by (auto split: prod.splits dest!: close_effect intro: lock_inv_same lock_inv_close)
  next
    case (Locked f)
    with run have "same_files w w'" and "c = Holding f"
      by (auto split: prod.splits
          dest!: same_files_truncate same_files_seek same_files_write intro: same_files_trans)
    with Locked inv s show ?thesis by (auto intro: lock_inv_same)
  next
    case (Holding f)
    with run inv s show ?thesis
      by (auto split: prod.splits dest!: unlock_effect intro: lock_inv_unlock)
  next
    case (Unlocked f)
    with run inv s show ?thesis
      by (auto split: prod.splits dest!: close_effect intro: lock_inv_same lock_inv_close)
  next
    case Closed
    with run inv s show ?thesis
      by (auto split: prod.splits dest!: same_files_remove intro: lock_inv_same)
  qed
  with run s show ?thesis by (simp add: advance_def)
qed

lemma lock_run_inv: "lock_run stamp path s t \<Longrightarrow> lock_inv s \<Longrightarrow> lock_inv t"
  by (induction rule: lock_run.induct) (auto intro: advance_inv)


definition all_idle :: "nat \<Rightarrow> pc" where
  "all_idle = (\<lambda>_. Idle)"

lemma lock_inv_idle: "fresh_fds w \<Longrightarrow> lock_inv (w, all_idle)"
  by (simp add: lock_inv_def all_idle_def)

text \<open>
  C4. Whatever the interleaving and whatever calls fail, two launcher processes never have
  the lock of the same inode at the same time.
\<close>

theorem lock_one_holder_per_inode:
  assumes "fresh_fds w" and "lock_run stamp path (w, all_idle) (w', ps)"
    and "owns (ps j) = Some f" and "owns (ps k) = Some g"
    and "inode_of w' f = inode_of w' g"
  shows "j = k"
proof -
  have inv: "lock_inv (w', ps)" using assms(1,2) lock_inv_idle lock_run_inv by blast
  then have "f = g" using assms(3-5) unfolding lock_inv_alt by (metis option.inject)
  with inv assms(3,4) show ?thesis unfolding lock_inv_alt using owns_fd by metis
qed

lemma lock_run_sched: "lock_run stamp path s (fold (advance stamp path) js s)"
proof (induction js rule: rev_induct)
  case Nil
  show ?case by (simp add: lock_run.start)
next
  case (snoc j js)
  then show ?case by (simp add: lock_run.step)
qed

text \<open>The system calls on a concrete world, for runs that are evaluated.\<close>

lemmas eval_calls = syscall_def on_node_def resolve_def look_def locate_def max_links_def
  os_create_def os_stat_def os_lstat_def os_mkdir_def os_remove_def os_write_def os_truncate_def
  os_seek0_def os_close_def sys_flock_ex_def sys_flock_un_def new_fd_def set_node_def del_node_def
  has_children_def write_at_def splice_at_def empty_world_def comps_def Let_def

lemma two_holders_run:
  "snd (fold (advance [] ''/l'') [0, 0, 0, 1, 0, 0, 1, 1, 0, 2, 2, 2] (empty_world, all_idle)) 1 = Holding 4"
  "snd (fold (advance [] ''/l'') [0, 0, 0, 1, 0, 0, 1, 1, 0, 2, 2, 2] (empty_world, all_idle)) 2 = Holding 5"
  by (simp_all add: advance_def all_idle_def eval_calls)

text \<open>
  C5. The exclusion fails for the path, which is what callers lock: a reachable
  interleaving, with no fault, leaves two processes that both returned from \<open>Acquire\<close> of the
  same path and not yet called \<open>Release\<close>. The first holder's \<open>os.Remove\<close> unlinks the inode
  the second has just locked, and the third locks a new one.
\<close>

theorem lock_two_holders_of_one_path:
  "\<exists>w ps f g. lock_run [] ''/l'' (empty_world, all_idle) (w, ps) \<and>
     ps 1 = Holding f \<and> ps 2 = Holding g"
proof -
  obtain w ps where eq: "fold (advance [] ''/l'') [0, 0, 0, 1, 0, 0, 1, 1, 0, 2, 2, 2]
      (empty_world, all_idle) = (w, ps)" by fastforce
  have "lock_run [] ''/l'' (empty_world, all_idle) (w, ps)"
    unfolding eq[symmetric] by (rule lock_run_sched)
  moreover have "ps 1 = Holding 4" "ps 2 = Holding 5" using two_holders_run eq by simp_all
  ultimately show ?thesis by blast
qed


section \<open>Exclusion for the path while the file stays\<close>

text \<open>Every process that has the file open has it open on the inode the path names.\<close>

definition path_inv :: "string \<Rightarrow> procs \<Rightarrow> bool" where
  "path_inv path s \<longleftrightarrow> (\<exists>p. resolve (fst s) path True = Inr p \<and>
     (look (fst s) p = None \<and> (\<forall>j. fd_of (snd s j) = None) \<or>
      (\<exists>i. look (fst s) p = Some (Reg i) \<and>
         (\<forall>j f. fd_of (snd s j) = Some f \<longrightarrow> inode_of (fst s) f = Some i))))"

lemma create_new:
  assumes "run_state (os_create s trunc m) w = (Inr f, w')"
    and "resolve w s True = Inr p" and "look w p = None"
  shows "resolve w' s True = Inr p \<and> (\<exists>i. look w' p = Some (Reg i) \<and> inode_of w' f = Some i)"
proof -
  let ?w = "w\<lparr>tick := Suc (tick w)\<rparr>" and ?i = "next_ino w"
  from assms have w': "w' = (set_node p (Reg ?i) ?w)\<lparr>inodes := (inodes w)(?i := (m, [])), next_ino := Suc ?i,
      open_files := (open_files w)(f := Some (?i, 0)), next_fd := Suc (next_fd w)\<rparr>"
    unfolding os_create_def
    by (auto elim!: on_nodeE simp: Let_def new_fd_def set_node_def)
  have look': "look w' = look (set_node p (Reg ?i) ?w)" "mounts w' = mounts w" "cwd w' = cwd w"
    using w' by (auto simp: look_def set_node_def fun_eq_iff)
  have le: "look w \<subseteq>\<^sub>m look w'"
    using look_grows[OF grows_set_node[of ?w p "Reg ?i"]] assms(3) look' by simp
  have "walk (look w') max_links (if is_abs s then [] else comps (cwd w)) (comps s) True = Inr p"
    by (rule walk_created[where lk = "look w" and n = "Reg ?i" and fl = True])
      (use assms(2,3) le look' in \<open>auto simp: resolve_def split: if_splits\<close>)
  moreover have "inode_of w' f = Some ?i" using w' by (simp add: inode_of_def)
  ultimately show ?thesis
    using assms(2) look' by (auto simp: resolve_def split: if_splits)
qed

lemma create_existing:
  assumes "run_state (os_create s trunc m) w = (Inr f, w')"
    and "resolve w s True = Inr p" and "look w p = Some (Reg i)"
  shows "inode_of w' f = Some i"
  using assms unfolding os_create_def
  by (auto elim!: on_nodeE simp: new_fd_def inode_of_def)

lemma create_fails_same_tree:
  "run_state (os_create s trunc m) w = (Inl e, w') \<Longrightarrow> w' = w\<lparr>tick := Suc (tick w)\<rparr>"
  unfolding os_create_def
  by (erule on_nodeE) (auto simp: new_fd_def Let_def split: node.splits)

lemma next_call_grows: "c \<noteq> Closed \<Longrightarrow> growing (next_call stamp path c)"
  by (cases c) (auto intro!: growing_intros)

lemma next_call_fd:
  assumes "run_state (next_call stamp path c) w = (c', w')" and "c \<noteq> Closed" and "c \<noteq> Idle"
  shows "(fd_of c' = fd_of c \<or> fd_of c' = None) \<and> (\<forall>g. fd_of c \<noteq> Some g \<longrightarrow> inode_of w' g = inode_of w g)
    \<and> (fd_of c' \<noteq> None \<longrightarrow> inode_of w' = inode_of w)"
  using assms
  by (cases c)
    (auto split: prod.splits sum.splits simp: same_files_def
      dest!: flock_effect close_effect unlock_effect same_files_truncate same_files_seek same_files_write)

lemma advance_path_inv:
  assumes "path_inv path s" and "lock_inv s" and "snd s j \<noteq> Closed"
  shows "path_inv path (advance stamp path j s)"
proof -
  obtain w ps where s: "s = (w, ps)" by fastforce
  obtain c w' where run: "run_state (next_call stamp path (ps j)) w = (c, w')" by fastforce
  have grow: "grows w w'" using run assms(3) s obeysD next_call_grows by fastforce
  obtain p where p: "resolve w path True = Inr p"
      and cases: "look w p = None \<and> (\<forall>j. fd_of (ps j) = None) \<or>
      (\<exists>i. look w p = Some (Reg i) \<and> (\<forall>j f. fd_of (ps j) = Some f \<longrightarrow> inode_of w f = Some i))"
    using assms(1) s by (auto simp: path_inv_def)
  have inv: "lock_inv (w, ps)" using assms(2) s by simp
  have distinct: "k = j" if "fd_of (ps k) = Some f" "fd_of (ps j) = Some f" for k f
    using inv that unfolding lock_inv_alt by metis
  have opened: "f \<noteq> next_fd w" if "fd_of (ps k) = Some f" for k f
    using inv that unfolding lock_inv_alt by (metis order_refl)
  have "path_inv path (w', ps(j := c))"
  proof (cases "ps j = Idle")
    case True
    then obtain r where cr: "run_state (os_create path False 420) w = (r, w')"
        and c: "c = (case r of Inl _ \<Rightarrow> Idle | Inr f \<Rightarrow> Opened f)"
      using run by (auto split: prod.splits)
    show ?thesis
    proof (cases r)
      case (Inl e)
      then have w': "w' = w\<lparr>tick := Suc (tick w)\<rparr>" using cr create_fails_same_tree by simp
      with Inl c True p cases show ?thesis by (auto simp: path_inv_def inode_of_def)
    next
      case (Inr f)
      have f: "f = next_fd w" and other: "\<And>g. g \<noteq> f \<Longrightarrow> inode_of w' g = inode_of w g"
        using create_effect[OF cr] Inr by auto
      from cases show ?thesis
      proof (elim disjE conjE exE)
        assume "look w p = None" "\<forall>j. fd_of (ps j) = None"
        with create_new[OF cr[unfolded Inr] p] c Inr show ?thesis by (auto simp: path_inv_def)
      next
        fix i assume i: "look w p = Some (Reg i)" and all: "\<forall>j f. fd_of (ps j) = Some f \<longrightarrow> inode_of w f = Some i"
        have "resolve w' path True = Inr p" "look w' p = Some (Reg i)"
          using resolve_grows[OF p _ grow] look_grows_Some[OF grow i] i by auto
        moreover have "inode_of w' f = Some i" using create_existing[OF cr[unfolded Inr] p i] .
        moreover have "inode_of w' g = Some i" if "fd_of (ps k) = Some g" for k g
          using all that opened[of k g] f other[of g] by auto
        ultimately show ?thesis using c Inr by (auto simp: path_inv_def)
      qed
    qed
  next
    case False
    note eff = next_call_fd[OF run _ False]
    then obtain fj where fj: "fd_of (ps j) = Some fj" using False assms(3) s by (cases "ps j") auto
    with cases obtain i where i: "look w p = Some (Reg i)"
        and all: "\<And>k f. fd_of (ps k) = Some f \<Longrightarrow> inode_of w f = Some i" by (auto)
    have "resolve w' path True = Inr p" "look w' p = Some (Reg i)"
      using resolve_grows[OF p _ grow] look_grows_Some[OF grow i] i by auto
    moreover have "inode_of w' g = Some i" if "k \<noteq> j" "fd_of (ps k) = Some g" for k g
    proof -
      have "fd_of (ps j) \<noteq> Some g" using distinct that by blast
      then show ?thesis using eff assms(3) s all[OF that(2)] by simp
    qed
    moreover have "inode_of w' g = Some i" if "fd_of c = Some g" for g
      using eff assms(3) s that all[OF fj] fj by auto
    ultimately show ?thesis by (auto simp: path_inv_def)
  qed
  with run s show ?thesis by (simp add: advance_def)
qed

lemma keeping_run_inv:
  "keeping_run stamp path s t \<Longrightarrow> lock_inv s \<Longrightarrow> path_inv path s \<Longrightarrow> lock_inv t \<and> path_inv path t"
  by (induction rule: keeping_run.induct) (auto intro: advance_inv advance_path_inv)

text \<open>
  C16. As long as no process gets to the \<open>os.Remove\<close> of \<open>Release\<close>, the lock excludes: of
  all processes that acquire the path, at most one is between \<open>Acquire\<close> and \<open>Release\<close>.
\<close>

theorem lock_one_holder_per_path_while_kept:
  assumes "fresh_fds w" and "resolve w path True = Inr p"
    and "look w p = None \<or> (\<exists>i. look w p = Some (Reg i))"
    and "keeping_run stamp path (w, all_idle) (w', ps)"
    and "owns (ps j) = Some f" and "owns (ps k) = Some g"
  shows "j = k"
proof -
  have "path_inv path (w, all_idle)" using assms(2,3) by (auto simp: path_inv_def all_idle_def)
  with assms(1,4) have inv: "lock_inv (w', ps)" "path_inv path (w', ps)"
    using keeping_run_inv lock_inv_idle by blast+
  have "inode_of w' f = inode_of w' g"
    using inv(2) owns_fd[OF assms(5)] owns_fd[OF assms(6)] by (auto simp: path_inv_def)
  then have "f = g" using inv(1) assms(5,6) unfolding lock_inv_alt by (metis option.inject)
  with inv(1) assms(5,6) show ?thesis unfolding lock_inv_alt using owns_fd by metis
qed


section \<open>One caller: what Acquire and Release guarantee\<close>

lemma fresh_fds_alt:
  "fresh_fds w \<longleftrightarrow> (\<forall>f \<ge> next_fd w. inode_of w f = None) \<and> (\<forall>i f. flocks w i = Some f \<longrightarrow> f < next_fd w)"
  by (simp add: fresh_fds_def open_files_inode)

lemma fresh_fds_same: "same_files w w' \<Longrightarrow> fresh_fds w \<Longrightarrow> fresh_fds w'"
  by (simp add: same_files_def fresh_fds_alt)

lemma holds_same: "same_files w w' \<Longrightarrow> holds w' f = holds w f"
  by (simp add: same_files_def holds_inode)

text \<open>\<open>MkdirAll\<close> and the other tree calls leave files and locks alone.\<close>

lemma same_files_tree_calls:
  "run_state (os_stat s) w = (r, w') \<Longrightarrow> same_files w w'"
  "run_state (os_lstat s) w = (r, w') \<Longrightarrow> same_files w w'"
  "run_state (os_mkdir s m) w = (r'', w') \<Longrightarrow> same_files w w'"
  unfolding os_stat_def os_lstat_def os_mkdir_def
  by (erule on_nodeE; auto simp: same_files_def inode_of_def set_node_def)+

lemma same_files_mkdir_rev: "run_state (mkdir_all_rev ab m rc) w = (r, w') \<Longrightarrow> same_files w w'"
proof (induction rc arbitrary: w r w')
  case Nil
  then show ?case by (auto split: prod.splits dest: same_files_tree_calls)
next
  case (Cons c rc)
  from Cons.prems show ?case
    by (auto simp: Let_def split: prod.splits sum.splits if_splits
        dest!: Cons.IH same_files_tree_calls intro: same_files_trans)
qed

lemma same_files_mkdir_all: "run_state (os_mkdir_all s m) w = (r, w') \<Longrightarrow> same_files w w'"
  by (simp add: os_mkdir_all_def same_files_mkdir_rev)

text \<open>The successful path of \<open>acquire\<close>: directory, file, lock, and three calls that do not matter.\<close>

lemma acquire_cases:
  assumes "run_state (acquire stamp path) w = (r, w')" and "\<not> blank path"
  obtains (early) e where "r = Inl e" "same_files w w'"
  | (refused) u f v x y where "run_state (os_mkdir_all (dir path) 493) w = (Inr (), u)"
      "run_state (os_create path False 420) u = (Inr f, v)"
      "run_state (sys_flock_ex f) v = (Inl x, y)"
      "r = Inl (if x = Errno EWOULDBLOCK then Errorf ''vm lock already held: %s'' [path]
                else Wrapf ''acquire vm lock %q: %w'' [path] x)"
      "w' = snd (run_state (os_close f) y)"
  | (locked) u f v y where "run_state (os_mkdir_all (dir path) 493) w = (Inr (), u)"
      "run_state (os_create path False 420) u = (Inr f, v)"
      "run_state (sys_flock_ex f) v = (Inr (), y)" "r = Inr (Some f)"
      "same_files y w'"
proof -
  obtain a u where mk: "run_state (os_mkdir_all (dir path) 493) w = (a, u)" by fastforce
  obtain b v where cr: "run_state (os_create path False 420) u = (b, v)" by fastforce
  show thesis
  proof (cases a)
    case (Inl e)
    with mk assms show thesis
      by (intro early[of "Wrapf ''create vm lock directory: %w'' [] e"])
        (auto simp: acquire_def dest: same_files_mkdir_all)
  next
    case (Inr z)
    note mk' = mk[unfolded Inr]
    show thesis
    proof (cases b)
      case (Inl e)
      with cr create_effect[OF cr] have "same_files u v" by auto
      with Inl cr mk' assms show thesis
        by (intro early[of "Wrapf ''open vm lock %q: %w'' [path] e"])
          (auto simp: acquire_def dest: same_files_mkdir_all intro: same_files_trans)
    next
      case (Inr f)
      obtain c y where fl: "run_state (sys_flock_ex f) v = (c, y)" by fastforce
      show thesis
      proof (cases c)
        case (Inl x)
        with Inr cr mk' fl assms show thesis
          by (intro refused[of u f v x y]) (auto simp: acquire_def split: prod.splits)
      next
        case c: (Inr z)
        have "r = Inr (Some f)" "same_files y w'"
          using c Inr cr mk' fl assms
          by (auto simp: acquire_def split: prod.splits
              dest!: same_files_truncate same_files_seek same_files_write intro: same_files_trans)
        with c Inr cr mk' fl show thesis by (intro locked[of u f v y]) auto
      qed
    qed
  qed
qed


lemma lock_stays:
  assumes "run_state (os_create s tr m) w = (Inr g, v)" and "fresh_fds w" and "holds w f"
  shows "holds v f" and "g \<noteq> f" and "fresh_fds v"
proof -
  obtain i where v: "inode_of v = (inode_of w)(next_fd w := Some i)" "flocks v = flocks w"
      "next_fd v = Suc (next_fd w)" and g: "g = next_fd w"
    using create_effect[OF assms(1)] by auto
  have "f \<noteq> next_fd w" using assms(2,3) by (auto simp: fresh_fds_alt holds_inode)
  with v g assms(2,3) show "holds v f" "g \<noteq> f" "fresh_fds v"
    by (auto simp: fresh_fds_alt holds_inode less_Suc_eq)
qed

lemma close_other_holds:
  "holds w f \<Longrightarrow> g \<noteq> f \<Longrightarrow> run_state (os_close g) w = (r, w') \<Longrightarrow> holds w' f"
  by (drule close_effect) (auto simp: holds_inode same_files_def)

text \<open>
  A successful \<open>Acquire\<close> of a non-blank path returns an open file that has the lock of
  its inode, whichever of the remaining calls fail.
\<close>

theorem acquire_success_holds:
  assumes "run_state (acquire stamp path) w = (Inr (Some f), w')"
  shows "holds w' f \<and> \<not> blank path"
proof -
  have nb: "\<not> blank path" using assms by (auto simp: acquire_def split: if_splits)
  from assms nb show ?thesis
  proof (cases rule: acquire_cases)
    case (locked u g v y)
    with flock_effect[OF locked(3)] have "holds y f" by (auto simp: holds_inode)
    with locked nb show ?thesis by (simp add: holds_same)
  qed auto
qed

text \<open>
  C12. While a lock is held, an \<open>Acquire\<close> of a path that names the locked inode never
  succeeds, and the holder still has the lock afterwards, also when the call fails half way.
\<close>

theorem acquire_refused_while_held:
  assumes "fresh_fds w" and "holds w f" and "inode_of w f = Some i"
    and "resolve w path True = Inr p" and "look w p = Some (Reg i)" and "\<not> blank path"
    and "run_state (acquire stamp path) w = (r, w')"
  shows "(\<exists>e. r = Inl e) \<and> holds w' f"
  using assms(7,6)
proof (cases rule: acquire_cases)
  case (early e)
  with assms(2) show ?thesis by (simp add: holds_same)
next
  case (refused u g v x y)
  note mk = same_files_mkdir_all[OF refused(1)]
  have "holds u f" "fresh_fds u" using assms(1,2) mk by (auto simp: holds_same fresh_fds_same)
  note v = lock_stays[OF refused(2) this(2,1)]
  have "holds y f" using flock_effect[OF refused(3)] v(1) by (auto simp: holds_same)
  then have "holds w' f"
    using refused(5) v(2) close_other_holds[of y f g] by (metis prod.collapse)
  with refused(4) show ?thesis by blast
next
  case (locked u g v y)
  note mk = same_files_mkdir_all[OF locked(1)]
  have u: "holds u f" "fresh_fds u" using assms(1,2) mk by (auto simp: holds_same fresh_fds_same)
  have grow: "grows w u" by (rule obeysD[OF growing_mkdir_all locked(1)])
  have "inode_of v g = Some i"
    using create_existing[OF locked(2)] resolve_grows[OF assms(4) _ grow]
      look_grows_Some[OF grow assms(5)] assms(5) by auto
  moreover note v = lock_stays[OF locked(2) u(2,1)]
  moreover have "flocks v i = Some f"
  proof -
    have "flocks w i = Some f" using assms(2,3) by (simp add: holds_inode)
    then show ?thesis using mk create_effect[OF locked(2)] by (auto simp: same_files_def)
  qed
  ultimately have False using flock_effect[OF locked(3)] by auto
  then show ?thesis ..
qed

lemma release_effect:
  assumes "holds w f" and "run_state (release (Some f) path) w = ((), w')"
  shows "open_files w' f = None \<and> (\<forall>i. flocks w' i \<noteq> Some f)"
proof -
  obtain a u where un: "run_state (sys_flock_un f) w = (a, u)" by fastforce
  obtain b v where cl: "run_state (os_close f) u = (b, v)" by fastforce
  obtain d z where rm: "run_state (os_remove path) v = (d, z)" by fastforce
  have "inode_of u f \<noteq> None"
    using assms(1) unlock_effect[OF un] by (auto simp: holds_inode)
  then have "open_files u f \<noteq> None" by (simp add: open_files_inode)
  then have v: "open_files v f = None" "\<And>i. flocks v i \<noteq> Some f"
    using cl by (auto simp: os_close_def Let_def split: option.splits if_splits)
  have "w' = v \<or> w' = z" using assms(2) un cl rm by (auto simp: release_def split: if_splits)
  with v same_files_remove[OF rm] show ?thesis
    by (auto simp: open_files_inode same_files_def)
qed

text \<open>
  \<open>Release\<close> always closes the file and gives up every lock it had, even when the
  explicit unlock or the removal of the path fails.
\<close>

theorem release_frees:
  assumes "holds w f" and "run_state (release (Some f) path) w = ((), w')"
  shows "open_files w' f = None \<and> (\<forall>i. flocks w' i \<noteq> Some f)"
  using assms by (rule release_effect)

section \<open>Concrete runs\<close>

definition one_locks :: procs where
  "one_locks = fold (advance [] ''/l'') [0, 0, 0] (empty_world, all_idle)"

definition held_world :: world where
  "held_world = snd (run_state (acquire [] ''/l'') empty_world)"

lemma fresh_empty: "fresh_fds empty_world"
  by (simp add: fresh_fds_def empty_world_def)

lemma lock_path_free: "resolve empty_world ''/l'' True = Inr [''l'']" "look empty_world [''l''] = None"
  by (simp_all add: resolve_def look_def locate_def max_links_def empty_world_def comps_def)

lemma one_locks_eval:
  "one_locks = (fst one_locks, snd one_locks)"
  "snd one_locks 0 = Holding 3" "inode_of (fst one_locks) 3 = Some 0"
  by (simp_all add: one_locks_def advance_def all_idle_def inode_of_def eval_calls)

lemma one_locks_run: "lock_run [] ''/l'' (empty_world, all_idle) (fst one_locks, snd one_locks)"
  using lock_run_sched[of "[]" "''/l''" "(empty_world, all_idle)" "[0, 0, 0]"]
  by (simp add: one_locks_def)

lemma one_locks_keeping:
  "keeping_run [] ''/l'' (empty_world, all_idle) (fst one_locks, snd one_locks)"
proof -
  let ?s0 = "(empty_world, all_idle)" and ?adv = "advance [] ''/l'' 0"
  have "snd (?adv ?s0) 0 = Opened 3" "snd (?adv (?adv ?s0)) 0 = Locked 3"
    by (simp_all add: advance_def all_idle_def eval_calls)
  then have "keeping_run [] ''/l'' ?s0 (?adv (?adv (?adv ?s0)))"
    by (intro keep_step keep_start) (simp_all add: all_idle_def)
  then show ?thesis by (simp add: one_locks_def)
qed

theorem lock_one_holder_per_inode_witness:
  "{k. \<exists>g. owns (snd one_locks k) = Some g \<and> inode_of (fst one_locks) g = Some 0} = {0}"
  using lock_one_holder_per_inode[OF fresh_empty one_locks_run, of _ _ 0 3] one_locks_eval(2,3)
  by auto

theorem lock_one_holder_per_path_while_kept_witness:
  "{k. owns (snd one_locks k) \<noteq> None} = {0}"
  using lock_one_holder_per_path_while_kept[OF fresh_empty lock_path_free(1) disjI1[OF lock_path_free(2)]
      one_locks_keeping, of _ _ 0 3] one_locks_eval(2)
  by auto

lemma lock_path_plain: "\<not> blank ''/l''" "dir ''/l'' = ''/''" "comps ''/'' = []" "comps ''/l'' = [''l'']" "comps ''l'' = [''l'']"
  by (rule not_blank; simp add: leading_space_def space_runes_def)
    (simp_all add: dir_def clean_def comps_def clean_comps_def render_def)

lemma held_world_run:
  "run_state (acquire [] ''/l'') empty_world =
    (Inr (Some 3), empty_world\<lparr>tree := [((''root'', []), Dir 493), ((''root'', [''l'']), Reg 0)],
       inodes := (inodes empty_world)(0 := (420, [])), next_ino := 1,
       open_files := (open_files empty_world)(3 := Some (0, 0)), next_fd := 4,
       flocks := (flocks empty_world)(0 := Some 3), tick := 6\<rparr>)"
  unfolding acquire_def
  by (simp add: lock_path_plain os_mkdir_all_def eval_calls[unfolded comps_def] is_dir_def fun_eq_iff)

lemma held_world_eval:
  "run_state (acquire [] ''/l'') empty_world = (Inr (Some 3), held_world)"
  "holds held_world 3" "inode_of held_world 3 = Some 0"
  "resolve held_world ''/l'' True = Inr [''l'']" "look held_world [''l''] = Some (Reg 0)"
  using held_world_run
  by (simp_all add: held_world_def holds_def inode_of_def resolve_def look_def locate_def
      lock_path_plain max_links_def empty_world_def)

lemma held_world_fresh: "fresh_fds held_world"
  using held_world_run by (auto simp: held_world_def fresh_fds_def empty_world_def split: if_splits)

theorem acquire_success_holds_witness: "holds held_world 3"
  using acquire_success_holds[OF held_world_eval(1)] by simp

theorem acquire_refused_while_held_witness:
  "(\<exists>e. fst (run_state (acquire [] ''/l'') held_world) = Inl e) \<and>
    holds (snd (run_state (acquire [] ''/l'') held_world)) 3"
  using acquire_refused_while_held[OF held_world_fresh held_world_eval(2-5), of "[]"
      "fst (run_state (acquire [] ''/l'') held_world)" "snd (run_state (acquire [] ''/l'') held_world)"]
  by (simp add: lock_path_plain)

theorem release_frees_witness:
  "open_files (snd (run_state (release (Some 3) ''/l'') held_world)) 3 = None"
  by (rule release_frees[where path = "''/l''", OF held_world_eval(2), THEN conjunct1])
    (simp add: prod_eq_iff)

end
