(* ===== verification/Go_Netip.thy ===== *)
theory Go_Netip
  imports Go_Strings
begin

text \<open>
  Package \<open>net/netip\<close> as the sources use it: \<open>ParseAddr\<close>, \<open>ParsePrefix\<close>, and
  \<open>net.ParseIP\<close>, which is \<open>ParseAddr\<close> without zones. Addresses are kept as octets or as
  16-bit groups; an error is \<open>None\<close>.
\<close>

datatype addr = V4 "nat list" | V6 "nat list" string

text \<open>An octet: digits, no leading zero, at most 255.\<close>

definition octet :: "string \<Rightarrow> nat option" where
  "octet s =
    (if s = [] \<or> (length s > 1 \<and> hd s = CHR ''0'') then None
     else (case parse_digits 0 s of
        None \<Rightarrow> None
      | Some n \<Rightarrow> if n \<le> 255 then Some n else None))"

definition parse_ipv4 :: "string \<Rightarrow> nat list option" where
  "parse_ipv4 s =
    (let parts = map octet (split_at (CHR ''.'') s) in
     if length parts = 4 \<and> None \<notin> set parts then Some (map the parts) else None)"

definition hex_val :: "char \<Rightarrow> nat option" where
  "hex_val c =
    (let n = of_char c in
     if 48 \<le> n \<and> n \<le> 57 then Some (n - 48)
     else if 97 \<le> n \<and> n \<le> 102 then Some (n - 87)
     else if 65 \<le> n \<and> n \<le> 70 then Some (n - 55)
     else None)"

fun take_hex :: "nat \<Rightarrow> string \<Rightarrow> nat \<times> nat \<times> string" where
  "take_hex acc [] = (0, acc, [])"
| "take_hex acc (c # cs) =
    (case hex_val c of
       None \<Rightarrow> (0, acc, c # cs)
     | Some d \<Rightarrow> (case take_hex (16 * acc + d) cs of (n, a, rest) \<Rightarrow> (Suc n, a, rest)))"

text \<open>
  The loop of \<open>parseIPv6\<close>: \<open>fuel\<close> is the number of groups still free (8 at the start),
  \<open>gs\<close> the groups so far, \<open>el\<close> the position of the ellipsis. The result is the groups,
  the ellipsis and what is left of the string.
\<close>

fun ipv6_groups ::
  "nat \<Rightarrow> nat list \<Rightarrow> nat option \<Rightarrow> string \<Rightarrow> (nat list \<times> nat option \<times> string) option" where
  "ipv6_groups 0 gs el s = Some (gs, el, s)"
| "ipv6_groups (Suc fuel) gs el s =
    (case take_hex 0 s of (n, acc, rest) \<Rightarrow>
       if n = 0 \<or> n > 4 then None
       else if rest \<noteq> [] \<and> hd rest = CHR ''.'' then
         (if (el = None \<and> length gs \<noteq> 6) \<or> length gs + 2 > 8 then None
          else (case parse_ipv4 s of
              Some [a, b, c, d] \<Rightarrow> Some (gs @ [256 * a + b, 256 * c + d], el, [])
            | _ \<Rightarrow> None))
       else if rest = [] then Some (gs @ [acc], el, [])
       else if hd rest \<noteq> CHR '':'' then None
       else if tl rest = [] then None
       else if hd (tl rest) = CHR '':'' then
         (if el \<noteq> None then None
          else if tl (tl rest) = [] then Some (gs @ [acc], Some (Suc (length gs)), [])
          else ipv6_groups fuel (gs @ [acc]) (Some (Suc (length gs))) (tl (tl rest)))
       else ipv6_groups fuel (gs @ [acc]) el (tl rest))"

definition ipv6_expand :: "nat list \<Rightarrow> nat option \<Rightarrow> string \<Rightarrow> nat list option" where
  "ipv6_expand gs el s =
    (if s \<noteq> [] then None
     else if length gs < 8 then
       map_option (\<lambda>k. take k gs @ replicate (8 - length gs) 0 @ drop k gs) el
     else if el \<noteq> None then None
     else Some gs)"

definition parse_ipv6 :: "string \<Rightarrow> addr option" where
  "parse_ipv6 s0 =
    (let s = takeWhile (\<lambda>c. c \<noteq> CHR ''%'') s0;
         has_zone = CHR ''%'' \<in> set s0;
         zone = tl (dropWhile (\<lambda>c. c \<noteq> CHR ''%'') s0);
         zone = (if has_zone then zone else []) in
     if has_zone \<and> zone = [] then None
     else if has_prefix ''::'' s then
       (if drop 2 s = [] then Some (V6 (replicate 8 0) zone)
        else Option.bind (ipv6_groups 8 [] (Some 0) (drop 2 s)) (\<lambda>(gs, el, rest).
          map_option (\<lambda>g. V6 g zone) (ipv6_expand gs el rest)))
     else Option.bind (ipv6_groups 8 [] None s) (\<lambda>(gs, el, rest).
       map_option (\<lambda>g. V6 g zone) (ipv6_expand gs el rest)))"

definition parse_addr :: "string \<Rightarrow> addr option" where
  "parse_addr s =
    (case find (\<lambda>c. c \<in> {CHR ''.'', CHR '':'', CHR ''%''}) s of
       None \<Rightarrow> None
     | Some c \<Rightarrow>
         if c = CHR ''.'' then map_option V4 (parse_ipv4 s)
         else if c = CHR '':'' then parse_ipv6 s
         else None)"

text \<open>\<open>net.ParseIP\<close>: no zone.\<close>

definition parse_ip :: "string \<Rightarrow> addr option" where
  "parse_ip s =
    (case parse_addr s of
       Some (V6 g z) \<Rightarrow> if z = [] then Some (V6 g z) else None
     | r \<Rightarrow> r)"

definition parse_prefix :: "string \<Rightarrow> (addr \<times> int) option" where
  "parse_prefix s =
    (if CHR ''/'' \<notin> set s then None
     else
       (let bits_str = rev (takeWhile (\<lambda>c. c \<noteq> CHR ''/'') (rev s));
            addr_str = rev (tl (dropWhile (\<lambda>c. c \<noteq> CHR ''/'') (rev s)))
        in case parse_addr addr_str of
             None \<Rightarrow> None
           | Some a \<Rightarrow>
               if (case a of V6 _ z \<Rightarrow> z \<noteq> [] | V4 _ \<Rightarrow> False) then None
               else if length bits_str > 1 \<and> (case digit_val (hd bits_str) of None \<Rightarrow> True | Some d \<Rightarrow> d = 0)
               then None
               else (case atoi bits_str of
                   None \<Rightarrow> None
                 | Some n \<Rightarrow>
                     if 0 \<le> n \<and> n \<le> (case a of V4 _ \<Rightarrow> 32 | V6 _ _ \<Rightarrow> 128) then Some (a, n) else None)))"

end
