(* ===== verification/VM_Config.thy ===== *)
theory VM_Config
  imports Go_Netip
begin

text \<open>
  \<open>vm/runner.go\<close>, the configuration: boot and network modes, \<open>VMConfig\<close>, its validation and
  the argument vector for the manager process.
\<close>

section \<open>Modes\<close>

text \<open>\<open>BootMode\<close> and \<open>NetworkMode\<close> are string types; their constants:\<close>

definition boot_linux :: string where "boot_linux = ''linux''"
definition boot_efi :: string where "boot_efi = ''efi''"
definition net_nat :: string where "net_nat = ''nat''"
definition net_bridged :: string where "net_bridged = ''bridged''"
definition net_hostonly :: string where "net_hostonly = ''hostonly''"

lemmas mode_defs = boot_linux_def boot_efi_def net_nat_def net_bridged_def net_hostonly_def

definition boot_valid :: "string \<Rightarrow> bool" where
  "boot_valid m \<longleftrightarrow> m = boot_linux \<or> m = boot_efi"

definition parse_boot_mode :: "string \<Rightarrow> string go" where
  "parse_boot_mode raw =
    (let m = to_lower (trim_space raw) in
     if m = boot_linux then Inr boot_linux
     else if m = boot_efi then Inr boot_efi
     else Inl (Errorf ''invalid boot mode %q (expected %q or %q)'' [raw, boot_linux, boot_efi]))"

definition net_valid :: "string \<Rightarrow> bool" where
  "net_valid m \<longleftrightarrow> m = net_nat \<or> m = net_bridged \<or> m = net_hostonly"

definition parse_network_mode :: "string \<Rightarrow> string go" where
  "parse_network_mode raw =
    (let m = to_lower (trim_space raw) in
     if m = net_nat then Inr net_nat
     else if m = net_bridged then Inr net_bridged
     else if m = net_hostonly then Inr net_hostonly
     else Inl (Errorf ''invalid network mode %q (expected %q, %q, or %q)''
       [raw, net_nat, net_bridged, net_hostonly]))"

section \<open>VMConfig\<close>

record vm_config =
  boot_mode :: string
  kernel_path :: string
  initrd_path :: string
  root_image :: string
  extra_disk_paths :: "string list"
  memory_mib :: int
  cpus :: int
  agent_vsock_port :: int
  proxy_vsock_ports :: "int list"
  agent_ready_socket_path :: string
  lock_file_path :: string
  enable_network :: bool
  network_mode :: string
  bridge_interface :: string
  vm_network_cidr :: string
  vm_network_gateway :: string
  vm_network_if_name :: string
  enable_virtiofs :: bool
  virtiofs_host_dir :: string
  virtiofs_tag :: string
  virtiofs_mount_point :: string
  overlay_state_device :: string
  overlay_state_mount :: string
  verbose :: bool

text \<open>The zero value of the struct.\<close>

definition zero_config :: vm_config where
  "zero_config = \<lparr>boot_mode = [], kernel_path = [], initrd_path = [], root_image = [],
     extra_disk_paths = [], memory_mib = 0, cpus = 0, agent_vsock_port = 0, proxy_vsock_ports = [],
     agent_ready_socket_path = [], lock_file_path = [], enable_network = False, network_mode = [],
     bridge_interface = [], vm_network_cidr = [], vm_network_gateway = [], vm_network_if_name = [],
     enable_virtiofs = False, virtiofs_host_dir = [], virtiofs_tag = [], virtiofs_mount_point = [],
     overlay_state_device = [], overlay_state_mount = [], verbose = False\<rparr>"

text \<open>
  \<open>VMConfig.Validate\<close>, one check after the other; \<open>None\<close> is the nil error. \<open>net_err\<close> is the
  text of the error of \<open>netip\<close>, which the model keeps abstract.
\<close>

definition validate_network :: "vm_config \<Rightarrow> goerr option" where
  "validate_network c =
    (if network_mode c \<noteq> [] \<and> \<not> net_valid (network_mode c) then
       Some (Errorf ''invalid network mode %q (expected %q, %q, or %q)''
         [network_mode c, net_nat, net_bridged, net_hostonly])
     else if vm_network_cidr c \<noteq> [] \<and> parse_prefix (vm_network_cidr c) = None then
       Some (Wrapf ''invalid vm network cidr %q: %w'' [vm_network_cidr c] (Errorf ''netip.ParsePrefix'' []))
     else if vm_network_cidr c \<noteq> [] \<and> vm_network_if_name c = [] then
       Some (Errorf ''vm network ifname is required when vm network cidr is set'' [])
     else if vm_network_gateway c \<noteq> [] \<and> parse_addr (vm_network_gateway c) = None then
       Some (Wrapf ''invalid vm network gateway %q: %w'' [vm_network_gateway c] (Errorf ''netip.ParseAddr'' []))
     else None)"

definition validate_virtiofs :: "vm_config \<Rightarrow> goerr option" where
  "validate_virtiofs c =
    (if blank (virtiofs_host_dir c) then
       Some (Errorf ''virtiofs host dir is required when virtiofs is enabled'' [])
     else if blank (virtiofs_tag c) then
       Some (Errorf ''virtiofs tag is required when virtiofs is enabled'' [])
     else if blank (overlay_state_mount c) then
       Some (Errorf ''overlay state mount is required when virtiofs is enabled'' [])
     else None)"

definition validate :: "vm_config \<Rightarrow> goerr option" where
  "validate c =
    (if root_image c = [] then Some (Errorf ''root image is required'' [])
     else if list_ex blank (extra_disk_paths c) then
       Some (Errorf ''extra disk path cannot be empty'' [])
     else if boot_mode c \<noteq> [] \<and> \<not> boot_valid (boot_mode c) then
       Some (Errorf ''invalid boot mode %q (expected %q or %q)'' [boot_mode c, boot_linux, boot_efi])
     else if boot_mode c = boot_linux \<and> kernel_path c = [] then
       Some (Errorf ''kernel path is required in linux boot mode'' [])
     else if memory_mib c \<le> 0 then Some (Errorf ''memory MiB must be > 0'' [])
     else if cpus c \<le> 0 then Some (Errorf ''cpus must be > 0'' [])
     else if agent_vsock_port c \<le> 0 then Some (Errorf ''agent vsock port must be > 0'' [])
     else (case find (\<lambda>p. p \<le> 0) (proxy_vsock_ports c) of
       Some p \<Rightarrow> Some (Errorf ''proxy vsock port must be > 0: %d'' [itoa p])
     | None \<Rightarrow>
         if agent_ready_socket_path c = [] then
           Some (Errorf ''agent readiness unix socket path is required'' [])
         else
           (case (if enable_network c then validate_network c else None) of
              Some e \<Rightarrow> Some e
            | None \<Rightarrow> if enable_virtiofs c then validate_virtiofs c else None)))"

text \<open>A flag with its value, left out when the value is empty.\<close>

definition opt_arg :: "string \<Rightarrow> string \<Rightarrow> string list" where
  "opt_arg flag v = (if v \<noteq> [] then [flag, v] else [])"

definition base_args :: "vm_config \<Rightarrow> string list" where
  "base_args c =
    [''--boot-mode'', boot_mode c,
     ''--root-image'', root_image c,
     ''--memory-mib'', itoa (memory_mib c),
     ''--cpus'', itoa (cpus c),
     ''--agent-vsock-port'', itoa (agent_vsock_port c),
     ''--agent-ready-socket'', agent_ready_socket_path c,
     ''--enable-network'', format_bool (enable_network c),
     ''--network-mode'', network_mode c,
     ''--enable-virtiofs'', format_bool (enable_virtiofs c)]"

definition manager_args :: "vm_config \<Rightarrow> string list go" where
  "manager_args c0 =
    (let c = (if boot_mode c0 = [] then c0\<lparr>boot_mode := boot_linux\<rparr> else c0) in
     case validate c of
       Some e \<Rightarrow> Inl e
     | None \<Rightarrow>
         (let c = (if network_mode c = [] then c\<lparr>network_mode := net_hostonly\<rparr> else c) in
          Inr (base_args c
            @ opt_arg ''--virtiofs-host-dir'' (virtiofs_host_dir c)
            @ opt_arg ''--virtiofs-tag'' (virtiofs_tag c)
            @ opt_arg ''--virtiofs-mount-point'' (virtiofs_mount_point c)
            @ opt_arg ''--overlay-state-device'' (overlay_state_device c)
            @ opt_arg ''--overlay-state-mount'' (overlay_state_mount c)
            @ concat (map (\<lambda>d. [''--extra-disk'', d]) (extra_disk_paths c))
            @ concat (map (\<lambda>p. [''--proxy-vsock-port'', itoa p]) (proxy_vsock_ports c))
            @ opt_arg ''--bridge-interface'' (bridge_interface c)
            @ opt_arg ''--vm-network-cidr'' (vm_network_cidr c)
            @ opt_arg ''--vm-network-gateway'' (vm_network_gateway c)
            @ opt_arg ''--vm-network-ifname'' (vm_network_if_name c)
            @ (if boot_mode c = boot_linux then [''--kernel'', kernel_path c] else [])
            @ opt_arg ''--initrd'' (initrd_path c)
            @ (if verbose c then [''--verbose''] else []))))"

end
