(* ===== verification/Manager_CLI.thy ===== *)
theory Manager_CLI
  imports VM_Config
begin

text \<open>
  The other end of the argument vector: \<open>parseArgs\<close> and \<open>bootArgs\<close> of the Swift manager
  (\<open>manager/Sources/vmmanager/main.swift\<close>). The properties join it to \<open>manager_args\<close>: the
  manager reads back the configuration the runner was given.
\<close>

text \<open>The local variables of \<open>parseArgs\<close>; \<open>None\<close> is Swift's nil.\<close>

record manager_config =
  m_boot_mode :: string
  m_kernel_path :: "string option"
  m_initrd_path :: "string option"
  m_root_image_path :: "string option"
  m_extra_disk_paths :: "string list"
  m_memory_mib :: int
  m_cpu_count :: int
  m_agent_vsock_port :: int
  m_proxy_vsock_ports :: "int list"
  m_agent_ready_socket_path :: "string option"
  m_enable_network :: bool
  m_network_mode :: string
  m_bridge_interface :: "string option"
  m_vm_network_cidr :: "string option"
  m_vm_network_gateway :: "string option"
  m_vm_network_if_name :: "string option"
  m_enable_virtiofs :: bool
  m_virtiofs_host_dir :: "string option"
  m_virtiofs_tag :: "string option"
  m_virtiofs_mount_point :: "string option"
  m_overlay_state_device :: "string option"
  m_overlay_state_mount :: "string option"
  m_verbose :: bool

definition manager_defaults :: manager_config where
  "manager_defaults = \<lparr>m_boot_mode = boot_linux, m_kernel_path = None, m_initrd_path = None,
     m_root_image_path = None, m_extra_disk_paths = [], m_memory_mib = 512, m_cpu_count = 2,
     m_agent_vsock_port = 7000, m_proxy_vsock_ports = [], m_agent_ready_socket_path = None,
     m_enable_network = True, m_network_mode = net_nat, m_bridge_interface = None,
     m_vm_network_cidr = None, m_vm_network_gateway = None, m_vm_network_if_name = None,
     m_enable_virtiofs = False, m_virtiofs_host_dir = None, m_virtiofs_tag = None,
     m_virtiofs_mount_point = None, m_overlay_state_device = None, m_overlay_state_mount = None,
     m_verbose = False\<rparr>"

text \<open>The ways out of \<open>parseArgs\<close> other than its result.\<close>

datatype cli_error = InvalidArg string | UsageExit int string

text \<open>Swift's \<open>UInt64(_ : String)\<close>; \<open>Int(_ : String)\<close> is \<open>atoi\<close>.\<close>

definition swift_uint64 :: "string \<Rightarrow> int option" where
  "swift_uint64 s =
    (let neg = (s \<noteq> [] \<and> hd s = CHR ''-'');
         body = (if s \<noteq> [] \<and> hd s \<in> {CHR ''-'', CHR ''+''} then tl s else s)
     in if body = [] then None
        else case parse_digits 0 body of
            None \<Rightarrow> None
          | Some n \<Rightarrow> if int n < 2 ^ 64 \<and> (neg \<longrightarrow> n = 0) then Some (int n) else None)"

definition swift_bool :: "string \<Rightarrow> bool option" where
  "swift_bool s =
    (let raw = to_lower s in
     if raw \<in> {''true'', ''1'', ''yes'', ''on''} then Some True
     else if raw \<in> {''false'', ''0'', ''no'', ''off''} then Some False
     else None)"

definition or_else :: "'a option \<Rightarrow> 'a \<Rightarrow> 'a" where
  "or_else x d = (case x of None \<Rightarrow> d | Some v \<Rightarrow> v)"

text \<open>One \<open>case\<close> of the switch that takes a value; \<open>None\<close> is the default case.\<close>

definition set_flag :: "string \<Rightarrow> string \<Rightarrow> manager_config \<Rightarrow> (cli_error + manager_config) option" where
  "set_flag arg v m =
    (if arg = ''--boot-mode'' then
       Some (if v = boot_linux \<or> v = boot_efi then Inr (m\<lparr>m_boot_mode := v\<rparr>)
             else Inl (InvalidArg ''--boot-mode must be one of: linux, efi''))
     else if arg = ''--kernel'' then Some (Inr (m\<lparr>m_kernel_path := Some v\<rparr>))
     else if arg = ''--initrd'' then Some (Inr (m\<lparr>m_initrd_path := Some v\<rparr>))
     else if arg = ''--root-image'' then Some (Inr (m\<lparr>m_root_image_path := Some v\<rparr>))
     else if arg = ''--extra-disk'' then
       Some (Inr (m\<lparr>m_extra_disk_paths := m_extra_disk_paths m @ [v]\<rparr>))
     else if arg = ''--memory-mib'' then
       Some (Inr (m\<lparr>m_memory_mib := or_else (swift_uint64 v) (m_memory_mib m)\<rparr>))
     else if arg = ''--cpus'' then
       Some (Inr (m\<lparr>m_cpu_count := or_else (atoi v) (m_cpu_count m)\<rparr>))
     else if arg = ''--agent-vsock-port'' then
       Some (Inr (m\<lparr>m_agent_vsock_port := or_else (atoi v) (m_agent_vsock_port m)\<rparr>))
     else if arg = ''--proxy-vsock-port'' then
       Some (case atoi v of
           Some p \<Rightarrow>
             if p > 0 then Inr (m\<lparr>m_proxy_vsock_ports := m_proxy_vsock_ports m @ [p]\<rparr>)
             else Inl (InvalidArg ''--proxy-vsock-port must be a positive integer'')
         | None \<Rightarrow> Inl (InvalidArg ''--proxy-vsock-port must be a positive integer''))
     else if arg = ''--agent-ready-socket'' then
       Some (Inr (m\<lparr>m_agent_ready_socket_path := Some v\<rparr>))
     else if arg = ''--enable-network'' then
       Some (case swift_bool v of
           Some b \<Rightarrow> Inr (m\<lparr>m_enable_network := b\<rparr>)
         | None \<Rightarrow> Inl (InvalidArg ''--enable-network must be true/false''))
     else if arg = ''--network-mode'' then
       Some (if v = net_nat \<or> v = net_bridged \<or> v = net_hostonly then Inr (m\<lparr>m_network_mode := v\<rparr>)
             else Inl (InvalidArg ''--network-mode must be one of: nat, bridged, hostonly''))
     else if arg = ''--bridge-interface'' then Some (Inr (m\<lparr>m_bridge_interface := Some v\<rparr>))
     else if arg = ''--vm-network-cidr'' then Some (Inr (m\<lparr>m_vm_network_cidr := Some v\<rparr>))
     else if arg = ''--vm-network-gateway'' then Some (Inr (m\<lparr>m_vm_network_gateway := Some v\<rparr>))
     else if arg = ''--vm-network-ifname'' then Some (Inr (m\<lparr>m_vm_network_if_name := Some v\<rparr>))
     else if arg = ''--enable-virtiofs'' then
       Some (case swift_bool v of
           Some b \<Rightarrow> Inr (m\<lparr>m_enable_virtiofs := b\<rparr>)
         | None \<Rightarrow> Inl (InvalidArg ''--enable-virtiofs must be true/false''))
     else if arg = ''--virtiofs-host-dir'' then Some (Inr (m\<lparr>m_virtiofs_host_dir := Some v\<rparr>))
     else if arg = ''--virtiofs-tag'' then Some (Inr (m\<lparr>m_virtiofs_tag := Some v\<rparr>))
     else if arg = ''--virtiofs-mount-point'' then Some (Inr (m\<lparr>m_virtiofs_mount_point := Some v\<rparr>))
     else if arg = ''--overlay-state-device'' then Some (Inr (m\<lparr>m_overlay_state_device := Some v\<rparr>))
     else if arg = ''--overlay-state-mount'' then Some (Inr (m\<lparr>m_overlay_state_mount := Some v\<rparr>))
     else None)"

fun parse_flags :: "manager_config \<Rightarrow> string list \<Rightarrow> cli_error + manager_config" where
  "parse_flags m [] = Inr m"
| "parse_flags m [arg] =
    (if arg = ''--verbose'' then Inr (m\<lparr>m_verbose := True\<rparr>)
     else if arg = ''--help'' \<or> arg = ''-h'' then Inl (UsageExit 0 [])
     else if set_flag arg [] m = None then Inl (InvalidArg arg)
     else Inl (UsageExit 1 (''missing value for '' @ arg)))"
| "parse_flags m (arg # v # rest) =
    (if arg = ''--verbose'' then parse_flags (m\<lparr>m_verbose := True\<rparr>) (v # rest)
     else if arg = ''--help'' \<or> arg = ''-h'' then Inl (UsageExit 0 [])
     else (case set_flag arg v m of
         None \<Rightarrow> Inl (InvalidArg arg)
       | Some (Inl e) \<Rightarrow> Inl e
       | Some (Inr m') \<Rightarrow> parse_flags m' rest))"

definition parse_manager_args :: "string list \<Rightarrow> cli_error + manager_config" where
  "parse_manager_args args =
    (case parse_flags manager_defaults args of
       Inl e \<Rightarrow> Inl e
     | Inr m \<Rightarrow>
         if m_root_image_path m = None then Inl (UsageExit 1 ''missing required --root-image'')
         else if m_boot_mode m = boot_linux \<and> m_kernel_path m = None then
           Inl (UsageExit 1 ''missing required --kernel for linux boot mode'')
         else Inr m)"

text \<open>\<open>bootArgs\<close>: the kernel command line the guest agent reads.\<close>

definition cmdline_arg :: "string \<Rightarrow> string option \<Rightarrow> string list" where
  "cmdline_arg key v = (case v of None \<Rightarrow> [] | Some s \<Rightarrow> if s = [] then [] else [key @ CHR ''='' # s])"

fun join_with :: "string \<Rightarrow> string list \<Rightarrow> string" where
  "join_with sep [] = []"
| "join_with sep [x] = x"
| "join_with sep (x # y # ys) = x @ sep @ join_with sep (y # ys)"

definition boot_arg_list :: "manager_config \<Rightarrow> string list" where
  "boot_arg_list m =
    [''console=hvc0'', ''loglevel=7'', ''printk.time=1'', ''root=/dev/vda rw'', ''init=/sbin/agent'',
     ''agent.vsock_port='' @ itoa (m_agent_vsock_port m)]
    @ (if m_enable_network m then
         cmdline_arg ''agent.network_cidr'' (m_vm_network_cidr m)
         @ cmdline_arg ''agent.network_gateway'' (m_vm_network_gateway m)
         @ cmdline_arg ''agent.network_ifname'' (m_vm_network_if_name m)
       else [])
    @ (if m_enable_virtiofs m then
         (case m_virtiofs_tag m of
            None \<Rightarrow> []
          | Some t \<Rightarrow> if t = [] then [] else [''agent.virtiofs=1'', ''agent.virtiofs_tag='' @ t])
         @ cmdline_arg ''agent.virtiofs_mount'' (m_virtiofs_mount_point m)
         @ cmdline_arg ''agent.overlay_device'' (m_overlay_state_device m)
         @ cmdline_arg ''agent.overlay_mount'' (m_overlay_state_mount m)
       else [])"

definition boot_args :: "manager_config \<Rightarrow> string" where
  "boot_args m = join_with '' '' (boot_arg_list m)"

end
