(* ===== verification/Config_Props.thy ===== *)
theory Config_Props
  imports Manager_CLI
begin

text \<open>
  Properties of the configuration: what the mode parsers and the validation accept, and the
  round trip of a configuration through the argument vector into the manager.
\<close>

section \<open>Modes\<close>

text \<open>
  \<open>ParseBootMode\<close> accepts exactly the strings whose trimmed lower case is a valid mode,
  and returns that mode; printing a valid mode and parsing it gives it back.
\<close>

theorem parse_boot_mode_iff:
  "(parse_boot_mode raw = Inr m \<longleftrightarrow> m = to_lower (trim_space raw) \<and> boot_valid m) \<and>
   parse_boot_mode boot_linux = Inr boot_linux \<and> parse_boot_mode boot_efi = Inr boot_efi"
proof -
  have "trim_space ''linux'' = ''linux''" "trim_space ''efi'' = ''efi''"
    by (rule trim_space_id; simp add: leading_space_def space_runes_def)+
  then have "parse_boot_mode boot_linux = Inr boot_linux" "parse_boot_mode boot_efi = Inr boot_efi"
    by (simp_all add: parse_boot_mode_def mode_defs lower_byte_def)
  then show ?thesis by (auto simp: parse_boot_mode_def boot_valid_def Let_def)
qed

text \<open>
  \<open>ParseNetworkMode\<close> accepts exactly the strings whose trimmed lower case is a valid
  mode, and every valid mode is read back from its own text.
\<close>

theorem parse_network_mode_iff:
  "(parse_network_mode raw = Inr m \<longleftrightarrow> m = to_lower (trim_space raw) \<and> net_valid m) \<and>
   parse_network_mode net_nat = Inr net_nat \<and> parse_network_mode net_bridged = Inr net_bridged \<and>
   parse_network_mode net_hostonly = Inr net_hostonly"
proof -
  have "trim_space ''nat'' = ''nat''" "trim_space ''bridged'' = ''bridged''"
      "trim_space ''hostonly'' = ''hostonly''"
    by (rule trim_space_id; simp add: leading_space_def space_runes_def)+
  then have "parse_network_mode net_nat = Inr net_nat" "parse_network_mode net_bridged = Inr net_bridged"
      "parse_network_mode net_hostonly = Inr net_hostonly"
    by (simp_all add: parse_network_mode_def mode_defs lower_byte_def)
  then show ?thesis by (auto simp: parse_network_mode_def net_valid_def Let_def)
qed

section \<open>Validation\<close>

text \<open>What a usable configuration is, as one condition per concern.\<close>

definition network_ok :: "vm_config \<Rightarrow> bool" where
  "network_ok c \<longleftrightarrow>
     (network_mode c = [] \<or> net_valid (network_mode c)) \<and>
     (vm_network_cidr c = [] \<or>
        parse_prefix (vm_network_cidr c) \<noteq> None \<and> vm_network_if_name c \<noteq> []) \<and>
     (vm_network_gateway c = [] \<or> parse_addr (vm_network_gateway c) \<noteq> None)"

definition virtiofs_ok :: "vm_config \<Rightarrow> bool" where
  "virtiofs_ok c \<longleftrightarrow> \<not> blank (virtiofs_host_dir c) \<and> \<not> blank (virtiofs_tag c)
     \<and> \<not> blank (overlay_state_mount c)"

definition config_ok :: "vm_config \<Rightarrow> bool" where
  "config_ok c \<longleftrightarrow>
     root_image c \<noteq> [] \<and> (\<forall>d \<in> set (extra_disk_paths c). \<not> blank d) \<and>
     (boot_mode c = [] \<or> boot_valid (boot_mode c)) \<and>
     (boot_mode c = boot_linux \<longrightarrow> kernel_path c \<noteq> []) \<and>
     0 < memory_mib c \<and> 0 < cpus c \<and> 0 < agent_vsock_port c \<and>
     (\<forall>p \<in> set (proxy_vsock_ports c). 0 < p) \<and> agent_ready_socket_path c \<noteq> [] \<and>
     (enable_network c \<longrightarrow> network_ok c) \<and> (enable_virtiofs c \<longrightarrow> virtiofs_ok c)"

lemma validate_network_iff: "validate_network c = None \<longleftrightarrow> network_ok c"
  by (auto simp: validate_network_def network_ok_def)

lemma validate_virtiofs_iff: "validate_virtiofs c = None \<longleftrightarrow> virtiofs_ok c"
  by (auto simp: validate_virtiofs_def virtiofs_ok_def)

lemma find_nonpos: "find (\<lambda>p. p \<le> (0::int)) ps = None \<longleftrightarrow> (\<forall>p \<in> set ps. 0 < p)"
  by (auto simp: find_None_iff not_le)

lemma validate_iff: "validate c = None \<longleftrightarrow> config_ok c"
proof (cases "find (\<lambda>p. p \<le> 0) (proxy_vsock_ports c)")
  case None
  then have ports: "\<forall>p \<in> set (proxy_vsock_ports c). 0 < p" by (simp add: find_nonpos)
  have net: "(case (if enable_network c then validate_network c else None) of
              Some e \<Rightarrow> Some e
            | None \<Rightarrow> if enable_virtiofs c then validate_virtiofs c else None) = None \<longleftrightarrow>
         (enable_network c \<longrightarrow> network_ok c) \<and> (enable_virtiofs c \<longrightarrow> virtiofs_ok c)"
    by (auto simp: validate_network_iff[symmetric] validate_virtiofs_iff split: option.splits)
  show ?thesis unfolding validate_def config_ok_def
    using None ports net by (simp add: list_ex_iff not_le)
next
  case (Some p)
  then have "\<not> (\<forall>q \<in> set (proxy_vsock_ports c). 0 < q)"
    using find_nonpos[of "proxy_vsock_ports c"] by auto
  then show ?thesis using Some by (auto simp: validate_def config_ok_def)
qed

definition boot_default :: "vm_config \<Rightarrow> vm_config" where
  "boot_default c = (if boot_mode c = [] then c\<lparr>boot_mode := boot_linux\<rparr> else c)"

lemma manager_args_ok: "(\<exists>args. manager_args c = Inr args) \<longleftrightarrow> config_ok (boot_default c)"
  using validate_iff[of "boot_default c"]
  by (auto simp: manager_args_def boot_default_def[symmetric] Let_def split: option.splits)

text \<open>
  C30. \<open>ManagerArgs\<close> succeeds exactly on the usable configurations, after an empty boot mode
  has become linux (so that the kernel is required then too).
\<close>

theorem manager_args_accepts_iff:
  "(\<exists>args. manager_args c = Inr args) \<longleftrightarrow> config_ok (boot_default c)"
  by (rule manager_args_ok)

section \<open>The round trip\<close>

definition opt_str :: "string \<Rightarrow> string option" where
  "opt_str v = (if v = [] then None else Some v)"

text \<open>What the manager has to know of a configuration.\<close>

definition manager_view :: "vm_config \<Rightarrow> manager_config" where
  "manager_view c =
    \<lparr>m_boot_mode = boot_mode c,
     m_kernel_path = (if boot_mode c = boot_linux then Some (kernel_path c) else None),
     m_initrd_path = opt_str (initrd_path c), m_root_image_path = Some (root_image c),
     m_extra_disk_paths = extra_disk_paths c, m_memory_mib = memory_mib c, m_cpu_count = cpus c,
     m_agent_vsock_port = agent_vsock_port c, m_proxy_vsock_ports = proxy_vsock_ports c,
     m_agent_ready_socket_path = Some (agent_ready_socket_path c),
     m_enable_network = enable_network c,
     m_network_mode = (if network_mode c = [] then net_hostonly else network_mode c),
     m_bridge_interface = opt_str (bridge_interface c), m_vm_network_cidr = opt_str (vm_network_cidr c),
     m_vm_network_gateway = opt_str (vm_network_gateway c),
     m_vm_network_if_name = opt_str (vm_network_if_name c), m_enable_virtiofs = enable_virtiofs c,
     m_virtiofs_host_dir = opt_str (virtiofs_host_dir c), m_virtiofs_tag = opt_str (virtiofs_tag c),
     m_virtiofs_mount_point = opt_str (virtiofs_mount_point c),
     m_overlay_state_device = opt_str (overlay_state_device c),
     m_overlay_state_mount = opt_str (overlay_state_mount c), m_verbose = verbose c\<rparr>"

text \<open>Go's \<open>int\<close> has 64 bits.\<close>

definition int64 :: "int \<Rightarrow> bool" where
  "int64 i \<longleftrightarrow> - (2 ^ 63) \<le> i \<and> i < 2 ^ 63"

definition config_ints :: "vm_config \<Rightarrow> bool" where
  "config_ints c \<longleftrightarrow> int64 (memory_mib c) \<and> int64 (cpus c) \<and> int64 (agent_vsock_port c)
     \<and> (\<forall>p \<in> set (proxy_vsock_ports c). int64 p)"

lemma parse_flag_step:
  "set_flag arg v m = Some (Inr m') \<Longrightarrow> arg \<notin> {''--verbose'', ''--help'', ''-h''} \<Longrightarrow>
   parse_flags m (arg # v # rest) = parse_flags m' rest"
  by simp

lemma swift_uint64_itoa: "0 \<le> i \<Longrightarrow> int64 i \<Longrightarrow> swift_uint64 (itoa i) = Some i"
  using hd_show_nat[of "nat i"]
  by (auto simp: swift_uint64_def itoa_def Let_def parse_show_nat int64_def)

lemma atoi_itoa64: "int64 i \<Longrightarrow> atoi (itoa i) = Some i"
  by (simp add: atoi_itoa int64_def)

lemma swift_bool_format: "swift_bool (format_bool b) = Some b"
  by (simp add: swift_bool_def format_bool_def lower_byte_def)


text \<open>What a flag leaves in a field of the manager's configuration.\<close>

definition opt_set :: "string \<Rightarrow> string option \<Rightarrow> string option" where
  "opt_set v old = (if v = [] then old else Some v)"

lemma parse_opt_args:
  "parse_flags m (opt_arg ''--virtiofs-host-dir'' v @ rest) =
     parse_flags (m_virtiofs_host_dir_update (opt_set v) m) rest"
  "parse_flags m (opt_arg ''--virtiofs-tag'' v @ rest) =
     parse_flags (m_virtiofs_tag_update (opt_set v) m) rest"
  "parse_flags m (opt_arg ''--virtiofs-mount-point'' v @ rest) =
     parse_flags (m_virtiofs_mount_point_update (opt_set v) m) rest"
  "parse_flags m (opt_arg ''--overlay-state-device'' v @ rest) =
     parse_flags (m_overlay_state_device_update (opt_set v) m) rest"
  "parse_flags m (opt_arg ''--overlay-state-mount'' v @ rest) =
     parse_flags (m_overlay_state_mount_update (opt_set v) m) rest"
  "parse_flags m (opt_arg ''--bridge-interface'' v @ rest) =
     parse_flags (m_bridge_interface_update (opt_set v) m) rest"
  "parse_flags m (opt_arg ''--vm-network-cidr'' v @ rest) =
     parse_flags (m_vm_network_cidr_update (opt_set v) m) rest"
  "parse_flags m (opt_arg ''--vm-network-gateway'' v @ rest) =
     parse_flags (m_vm_network_gateway_update (opt_set v) m) rest"
  "parse_flags m (opt_arg ''--vm-network-ifname'' v @ rest) =
     parse_flags (m_vm_network_if_name_update (opt_set v) m) rest"
  "parse_flags m (opt_arg ''--initrd'' v @ rest) =
     parse_flags (m_initrd_path_update (opt_set v) m) rest"
  by (cases m; simp add: opt_arg_def opt_set_def set_flag_def)+

lemma parse_disks:
  "parse_flags m (concat (map (\<lambda>d. [''--extra-disk'', d]) ds) @ rest) =
     parse_flags (m_extra_disk_paths_update (\<lambda>xs. xs @ ds) m) rest"
proof (induction ds arbitrary: m)
  case Nil
  show ?case by (cases m) simp
next
  case (Cons d ds)
  then show ?case by (cases m) (simp add: set_flag_def)
qed

lemma parse_ports:
  "\<forall>p \<in> set ps. 0 < p \<and> int64 p \<Longrightarrow>
   parse_flags m (concat (map (\<lambda>p. [''--proxy-vsock-port'', itoa p]) ps) @ rest) =
     parse_flags (m_proxy_vsock_ports_update (\<lambda>xs. xs @ ps) m) rest"
proof (induction ps arbitrary: m)
  case Nil
  show ?case by (cases m) simp
next
  case (Cons p ps)
  then show ?case by (cases m) (simp add: set_flag_def atoi_itoa64)
qed

lemma parse_kernel:
  "parse_flags m ((if b then [''--kernel'', k] else []) @ rest) =
     parse_flags (m_kernel_path_update (\<lambda>x. if b then Some k else x) m) rest"
  by (cases m) (simp add: set_flag_def)

lemma parse_verbose:
  "parse_flags m (if b then [''--verbose''] else []) = Inr (m_verbose_update (\<lambda>x. b \<or> x) m)"
  by (cases m) simp

lemma parse_mode_flags:
  "boot_valid v \<Longrightarrow> parse_flags m (''--boot-mode'' # v # rest) = parse_flags (m\<lparr>m_boot_mode := v\<rparr>) rest"
  "net_valid v \<Longrightarrow> parse_flags m (''--network-mode'' # v # rest) = parse_flags (m\<lparr>m_network_mode := v\<rparr>) rest"
  by (simp_all add: set_flag_def boot_valid_def net_valid_def)

lemma parse_int_flags:
  "0 < i \<Longrightarrow> int64 i \<Longrightarrow>
   parse_flags m (''--memory-mib'' # itoa i # rest) = parse_flags (m\<lparr>m_memory_mib := i\<rparr>) rest"
  "int64 i \<Longrightarrow> parse_flags m (''--cpus'' # itoa i # rest) = parse_flags (m\<lparr>m_cpu_count := i\<rparr>) rest"
  "int64 i \<Longrightarrow>
   parse_flags m (''--agent-vsock-port'' # itoa i # rest) = parse_flags (m\<lparr>m_agent_vsock_port := i\<rparr>) rest"
  by (simp_all add: set_flag_def swift_uint64_itoa atoi_itoa64 or_else_def)

lemma parse_other_flags:
  "parse_flags m (''--root-image'' # v # rest) = parse_flags (m\<lparr>m_root_image_path := Some v\<rparr>) rest"
  "parse_flags m (''--agent-ready-socket'' # v # rest) =
     parse_flags (m\<lparr>m_agent_ready_socket_path := Some v\<rparr>) rest"
  "parse_flags m (''--enable-network'' # format_bool b # rest) = parse_flags (m\<lparr>m_enable_network := b\<rparr>) rest"
  "parse_flags m (''--enable-virtiofs'' # format_bool b # rest) = parse_flags (m\<lparr>m_enable_virtiofs := b\<rparr>) rest"
  by (simp_all add: set_flag_def swift_bool_format)

lemma parse_base:
  assumes "boot_valid (boot_mode c)" and "net_valid (network_mode c)" and "config_ints c"
    and "0 < memory_mib c"
  shows "parse_flags m (base_args c @ rest) =
    parse_flags (m\<lparr>m_boot_mode := boot_mode c, m_root_image_path := Some (root_image c),
      m_memory_mib := memory_mib c, m_cpu_count := cpus c, m_agent_vsock_port := agent_vsock_port c,
      m_agent_ready_socket_path := Some (agent_ready_socket_path c),
      m_enable_network := enable_network c, m_network_mode := network_mode c,
      m_enable_virtiofs := enable_virtiofs c\<rparr>) rest"
proof -
  have ints: "int64 (memory_mib c)" "int64 (cpus c)" "int64 (agent_vsock_port c)"
    using assms(3) by (auto simp: config_ints_def)
  show ?thesis
    unfolding base_args_def append.simps
    by (simp only: parse_mode_flags(1)[OF assms(1)] parse_other_flags(1)
        parse_int_flags(1)[OF assms(4) ints(1)])
      (simp only: parse_int_flags(2)[OF ints(2)] parse_int_flags(3)[OF ints(3)]
        parse_other_flags(2-4) parse_mode_flags(2)[OF assms(2)])
qed

lemma manager_args_parsed:
  assumes "manager_args c = Inr args" and "config_ints c"
    and "enable_network c \<or> network_mode c = [] \<or> net_valid (network_mode c)"
  shows "parse_manager_args args = Inr (manager_view (boot_default c))"
proof -
  define d where "d = boot_default c"
  define e where "e = (if network_mode d = [] then d\<lparr>network_mode := net_hostonly\<rparr> else d)"
  have ok: "config_ok d" using assms(1) manager_args_ok unfolding d_def by blast
  then have valid: "validate d = None" by (simp add: validate_iff)
  have fields: "boot_mode e = boot_mode d" "proxy_vsock_ports e = proxy_vsock_ports c"
      "memory_mib e = memory_mib d" "config_ints e = config_ints c" "enable_network d = enable_network c"
      "network_mode d = network_mode c" "boot_mode d \<noteq> []"
    by (simp_all add: e_def d_def boot_default_def config_ints_def boot_linux_def)
  have "proxy_vsock_ports d = proxy_vsock_ports c" by (simp add: d_def boot_default_def)
  with ok assms(2) have ports: "\<forall>p \<in> set (proxy_vsock_ports e). 0 < p \<and> int64 p"
    by (simp add: fields config_ok_def config_ints_def)
  have "network_mode d = [] \<or> net_valid (network_mode d)"
    using ok assms(3) by (simp add: fields config_ok_def network_ok_def) blast
  then have "net_valid (network_mode e)" by (auto simp: e_def net_valid_def)
  with ok assms(2) have base: "boot_valid (boot_mode e)" "net_valid (network_mode e)" "config_ints e"
      "0 < memory_mib e"
    by (simp_all add: fields config_ok_def)
  have args: "args = base_args e
            @ opt_arg ''--virtiofs-host-dir'' (virtiofs_host_dir e)
            @ opt_arg ''--virtiofs-tag'' (virtiofs_tag e)
            @ opt_arg ''--virtiofs-mount-point'' (virtiofs_mount_point e)
            @ opt_arg ''--overlay-state-device'' (overlay_state_device e)
            @ opt_arg ''--overlay-state-mount'' (overlay_state_mount e)
            @ concat (map (\<lambda>d. [''--extra-disk'', d]) (extra_disk_paths e))
            @ concat (map (\<lambda>p. [''--proxy-vsock-port'', itoa p]) (proxy_vsock_ports e))
            @ opt_arg ''--bridge-interface'' (bridge_interface e)
            @ opt_arg ''--vm-network-cidr'' (vm_network_cidr e)
            @ opt_arg ''--vm-network-gateway'' (vm_network_gateway e)
            @ opt_arg ''--vm-network-ifname'' (vm_network_if_name e)
            @ (if boot_mode e = boot_linux then [''--kernel'', kernel_path e] else [])
            @ opt_arg ''--initrd'' (initrd_path e)
            @ (if verbose e then [''--verbose''] else [])"
    using assms(1) valid
    unfolding manager_args_def boot_default_def[symmetric] Let_def d_def[symmetric] e_def[symmetric]
    by simp
  have mode: "network_mode e \<noteq> []" using base(2) by (auto simp: net_valid_def mode_defs)
  have "parse_flags manager_defaults args = Inr (manager_view e)"
    unfolding args parse_base[OF base] parse_opt_args parse_disks parse_ports[OF ports] parse_kernel
      parse_verbose sum.inject
    by (rule manager_config.equality)
      (simp_all add: manager_defaults_def manager_view_def opt_set_def opt_str_def mode)
  moreover have "manager_view e = manager_view d"
    by (simp add: e_def manager_view_def net_hostonly_def)
  ultimately show ?thesis
    by (simp add: parse_manager_args_def d_def[symmetric]) (simp add: manager_view_def)
qed

text \<open>
  C1. The round trip between the processes: on the argument vector that \<open>ManagerArgs\<close>
  builds, the Swift manager succeeds and reads back the configuration of the runner, with
  linux for an empty boot mode and hostonly for an empty network mode, whatever strings the
  paths, tags and names are. A network mode that was given must be valid; \<open>Validate\<close> only
  checks that when the network is enabled.
\<close>

theorem manager_args_roundtrip:
  assumes "manager_args c = Inr args" and "config_ints c"
    and "enable_network c \<or> network_mode c = [] \<or> net_valid (network_mode c)"
  shows "parse_manager_args args = Inr (manager_view (boot_default c))"
  using assms by (rule manager_args_parsed)

definition sample_config :: vm_config where
  "sample_config = zero_config\<lparr>kernel_path := ''/k'', root_image := ''/r.raw'', memory_mib := 512,
     cpus := 2, agent_vsock_port := 7000, agent_ready_socket_path := ''/s.sock''\<rparr>"

lemma sample_config_ok: "config_ok (boot_default sample_config)"
  by (simp add: config_ok_def boot_default_def sample_config_def zero_config_def boot_valid_def)

theorem manager_args_roundtrip_witness:
  "\<exists>args. manager_args sample_config = Inr args \<and>
     parse_manager_args args = Inr (manager_view (boot_default sample_config))"
proof -
  obtain args where args: "manager_args sample_config = Inr args"
    using sample_config_ok manager_args_ok by blast
  have "config_ints sample_config" "network_mode sample_config = []"
    by (simp_all add: config_ints_def int64_def sample_config_def zero_config_def)
  with args manager_args_roundtrip[OF args] show ?thesis by blast
qed

lemma parse_bad_mode:
  "\<not> net_valid v \<Longrightarrow> parse_flags m (''--network-mode'' # v # rest) =
     Inl (InvalidArg ''--network-mode must be one of: nat, bridged, hostonly'')"
  by (simp add: set_flag_def net_valid_def)

lemma parse_base_bad_mode:
  assumes "boot_valid (boot_mode c)" and "\<not> net_valid (network_mode c)" and "config_ints c"
    and "0 < memory_mib c"
  shows "parse_flags m (base_args c @ rest) =
     Inl (InvalidArg ''--network-mode must be one of: nat, bridged, hostonly'')"
proof -
  have ints: "int64 (memory_mib c)" "int64 (cpus c)" "int64 (agent_vsock_port c)"
    using assms(3) by (auto simp: config_ints_def)
  show ?thesis
    unfolding base_args_def append.simps
    by (simp only: parse_mode_flags(1)[OF assms(1)] parse_other_flags(1)
        parse_int_flags(1)[OF assms(4) ints(1)])
      (simp only: parse_int_flags(2)[OF ints(2)] parse_int_flags(3)[OF ints(3)]
        parse_other_flags(2-4) parse_bad_mode[OF assms(2)])
qed

text \<open>
  The gap in the validation: \<open>Validate\<close> does not look at the network mode while the
  network is disabled, so \<open>ManagerArgs\<close> passes an invalid mode on, and the manager refuses
  every such argument vector.
\<close>

theorem unchecked_network_mode_rejected_by_manager:
  assumes "manager_args c = Inr args" and "config_ints c"
    and "network_mode c \<noteq> []" and "\<not> net_valid (network_mode c)"
  shows "\<not> enable_network c \<and> parse_manager_args args =
     Inl (InvalidArg ''--network-mode must be one of: nat, bridged, hostonly'')"
proof -
  define d where "d = boot_default c"
  have ok: "config_ok d" using assms(1) manager_args_ok unfolding d_def by blast
  then have valid: "validate d = None" by (simp add: validate_iff)
  have fields: "network_mode d = network_mode c" "config_ints d = config_ints c"
      "enable_network d = enable_network c" "boot_mode d \<noteq> []"
    by (simp_all add: d_def boot_default_def config_ints_def boot_linux_def)
  have off: "\<not> enable_network c"
    using ok assms(3,4) by (auto simp: config_ok_def network_ok_def fields)
  have base: "boot_valid (boot_mode d)" "\<not> net_valid (network_mode d)" "config_ints d" "0 < memory_mib d"
    using ok assms(2,4) by (simp_all add: config_ok_def fields)
  from assms(1,3) valid obtain rest where "args = base_args d @ rest"
    unfolding manager_args_def boot_default_def[symmetric] Let_def d_def[symmetric]
    by (auto simp: fields)
  then have "parse_flags manager_defaults args =
     Inl (InvalidArg ''--network-mode must be one of: nat, bridged, hostonly'')"
    by (simp only: parse_base_bad_mode[OF base])
  with off show ?thesis by (simp add: parse_manager_args_def)
qed

theorem unchecked_network_mode_rejected_by_manager_witness:
  "\<exists>args. manager_args (sample_config\<lparr>network_mode := ''vlan''\<rparr>) = Inr args \<and>
     parse_manager_args args = Inl (InvalidArg ''--network-mode must be one of: nat, bridged, hostonly'')"
proof -
  have "config_ok (boot_default (sample_config\<lparr>network_mode := ''vlan''\<rparr>))"
    by (simp add: config_ok_def boot_default_def sample_config_def zero_config_def boot_valid_def)
  then obtain args where args: "manager_args (sample_config\<lparr>network_mode := ''vlan''\<rparr>) = Inr args"
    using manager_args_ok by blast
  have "config_ints (sample_config\<lparr>network_mode := ''vlan''\<rparr>)" "\<not> net_valid ''vlan''"
    by (simp_all add: config_ints_def int64_def sample_config_def zero_config_def net_valid_def mode_defs)
  with args unchecked_network_mode_rejected_by_manager[OF args] show ?thesis by auto
qed

end
