(* ===== verification/Container_Client.thy ===== *)
theory Container_Client
  imports Go_Strings "HOL-Library.Word"
begin

text \<open>
  \<open>vm/container.go\<close>: the line printer that receives the output of a container as a byte
  stream, and \<open>RunContainer\<close>, the client side of a container run. The printer's \<open>Write\<close>
  counts the bytes a \<open>bufio.Scanner\<close> has consumed from the lines it returns; the theorems
  say exactly when that count is right, when it makes \<open>Write\<close> panic, and when it leaves
  bytes behind.
\<close>

section \<open>bufio.Scanner with ScanLines\<close>

abbreviation LF :: char where "LF \<equiv> CHR 0x0A"
abbreviation CR :: char where "CR \<equiv> CHR 0x0D"

definition drop_cr :: "string \<Rightarrow> string" where
  "drop_cr l = (if l \<noteq> [] \<and> last l = CR then butlast l else l)"

lemma length_tl_dropWhile: "s \<noteq> [] \<Longrightarrow> length (tl (dropWhile P s)) < length s"
  by (cases s) (auto simp: le_imp_less_Suc length_dropWhile_le less_imp_diff_less)

text \<open>
  The tokens of a scanner whose buffer may grow to \<open>mx\<close> bytes, and whether it stopped with
  \<open>ErrTooLong\<close>: the buffer was full and held no newline. The last line needs no newline.
\<close>

function scan_lines :: "nat \<Rightarrow> string \<Rightarrow> string list \<times> bool" where
  "scan_lines mx s =
    (if s = [] then ([], False)
     else
       (let l = takeWhile (\<lambda>c. c \<noteq> LF) s; rest = dropWhile (\<lambda>c. c \<noteq> LF) s in
        if mx \<le> length l then ([], True)
        else if rest = [] then ([drop_cr l], False)
        else (case scan_lines mx (tl rest) of (ls, e) \<Rightarrow> (drop_cr l # ls, e))))"
  by pat_completeness auto

termination
  by (relation "measure (\<lambda>(mx, s). length s)") (auto dest: length_tl_dropWhile)

declare scan_lines.simps [simp del]

section \<open>linePrinterStream\<close>

text \<open>\<open>printed\<close> is what has gone to the standard output, a line per element.\<close>

record line_printer =
  partial :: string
  stream :: string
  enabled :: bool
  printed :: "string list"

datatype outcome = Returned | Failed string | Panicked

definition max_token :: nat where
  "max_token = 16 * 1024 * 1024"

definition print_lines :: "line_printer \<Rightarrow> string list \<Rightarrow> line_printer" where
  "print_lines p ls =
    (if enabled p
     then p\<lparr>printed := printed p @ map (\<lambda>l. ''[container '' @ stream p @ ''] '' @ l) ls\<rparr>
     else p)"

text \<open>
  \<open>Write\<close>: the slice \<open>partial.Bytes()[consumed:]\<close> panics when \<open>consumed\<close> is past the end.
\<close>

definition lp_write :: "line_printer \<Rightarrow> string \<Rightarrow> outcome \<times> line_printer" where
  "lp_write p chunk =
    (if chunk = [] then (Returned, p)
     else
       (let text = partial p @ chunk;
            p1 = p\<lparr>partial := text\<rparr>;
            (ls, too_long) = scan_lines max_token text;
            consumed = sum_list (map (\<lambda>l. length l + 1) ls);
            p2 = print_lines p1 ls
        in if too_long then (Failed ''bufio.Scanner: token too long'', p2)
           else if consumed > 0 then
             (if consumed > length text then (Panicked, p2)
              else (Returned, p2\<lparr>partial := drop consumed text\<rparr>))
           else (Returned, p2)))"

definition lp_done :: "line_printer \<Rightarrow> line_printer" where
  "lp_done p = (if partial p \<noteq> [] then (print_lines p [partial p])\<lparr>partial := []\<rparr> else p)"

text \<open>The chunks of a stream, up to the first \<open>Write\<close> that does not return.\<close>

fun lp_feed :: "line_printer \<Rightarrow> string list \<Rightarrow> outcome \<times> line_printer" where
  "lp_feed p [] = (Returned, p)"
| "lp_feed p (c # cs) =
    (case lp_write p c of
       (Returned, p') \<Rightarrow> lp_feed p' cs
     | r \<Rightarrow> r)"

section \<open>How much the scanner consumes\<close>

text \<open>The lines that lost a carriage return.\<close>

function stripped :: "string \<Rightarrow> nat" where
  "stripped s =
    (if s = [] then 0
     else
       (let l = takeWhile (\<lambda>c. c \<noteq> LF) s; rest = dropWhile (\<lambda>c. c \<noteq> LF) s in
        (if l \<noteq> [] \<and> last l = CR then 1 else 0) + (if rest = [] then 0 else stripped (tl rest))))"
  by pat_completeness auto
termination
  by (relation "measure length") (auto dest: length_tl_dropWhile)

declare stripped.simps [simp del]

definition unterminated :: "string \<Rightarrow> bool" where
  "unterminated s \<longleftrightarrow> s \<noteq> [] \<and> last s \<noteq> LF"

lemma length_drop_cr:
  "length (drop_cr l) + (if l \<noteq> [] \<and> last l = CR then 1 else 0) = length l"
  by (cases l rule: rev_cases) (auto simp: drop_cr_def)

lemma drop_cr_id: "(if l \<noteq> [] \<and> last l = CR then 1 else 0) = (0::nat) \<Longrightarrow> drop_cr l = l"
  by (auto simp: drop_cr_def)

lemma split_line:
  assumes "dropWhile (\<lambda>c. c \<noteq> LF) s \<noteq> []"
  shows "s = takeWhile (\<lambda>c. c \<noteq> LF) s @ LF # tl (dropWhile (\<lambda>c. c \<noteq> LF) s)"
proof -
  have "hd (dropWhile (\<lambda>c. c \<noteq> LF) s) = LF" using hd_dropWhile[OF assms] by simp
  then have "dropWhile (\<lambda>c. c \<noteq> LF) s = LF # tl (dropWhile (\<lambda>c. c \<noteq> LF) s)"
    using assms by (metis list.collapse)
  then show ?thesis by (metis takeWhile_dropWhile_id)
qed

lemma unterminated_split:
  assumes "dropWhile (\<lambda>c. c \<noteq> LF) s \<noteq> []"
  shows "unterminated s = unterminated (tl (dropWhile (\<lambda>c. c \<noteq> LF) s))"
  by (subst split_line[OF assms]) (auto simp: unterminated_def)

lemma no_newline_unterminated:
  "dropWhile (\<lambda>c. c \<noteq> LF) s = [] \<Longrightarrow> s \<noteq> [] \<Longrightarrow> unterminated s"
  by (auto simp: unterminated_def dropWhile_eq_Nil_conv)

definition consumed_by :: "string list \<Rightarrow> nat" where
  "consumed_by ls = sum_list (map (\<lambda>l. length l + 1) ls)"

lemma consumed_step:
  "c' + st' = n' + (u::nat) \<Longrightarrow> d + b = l \<Longrightarrow> n = l + 1 + n' \<Longrightarrow> st = b + st' \<Longrightarrow> c = d + 1 + c' \<Longrightarrow>
   c + st = n + u"
  by simp

lemma consumed_eq:
  "scan_lines mx s = (ls, False) \<Longrightarrow>
   consumed_by ls + stripped s = length s + (if unterminated s then 1 else 0)"
proof (induction mx s arbitrary: ls rule: scan_lines.induct)
  case (1 mx s)
  let ?l = "takeWhile (\<lambda>c. c \<noteq> LF) s" and ?rest = "dropWhile (\<lambda>c. c \<noteq> LF) s"
  show ?case
  proof (cases "s = []")
    case True
    with 1 show ?thesis by (simp add: scan_lines.simps stripped.simps consumed_by_def unterminated_def)
  next
    case ne: False
    show ?thesis
    proof (cases "?rest = []")
      case True
      then have "?l = s" by (metis append_Nil2 takeWhile_dropWhile_id)
      moreover have "ls = [drop_cr s]"
        using 1(2) ne True \<open>?l = s\<close> by (simp add: scan_lines.simps[of mx s] Let_def split: if_splits)
      moreover have "stripped s = (if s \<noteq> [] \<and> last s = CR then 1 else 0)"
        unfolding stripped.simps[of s] Let_def \<open>?l = s\<close> using ne True by (simp only: if_True if_False add_0_right simp_thms)
      ultimately show ?thesis
        using no_newline_unterminated[OF True ne] length_drop_cr[of s]
        by (simp only: consumed_by_def list.map sum_list.Cons sum_list.Nil if_True)
    next
      case False
      then obtain ls' where ls': "scan_lines mx (tl ?rest) = (ls', False)" "ls = drop_cr ?l # ls'"
          "\<not> mx \<le> length ?l"
        using 1(2) ne by (auto simp: scan_lines.simps[of mx s] Let_def split: if_splits prod.splits)
      from 1(1)[OF ne refl refl ls'(3) False ls'(1)]
      have ih: "consumed_by ls' + stripped (tl ?rest) =
        length (tl ?rest) + (if unterminated (tl ?rest) then 1 else 0)" .
      have "length s = length ?l + 1 + length (tl ?rest)"
        by (subst split_line[OF False]) simp
      moreover have "stripped s = (if ?l \<noteq> [] \<and> last ?l = CR then 1 else 0) + stripped (tl ?rest)"
        using ne False by (subst stripped.simps) (simp only: Let_def if_False)
      moreover have "consumed_by ls = length (drop_cr ?l) + 1 + consumed_by ls'"
        using ls'(2) by (simp only: consumed_by_def list.map sum_list.Cons)
      ultimately show ?thesis
        unfolding unterminated_split[OF False] by (rule consumed_step[OF ih length_drop_cr])
    qed
  qed
qed

lemma scan_nonempty: "s \<noteq> [] \<Longrightarrow> scan_lines mx s = (ls, False) \<Longrightarrow> ls \<noteq> []"
  by (auto simp: scan_lines.simps[of mx s] Let_def split: if_splits prod.splits)


lemma print_lines_fields [simp]:
  "partial (print_lines p ls) = partial p" "enabled (print_lines p ls) = enabled p"
  "stream (print_lines p ls) = stream p"
  by (simp_all add: print_lines_def)

text \<open>
  What \<open>Write\<close> does with a chunk, when no line is too long for the scanner: it panics
  exactly when the buffered text ends without a newline and no line lost a carriage return;
  otherwise it returns, and the bytes it keeps are the last \<open>k\<close> of the text, one for each
  carriage return dropped, less one if the text has no final newline. (So the partial line
  the buffer is meant to hold is never kept.)
\<close>

theorem lp_write_outcome:
  assumes "chunk \<noteq> []" and "scan_lines max_token (partial p @ chunk) = (ls, False)"
  shows "(fst (lp_write p chunk) = Panicked \<longleftrightarrow>
            unterminated (partial p @ chunk) \<and> stripped (partial p @ chunk) = 0) \<and>
    (fst (lp_write p chunk) \<noteq> Panicked \<longrightarrow>
       fst (lp_write p chunk) = Returned \<and>
       (\<exists>k. partial (snd (lp_write p chunk)) = drop (length (partial p @ chunk) - k) (partial p @ chunk) \<and>
          k + (if unterminated (partial p @ chunk) then 1 else 0) = stripped (partial p @ chunk)))"
proof -
  let ?text = "partial p @ chunk"
  have eq: "consumed_by ls + stripped ?text = length ?text + (if unterminated ?text then 1 else 0)"
    using assms(2) by (rule consumed_eq)
  have "ls \<noteq> []" using scan_nonempty[OF _ assms(2)] assms(1) by simp
  then have pos: "0 < consumed_by ls" by (cases ls) (auto simp: consumed_by_def)
  have run: "lp_write p chunk =
    (if consumed_by ls > length ?text then (Panicked, print_lines (p\<lparr>partial := ?text\<rparr>) ls)
     else (Returned, (print_lines (p\<lparr>partial := ?text\<rparr>) ls)\<lparr>partial := drop (consumed_by ls) ?text\<rparr>))"
    using assms pos unfolding lp_write_def consumed_by_def by (auto simp: Let_def)
  show ?thesis
  proof (cases "consumed_by ls > length ?text")
    case True
    with eq run show ?thesis by (auto split: if_splits)
  next
    case False
    define k where "k = length ?text - consumed_by ls"
    have k: "consumed_by ls = length ?text - k" "k + (if unterminated ?text then 1 else 0) = stripped ?text"
      using False eq by (auto simp: k_def split: if_splits)
    have panic: "\<not> (unterminated ?text \<and> stripped ?text = 0)" using False eq by auto
    have "partial (snd (lp_write p chunk)) = drop (length ?text - k) ?text"
      using run False k(1) by simp
    moreover have "fst (lp_write p chunk) = Returned" using run False by simp
    ultimately show ?thesis using panic k(2) by (metis outcome.distinct(3))
  qed
qed

lemma lp_write_outcome_witness_eval:
  "scan_lines max_token ''ready'' = ([''ready''], False)"
  "unterminated ''ready''" "stripped ''ready'' = 0"
  by (simp_all add: scan_lines.simps stripped.simps max_token_def drop_cr_def unterminated_def)

theorem lp_write_outcome_witness:
  "fst (lp_write \<lparr>partial = [], stream = ''stdout'', enabled = True, printed = []\<rparr> ''ready'') = Panicked"
  using lp_write_outcome[of "''ready''" "\<lparr>partial = [], stream = ''stdout'', enabled = True, printed = []\<rparr>"
      "[''ready'']"]
  by (simp add: lp_write_outcome_witness_eval)

text \<open>The lines of a text that ends with a newline.\<close>

definition text_lines :: "string \<Rightarrow> string list" where
  "text_lines s = butlast (split_at LF s)"

text \<open>A chunk of whole lines: a final newline, no carriage return before one, no huge line.\<close>

definition whole_lines :: "string \<Rightarrow> bool" where
  "whole_lines s \<longleftrightarrow> s \<noteq> [] \<and> \<not> unterminated s \<and> stripped s = 0 \<and>
     (\<forall>l \<in> set (split_at LF s). length l < max_token)"

lemma scan_whole:
  "\<not> unterminated s \<Longrightarrow> stripped s = 0 \<Longrightarrow> \<forall>l \<in> set (split_at LF s). length l < mx \<Longrightarrow>
   scan_lines mx s = (text_lines s, False)"
proof (induction mx s rule: scan_lines.induct)
  case (1 mx s)
  let ?l = "takeWhile (\<lambda>c. c \<noteq> LF) s" and ?rest = "dropWhile (\<lambda>c. c \<noteq> LF) s"
  show ?case
  proof (cases "s = []")
    case True
    then show ?thesis by (simp add: scan_lines.simps text_lines_def)
  next
    case ne: False
    with 1(2) no_newline_unterminated have rest: "?rest \<noteq> []" by blast
    have noLF: "LF \<notin> set ?l" by (auto dest: set_takeWhileD)
    have split: "split_at LF s = ?l # split_at LF (tl ?rest)"
      by (subst split_line[OF rest]) (simp add: split_at_append split_at_word[OF noLF])
    have "stripped s = (if ?l \<noteq> [] \<and> last ?l = CR then 1 else 0) + stripped (tl ?rest)"
      using ne rest by (subst stripped.simps) (simp only: Let_def if_False)
    with 1(3) have "(if ?l \<noteq> [] \<and> last ?l = CR then 1 else 0) = (0::nat)"
      and st: "stripped (tl ?rest) = 0" by (simp_all only: add_is_0)
    then have cr: "drop_cr ?l = ?l" by (intro drop_cr_id)
    have len: "\<not> mx \<le> length ?l" using 1(4) unfolding split by (simp only: list.set ball_simps not_le simp_thms)
    have "scan_lines mx (tl ?rest) = (text_lines (tl ?rest), False)"
      using 1(2,4) st unfolding split unterminated_split[OF rest]
      by (intro 1(1)[OF ne refl refl len rest]) (assumption | rule ballI | erule bspec, rule list.set_intros(2))+
    moreover have "text_lines s = ?l # text_lines (tl ?rest)"
      unfolding text_lines_def split by (simp add: split_at_nonempty)
    ultimately show ?thesis
      using ne rest len cr by (subst scan_lines.simps) (simp only: Let_def if_False prod.case)
  qed
qed

lemma text_lines_append:
  assumes "a \<noteq> []" and "\<not> unterminated a"
  shows "text_lines (a @ b) = text_lines a @ text_lines b"
proof -
  obtain c where a: "a = c @ [LF]" using assms by (cases a rule: rev_cases) (auto simp: unterminated_def)
  have "split_at LF (a @ b) = split_at LF c @ split_at LF b" using split_at_append[of LF c b] a by simp
  moreover have "split_at LF a = split_at LF c @ [[]]" using split_at_append[of LF c "[]"] a by simp
  ultimately show ?thesis by (simp add: text_lines_def butlast_append)
qed

definition labelled :: "line_printer \<Rightarrow> string list \<Rightarrow> string list" where
  "labelled p ls = (if enabled p then map (\<lambda>l. ''[container '' @ stream p @ ''] '' @ l) ls else [])"

lemma lp_write_whole:
  assumes "whole_lines c" and "partial p = []"
  shows "lp_write p c = (Returned, p\<lparr>printed := printed p @ labelled p (text_lines c)\<rparr>)"
proof -
  have c: "c \<noteq> []" "\<not> unterminated c" "stripped c = 0" using assms(1) by (auto simp: whole_lines_def)
  have scan: "scan_lines max_token c = (text_lines c, False)"
    using assms(1) by (auto simp: whole_lines_def intro: scan_whole)
  have "consumed_by (text_lines c) = length c" using consumed_eq[OF scan] c by simp
  then have "sum_list (map (\<lambda>l. length l + 1) (text_lines c)) = length c" by (simp only: consumed_by_def)
  with scan c assms(2) show ?thesis
    by (cases p) (auto simp: lp_write_def Let_def print_lines_def labelled_def)
qed

text \<open>
  A stream whose chunks each end with a newline, without carriage returns before
  newlines, is printed line by line: every \<open>Write\<close> returns, nothing stays buffered, and the
  output is the lines of the whole stream in order, whatever the chunking.
\<close>

theorem lp_feed_whole_lines:
  assumes "\<forall>c \<in> set cs. whole_lines c" and "partial p = []"
  shows "lp_feed p cs = (Returned, p\<lparr>printed := printed p @ labelled p (text_lines (concat cs))\<rparr>)"
  using assms
proof (induction cs arbitrary: p)
  case Nil
  then show ?case by (simp add: text_lines_def labelled_def)
next
  case (Cons c cs)
  have "c \<noteq> []" "\<not> unterminated c" using Cons.prems by (auto simp: whole_lines_def)
  then have "text_lines (concat (c # cs)) = text_lines c @ text_lines (concat cs)"
    by (simp add: text_lines_append)
  with Cons show ?case by (simp add: lp_write_whole labelled_def)
qed

theorem lp_feed_whole_lines_witness:
  "lp_feed \<lparr>partial = [], stream = ''stdout'', enabled = True, printed = []\<rparr>
     [[CHR ''a'', LF], [CHR ''b'', LF]] =
   (Returned, \<lparr>partial = [], stream = ''stdout'', enabled = True,
     printed = [''[container stdout] a'', ''[container stdout] b'']\<rparr>)"
proof -
  have "\<forall>c \<in> set [[CHR ''a'', LF], [CHR ''b'', LF]]. whole_lines c"
    by (simp add: whole_lines_def unterminated_def stripped.simps max_token_def)
  from lp_feed_whole_lines[OF this, of "\<lparr>partial = [], stream = ''stdout'', enabled = True, printed = []\<rparr>"]
  show ?thesis by (simp add: labelled_def text_lines_def)
qed

section \<open>RunContainer\<close>

text \<open>
  What \<open>RunContainer\<close> owns while it runs: the answers of its four calls and the capabilities
  it takes from them or makes itself. Each is released by a \<open>defer\<close> right after it is got.
\<close>

datatype handle = SvcAnswer | Service | CreateAnswer | ContainerCap | StdoutCap | StderrCap
  | StartAnswer | TaskCap | ExitAnswer

record create_params =
  p_oci :: string
  p_image :: string
  p_id :: string
  p_rootfs_path :: string
  p_container_state_disk :: string

datatype agent_call = GetService | Create create_params | Start | ExitCode

datatype cap_event = Sent agent_call | Got handle | Dropped handle

text \<open>
  The other side, and the RPC library between: what each call resolves to, whether a
  parameter can be set, and the error an answer has when its parameters could not be placed.
\<close>

record remote =
  on_service :: "unit go"
  set_param :: "string \<Rightarrow> string \<Rightarrow> unit go"
  args_failed :: "goerr \<Rightarrow> goerr"
  on_create :: "create_params \<Rightarrow> unit go"
  on_start :: "unit go"
  on_exit :: "32 word go"

definition emit :: "cap_event \<Rightarrow> (cap_event list, unit) state" where
  "emit e = State (\<lambda>t. ((), t @ [e]))"

definition deferring :: "handle \<Rightarrow> (cap_event list, 'a) state \<Rightarrow> (cap_event list, 'a) state" where
  "deferring h m = do { _ \<leftarrow> emit (Got h); x \<leftarrow> m; _ \<leftarrow> emit (Dropped h); State_Monad.return x }"

text \<open>The parameters in the order they are set; the first that cannot be set ends the list.\<close>

fun set_params :: "remote \<Rightarrow> (string \<times> string) list \<Rightarrow> goerr option" where
  "set_params r [] = None"
| "set_params r ((f, v) # ps) =
    (case set_param r f v of Inl e \<Rightarrow> Some e | Inr _ \<Rightarrow> set_params r ps)"

text \<open>A call: with its parameters placed it is sent and resolves to the remote's reply.\<close>

definition call_agent ::
  "remote \<Rightarrow> (string \<times> string) list \<Rightarrow> agent_call \<Rightarrow> 'a go \<Rightarrow> (cap_event list, 'a go) state" where
  "call_agent r ps c reply =
    (case set_params r ps of
       Some e \<Rightarrow> State_Monad.return (Inl (args_failed r e))
     | None \<Rightarrow> do { _ \<leftarrow> emit (Sent c); State_Monad.return reply })"

definition run_container ::
  "remote \<Rightarrow> string \<Rightarrow> string \<Rightarrow> string \<Rightarrow> string \<Rightarrow> string \<Rightarrow> (cap_event list, 32 word go) state" where
  "run_container r cid image_ref rootfs_path container_state_disk spec_json =
    (let params = \<lparr>p_oci = spec_json, p_image = image_ref, p_id = cid, p_rootfs_path = rootfs_path,
                   p_container_state_disk = container_state_disk\<rparr>;
         fields = [(''oci'', spec_json), (''image'', image_ref), (''id'', cid),
                   (''rootfsPath'', rootfs_path), (''containerStateDisk'', container_state_disk)]
     in
     do { svc \<leftarrow> call_agent r [] GetService (on_service r);
     deferring SvcAnswer (or_fail (State_Monad.return svc) (\<lambda>e. e) (\<lambda>_.
     deferring Service (
     do { created \<leftarrow> call_agent r fields (Create params) (on_create r params);
     deferring CreateAnswer (or_fail (State_Monad.return created) (\<lambda>e. e) (\<lambda>_.
     deferring ContainerCap (deferring StdoutCap (deferring StderrCap (
     do { started \<leftarrow> call_agent r [(''stdout'', []), (''stderr'', [])] Start (on_start r);
     deferring StartAnswer (or_fail (State_Monad.return started) (\<lambda>e. e) (\<lambda>_.
     deferring TaskCap (
     do { exited \<leftarrow> call_agent r [] ExitCode (on_exit r);
     deferring ExitAnswer (State_Monad.return exited) }))) })))))})))})"

definition run_oci ::
  "remote \<Rightarrow> string \<Rightarrow> string \<Rightarrow> string \<Rightarrow> string \<Rightarrow> string \<Rightarrow> (cap_event list, 32 word go) state" where
  "run_oci r cid image_ref rootfs_path container_state_disk spec_json =
    run_container r cid image_ref rootfs_path container_state_disk spec_json"

subsection \<open>Every handle is released, last got first\<close>

text \<open>The handles held after some events, the last one first; \<open>None\<close> if a release is out of order.\<close>

fun held_after :: "handle list \<Rightarrow> cap_event list \<Rightarrow> handle list option" where
  "held_after hs [] = Some hs"
| "held_after hs (Sent c # es) = held_after hs es"
| "held_after hs (Got h # es) = (if h \<in> set hs then None else held_after (h # hs) es)"
| "held_after (h' # hs) (Dropped h # es) = (if h = h' then held_after hs es else None)"
| "held_after [] (Dropped h # es) = None"

lemma held_after_append:
  "held_after hs (es @ fs) = (case held_after hs es of None \<Rightarrow> None | Some hs' \<Rightarrow> held_after hs' fs)"
  by (induction hs es rule: held_after.induct) auto

text \<open>A program that, started with none of \<open>H\<close> held, gives back all it gets, in order.\<close>

definition brackets :: "handle set \<Rightarrow> (cap_event list, 'a) state \<Rightarrow> bool" where
  "brackets H m \<longleftrightarrow> (\<forall>t. \<exists>es. snd (run_state m t) = t @ es \<and>
     (\<forall>hs. set hs \<inter> H = {} \<longrightarrow> held_after hs es = Some hs))"

named_theorems brackets_intros

lemma brackets_return [brackets_intros]: "brackets H (State_Monad.return x)"
  by (simp add: brackets_def)

lemma brackets_bind [brackets_intros]:
  assumes "brackets H m" and "\<And>x. brackets H (f x)"
  shows "brackets H (State_Monad.bind m f)"
  unfolding brackets_def
proof (intro allI)
  fix t
  obtain x t1 where m: "run_state m t = (x, t1)" by fastforce
  obtain es where es: "t1 = t @ es" "\<forall>hs. set hs \<inter> H = {} \<longrightarrow> held_after hs es = Some hs"
    using assms(1) m unfolding brackets_def by (metis snd_conv)
  obtain fs where fs: "snd (run_state (f x) t1) = t1 @ fs"
      "\<forall>hs. set hs \<inter> H = {} \<longrightarrow> held_after hs fs = Some hs"
    using assms(2) unfolding brackets_def by blast
  show "\<exists>es. snd (run_state (State_Monad.bind m f) t) = t @ es \<and>
    (\<forall>hs. set hs \<inter> H = {} \<longrightarrow> held_after hs es = Some hs)"
    by (rule exI[of _ "es @ fs"]) (use m es fs in \<open>simp add: held_after_append\<close>)
qed

lemma brackets_or_fail [brackets_intros]:
  "brackets H m \<Longrightarrow> (\<And>x. brackets H (k x)) \<Longrightarrow> brackets H (or_fail m wrap k)"
  unfolding or_fail_def by (intro brackets_bind) (auto split: sum.splits intro: brackets_return)

lemma brackets_call [brackets_intros]: "brackets H (call_agent r ps c reply)"
  by (auto simp: brackets_def call_agent_def emit_def split: option.splits)

lemma brackets_deferring [brackets_intros]:
  assumes "brackets (H - {h}) m" and "h \<in> H"
  shows "brackets H (deferring h m)"
  unfolding brackets_def
proof (intro allI)
  fix t
  obtain es where es: "snd (run_state m (t @ [Got h])) = t @ [Got h] @ es"
      "\<forall>hs. set hs \<inter> (H - {h}) = {} \<longrightarrow> held_after hs es = Some hs"
    using assms(1) unfolding brackets_def by (metis append.assoc)
  have "held_after hs (Got h # es @ [Dropped h]) = Some hs" if "set hs \<inter> H = {}" for hs
  proof -
    have "set (h # hs) \<inter> (H - {h}) = {}" using that by auto
    with es(2) have "held_after (h # hs) es = Some (h # hs)" by blast
    with that assms(2) show ?thesis by (auto simp: held_after_append)
  qed
  with es(1) show "\<exists>es. snd (run_state (deferring h m) t) = t @ es \<and>
    (\<forall>hs. set hs \<inter> H = {} \<longrightarrow> held_after hs es = Some hs)"
    by (intro exI[of _ "Got h # es @ [Dropped h]"])
      (auto simp: deferring_def emit_def split: prod.splits)
qed

lemma run_container_brackets: "brackets UNIV (run_container r cid img rootfs disk spec)"
  unfolding run_container_def Let_def by (intro brackets_intros) simp_all


text \<open>The calls among the events.\<close>

fun calls :: "cap_event list \<Rightarrow> agent_call list" where
  "calls [] = []"
| "calls (Sent c # es) = c # calls es"
| "calls (_ # es) = calls es"

lemma calls_append [simp]: "calls (es @ fs) = calls es @ calls fs"
  by (induction es rule: calls.induct) auto

text \<open>
  \<open>RunContainer\<close> succeeds with code \<open>c\<close> exactly when all its parameters can be set and the
  service, the creation, the start and the exit call all succeed, the last with \<open>c\<close>; and then
  it has sent those four calls, once each, in that order, with the caller's arguments.
\<close>

theorem run_container_result:
  "fst (run_state (run_container r cid img rootfs disk spec) []) = Inr c \<longleftrightarrow>
     set_params r [(''oci'', spec), (''image'', img), (''id'', cid), (''rootfsPath'', rootfs),
       (''containerStateDisk'', disk), (''stdout'', []), (''stderr'', [])] = None \<and>
     on_service r = Inr () \<and> on_create r \<lparr>p_oci = spec, p_image = img, p_id = cid,
        p_rootfs_path = rootfs, p_container_state_disk = disk\<rparr> = Inr () \<and>
     on_start r = Inr () \<and> on_exit r = Inr c \<and>
     calls (snd (run_state (run_container r cid img rootfs disk spec) [])) =
       [GetService, Create \<lparr>p_oci = spec, p_image = img, p_id = cid, p_rootfs_path = rootfs,
          p_container_state_disk = disk\<rparr>, Start, ExitCode]"
  by (cases "on_service r"; cases "on_create r \<lparr>p_oci = spec, p_image = img, p_id = cid,
        p_rootfs_path = rootfs, p_container_state_disk = disk\<rparr>"; cases "on_start r")
    (auto simp: run_container_def Let_def call_agent_def deferring_def emit_def split: sum.splits)

end
