(* ===== verification/Runner_Conn.thy ===== *)
theory Runner_Conn
  imports Lock "HOL-Library.Word"
begin

unbundle bit_operations_syntax

text \<open>
  \<open>vm/runner.go\<close>, the readiness message: the manager sends the descriptor of every accepted
  vsock connection over a Unix socket, with the port as four bytes; \<open>recvFD\<close> reads it. And
  \<open>VMContext.Close\<close>, which gives back what a successful \<open>Run\<close> handed over.
\<close>

section \<open>The readiness message\<close>

text \<open>
  A control message as \<open>syscall.ParseUnixRights\<close> sees it: descriptors, or another kind of
  message, for which it returns an error.
\<close>

datatype cmsg = Rights "int list" | OtherCmsg

definition le_port :: "8 word list \<Rightarrow> 32 word" where
  "le_port data =
     ucast (data ! 0) OR push_bit 8 (ucast (data ! 1)) OR
     push_bit 16 (ucast (data ! 2)) OR push_bit 24 (ucast (data ! 3))"

fun first_fd :: "cmsg list \<Rightarrow> int option" where
  "first_fd [] = None"
| "first_fd (m # ms) = (case m of Rights (fd # _) \<Rightarrow> Some fd | _ \<Rightarrow> first_fd ms)"

text \<open>
  \<open>recvFD\<close>: what \<open>ReadMsgUnix\<close> returned is the bytes in the four-byte buffer and the parsed
  control messages (or the error of parsing them).
\<close>

definition recv_fd :: "(8 word list \<times> cmsg list go) go \<Rightarrow> int \<times> 32 word \<times> goerr option" where
  "recv_fd msg =
    (case msg of
       Inl e \<Rightarrow> (-1, 0, Some e)
     | Inr (payload, control) \<Rightarrow>
         (let data = take 4 payload in
          if length data < 4 then
            (-1, 0, Some (Errorf ''readiness payload too short: %d'' [itoa (int (length data))]))
          else
            (case control of
               Inl e \<Rightarrow> (-1, 0, Some e)
             | Inr msgs \<Rightarrow>
                 (case first_fd msgs of
                    Some fd \<Rightarrow> (fd, le_port data, None)
                  | None \<Rightarrow> (-1, le_port data, Some (Errorf ''no fd in unix rights message'' []))))))"

text \<open>The message of the manager: \<open>sendConnectionFDOverUnixSocket\<close>.\<close>

definition le_bytes :: "32 word \<Rightarrow> 8 word list" where
  "le_bytes p = [ucast p, ucast (drop_bit 8 p), ucast (drop_bit 16 p), ucast (drop_bit 24 p)]"

definition readiness_message :: "int \<Rightarrow> 32 word \<Rightarrow> 8 word list \<times> cmsg list" where
  "readiness_message fd_to_send destination_port = (le_bytes destination_port, [Rights [fd_to_send]])"

lemma le_port_bytes: "le_port (le_bytes p) = p"
proof (rule bit_word_eqI)
  fix n assume "n < LENGTH(32)"
  then consider "n < 8" | "8 \<le> n" "n < 16" | "16 \<le> n" "n < 24" | "24 \<le> n" "n < 32" by fastforce
  then show "bit (le_port (le_bytes p)) n = bit p n"
    by cases (auto simp: le_port_def le_bytes_def bit_simps)
qed

lemma le_bytes_inject: "le_bytes p = le_bytes q \<longleftrightarrow> p = q"
  by (metis le_port_bytes)

lemma readiness_received:
  "recv_fd (Inr (fst (readiness_message fd port) @ rest, Inr (snd (readiness_message fd port)))) =
     (fd, port, None)"
  using le_port_bytes[of port] by (simp add: recv_fd_def readiness_message_def le_bytes_def)

text \<open>
  The runner reads back the descriptor and the port the manager sent, for every port and
  whatever follows the message in the stream.
\<close>

theorem recv_fd_roundtrip:
  "recv_fd (Inr (fst (readiness_message fd port) @ rest, Inr (snd (readiness_message fd port)))) =
     (fd, port, None)"
  by (rule readiness_received)

text \<open>
  \<open>recvFD\<close> succeeds exactly when four bytes arrived and some control message carries a
  descriptor; it returns the first one, and the port is the little-endian value of the bytes.
\<close>

theorem recv_fd_succeeds_iff:
  "recv_fd msg = (fd, port, None) \<longleftrightarrow>
     (\<exists>payload before more after. msg = Inr (payload, Inr (before @ Rights (fd # more) # after)) \<and>
        take 4 payload = le_bytes port \<and> first_fd before = None)"
proof
  assume ok: "recv_fd msg = (fd, port, None)"
  then obtain payload msgs where msg: "msg = Inr (payload, Inr msgs)" "4 \<le> length payload"
      and fd: "first_fd msgs = Some fd" and port: "port = le_port (take 4 payload)"
    by (auto simp: recv_fd_def Let_def split: sum.splits if_splits option.splits)
  have "\<exists>before more after. msgs = before @ Rights (fd # more) # after \<and> first_fd before = None"
    using fd
  proof (induction msgs)
    case (Cons m ms)
    show ?case
    proof (cases "\<exists>x xs. m = Rights (x # xs)")
      case True
      then obtain x xs where "m = Rights (x # xs)" by blast
      with Cons.prems have "m # ms = [] @ Rights (fd # xs) # ms" "first_fd [] = None" by simp_all
      then show ?thesis by blast
    next
      case False
      with Cons obtain before more after where "ms = before @ Rights (fd # more) # after" "first_fd before = None"
        by (auto split: cmsg.splits list.splits)
      with False show ?thesis
        by (intro exI[of _ "m # before"] exI[of _ more] exI[of _ after])
          (auto split: cmsg.splits list.splits)
    qed
  qed simp
  moreover have "take 4 payload = le_bytes port"
  proof -
    obtain a b c d rest where "payload = a # b # c # d # rest"
      using msg(2) by (auto simp: numeral_eq_Suc Suc_le_length_iff)
    then have "take 4 payload = [a, b, c, d]" by simp
    moreover have "ucast (le_port [a, b, c, d]) = a" "ucast (drop_bit 8 (le_port [a, b, c, d])) = b"
        "ucast (drop_bit 16 (le_port [a, b, c, d])) = c" "ucast (drop_bit 24 (le_port [a, b, c, d])) = d"
      by (rule bit_word_eqI; auto simp: le_port_def bit_simps dest: bit_imp_le_length)+
    ultimately show ?thesis using port by (simp add: le_bytes_def)
  qed
  ultimately show "\<exists>payload before more after. msg = Inr (payload, Inr (before @ Rights (fd # more) # after)) \<and>
        take 4 payload = le_bytes port \<and> first_fd before = None"
    using msg by blast
next
  have skip: "first_fd (before @ Rights (fd # more) # after) = Some fd" if "first_fd before = None"
    for before more after
    using that by (induction before) (auto split: cmsg.splits list.splits)
  assume "\<exists>payload before more after. msg = Inr (payload, Inr (before @ Rights (fd # more) # after)) \<and>
        take 4 payload = le_bytes port \<and> first_fd before = None"
  then obtain payload before more after where
    msg: "msg = Inr (payload, Inr (before @ Rights (fd # more) # after))" "take 4 payload = le_bytes port"
      and none: "first_fd before = None" by blast
  have "\<not> length (take 4 payload) < 4" unfolding msg(2) by (simp add: le_bytes_def)
  then show "recv_fd msg = (fd, port, None)"
    unfolding recv_fd_def Let_def msg sum.case prod.case by (simp add: le_port_bytes skip[OF none])
qed

section \<open>VMContext\<close>

text \<open>
  What a successful \<open>Run\<close> hands over; \<open>close_done\<close> is the state of \<open>closeOnce\<close>. The agent
  capability and the RPC connection belong to the RPC library: releasing and closing them are
  events.
\<close>

record vm_context =
  agent_valid :: bool
  rpc_conn :: bool
  agent_rwc :: "nat option"
  lock_file :: "nat option"
  lock_path :: string
  close_done :: bool

definition rpc_event :: "string \<Rightarrow> (world, unit) state" where
  "rpc_event m = log_event m []"

definition vm_close :: "vm_context \<Rightarrow> (world, vm_context) state" where
  "vm_close v =
    (if close_done v then State_Monad.return v
     else do {
       _ \<leftarrow> (if agent_valid v then rpc_event ''agent.Release'' else State_Monad.return ());
       _ \<leftarrow> (if rpc_conn v then rpc_event ''rpcConn.Close'' else State_Monad.return ());
       _ \<leftarrow> (case agent_rwc v of
              Some fd \<Rightarrow> do { _ \<leftarrow> os_close fd; State_Monad.return () }
            | None \<Rightarrow> State_Monad.return ());
       _ \<leftarrow> release (lock_file v) (lock_path v);
       State_Monad.return (v\<lparr>close_done := True\<rparr>)
     })"

text \<open>
  Closing a context any number of times after the first does nothing: the agent, the
  connection and the lock are given back once, so a later owner of the same lock path keeps
  its lock file.
\<close>

theorem vm_close_once:
  "run_state (do { v' \<leftarrow> vm_close v; vm_close v' }) w = run_state (vm_close v) w"
  by (auto simp: vm_close_def split: prod.splits option.splits)

lemma log_event_same: "run_state (log_event m a) w = (u, w') \<Longrightarrow> same_files w w'"
  by (auto simp: log_event_def same_files_def inode_of_def)

text \<open>
  Closing a context that holds the lock gives the lock up and closes its file, also when
  the descriptor of the agent connection fails to close.
\<close>

theorem vm_close_frees_lock:
  assumes "\<not> close_done v" and "lock_file v = Some f" and "holds w f" and "agent_rwc v \<noteq> Some f"
    and "run_state (vm_close v) w = (v', w')"
  shows "open_files w' f = None \<and> (\<forall>i. flocks w' i \<noteq> Some f) \<and> close_done v'"
proof -
  obtain x a where a: "run_state (if agent_valid v then rpc_event ''agent.Release'' else State_Monad.return ()) w = (x, a)"
    by (metis surj_pair)
  obtain y b where b: "run_state (if rpc_conn v then rpc_event ''rpcConn.Close'' else State_Monad.return ()) a = (y, b)"
    by (metis surj_pair)
  obtain z c where c: "run_state (case agent_rwc v of
      Some fd \<Rightarrow> do { _ \<leftarrow> os_close fd; State_Monad.return () } | None \<Rightarrow> State_Monad.return ()) b = (z, c)"
    by (metis surj_pair)
  have "holds b f"
    using a b assms(3) by (auto simp: rpc_event_def holds_same dest!: log_event_same split: if_splits)
  then have "holds c f"
    using c assms(4) by (auto split: option.splits prod.splits intro: close_other_holds)
  moreover have "run_state (release (Some f) (lock_path v)) c = ((), w') \<and> v' = v\<lparr>close_done := True\<rparr>"
    using assms(1,2,5) a b c by (auto simp: vm_close_def split: prod.splits)
  ultimately show ?thesis using release_effect[of c f "lock_path v" w'] by simp
qed

definition open_context :: vm_context where
  "open_context = \<lparr>agent_valid = True, rpc_conn = True, agent_rwc = Some 9, lock_file = Some 3,
     lock_path = ''/l'', close_done = False\<rparr>"

theorem vm_close_frees_lock_witness:
  "open_files (snd (run_state (vm_close open_context) held_world)) 3 = None"
proof -
  obtain v' w' where run: "run_state (vm_close open_context) held_world = (v', w')" by (metis surj_pair)
  have "open_files w' 3 = None"
    using vm_close_frees_lock[OF _ _ held_world_eval(2) _ run] by (simp add: open_context_def)
  with run show ?thesis by simp
qed

end
