(* ===== verification/Runner_Loop.thy ===== *)
theory Runner_Loop
  imports Go_Prelude "HOL-Library.Word"
begin

text \<open>
  \<open>VMRunner.Run\<close> from the start of the manager process on (\<open>vm/runner.go\<close>): five goroutines
  that meet on buffered channels. Each action of \<open>step\<close> is one blocking point or one statement
  of one goroutine; a blocked goroutine has no step. The accepting goroutine, the goroutine
  that waits for the process, \<open>Run\<close> itself with its select loop and its error paths, the
  forwarder of proxy connections and the goroutine that closes everything when the manager
  exits.
\<close>

section \<open>State\<close>

record proxy_conn =
  conn_port :: "32 word"
  conn_file :: nat

text \<open>What \<open>readyListener.Accept\<close> and then \<open>recvFD\<close> return.\<close>

datatype incoming =
    AcceptError goerr
  | NotUnixConn
  | Received int "32 word" "goerr option"

text \<open>The manager process; \<open>Dead\<close> is its exit status before \<open>cmd.Wait\<close> has collected it.\<close>

datatype proc = Alive | Dead "goerr option" | Reaped

text \<open>The accepting goroutine; its two deferred closes run after it leaves the loop.\<close>

datatype acceptor_pc = Accepting | Handing proxy_conn | ClosingDone | ClosingCh | Gone

datatype stmt = Kill | AwaitProc | CloseListener | AwaitAcceptDone | RemoveSocket
  | CloseRpc | CloseAgent | CloseContext | SendWait

datatype main_pc =
    Selecting
  | Bootstrapping
  | Cleanup "stmt list" goerr
  | Handover "proxy_conn list"
  | Failed goerr
  | Running

datatype forwarder_pc = FwdIdle | FwdRecv | FwdSend proxy_conn | FwdDone

text \<open>
  Channels of capacity 1 are options, the other buffered ones lists with the oldest element
  first. \<open>accepted\<close> and \<open>delivered\<close> record every connection whose descriptor was received
  and every one the caller has taken from \<open>ProxyConnCh\<close>.
\<close>

record runner =
  listener_open :: bool
  socket_file :: bool
  manager :: proc
  wait_ch :: "goerr option option"
  acceptor :: acceptor_pc
  accept_ch :: "proxy_conn list"
  accept_ch_closed :: bool
  accept_done :: bool
  ready_ch :: bool
  ready_err_ch :: "goerr option"
  main :: main_pc
  agent_conn :: "proxy_conn option"
  pending :: "proxy_conn list"
  proxy_ch :: "proxy_conn list"
  proxy_ch_closed :: bool
  forwarder :: forwarder_pc
  closer :: "stmt list option"
  exit_err :: "goerr option"
  wait_result :: "goerr option option"
  rpc_open :: bool
  agent_open :: bool
  lock_held :: bool
  ctx_closed :: bool
  accepted :: "proxy_conn list"
  delivered :: "proxy_conn list"

definition started :: runner where
  "started = \<lparr>listener_open = True, socket_file = True, manager = Alive, wait_ch = None,
     acceptor = Accepting, accept_ch = [], accept_ch_closed = False, accept_done = False,
     ready_ch = False, ready_err_ch = None, main = Selecting, agent_conn = None, pending = [],
     proxy_ch = [], proxy_ch_closed = False, forwarder = FwdIdle, closer = None, exit_err = None,
     wait_result = None, rpc_open = False, agent_open = False, lock_held = True,
     ctx_closed = False, accepted = [], delivered = []\<rparr>"

section \<open>The accepting goroutine\<close>

definition accept_cap :: nat where "accept_cap = 32"
definition proxy_cap :: nat where "proxy_cap = 64"

text \<open>\<open>select { case readyErrCh <- err: default: }\<close>, then the return.\<close>

definition give_up :: "goerr \<Rightarrow> runner \<Rightarrow> runner" where
  "give_up e s = s\<lparr>ready_err_ch := (case ready_err_ch s of None \<Rightarrow> Some e | x \<Rightarrow> x),
                   acceptor := ClosingDone\<rparr>"

definition accept_returns :: "incoming \<Rightarrow> runner \<Rightarrow> runner" where
  "accept_returns r s =
    (case r of
       AcceptError e \<Rightarrow> if e = ErrClosed then s\<lparr>acceptor := ClosingDone\<rparr> else give_up e s
     | NotUnixConn \<Rightarrow> give_up (Errorf ''unexpected readiness connection type %T'' []) s
     | Received fd port (Some e) \<Rightarrow> give_up (Wrapf ''recv fd: %w'' [] e) s
     | Received fd port None \<Rightarrow>
         if fd < 0 then give_up (Errorf ''failed to wrap received fd'' []) s
         else (let c = \<lparr>conn_port = port, conn_file = nat fd\<rparr> in
               s\<lparr>acceptor := Handing c, accepted := accepted s @ [c]\<rparr>))"

text \<open>\<open>Accept\<close> returns \<open>net.ErrClosed\<close> exactly when the listener is closed.\<close>

definition can_accept :: "incoming \<Rightarrow> runner \<Rightarrow> bool" where
  "can_accept r s \<longleftrightarrow> acceptor s = Accepting \<and> (r = AcceptError ErrClosed \<longleftrightarrow> \<not> listener_open s)"

definition hand_over :: "runner \<Rightarrow> runner option" where
  "hand_over s =
    (case acceptor s of
       Handing c \<Rightarrow>
         if length (accept_ch s) < accept_cap
         then Some (s\<lparr>accept_ch := accept_ch s @ [c], acceptor := Accepting\<rparr>) else None
     | _ \<Rightarrow> None)"

definition acceptor_exit :: "runner \<Rightarrow> runner option" where
  "acceptor_exit s =
    (case acceptor s of
       ClosingDone \<Rightarrow> Some (s\<lparr>accept_done := True, acceptor := ClosingCh\<rparr>)
     | ClosingCh \<Rightarrow> Some (s\<lparr>accept_ch_closed := True, acceptor := Gone\<rparr>)
     | _ \<Rightarrow> None)"

section \<open>Statements of the cleanup paths\<close>

text \<open>
  \<open>VMContext.Close\<close>, under its \<open>sync.Once\<close>: the connection and the lock go together.
\<close>

definition close_context :: "runner \<Rightarrow> runner" where
  "close_context s =
    (if ctx_closed s then s
     else s\<lparr>rpc_open := False, agent_open := False, lock_held := False, ctx_closed := True\<rparr>)"

definition exec_stmt :: "stmt \<Rightarrow> runner \<Rightarrow> runner option" where
  "exec_stmt c s =
    (case c of
       Kill \<Rightarrow> Some (case manager s of Alive \<Rightarrow> s\<lparr>manager := Dead (Some (ExitError (-1)))\<rparr> | _ \<Rightarrow> s)
     | AwaitProc \<Rightarrow>
         (case wait_ch s of None \<Rightarrow> None | Some e \<Rightarrow> Some (s\<lparr>wait_ch := None, exit_err := e\<rparr>))
     | CloseListener \<Rightarrow> Some (s\<lparr>listener_open := False, socket_file := False\<rparr>)
     | AwaitAcceptDone \<Rightarrow> if accept_done s then Some s else None
     | RemoveSocket \<Rightarrow> Some (s\<lparr>socket_file := False\<rparr>)
     | CloseRpc \<Rightarrow> Some (s\<lparr>rpc_open := False\<rparr>)
     | CloseAgent \<Rightarrow> Some (s\<lparr>agent_open := False\<rparr>)
     | CloseContext \<Rightarrow> Some (close_context s)
     | SendWait \<Rightarrow> Some (s\<lparr>wait_result := Some (exit_err s)\<rparr>))"

definition kill_stmts :: "stmt list" where
  "kill_stmts = [Kill, AwaitProc, CloseListener, AwaitAcceptDone, RemoveSocket]"

definition exited_stmts :: "stmt list" where
  "exited_stmts = [CloseListener, AwaitAcceptDone, RemoveSocket]"

definition invalid_agent_stmts :: "stmt list" where
  "invalid_agent_stmts = [CloseRpc, CloseAgent] @ kill_stmts"

definition closer_stmts :: "stmt list" where
  "closer_stmts = [AwaitProc, CloseListener, AwaitAcceptDone, RemoveSocket, CloseContext, SendWait]"

section \<open>Run\<close>

definition closed_err :: goerr where
  "closed_err = Errorf ''readiness channel closed before agent connection'' []"

text \<open>Returning an error runs the deferred release of the lock, which is still held here.\<close>

definition return_error :: "goerr \<Rightarrow> runner \<Rightarrow> runner" where
  "return_error e s = s\<lparr>main := Failed e, lock_held := False\<rparr>"

definition take_accept :: "32 word \<Rightarrow> runner \<Rightarrow> runner option" where
  "take_accept agent_port s =
    (case accept_ch s of
       [] \<Rightarrow> if accept_ch_closed s then Some (return_error closed_err s) else None
     | c # cs \<Rightarrow>
         if conn_port c = agent_port \<and> agent_conn s = None then
           (if ready_ch s then None
            else Some (s\<lparr>accept_ch := cs, agent_conn := Some c, ready_ch := True\<rparr>))
         else Some (s\<lparr>accept_ch := cs, pending := pending s @ [c]\<rparr>))"

definition take_ready :: "runner \<Rightarrow> runner option" where
  "take_ready s =
    (if ready_ch s
     then Some (s\<lparr>ready_ch := False, main := (if agent_conn s \<noteq> None then Bootstrapping else Selecting)\<rparr>)
     else None)"

definition take_ready_err :: "runner \<Rightarrow> runner option" where
  "take_ready_err s =
    (case ready_err_ch s of
       None \<Rightarrow> None
     | Some e \<Rightarrow> Some (s\<lparr>ready_err_ch := None,
         main := Cleanup kill_stmts (Wrapf ''readiness unix socket accept failed: %w'' [] e)\<rparr>))"

definition take_exit :: "runner \<Rightarrow> runner option" where
  "take_exit s =
    (case wait_ch s of
       None \<Rightarrow> None
     | Some err \<Rightarrow> Some (s\<lparr>wait_ch := None, main := Cleanup exited_stmts
         (Wrapf ''vm manager exited before agent readiness: %w'' []
           (case err of None \<Rightarrow> Errorf ''%!w(<nil>)'' [] | Some e \<Rightarrow> e))\<rparr>))"

definition take_cancel :: "runner \<Rightarrow> runner option" where
  "take_cancel s = Some (s\<lparr>main := Cleanup kill_stmts Canceled\<rparr>)"

text \<open>After the loop: the RPC connection, the agent capability and the context.\<close>

definition bootstrap :: "bool \<Rightarrow> runner \<Rightarrow> runner" where
  "bootstrap valid s =
    (if valid then s\<lparr>rpc_open := True, agent_open := True, main := Handover (pending s), pending := []\<rparr>
     else s\<lparr>rpc_open := True, agent_open := True,
            main := Cleanup invalid_agent_stmts (Errorf ''received invalid agent capability'' [])\<rparr>)"

definition main_next :: "runner \<Rightarrow> runner option" where
  "main_next s =
    (case main s of
       Cleanup (c # cs) e \<Rightarrow> map_option (\<lambda>s. s\<lparr>main := Cleanup cs e\<rparr>) (exec_stmt c s)
     | Cleanup [] e \<Rightarrow> Some (return_error e s)
     | Handover (c # cs) \<Rightarrow>
         if length (proxy_ch s) < proxy_cap
         then Some (s\<lparr>proxy_ch := proxy_ch s @ [c], main := Handover cs\<rparr>) else None
     | Handover [] \<Rightarrow> Some (s\<lparr>forwarder := FwdRecv, closer := Some closer_stmts, main := Running\<rparr>)
     | _ \<Rightarrow> None)"

section \<open>The goroutines of a running context\<close>

definition forward_next :: "runner \<Rightarrow> runner option" where
  "forward_next s =
    (case forwarder s of
       FwdRecv \<Rightarrow>
         (case accept_ch s of
            c # cs \<Rightarrow> Some (s\<lparr>accept_ch := cs, forwarder := FwdSend c\<rparr>)
          | [] \<Rightarrow> if accept_ch_closed s then Some (s\<lparr>proxy_ch_closed := True, forwarder := FwdDone\<rparr>)
                  else None)
     | FwdSend c \<Rightarrow>
         if length (proxy_ch s) < proxy_cap
         then Some (s\<lparr>proxy_ch := proxy_ch s @ [c], forwarder := FwdRecv\<rparr>) else None
     | _ \<Rightarrow> None)"

definition closer_next :: "runner \<Rightarrow> runner option" where
  "closer_next s =
    (case closer s of
       Some (c # cs) \<Rightarrow> map_option (\<lambda>s. s\<lparr>closer := Some cs\<rparr>) (exec_stmt c s)
     | _ \<Rightarrow> None)"

definition user_take :: "runner \<Rightarrow> runner option" where
  "user_take s =
    (case proxy_ch s of
       c # cs \<Rightarrow> if main s = Running then Some (s\<lparr>proxy_ch := cs, delivered := delivered s @ [c]\<rparr>) else None
     | [] \<Rightarrow> None)"

section \<open>Steps\<close>

datatype action =
    AcceptReturns incoming
  | HandOver
  | AcceptorExit
  | ManagerExits "goerr option"
  | Reap
  | TakeAccept
  | TakeReady
  | TakeReadyErr
  | TakeExit
  | TakeCancel
  | Bootstrap bool
  | MainNext
  | ForwardNext
  | CloserNext
  | UserTake
  | UserClose

definition step :: "32 word \<Rightarrow> action \<Rightarrow> runner \<Rightarrow> runner option" where
  "step port a s =
    (case a of
       AcceptReturns r \<Rightarrow> if can_accept r s then Some (accept_returns r s) else None
     | HandOver \<Rightarrow> hand_over s
     | AcceptorExit \<Rightarrow> acceptor_exit s
     | ManagerExits e \<Rightarrow> if manager s = Alive then Some (s\<lparr>manager := Dead e\<rparr>) else None
     | Reap \<Rightarrow> (case manager s of Dead e \<Rightarrow> Some (s\<lparr>manager := Reaped, wait_ch := Some e\<rparr>) | _ \<Rightarrow> None)
     | TakeAccept \<Rightarrow> if main s = Selecting then take_accept port s else None
     | TakeReady \<Rightarrow> if main s = Selecting then take_ready s else None
     | TakeReadyErr \<Rightarrow> if main s = Selecting then take_ready_err s else None
     | TakeExit \<Rightarrow> if main s = Selecting then take_exit s else None
     | TakeCancel \<Rightarrow> if main s = Selecting then take_cancel s else None
     | Bootstrap valid \<Rightarrow> if main s = Bootstrapping then Some (bootstrap valid s) else None
     | MainNext \<Rightarrow> main_next s
     | ForwardNext \<Rightarrow> forward_next s
     | CloserNext \<Rightarrow> closer_next s
     | UserTake \<Rightarrow> user_take s
     | UserClose \<Rightarrow> if main s = Running then Some (close_context s) else None)"

fun run :: "32 word \<Rightarrow> action list \<Rightarrow> runner \<Rightarrow> runner option" where
  "run port [] s = Some s"
| "run port (a # as) s = (case step port a s of None \<Rightarrow> None | Some t \<Rightarrow> run port as t)"

inductive reachable :: "32 word \<Rightarrow> runner \<Rightarrow> bool" for port where
  start: "reachable port started"
| next_step: "reachable port s \<Longrightarrow> step port a s = Some t \<Longrightarrow> reachable port t"

lemma run_reachable: "run port as s = Some t \<Longrightarrow> reachable port s \<Longrightarrow> reachable port t"
  by (induction as arbitrary: s) (auto split: option.splits intro: next_step)

lemma run_append: "run port (as @ bs) s = (case run port as s of None \<Rightarrow> None | Some t \<Rightarrow> run port bs t)"
  by (induction as arbitrary: s) (auto split: option.splits)

lemmas step_defs = step_def accept_returns_def can_accept_def give_up_def hand_over_def acceptor_exit_def
  close_context_def exec_stmt_def return_error_def take_accept_def take_ready_def take_ready_err_def
  take_exit_def take_cancel_def bootstrap_def main_next_def forward_next_def closer_next_def user_take_def

section \<open>Inversion of the steps\<close>

lemma exec_stmtE:
  assumes "exec_stmt c s = Some t"
  obtains (kill) "c = Kill" "manager s = Alive" "t = s\<lparr>manager := Dead (Some (ExitError (-1)))\<rparr>"
  | (dead) "c = Kill" "manager s \<noteq> Alive" "t = s"
  | (await) e where "c = AwaitProc" "wait_ch s = Some e" "t = s\<lparr>wait_ch := None, exit_err := e\<rparr>"
  | (listener) "c = CloseListener" "t = s\<lparr>listener_open := False, socket_file := False\<rparr>"
  | (accept_done) "c = AwaitAcceptDone" "accept_done s" "t = s"
  | (socket) "c = RemoveSocket" "t = s\<lparr>socket_file := False\<rparr>"
  | (rpc) "c = CloseRpc" "t = s\<lparr>rpc_open := False\<rparr>"
  | (agent) "c = CloseAgent" "t = s\<lparr>agent_open := False\<rparr>"
  | (ctx) "c = CloseContext" "t = close_context s"
  | (result) "c = SendWait" "t = s\<lparr>wait_result := Some (exit_err s)\<rparr>"
proof (cases c)
  case Kill
  show thesis
  proof (cases "manager s = Alive")
    case True
    with Kill assms show thesis by (intro kill) (simp_all add: exec_stmt_def)
  next
    case False
    with Kill assms show thesis by (intro dead) (simp_all add: exec_stmt_def split: proc.splits)
  qed
next
  case AwaitProc
  with assms obtain e where "wait_ch s = Some e" by (auto simp: exec_stmt_def split: option.splits)
  moreover from this AwaitProc assms have "t = s\<lparr>wait_ch := None, exit_err := e\<rparr>"
    by (simp add: exec_stmt_def)
  ultimately show thesis by (rule await[OF AwaitProc])
next
  case AwaitAcceptDone
  with assms show thesis by (intro accept_done) (simp_all add: exec_stmt_def split: if_splits)
next
  case CloseListener
  with assms show thesis by (intro listener) (simp_all add: exec_stmt_def)
next
  case RemoveSocket
  with assms show thesis by (intro socket) (simp_all add: exec_stmt_def)
next
  case CloseRpc
  with assms show thesis by (intro rpc) (simp_all add: exec_stmt_def)
next
  case CloseAgent
  with assms show thesis by (intro agent) (simp_all add: exec_stmt_def)
next
  case CloseContext
  with assms show thesis by (intro ctx) (simp_all add: exec_stmt_def)
next
  case SendWait
  with assms show thesis by (intro result) (simp_all add: exec_stmt_def)
qed

lemma accept_outcome:
  "r = AcceptError ErrClosed \<and> accept_returns r s = s\<lparr>acceptor := ClosingDone\<rparr> \<or>
   (\<exists>e. accept_returns r s = give_up e s) \<or>
   (\<exists>c. accept_returns r s = s\<lparr>acceptor := Handing c, accepted := accepted s @ [c]\<rparr>)"
  by (cases r) (auto simp: accept_returns_def Let_def split: option.splits)

lemma stepE:
  assumes "step port a s = Some t"
  obtains
    (closed) "acceptor s = Accepting" "\<not> listener_open s" "t = s\<lparr>acceptor := ClosingDone\<rparr>"
  | (gave_up) e where "acceptor s = Accepting" "t = give_up e s"
  | (got) c where "acceptor s = Accepting" "t = s\<lparr>acceptor := Handing c, accepted := accepted s @ [c]\<rparr>"
  | (handed) c where "acceptor s = Handing c" "length (accept_ch s) < accept_cap"
      "t = s\<lparr>accept_ch := accept_ch s @ [c], acceptor := Accepting\<rparr>"
  | (done1) "acceptor s = ClosingDone" "t = s\<lparr>accept_done := True, acceptor := ClosingCh\<rparr>"
  | (done2) "acceptor s = ClosingCh" "t = s\<lparr>accept_ch_closed := True, acceptor := Gone\<rparr>"
  | (exits) e where "manager s = Alive" "t = s\<lparr>manager := Dead e\<rparr>"
  | (reaped) e where "manager s = Dead e" "t = s\<lparr>manager := Reaped, wait_ch := Some e\<rparr>"
  | (chan_closed) "main s = Selecting" "accept_ch s = []" "accept_ch_closed s" "t = return_error closed_err s"
  | (agent) c cs where "main s = Selecting" "accept_ch s = c # cs" "conn_port c = port" "agent_conn s = None"
      "\<not> ready_ch s" "t = s\<lparr>accept_ch := cs, agent_conn := Some c, ready_ch := True\<rparr>"
  | (proxy) c cs where "main s = Selecting" "accept_ch s = c # cs" "conn_port c \<noteq> port \<or> agent_conn s \<noteq> None"
      "t = s\<lparr>accept_ch := cs, pending := pending s @ [c]\<rparr>"
  | (ready) "main s = Selecting" "ready_ch s"
      "t = s\<lparr>ready_ch := False, main := (if agent_conn s \<noteq> None then Bootstrapping else Selecting)\<rparr>"
  | (ready_err) e where "main s = Selecting" "ready_err_ch s = Some e"
      "t = s\<lparr>ready_err_ch := None,
         main := Cleanup kill_stmts (Wrapf ''readiness unix socket accept failed: %w'' [] e)\<rparr>"
  | (exited) err e where "main s = Selecting" "wait_ch s = Some err"
      "t = s\<lparr>wait_ch := None,
         main := Cleanup exited_stmts (Wrapf ''vm manager exited before agent readiness: %w'' [] e)\<rparr>"
  | (cancelled) "main s = Selecting" "t = s\<lparr>main := Cleanup kill_stmts Canceled\<rparr>"
  | (booted) valid where "main s = Bootstrapping" "t = bootstrap valid s"
  | (cleanup) c cs e u where "main s = Cleanup (c # cs) e" "exec_stmt c s = Some u" "t = u\<lparr>main := Cleanup cs e\<rparr>"
  | (returned) e where "main s = Cleanup [] e" "t = return_error e s"
  | (gave) c cs where "main s = Handover (c # cs)" "length (proxy_ch s) < proxy_cap"
      "t = s\<lparr>proxy_ch := proxy_ch s @ [c], main := Handover cs\<rparr>"
  | (running) "main s = Handover []" "t = s\<lparr>forwarder := FwdRecv, closer := Some closer_stmts, main := Running\<rparr>"
  | (fwd_recv) c cs where "forwarder s = FwdRecv" "accept_ch s = c # cs"
      "t = s\<lparr>accept_ch := cs, forwarder := FwdSend c\<rparr>"
  | (fwd_done) "forwarder s = FwdRecv" "accept_ch s = []" "accept_ch_closed s"
      "t = s\<lparr>proxy_ch_closed := True, forwarder := FwdDone\<rparr>"
  | (fwd_send) c where "forwarder s = FwdSend c" "length (proxy_ch s) < proxy_cap"
      "t = s\<lparr>proxy_ch := proxy_ch s @ [c], forwarder := FwdRecv\<rparr>"
  | (closing) c cs u where "closer s = Some (c # cs)" "exec_stmt c s = Some u" "t = u\<lparr>closer := Some cs\<rparr>"
  | (took) c cs where "main s = Running" "proxy_ch s = c # cs"
      "t = s\<lparr>proxy_ch := cs, delivered := delivered s @ [c]\<rparr>"
  | (user_close) "main s = Running" "t = close_context s"
proof (cases a)
  case (AcceptReturns r)
  with assms have acc: "acceptor s = Accepting" "r = AcceptError ErrClosed \<longleftrightarrow> \<not> listener_open s"
      and t: "t = accept_returns r s"
    by (auto simp: step_def can_accept_def split: if_splits)
  from t consider "r = AcceptError ErrClosed" "t = s\<lparr>acceptor := ClosingDone\<rparr>" | e where "t = give_up e s"
    | c where "t = s\<lparr>acceptor := Handing c, accepted := accepted s @ [c]\<rparr>"
    using accept_outcome[of r s] by auto
  with acc closed gave_up got show thesis by cases auto
next
  case HandOver
  with assms handed show thesis by (auto simp: step_def hand_over_def split: acceptor_pc.splits if_splits)
next
  case AcceptorExit
  with assms done1 done2 show thesis by (auto simp: step_def acceptor_exit_def split: acceptor_pc.splits)
next
  case (ManagerExits e)
  with assms exits show thesis by (auto simp: step_def split: if_splits)
next
  case Reap
  with assms reaped show thesis by (auto simp: step_def split: proc.splits)
next
  case TakeAccept
  with assms chan_closed agent proxy show thesis
    by (auto simp: step_def take_accept_def split: if_splits list.splits)
next
  case TakeReady
  with assms ready show thesis by (auto simp: step_def take_ready_def split: if_splits)
next
  case TakeReadyErr
  with assms ready_err show thesis by (auto simp: step_def take_ready_err_def split: if_splits option.splits)
next
  case TakeExit
  with assms have "main s = Selecting" "take_exit s = Some t" by (auto simp: step_def split: if_splits)
  with exited show thesis by (auto simp: take_exit_def split: option.splits)
next
  case TakeCancel
  with assms cancelled show thesis by (auto simp: step_def take_cancel_def split: if_splits)
next
  case (Bootstrap v)
  with assms booted show thesis by (auto simp: step_def split: if_splits)
next
  case MainNext
  with assms have m: "main_next s = Some t" by (simp add: step_def)
  show thesis
  proof (cases "main s")
    case (Cleanup cs e)
    with m cleanup returned show thesis by (cases cs) (auto simp: main_next_def)
  next
    case (Handover cs)
    with m gave running show thesis by (cases cs) (auto simp: main_next_def split: if_splits)
  qed (use m in \<open>simp_all add: main_next_def\<close>)
next
  case ForwardNext
  with assms fwd_recv fwd_done fwd_send show thesis
    by (auto simp: step_def forward_next_def split: forwarder_pc.splits list.splits if_splits)
next
  case CloserNext
  with assms closing show thesis by (auto simp: step_def closer_next_def split: option.splits list.splits)
next
  case UserTake
  with assms took show thesis by (auto simp: step_def user_take_def split: list.splits if_splits)
next
  case UserClose
  with assms user_close show thesis by (auto simp: step_def split: if_splits)
qed

end
