(* ===== verification/Runner.thy ===== *)
theory Runner
  imports Runner_Conn Runner_Loop Config_Props
begin

text \<open>
  \<open>vm/runner.go\<close>, from \<open>NewVMRunner\<close> to the start of the manager process: the runner, the
  command it builds, and the first half of \<open>Run\<close>, which takes the instance lock and has to
  give it back on every error. The locale \<open>exclusive\<close> states what the second half needs of
  the lock.
\<close>

section \<open>The lock as an interface\<close>

text \<open>
  A resource that is acquired at most once at a time: \<open>owned\<close> are the handles that have one.
  \<open>None\<close> is the handle of a caller that asked for no resource.
\<close>

definition under_lock ::
  "('w, 'e + 'h option) state \<Rightarrow> ('h option \<Rightarrow> ('w, unit) state) \<Rightarrow> ('w, 'e + 'a) state \<Rightarrow>
   ('w, 'e + ('h option \<times> 'a)) state" where
  "under_lock acq rel body =
     or_fail acq (\<lambda>e. e) (\<lambda>h. do {
       r \<leftarrow> body;
       case r of
         Inl e \<Rightarrow> do { _ \<leftarrow> rel h; State_Monad.return (Inl e) }
       | Inr x \<Rightarrow> State_Monad.return (Inr (h, x))
     })"

locale exclusive =
  fixes acq :: "('w, 'e + 'h option) state"
    and rel :: "'h option \<Rightarrow> ('w, unit) state"
    and owned :: "'w \<Rightarrow> 'h set"
    and ok :: "'w \<Rightarrow> bool"
  assumes acq_owns: "ok w \<Longrightarrow> run_state acq w = (r, w') \<Longrightarrow>
      ok w' \<and> owned w' = owned w \<union> (case r of Inr (Some h) \<Rightarrow> {h} | _ \<Rightarrow> {})"
    and acq_new: "ok w \<Longrightarrow> run_state acq w = (Inr (Some h), w') \<Longrightarrow> h \<notin> owned w"
    and rel_disowns: "ok w \<Longrightarrow> run_state (rel ho) w = (u, w') \<Longrightarrow> owned w' = owned w - set_option ho"
begin

text \<open>An error gives back what was acquired, a success hands it over.\<close>

lemma under_lock_owned:
  assumes "ok w"
    and body: "\<And>v r v'. ok v \<Longrightarrow> run_state body v = (r, v') \<Longrightarrow> ok v' \<and> owned v' = owned v"
    and run: "run_state (under_lock acq rel body) w = (r, w')"
  shows "owned w' = owned w \<union> (case r of Inr (Some h, _) \<Rightarrow> {h} | _ \<Rightarrow> {})"
proof -
  obtain a v where a: "run_state acq w = (a, v)" by (metis surj_pair)
  note v = acq_owns[OF assms(1) a]
  show ?thesis
  proof (cases a)
    case (Inl e)
    with a run have "r = Inl e" "w' = v" by (simp_all add: under_lock_def)
    with Inl v show ?thesis by simp
  next
    case (Inr h)
    obtain b u where b: "run_state body v = (b, u)" by (metis surj_pair)
    with body v have u: "ok u" "owned u = owned v" by blast+
    show ?thesis
    proof (cases b)
      case (Inl e)
      with a b Inr run have r: "r = Inl e" and rel: "run_state (rel h) u = ((), w')"
        by (auto simp: under_lock_def split: prod.splits)
      have "h \<noteq> None \<longrightarrow> the h \<notin> owned w" using acq_new[OF assms(1)] a Inr by auto
      with rel_disowns[OF u(1) rel] u v r Inr show ?thesis by (auto split: option.splits)
    next
      case (Inr x)
      with a b \<open>a = Inr h\<close> run have "r = Inr (h, x)" "w' = u" by (auto simp: under_lock_def)
      with u v \<open>a = Inr h\<close> show ?thesis by (auto split: option.splits)
    qed
  qed
qed

end

section \<open>The instance lock provides it\<close>

lemma fresh_not_flocked: "fresh_fds w \<Longrightarrow> flocks w i \<noteq> Some (next_fd w)"
  by (auto simp: fresh_fds_alt)

lemma created_holds:
  assumes "run_state (os_create s tr m) w = (Inr f, v)" and "fresh_fds w"
  shows "fresh_fds v" and "holds v g = holds w g" and "\<not> holds w f" and "flocks v j \<noteq> Some f"
    and "inode_of v f \<noteq> None"
proof -
  obtain i where v: "inode_of v = (inode_of w)(next_fd w := Some i)" "flocks v = flocks w"
      "next_fd v = Suc (next_fd w)" and f: "f = next_fd w"
    using create_effect[OF assms(1)] by auto
  with assms(2) show "fresh_fds v" "holds v g = holds w g" "\<not> holds w f" "flocks v j \<noteq> Some f" "inode_of v f \<noteq> None"
    by (auto simp: fresh_fds_alt holds_inode less_Suc_eq)
qed

lemma flock_fails_same: "run_state (sys_flock_ex f) w = (Inl e, w') \<Longrightarrow> same_files w w'"
  using flock_effect by fastforce

lemma close_fresh: "fresh_fds w \<Longrightarrow> run_state (os_close f) w = (r, w') \<Longrightarrow> fresh_fds w'"
  by (drule close_effect) (auto simp: fresh_fds_alt same_files_def split: if_splits)

lemma close_keeps_others:
  assumes "run_state (os_close f) w = (r, w')" and "\<And>i. flocks w i \<noteq> Some f" and "\<not> holds w f"
  shows "holds w' g = holds w g"
  using close_effect[OF assms(1)] assms(2,3) by (auto simp: holds_inode same_files_def split: if_splits)

lemma acquire_holds:
  assumes "fresh_fds w" and "run_state (acquire stamp path) w = (r, w')"
  shows "fresh_fds w' \<and> {f. holds w' f} = {f. holds w f} \<union> (case r of Inr (Some h) \<Rightarrow> {h} | _ \<Rightarrow> {}) \<and>
    (\<forall>h. r = Inr (Some h) \<longrightarrow> \<not> holds w h)"
proof (cases "blank path")
  case True
  with assms have "r = Inr None" "w' = w" by (simp_all add: acquire_def)
  with assms(1) show ?thesis by simp
next
  case False
  from assms(2) False show ?thesis
  proof (cases rule: acquire_cases)
    case (early e)
    with assms(1) show ?thesis by (simp add: holds_same fresh_fds_same)
  next
    case (refused u f v x y)
    have u: "fresh_fds u" "holds u g = holds w g" for g
      using same_files_mkdir_all[OF refused(1)] assms(1) by (simp_all add: fresh_fds_same holds_same)
    note v = created_holds[OF refused(2) u(1)]
    have y: "fresh_fds y" "holds y g = holds w g" "flocks y i \<noteq> Some f" "\<not> holds y f" for g i
    proof -
      have same: "same_files v y" by (rule flock_fails_same[OF refused(3)])
      show "fresh_fds y" by (rule fresh_fds_same[OF same v(1)])
      show "holds y g = holds w g" using holds_same[OF same] v(2) u(2) by simp
      show "flocks y i \<noteq> Some f" using same v(4) by (simp add: same_files_def)
      show "\<not> holds y f" using holds_same[OF same] v(2,3) u(2) by simp
    qed
    obtain a where close: "run_state (os_close f) y = (a, w')" using refused(5) by (metis prod.collapse)
    have "fresh_fds w'" "holds w' g = holds w g" for g
      using close_fresh[OF y(1) close] close_keeps_others[OF close y(3,4)] y(2) by auto
    with refused(4) show ?thesis by simp
  next
    case (locked u f v y)
    have u: "fresh_fds u" "holds u g = holds w g" for g
      using same_files_mkdir_all[OF locked(1)] assms(1) by (simp_all add: fresh_fds_same holds_same)
    note v = created_holds[OF locked(2) u(1)]
    obtain i where i: "inode_of v f = Some i" "flocks v i = None" "inode_of y = inode_of v"
        "flocks y = (flocks v)(i := Some f)" "next_fd y = next_fd v"
      using flock_effect[OF locked(3)] v(4) by auto
    have "f < next_fd v" using v(1) i(1) by (metis fresh_fds_alt not_less option.distinct(1))
    with v(1) i have "fresh_fds y" by (auto simp: fresh_fds_alt)
    moreover have "holds y g \<longleftrightarrow> holds w g \<or> g = f" for g
      using i v(2)[of g] u(2)[of g] by (auto simp: holds_inode)
    moreover have "\<not> holds w f" using v(3) u(2) by simp
    ultimately show ?thesis using locked(4,5) by (auto simp: holds_same fresh_fds_same)
  qed
qed

lemma release_holds:
  assumes "run_state (release h path) w = (u, w')"
  shows "{f. holds w' f} = {f. holds w f} - set_option h"
proof (cases h)
  case None
  with assms show ?thesis by (simp add: release_def)
next
  case (Some f)
  obtain a v where un: "run_state (sys_flock_un f) w = (a, v)" by (metis surj_pair)
  obtain b x where cl: "run_state (os_close f) v = (b, x)" by (metis surj_pair)
  obtain d z where rm: "run_state (os_remove path) x = (d, z)" by (metis surj_pair)
  have "holds v g = holds w g" if "g \<noteq> f" for g
    using unlock_effect[OF un] that by (auto simp: holds_inode split: if_splits)
  moreover have "holds x g \<longleftrightarrow> holds v g \<and> g \<noteq> f" for g
  proof (cases "open_files v f = None")
    case True
    then have "x = v" using cl by (auto simp: os_close_def Let_def)
    with True show ?thesis by (auto simp: holds_def)
  next
    case False
    then have "inode_of x = (inode_of v)(f := None) \<and>
        flocks x = (\<lambda>i. if flocks v i = Some f then None else flocks v i)"
      using cl by (auto simp: os_close_def Let_def inode_of_def fun_eq_iff split: option.splits)
    then have "inode_of x g = (if g = f then None else inode_of v g)"
        "flocks x i = Some g \<longleftrightarrow> flocks v i = Some g \<and> g \<noteq> f" for i by auto
    then show ?thesis by (auto simp: holds_inode)
  qed
  moreover have "w' = x \<or> w' = z" using assms Some un cl rm by (auto simp: release_def split: if_splits)
  ultimately show ?thesis using same_files_remove[OF rm] Some by (auto simp: holds_same)
qed

interpretation instance_lock: exclusive "acquire stamp path" "\<lambda>h. release h path" "\<lambda>w. {f. holds w f}" fresh_fds
  for stamp path
  by unfold_locales (use acquire_holds release_holds in \<open>fastforce+\<close>)

section \<open>VMRunner\<close>

record vm_runner =
  manager_binary_path :: string
  runner_logger :: string

text \<open>A nil logger is \<open>None\<close>; the default one writes to the standard error.\<close>

definition new_vm_runner_with_manager :: "string option \<Rightarrow> string \<Rightarrow> vm_runner" where
  "new_vm_runner_with_manager logger path =
    \<lparr>manager_binary_path = (if blank path then ''vmmanager'' else path),
     runner_logger = (case logger of None \<Rightarrow> ''stderr'' | Some l \<Rightarrow> l)\<rparr>"

definition new_vm_runner :: "string option \<Rightarrow> vm_runner" where
  "new_vm_runner logger = new_vm_runner_with_manager logger []"

definition command :: "vm_runner \<Rightarrow> vm_config \<Rightarrow> (string \<times> string list) sys" where
  "command r cfg =
    or_fail (State_Monad.return (manager_args cfg)) (\<lambda>e. e) (\<lambda>args.
    or_fail (os_stat (manager_binary_path r))
      (Wrapf ''manager binary not found at %q: %w'' [manager_binary_path r]) (\<lambda>_.
    State_Monad.return (Inr (manager_binary_path r, args))))"

text \<open>
  \<open>cmd.Start\<close> of the command \<open>exec.CommandContext\<close> built, with the directories of \<open>PATH\<close>.
\<close>

definition start_command :: "string list \<Rightarrow> string \<times> string list \<Rightarrow> unit sys" where
  "start_command dirs cmd =
    or_fail (look_path dirs (fst cmd)) (\<lambda>e. e) (\<lambda>path. exec_start path (snd cmd))"

text \<open>
  \<open>Run\<close> after the lock and up to the started manager. A listener that is closed removes its
  socket file; the code then removes it again.
\<close>

definition launch :: "string list \<Rightarrow> vm_runner \<Rightarrow> vm_config \<Rightarrow> (string \<times> string list) sys" where
  "launch dirs r cfg =
    or_fail (command r cfg) (\<lambda>e. e) (\<lambda>cmd.
    or_fail (os_mkdir_all (dir (agent_ready_socket_path cfg)) 493)
      (Wrapf ''create readiness socket directory: %w'' []) (\<lambda>_. do {
      _ \<leftarrow> os_remove (agent_ready_socket_path cfg);
      or_fail (net_listen_unix (agent_ready_socket_path cfg))
        (Wrapf ''listen on readiness socket %q: %w'' [agent_ready_socket_path cfg]) (\<lambda>_. do {
        st \<leftarrow> start_command dirs cmd;
        case st of
          Inl e \<Rightarrow> do {
            _ \<leftarrow> os_remove (agent_ready_socket_path cfg);
            _ \<leftarrow> os_remove (agent_ready_socket_path cfg);
            State_Monad.return (Inl e)
          }
        | Inr _ \<Rightarrow> State_Monad.return (Inr cmd)
      })
    }))"

definition run_start ::
  "string \<Rightarrow> string list \<Rightarrow> vm_runner \<Rightarrow> vm_config \<Rightarrow> (nat option \<times> string \<times> string list) sys" where
  "run_start stamp dirs r cfg =
    under_lock (acquire stamp (lock_file_path cfg)) (\<lambda>h. release h (lock_file_path cfg))
      (launch dirs r cfg)"

subsection \<open>What launching does to locks and to the trace\<close>

abbreviation lockless :: "(world, 'a) state \<Rightarrow> bool" where
  "lockless \<equiv> obeys same_files"

named_theorems lockless_intros

lemma same_files_refl [simp]: "same_files w w"
  by (simp add: same_files_def)

interpretation lockless: state_preorder same_files
  by unfold_locales (simp, rule same_files_trans)

lemmas lockless_rules [lockless_intros] = lockless.rules

lemma lockless_calls [lockless_intros]:
  "lockless (os_stat s)" "lockless (os_mkdir_all s m)" "lockless (os_remove s)"
  unfolding obeys_def
  by (intro allI impI, erule same_files_tree_calls same_files_mkdir_all same_files_remove)+

lemma lockless_listen [lockless_intros]: "lockless (net_listen_unix s)"
  unfolding obeys_def net_listen_unix_def
  by (auto simp: same_files_def inode_of_def set_node_def Let_def elim!: on_nodeE)

lemma lockless_exec [lockless_intros]: "lockless (exec_start p args)"
  unfolding obeys_def exec_start_def
  by (auto simp: same_files_def inode_of_def elim!: on_nodeE split: node.splits)

lemma lockless_search [lockless_intros]: "lockless (search_path ds f)"
  by (induction ds) (auto simp: Let_def split: node.splits intro!: lockless_intros)

lemma lockless_launch: "lockless (launch dirs r cfg)"
  unfolding launch_def command_def start_command_def look_path_def
  by (auto intro!: lockless_intros)

lemma launch_owned: "fresh_fds v \<Longrightarrow> run_state (launch dirs r cfg) v = (x, v') \<Longrightarrow>
    fresh_fds v' \<and> {f. holds v' f} = {f. holds v f}"
  using lockless_launch unfolding obeys_def by (metis (no_types, lifting) Collect_cong fresh_fds_same holds_same)


lemma quiet_search [quiet_intros]: "quiet (search_path ds f)"
proof (induction ds)
  case (Cons d ds)
  then show ?case
    unfolding search_path.simps Let_def
    by (intro quiet.bind quiet_calls) (simp add: quiet.ret split: sum.splits node.splits)
qed (simp add: quiet.ret)

lemma quiet_listen [quiet_intros]: "quiet (net_listen_unix s)"
  unfolding net_listen_unix_def
  by (rule quiet_on_node) (auto simp: set_node_def Let_def split: option.splits)

lemma quiet_acquire: "quiet (acquire stamp path)"
  unfolding acquire_def by (auto intro!: quiet_intros)

lemma quiet_release: "quiet (release h path)"
  unfolding release_def by (auto split: option.splits intro!: quiet_intros)

lemma quiet_command: "quiet (command r cfg)"
  unfolding command_def by (intro quiet_intros)

lemma exec_start_trace:
  "run_state (exec_start p args) w = (x, w') \<Longrightarrow>
   trace w' = trace w @ (case x of Inl _ \<Rightarrow> [] | Inr _ \<Rightarrow> [EvExec p args])"
  unfolding exec_start_def by (auto elim!: on_nodeE split: node.splits)

lemma quiet_look_path [quiet_intros]: "quiet (look_path dirs f)"
  unfolding look_path_def by (intro quiet_intros)

lemma start_command_trace:
  assumes "run_state (start_command dirs cmd) w = (x, w')"
  shows "(\<exists>e. x = Inl e) \<and> trace w' = trace w \<or>
    x = Inr () \<and> (\<exists>p. trace w' = trace w @ [EvExec p (snd cmd)] \<and> (slash \<in> set (fst cmd) \<longrightarrow> p = fst cmd))"
proof -
  obtain a v where a: "run_state (look_path dirs (fst cmd)) w = (a, v)" by (metis surj_pair)
  have v: "trace v = trace w" by (rule quietD[OF quiet_look_path a])
  show ?thesis
  proof (cases a)
    case (Inl e)
    with a v assms show ?thesis by (auto simp: start_command_def)
  next
    case (Inr p)
    with a assms have "run_state (exec_start p (snd cmd)) v = (x, w')" by (simp add: start_command_def)
    moreover have "slash \<in> set (fst cmd) \<longrightarrow> p = fst cmd" using a Inr by (auto simp: look_path_def)
    ultimately show ?thesis using exec_start_trace v by (cases x) fastforce+
  qed
qed

lemma command_result:
  "run_state (command r cfg) w = (Inr cmd, w') \<Longrightarrow>
   fst cmd = manager_binary_path r \<and> manager_args cfg = Inr (snd cmd)"
  by (auto simp: command_def split: sum.splits prod.splits)

lemma launch_trace:
  assumes "run_state (launch dirs r cfg) w = (x, w')"
  shows "(\<exists>e. x = Inl e) \<and> trace w' = trace w \<or>
    (\<exists>args p. x = Inr (manager_binary_path r, args) \<and> manager_args cfg = Inr args \<and>
       trace w' = trace w @ [EvExec p args] \<and> (slash \<in> set (manager_binary_path r) \<longrightarrow> p = manager_binary_path r))"
proof -
  let ?sock = "agent_ready_socket_path cfg"
  obtain a w1 where a: "run_state (command r cfg) w = (a, w1)" by (metis surj_pair)
  obtain b w2 where b: "run_state (os_mkdir_all (dir ?sock) 493) w1 = (b, w2)" by (metis surj_pair)
  obtain c w3 where c: "run_state (os_remove ?sock) w2 = (c, w3)" by (metis surj_pair)
  obtain d w4 where d: "run_state (net_listen_unix ?sock) w3 = (d, w4)" by (metis surj_pair)
  have q: "trace w1 = trace w" "trace w2 = trace w" "trace w4 = trace w"
    using quietD[OF quiet_command a] quietD[OF quiet_mkdir_all b] quietD[OF quiet_calls(5) c]
      quietD[OF quiet_listen d] by simp_all
  show ?thesis
  proof (cases "\<exists>cmd u v. a = Inr cmd \<and> b = Inr u \<and> d = Inr v")
    case False
    with assms a b c d q show ?thesis by (cases a; cases b; cases d) (auto simp: launch_def)
  next
    case True
    then obtain cmd where ok: "a = Inr cmd" "b = Inr ()" "d = Inr ()" by auto
    note cmd = command_result[OF a[unfolded ok(1)]]
    obtain st w5 where st: "run_state (start_command dirs cmd) w4 = (st, w5)" by (metis surj_pair)
    show ?thesis
    proof (cases st)
      case (Inl e)
      obtain y w6 where y: "run_state (os_remove ?sock) w5 = (y, w6)" by (metis surj_pair)
      obtain z w7 where z: "run_state (os_remove ?sock) w6 = (z, w7)" by (metis surj_pair)
      have "x = Inl e" "w' = w7" using assms a b c d ok st Inl y z by (simp_all add: launch_def)
      moreover have "trace w7 = trace w"
        using start_command_trace[OF st] Inl q quietD[OF quiet_calls(5) y] quietD[OF quiet_calls(5) z] by simp
      ultimately show ?thesis by blast
    next
      case (Inr u)
      have "x = Inr cmd" "w' = w5" using assms a b c d ok st Inr by (simp_all add: launch_def)
      with start_command_trace[OF st] Inr cmd q show ?thesis by (cases cmd) auto
    qed
  qed
qed

text \<open>
  \<open>Run\<close> starts the manager only when everything before it succeeded, with the arguments
  that \<open>ManagerArgs\<close> makes of the configuration, and starts nothing when it returns an error.
\<close>

theorem run_start_executes:
  assumes "run_state (run_start stamp dirs r cfg) w = (x, w')"
  shows "(\<exists>e. x = Inl e \<and> trace w' = trace w) \<or>
    (\<exists>h args p. x = Inr (h, manager_binary_path r, args) \<and> manager_args cfg = Inr args \<and>
       trace w' = trace w @ [EvExec p args] \<and> (slash \<in> set (manager_binary_path r) \<longrightarrow> p = manager_binary_path r))"
proof -
  let ?path = "lock_file_path cfg"
  obtain a u where a: "run_state (acquire stamp ?path) w = (a, u)" by (metis surj_pair)
  note u = quietD[OF quiet_acquire a]
  show ?thesis
  proof (cases a)
    case (Inl e)
    with assms a u show ?thesis by (auto simp: run_start_def under_lock_def)
  next
    case (Inr h)
    obtain b v where b: "run_state (launch dirs r cfg) u = (b, v)" by (metis surj_pair)
    show ?thesis
    proof (cases b)
      case (Inl e)
      obtain y z where y: "run_state (release h ?path) v = (y, z)" by (metis surj_pair)
      have "x = Inl e" "w' = z" using assms a b Inr Inl y by (simp_all add: run_start_def under_lock_def)
      with launch_trace[OF b] Inl u quietD[OF quiet_release y] show ?thesis by simp
    next
      case (Inr cmd)
      have "x = Inr (h, cmd)" "w' = v" using assms a b Inr \<open>a = Inr h\<close>
        by (simp_all add: run_start_def under_lock_def)
      with launch_trace[OF b] Inr u show ?thesis by auto
    qed
  qed
qed

section \<open>Concrete runs\<close>

definition sample_runner :: vm_runner where
  "sample_runner = new_vm_runner_with_manager None ''/m''"

lemma manager_path_plain: "\<not> blank ''/m''" "comps ''/m'' = [''m'']" "comps ''m'' = [''m'']"
  by (rule not_blank; simp add: leading_space_def space_runes_def) (simp_all add: comps_def)

lemma sample_runner_path: "manager_binary_path sample_runner = ''/m''"
  by (simp add: sample_runner_def new_vm_runner_with_manager_def manager_path_plain)

definition locked_config :: vm_config where
  "locked_config = zero_config\<lparr>lock_file_path := ''/l''\<rparr>"

lemma locked_config_run:
  "\<exists>e. fst (run_state (run_start [] [] sample_runner locked_config) empty_world) = Inl e"
proof -
  have "manager_args locked_config = Inl (Errorf ''root image is required'' [])"
    by (simp add: manager_args_def locked_config_def zero_config_def validate_def Let_def)
  moreover have "lock_file_path locked_config = ''/l''" by (simp add: locked_config_def)
  ultimately show ?thesis
    by (simp add: run_start_def under_lock_def launch_def command_def held_world_eval(1) split: prod.splits)
qed


definition manager_world :: world where
  "manager_world = empty_world\<lparr>tree := [((''root'', []), Dir 493), ((''root'', [''m'']), Reg 0)], next_ino := 1\<rparr>"

definition launch_config :: vm_config where
  "launch_config = sample_config\<lparr>agent_ready_socket_path := ''/l'', lock_file_path := []\<rparr>"

lemma launch_config_run:
  "\<exists>y. fst (run_state (run_start [] [] sample_runner launch_config) manager_world) = Inr y"
proof -
  have "config_ok (boot_default launch_config)"
    by (simp add: launch_config_def config_ok_def boot_default_def sample_config_def zero_config_def boot_valid_def)
  then obtain args where args: "manager_args launch_config = Inr args" using manager_args_ok by blast
  have "agent_ready_socket_path launch_config = ''/l''" "lock_file_path launch_config = []"
    by (simp_all add: launch_config_def)
  with args sample_runner_path show ?thesis
    by (simp add: run_start_def under_lock_def launch_def command_def start_command_def look_path_def
        acquire_def manager_world_def lock_path_plain os_mkdir_all_def eval_calls[unfolded comps_def] is_dir_def
        net_listen_unix_def exec_start_def manager_path_plain)
qed

theorem run_start_executes_witness:
  "\<exists>args. trace (snd (run_state (run_start [] [] sample_runner launch_config) manager_world)) = [EvExec ''/m'' args]"
proof -
  obtain x w' where run: "run_state (run_start [] [] sample_runner launch_config) manager_world = (x, w')"
    by (metis surj_pair)
  then obtain y where "x = Inr y" using launch_config_run by auto
  moreover have "manager_binary_path sample_runner = ''/m''" "trace manager_world = []"
    by (simp_all add: sample_runner_path manager_world_def empty_world_def)
  ultimately show ?thesis using run_start_executes[OF run] run by auto
qed

end
