(* ===== verification/Runner_Props.thy ===== *)
theory Runner_Props
  imports Runner_Loop
begin

text \<open>
  What the goroutines of \<open>VMRunner.Run\<close> achieve together: the agent connection and the proxy
  connections, the state an error return leaves behind, the lock, and when a cleanup ends.
\<close>

section \<open>Invariants\<close>

fun remove_first :: "('a \<Rightarrow> bool) \<Rightarrow> 'a list \<Rightarrow> 'a list" where
  "remove_first P [] = []"
| "remove_first P (x # xs) = (if P x then xs else x # remove_first P xs)"

lemma remove_first_append:
  "remove_first P (xs @ ys) = (if \<exists>x \<in> set xs. P x then remove_first P xs @ ys else xs @ remove_first P ys)"
  by (induction xs) auto

lemma find_append: "find P (xs @ ys) = (case find P xs of None \<Rightarrow> find P ys | Some x \<Rightarrow> Some x)"
  by (induction xs) auto

lemma find_Some_holds: "find P xs = Some x \<Longrightarrow> x \<in> set xs \<and> P x"
  by (induction xs) (auto split: if_splits)

text \<open>The connections on their way: with the accepting goroutine, with \<open>Run\<close>, with the forwarder.\<close>

definition in_acceptor :: "runner \<Rightarrow> proxy_conn list" where
  "in_acceptor s = (case acceptor s of Handing c \<Rightarrow> [c] | _ \<Rightarrow> [])"

definition in_main :: "runner \<Rightarrow> proxy_conn list" where
  "in_main s = (case main s of Handover cs \<Rightarrow> cs | _ \<Rightarrow> pending s)"

definition in_forwarder :: "runner \<Rightarrow> proxy_conn list" where
  "in_forwarder s = (case forwarder s of FwdSend c \<Rightarrow> [c] | _ \<Rightarrow> [])"

definition stream :: "runner \<Rightarrow> proxy_conn list" where
  "stream s = delivered s @ proxy_ch s @ in_forwarder s @ in_main s @ accept_ch s @ in_acceptor s"

lemmas stream_defs = stream_def in_acceptor_def in_main_def in_forwarder_def

definition to_agent :: "32 word \<Rightarrow> proxy_conn \<Rightarrow> bool" where
  "to_agent port c \<longleftrightarrow> conn_port c = port"

text \<open>
  Before the agent connection nothing is to its port but what \<open>Run\<close> has not seen yet; after
  it the connections on their way are all the others.
\<close>

definition delivery_inv :: "32 word \<Rightarrow> runner \<Rightarrow> bool" where
  "delivery_inv port s \<longleftrightarrow>
    (case agent_conn s of
       None \<Rightarrow> accepted s = stream s \<and> delivered s = [] \<and> proxy_ch s = [] \<and>
               (\<forall>c \<in> set (pending s). \<not> to_agent port c)
     | Some a \<Rightarrow> find (to_agent port) (accepted s) = Some a \<and>
               stream s = remove_first (to_agent port) (accepted s))"

definition past_select :: "main_pc \<Rightarrow> bool" where
  "past_select m \<longleftrightarrow> (case m of Handover _ \<Rightarrow> True | Running \<Rightarrow> True | Bootstrapping \<Rightarrow> True | _ \<Rightarrow> False)"

definition main_inv :: "runner \<Rightarrow> bool" where
  "main_inv s \<longleftrightarrow>
     (agent_conn s = None \<longrightarrow> \<not> ready_ch s \<and> \<not> past_select (main s)) \<and>
     (forwarder s \<noteq> FwdIdle \<longrightarrow> main s = Running) \<and>
     (main s = Running \<longrightarrow> forwarder s \<noteq> FwdIdle \<and> pending s = []) \<and>
     (\<forall>cs. main s = Handover cs \<longrightarrow> pending s = [])  \<and>
     (closer s \<noteq> None \<longrightarrow> main s = Running) \<and>
     (ctx_closed s \<longrightarrow> main s = Running) \<and>
     (lock_held s \<longleftrightarrow> \<not> ctx_closed s \<and> (\<forall>e. main s \<noteq> Failed e))"

text \<open>A cleanup path keeps what its statements so far have done.\<close>

definition gone_inv :: "stmt list \<Rightarrow> runner \<Rightarrow> bool" where
  "gone_inv cs s \<longleftrightarrow>
     (Kill \<notin> set cs \<longrightarrow> manager s \<noteq> Alive) \<and>
     (AwaitProc \<notin> set cs \<longrightarrow> manager s = Reaped) \<and>
     (CloseListener \<notin> set cs \<longrightarrow> \<not> listener_open s \<and> \<not> socket_file s) \<and>
     (AwaitAcceptDone \<notin> set cs \<longrightarrow> accept_done s)"

definition cleanup_inv :: "runner \<Rightarrow> bool" where
  "cleanup_inv s \<longleftrightarrow>
     (\<forall>cs e. main s = Cleanup cs e \<longrightarrow>
        e \<noteq> closed_err \<and> gone_inv cs s \<and> suffix cs invalid_agent_stmts \<and>
        (AwaitProc \<in> set cs \<longrightarrow> manager s = Reaped \<longrightarrow> wait_ch s \<noteq> None)) \<and>
     (\<forall>e. main s = Failed e \<longrightarrow> e \<noteq> closed_err \<longrightarrow> gone_inv [] s) \<and>
     (main s \<in> {Selecting, Bootstrapping} \<longrightarrow> manager s = Reaped \<longrightarrow> wait_ch s \<noteq> None) \<and>
     (wait_ch s \<noteq> None \<longrightarrow> manager s = Reaped)"

definition acceptor_inv :: "runner \<Rightarrow> bool" where
  "acceptor_inv s \<longleftrightarrow>
     (accept_done s \<longleftrightarrow> acceptor s \<in> {ClosingCh, Gone}) \<and>
     (accept_ch_closed s \<longleftrightarrow> acceptor s = Gone) \<and>
     length (accept_ch s) + length (in_acceptor s) \<le> length (accepted s)"


subsection \<open>The invariants hold of every reachable state\<close>

lemma exec_stmt_frame:
  "exec_stmt c s = Some u \<Longrightarrow>
   acceptor u = acceptor s \<and> accept_ch u = accept_ch s \<and> accept_ch_closed u = accept_ch_closed s \<and>
   accept_done u = accept_done s \<and> ready_ch u = ready_ch s \<and> main u = main s \<and>
   agent_conn u = agent_conn s \<and> pending u = pending s \<and> proxy_ch u = proxy_ch s \<and>
   forwarder u = forwarder s \<and> closer u = closer s \<and> accepted u = accepted s \<and> delivered u = delivered s"
  by (erule exec_stmtE) (auto simp: close_context_def)

lemma close_context_frame [simp]:
  "acceptor (close_context s) = acceptor s" "accept_ch (close_context s) = accept_ch s"
  "accept_ch_closed (close_context s) = accept_ch_closed s" "accept_done (close_context s) = accept_done s"
  "ready_ch (close_context s) = ready_ch s" "main (close_context s) = main s"
  "agent_conn (close_context s) = agent_conn s" "pending (close_context s) = pending s"
  "proxy_ch (close_context s) = proxy_ch s" "forwarder (close_context s) = forwarder s"
  "closer (close_context s) = closer s" "accepted (close_context s) = accepted s"
  "delivered (close_context s) = delivered s" "manager (close_context s) = manager s"
  "wait_ch (close_context s) = wait_ch s" "listener_open (close_context s) = listener_open s"
  "socket_file (close_context s) = socket_file s" "ctx_closed (close_context s)"
  by (simp_all add: close_context_def)

lemmas kill_defs = invalid_agent_stmts_def kill_stmts_def exited_stmts_def

lemma main_inv_step:
  assumes "step port a s = Some t" and "main_inv s" and "cleanup_inv s"
  shows "main_inv t"
  using assms(1)
proof (cases rule: stepE)
  case (cleanup c cs e u)
  have "suffix (c # cs) invalid_agent_stmts" using assms(3) cleanup(1) by (simp add: cleanup_inv_def)
  then have "c \<noteq> CloseContext" by (auto simp: suffix_Cons kill_defs)
  with cleanup(2) show ?thesis
    by (cases rule: exec_stmtE)
      (use cleanup(1,3) assms(2) in \<open>simp_all add: main_inv_def past_select_def\<close>)
next
  case (closing c cs u)
  from closing(2) show ?thesis
    by (cases rule: exec_stmtE)
      (use closing(1,3) assms(2) in \<open>auto simp: main_inv_def past_select_def close_context_def\<close>)
qed (use assms(2) in \<open>auto simp: main_inv_def past_select_def give_up_def return_error_def bootstrap_def
  close_context_def split: if_splits\<close>)


lemma cleanup_inv_step:
  assumes "step port a s = Some t" and "cleanup_inv s" and "main_inv s"
  shows "cleanup_inv t"
  using assms(1)
proof (cases rule: stepE)
  case (cleanup c cs e u)
  then have "suffix (c # cs) invalid_agent_stmts" using assms(2) by (simp add: cleanup_inv_def)
  then have cs: "c = CloseRpc \<and> cs = CloseAgent # kill_stmts \<or> c = CloseAgent \<and> cs = kill_stmts \<or>
      c = Kill \<and> cs = AwaitProc # exited_stmts \<or> c = AwaitProc \<and> cs = exited_stmts \<or>
      c = CloseListener \<and> cs = [AwaitAcceptDone, RemoveSocket] \<or>
      c = AwaitAcceptDone \<and> cs = [RemoveSocket] \<or> c = RemoveSocket \<and> cs = []"
    by (auto simp: suffix_Cons kill_defs)
  have inv: "e \<noteq> closed_err" "gone_inv (c # cs) s" "wait_ch s \<noteq> None \<longrightarrow> manager s = Reaped"
      "AwaitProc \<in> set (c # cs) \<longrightarrow> manager s = Reaped \<longrightarrow> wait_ch s \<noteq> None"
    using assms(2) cleanup(1) by (simp_all add: cleanup_inv_def)
  have "gone_inv cs u \<and> (wait_ch u \<noteq> None \<longrightarrow> manager u = Reaped) \<and>
      (AwaitProc \<in> set cs \<longrightarrow> manager u = Reaped \<longrightarrow> wait_ch u \<noteq> None)"
    using cleanup(2) by (cases rule: exec_stmtE) (use cs inv in \<open>auto simp: gone_inv_def kill_defs\<close>)
  moreover have "suffix cs invalid_agent_stmts" using cs by (auto simp: kill_defs suffix_Cons)
  ultimately show ?thesis using cleanup(3) inv(1) by (simp add: cleanup_inv_def gone_inv_def)
next
  case (closing c cs u)
  have "main s = Running" "main u = Running"
    using closing assms(3) exec_stmt_frame[OF closing(2)] by (simp_all add: main_inv_def)
  moreover from closing(2) have "wait_ch u \<noteq> None \<longrightarrow> manager u = Reaped"
    by (cases rule: exec_stmtE) (use assms(2) in \<open>auto simp: cleanup_inv_def\<close>)
  ultimately show ?thesis using closing(3) by (simp add: cleanup_inv_def)
next
  case chan_closed
  with assms(2) show ?thesis by (simp add: cleanup_inv_def return_error_def)
next
  case (booted valid)
  with assms(2) show ?thesis
    by (simp add: cleanup_inv_def bootstrap_def gone_inv_def kill_defs closed_err_def)
next
  case (exited err e)
  with assms(2) show ?thesis
    by (simp add: cleanup_inv_def gone_inv_def kill_defs closed_err_def suffix_Cons)
next
  case (ready_err e)
  with assms(2) show ?thesis
    by (simp add: cleanup_inv_def gone_inv_def kill_defs closed_err_def suffix_Cons)
next
  case cancelled
  with assms(2) show ?thesis
    by (simp add: cleanup_inv_def gone_inv_def kill_defs closed_err_def suffix_Cons)
next
  case (returned e)
  with assms(2) show ?thesis by (simp add: cleanup_inv_def gone_inv_def return_error_def)
qed (use assms(2) in \<open>auto simp: cleanup_inv_def gone_inv_def give_up_def\<close>)

lemma acceptor_inv_step:
  assumes "step port a s = Some t" and "acceptor_inv s"
  shows "acceptor_inv t"
  using assms(1)
proof (cases rule: stepE)
  case (cleanup c cs e u)
  with assms(2) exec_stmt_frame[OF cleanup(2)] show ?thesis by (simp add: acceptor_inv_def in_acceptor_def)
next
  case (closing c cs u)
  with assms(2) exec_stmt_frame[OF closing(2)] show ?thesis by (simp add: acceptor_inv_def in_acceptor_def)
qed (use assms(2) in \<open>auto simp: acceptor_inv_def in_acceptor_def give_up_def return_error_def bootstrap_def\<close>)

lemma delivery_same:
  "delivery_inv port s \<Longrightarrow> stream t = stream s \<Longrightarrow> accepted t = accepted s \<Longrightarrow>
   agent_conn t = agent_conn s \<Longrightarrow> pending t = pending s \<Longrightarrow> delivered t = delivered s \<Longrightarrow>
   proxy_ch t = proxy_ch s \<Longrightarrow> delivery_inv port t"
  by (cases "agent_conn s") (simp_all add: delivery_inv_def)

lemma delivery_inv_step:
  assumes "step port a s = Some t" and "delivery_inv port s" and "main_inv s"
  shows "delivery_inv port t"
  using assms(1)
proof (cases rule: stepE)
  case (cleanup c cs e u)
  with assms(2) exec_stmt_frame[OF cleanup(2)] show ?thesis
    by (simp add: delivery_inv_def stream_defs split: option.splits cong: main_pc.case_cong)
next
  case (closing c cs u)
  with assms(2) exec_stmt_frame[OF closing(2)] show ?thesis
    by (simp add: delivery_inv_def stream_defs split: option.splits cong: main_pc.case_cong)
next
  case (got c)
  then have "stream t = stream s @ [c]" "accepted t = accepted s @ [c]" "agent_conn t = agent_conn s"
      "delivered t = delivered s" "proxy_ch t = proxy_ch s" "pending t = pending s"
    by (simp_all add: stream_defs cong: main_pc.case_cong)
  with assms(2) show ?thesis
    by (auto simp: delivery_inv_def find_append remove_first_append dest: find_Some_holds split: option.splits)
next
  case (agent c cs)
  have idle: "in_forwarder s = []" using assms(3) agent(1) by (auto simp: main_inv_def in_forwarder_def split: forwarder_pc.splits)
  have inv: "accepted s = stream s" "delivered s = []" "proxy_ch s = []"
      "\<forall>c \<in> set (pending s). \<not> to_agent port c"
    using assms(2) agent(4) by (simp_all add: delivery_inv_def)
  then have "accepted s = pending s @ c # cs @ in_acceptor s"
    using agent(1,2) idle by (simp add: stream_def in_main_def)
  moreover have "stream t = pending s @ cs @ in_acceptor s" "accepted t = accepted s" "agent_conn t = Some c"
    using agent inv idle by (simp_all add: stream_defs)
  moreover have "find (to_agent port) (pending s) = None" "to_agent port c"
    using inv(4) agent(3) by (auto simp: find_None_iff to_agent_def)
  ultimately show ?thesis using inv(4) by (auto simp: delivery_inv_def find_append remove_first_append)
next
  case (proxy c cs)
  then have "stream t = stream s" "accepted t = accepted s" "agent_conn t = agent_conn s"
      "delivered t = delivered s" "proxy_ch t = proxy_ch s" "pending t = pending s @ [c]"
      "agent_conn s = None \<longrightarrow> \<not> to_agent port c"
    using assms(3) by (auto simp: stream_defs main_inv_def to_agent_def split: forwarder_pc.splits)
  with assms(2) show ?thesis by (auto simp: delivery_inv_def split: option.splits)
next
  case (fwd_recv c cs)
  with assms(2,3) show ?thesis
    by (simp add: delivery_inv_def main_inv_def stream_defs past_select_def split: option.splits main_pc.splits)
next
  case (fwd_send c)
  with assms(2,3) show ?thesis
    by (simp add: delivery_inv_def main_inv_def stream_defs past_select_def split: option.splits main_pc.splits)
next
  case (gave c cs)
  with assms(2,3) show ?thesis
    by (simp add: delivery_inv_def main_inv_def stream_defs past_select_def split: option.splits main_pc.splits)
next
  case (booted valid)
  with assms(2,3) show ?thesis
    by (auto simp: delivery_inv_def main_inv_def past_select_def stream_defs bootstrap_def)
next
  case (took c cs)
  with assms(2,3) show ?thesis
    by (auto simp: delivery_inv_def main_inv_def past_select_def stream_defs)
next
  case running
  with assms(2,3) show ?thesis
    by (auto simp: delivery_inv_def main_inv_def past_select_def stream_defs split: forwarder_pc.splits)
qed (rule delivery_same[OF assms(2)];
  simp add: stream_defs give_up_def return_error_def cong: main_pc.case_cong)+

definition runner_inv :: "32 word \<Rightarrow> runner \<Rightarrow> bool" where
  "runner_inv port s \<longleftrightarrow> main_inv s \<and> cleanup_inv s \<and> acceptor_inv s \<and> delivery_inv port s"

lemma started_inv: "runner_inv port started"
  by (simp add: runner_inv_def main_inv_def cleanup_inv_def acceptor_inv_def delivery_inv_def started_def
      stream_defs past_select_def)

lemma step_inv: "step port a s = Some t \<Longrightarrow> runner_inv port s \<Longrightarrow> runner_inv port t"
  unfolding runner_inv_def
  using main_inv_step cleanup_inv_step acceptor_inv_step delivery_inv_step by blast

lemma run_inv: "run port as s = Some t \<Longrightarrow> runner_inv port s \<Longrightarrow> runner_inv port t"
  by (induction as arbitrary: s) (auto split: option.splits dest: step_inv)

lemma reachable_inv: "reachable port s \<Longrightarrow> runner_inv port s"
  by (induction rule: reachable.induct) (auto intro: started_inv step_inv)

section \<open>Connections\<close>

text \<open>
  C7. Once \<open>Run\<close> has returned a context, the agent connection is the first connection to the
  agent's port, and the caller has got from \<open>ProxyConnCh\<close> a prefix of all the others, in the
  order they were accepted: none is lost, duplicated or reordered, whatever the interleaving
  and however many came before the agent.
\<close>

theorem proxy_connections_in_order:
  assumes "reachable port s" and "main s = Running"
  shows "\<exists>a rest. agent_conn s = Some a \<and> find (\<lambda>c. conn_port c = port) (accepted s) = Some a \<and>
     delivered s @ rest = remove_first (\<lambda>c. conn_port c = port) (accepted s)"
proof -
  from reachable_inv[OF assms(1)] have inv: "main_inv s" "delivery_inv port s"
    by (simp_all add: runner_inv_def)
  then obtain a where a: "agent_conn s = Some a"
    using assms(2) by (auto simp: main_inv_def past_select_def)
  with inv(2) have "find (to_agent port) (accepted s) = Some a"
      "stream s = remove_first (to_agent port) (accepted s)" by (simp_all add: delivery_inv_def)
  moreover have "to_agent port = (\<lambda>c. conn_port c = port)" by (simp add: fun_eq_iff to_agent_def)
  ultimately show ?thesis using a by (auto simp: stream_def)
qed

text \<open>
  The send on the readiness channel never blocks: when \<open>Run\<close> meets the first connection
  to the agent's port the channel is empty, so taking a connection is always possible.
\<close>

theorem take_accept_never_blocks:
  assumes "reachable port s" and "main s = Selecting" and "accept_ch s \<noteq> []"
  shows "\<exists>t. step port TakeAccept s = Some t"
proof -
  have "main_inv s" using reachable_inv[OF assms(1)] by (simp add: runner_inv_def)
  with assms(2,3) show ?thesis
    by (cases "accept_ch s") (auto simp: step_def take_accept_def main_inv_def)
qed

section \<open>Error returns\<close>


text \<open>
  The remaining one leaks: when accepting fails, \<open>Run\<close> may see the closed connection
  channel before the error, and then it returns with the manager process alive, the listener
  open and the socket file in place, but the lock released.
\<close>

theorem closed_channel_return_leaks:
  "\<exists>s. reachable port s \<and> main s = Failed closed_err \<and> manager s = Alive \<and> listener_open s \<and>
     socket_file s \<and> \<not> lock_held s"
proof -
  obtain s where run: "run port [AcceptReturns (AcceptError (Errno EIO)), AcceptorExit, AcceptorExit, TakeAccept]
      started = Some s" and s: "main s = Failed closed_err" "manager s = Alive" "listener_open s"
      "socket_file s" "\<not> lock_held s"
    by (simp add: step_defs started_def)
  have "reachable port s" using run reachable.start by (rule run_reachable)
  with s show ?thesis by blast
qed

text \<open>
  C13. The lock is held exactly from the start to an error return or the closing of the
  context: a running context that was not closed has it, a failed \<open>Run\<close> never does.
\<close>

theorem lock_held_iff:
  assumes "reachable port s"
  shows "lock_held s \<longleftrightarrow> \<not> ctx_closed s \<and> (\<forall>e. main s \<noteq> Failed e)"
  using reachable_inv[OF assms] by (simp add: runner_inv_def main_inv_def)

section \<open>Whether a cleanup ends\<close>

text \<open>What happens without the outside: no new connection, no signal, no caller.\<close>

definition internal :: "action \<Rightarrow> bool" where
  "internal a \<longleftrightarrow> (case a of
     AcceptReturns r \<Rightarrow> r = AcceptError ErrClosed
   | HandOver \<Rightarrow> True | AcceptorExit \<Rightarrow> True | Reap \<Rightarrow> True | MainNext \<Rightarrow> True | _ \<Rightarrow> False)"

definition progresses :: "32 word \<Rightarrow> (runner \<Rightarrow> bool) \<Rightarrow> runner \<Rightarrow> bool" where
  "progresses port Q s \<longleftrightarrow> (\<exists>as t. list_all internal as \<and> run port as s = Some t \<and> Q t)"

lemma progressesI: "list_all internal as \<Longrightarrow> run port as s = Some t \<Longrightarrow> Q t \<Longrightarrow> progresses port Q s"
  by (auto simp: progresses_def)

lemma progresses_trans:
  assumes "progresses port P s" and "\<And>t as. P t \<Longrightarrow> run port as s = Some t \<Longrightarrow> progresses port Q t"
  shows "progresses port Q s"
proof -
  obtain as t where as: "list_all internal as" "run port as s = Some t" "P t"
    using assms(1) by (auto simp: progresses_def)
  obtain bs u where bs: "list_all internal bs" "run port bs t = Some u" "Q u"
    using assms(2)[OF as(3,2)] by (auto simp: progresses_def)
  show ?thesis
    by (rule progressesI[of "as @ bs" _ _ u]) (use as bs in \<open>simp_all add: run_append\<close>)
qed

definition cleaning :: "stmt list \<Rightarrow> goerr \<Rightarrow> proxy_conn list \<Rightarrow> runner \<Rightarrow> bool" where
  "cleaning cs e acc s \<longleftrightarrow> main s = Cleanup cs e \<and> accepted s = acc"

lemma main_next_cleanup:
  "main s = Cleanup (c # cs) e \<Longrightarrow> exec_stmt c s = Some u \<Longrightarrow>
   run port [MainNext] s = Some (u\<lparr>main := Cleanup cs e\<rparr>)"
  by (simp add: step_def main_next_def)

lemma cleanup_statement:
  assumes inv: "runner_inv port s" and m: "main s = Cleanup (c # cs) e" and few: "length (accepted s) \<le> accept_cap"
  shows "progresses port (cleaning cs e (accepted s)) s"
proof -
  have gone: "gone_inv (c # cs) s" and suf: "suffix (c # cs) invalid_agent_stmts"
      and wait: "AwaitProc \<in> set (c # cs) \<longrightarrow> manager s = Reaped \<longrightarrow> wait_ch s \<noteq> None"
      and acc: "acceptor_inv s"
    using inv m by (simp_all add: runner_inv_def cleanup_inv_def)
  have one: ?thesis if "exec_stmt c s = Some u" for u
    by (rule progressesI[OF _ main_next_cleanup[OF m that]])
      (use exec_stmt_frame[OF that] in \<open>simp_all add: internal_def cleaning_def\<close>)
  show ?thesis
  proof (cases "\<exists>u. exec_stmt c s = Some u")
    case True
    with one show ?thesis by blast
  next
    case False
    then consider (proc) "c = AwaitProc" "wait_ch s = None" | (acceptor) "c = AwaitAcceptDone" "\<not> accept_done s"
      by (cases c) (auto simp: exec_stmt_def split: option.splits if_splits)
    then show ?thesis
    proof cases
      case proc
      have "Kill \<notin> set (c # cs)" using suf proc(1) by (auto simp: suffix_Cons kill_defs)
      then have "manager s \<noteq> Alive" using gone by (simp add: gone_inv_def)
      then obtain x where "manager s = Dead x" using wait proc by (cases "manager s") auto
      with proc(1) m show ?thesis
        by (intro progressesI[of "[Reap, MainNext]"])
          (auto simp: internal_def cleaning_def step_def main_next_def exec_stmt_def)
    next
      case acceptor
      have "CloseListener \<notin> set (c # cs)" using suf acceptor(1) by (auto simp: suffix_Cons kill_defs)
      then have closed: "\<not> listener_open s" using gone by (simp add: gone_inv_def)
      show ?thesis
      proof (cases "acceptor s")
        case Accepting
        with acceptor(1) m closed show ?thesis
          by (intro progressesI[of "[AcceptReturns (AcceptError ErrClosed), AcceptorExit, MainNext]"])
            (auto simp: internal_def cleaning_def step_def main_next_def exec_stmt_def can_accept_def
              accept_returns_def acceptor_exit_def)
      next
        case (Handing c')
        then have "length (accept_ch s) < accept_cap" using acc few by (simp add: acceptor_inv_def in_acceptor_def)
        with Handing acceptor(1) m closed show ?thesis
          by (intro progressesI[of "[HandOver, AcceptReturns (AcceptError ErrClosed), AcceptorExit, MainNext]"])
            (auto simp: internal_def cleaning_def step_def main_next_def exec_stmt_def can_accept_def
              accept_returns_def acceptor_exit_def hand_over_def)
      next
        case ClosingDone
        with acceptor(1) m show ?thesis
          by (intro progressesI[of "[AcceptorExit, MainNext]"])
            (auto simp: internal_def cleaning_def step_def main_next_def exec_stmt_def acceptor_exit_def)
      qed (use acc acceptor(2) in \<open>simp_all add: acceptor_inv_def\<close>)
    qed
  qed
qed

lemma cleanup_progress:
  "runner_inv port s \<Longrightarrow> main s = Cleanup cs e \<Longrightarrow> length (accepted s) \<le> accept_cap \<Longrightarrow>
   progresses port (\<lambda>t. main t = Failed e) s"
proof (induction cs arbitrary: s)
  case Nil
  then show ?case
    by (intro progressesI[of "[MainNext]"]) (auto simp: internal_def step_def main_next_def return_error_def)
next
  case (Cons c cs)
  show ?case
  proof (rule progresses_trans[OF cleanup_statement[OF Cons.prems]])
    fix t as assume "cleaning cs e (accepted s) t" "run port as s = Some t"
    with Cons show "progresses port (\<lambda>t. main t = Failed e) t"
      by (intro Cons.IH) (auto simp: cleaning_def dest: run_inv)
  qed
qed


text \<open>The accepting goroutine fills the channel while \<open>Run\<close> is not looking.\<close>

definition some_conn :: "32 word \<Rightarrow> proxy_conn" where
  "some_conn port = \<lparr>conn_port = port, conn_file = 5\<rparr>"

lemma fill_channel:
  "acceptor s = Accepting \<Longrightarrow> listener_open s \<Longrightarrow> length (accept_ch s) + n \<le> accept_cap \<Longrightarrow>
   run port (concat (replicate n [AcceptReturns (Received 5 q None), HandOver])) s =
     Some (s\<lparr>accept_ch := accept_ch s @ replicate n (some_conn q),
             accepted := accepted s @ replicate n (some_conn q)\<rparr>)"
proof (induction n arbitrary: s)
  case (Suc n)
  let ?s = "s\<lparr>accept_ch := accept_ch s @ [some_conn q], accepted := accepted s @ [some_conn q]\<rparr>"
  have "run port [AcceptReturns (Received 5 q None), HandOver] s = Some ?s"
    using Suc.prems
    by (simp add: step_def can_accept_def accept_returns_def hand_over_def some_conn_def Let_def)
  moreover have "run port (concat (replicate n [AcceptReturns (Received 5 q None), HandOver])) ?s =
     Some (?s\<lparr>accept_ch := accept_ch ?s @ replicate n (some_conn q),
             accepted := accepted ?s @ replicate n (some_conn q)\<rparr>)"
    by (rule Suc.IH) (use Suc.prems in simp_all)
  ultimately show ?case
    unfolding replicate_Suc concat.simps run_append by (simp del: run.simps)
qed simp

definition stuck :: "main_pc \<Rightarrow> runner \<Rightarrow> bool" where
  "stuck m s \<longleftrightarrow> main s = m \<and> (\<exists>cs e. m = Cleanup (AwaitAcceptDone # cs) e) \<and>
     (\<exists>c. acceptor s = Handing c) \<and> accept_cap \<le> length (accept_ch s) \<and> \<not> accept_done s \<and>
     forwarder s = FwdIdle \<and> closer s = None"

lemma stuck_step:
  assumes "step port a s = Some t" and "stuck m s"
  shows "stuck m t"
  using assms(1)
proof (cases rule: stepE)
  case (cleanup c cs e u)
  with assms(2) show ?thesis by (auto simp: stuck_def exec_stmt_def)
qed (use assms(2) in \<open>auto simp: stuck_def give_up_def\<close>)

lemma stuck_run: "run port as s = Some t \<Longrightarrow> stuck m s \<Longrightarrow> stuck m t"
  by (induction as arbitrary: s) (auto split: option.splits dest: stuck_step)

text \<open>
  C15. With 33 connections it can: \<open>Run\<close> waits for the accepting goroutine, which waits for
  room in the channel that only \<open>Run\<close> empties. Whatever happens from there, \<open>Run\<close> stays
  where it is, with the lock.
\<close>

theorem cleanup_can_hang:
  "\<exists>s. reachable port s \<and> lock_held s \<and> length (accepted s) = 33 \<and>
     (\<exists>cs e. main s = Cleanup (AwaitAcceptDone # cs) e) \<and>
     \<not> (\<exists>as t. run port as s = Some t \<and> main t \<noteq> main s)"
proof -
  let ?fill = "concat (replicate 32 [AcceptReturns (Received 5 0 None), HandOver])"
  let ?rest = "[AcceptReturns (Received 5 0 None), TakeCancel, MainNext, Reap, MainNext, MainNext]"
  have fill: "run port ?fill started = Some (started\<lparr>accept_ch := accept_ch started @ replicate 32 (some_conn 0),
      accepted := accepted started @ replicate 32 (some_conn 0)\<rparr>)"
    by (rule fill_channel) (simp_all add: started_def accept_cap_def)
  obtain s where run: "run port (?fill @ ?rest) started = Some s" and s: "stuck (main s) s" "lock_held s"
      "length (accepted s) = 33"
    unfolding run_append fill option.case
    by (simp add: started_def accept_cap_def step_defs kill_stmts_def stuck_def Let_def)
  have "reachable port s" using run reachable.start by (rule run_reachable)
  moreover have "main t = main s" if "run port as s = Some t" for as t
    using stuck_run[OF that s(1)] by (simp add: stuck_def)
  moreover have "\<exists>cs e. main s = Cleanup (AwaitAcceptDone # cs) e" using s(1) by (simp add: stuck_def)
  ultimately show ?thesis using s(2,3) by blast
qed

section \<open>A concrete run\<close>

definition served :: runner where
  "served = the (run 7000
     [AcceptReturns (Received 5 7001 None), HandOver, AcceptReturns (Received 6 7000 None), HandOver,
      TakeAccept, TakeAccept, TakeReady, Bootstrap True, MainNext, MainNext, UserTake] started)"

lemma served_run:
  "reachable 7000 served" "main served = Running" "delivered served = [\<lparr>conn_port = 7001, conn_file = 5\<rparr>]"
  "accepted served = [\<lparr>conn_port = 7001, conn_file = 5\<rparr>, \<lparr>conn_port = 7000, conn_file = 6\<rparr>]"
  "ctx_closed served = False"
proof -
  obtain s where run: "run 7000
     [AcceptReturns (Received 5 7001 None), HandOver, AcceptReturns (Received 6 7000 None), HandOver,
      TakeAccept, TakeAccept, TakeReady, Bootstrap True, MainNext, MainNext, UserTake] started = Some s"
    and s: "main s = Running" "delivered s = [\<lparr>conn_port = 7001, conn_file = 5\<rparr>]"
  "accepted s = [\<lparr>conn_port = 7001, conn_file = 5\<rparr>, \<lparr>conn_port = 7000, conn_file = 6\<rparr>]"
  "ctx_closed s = False"
    by (simp add: step_defs started_def accept_cap_def proxy_cap_def Let_def)
  then have "served = s" by (simp add: served_def)
  with s run_reachable[OF run reachable.start] show "reachable 7000 served" "main served = Running"
    "delivered served = [\<lparr>conn_port = 7001, conn_file = 5\<rparr>]"
    "accepted served = [\<lparr>conn_port = 7001, conn_file = 5\<rparr>, \<lparr>conn_port = 7000, conn_file = 6\<rparr>]"
    "ctx_closed served = False" by simp_all
qed

theorem proxy_connections_in_order_witness:
  "agent_conn served = Some \<lparr>conn_port = 7000, conn_file = 6\<rparr>"
  using proxy_connections_in_order[OF served_run(1,2)] by (simp add: served_run)

theorem lock_held_iff_witness: "lock_held served"
  using lock_held_iff[OF served_run(1)] by (simp add: served_run)

definition failing :: runner where
  "failing = the (run 7000 [AcceptReturns (Received 5 7001 None), HandOver, ManagerExits None, Reap] started)"

lemma failing_run: "reachable 7000 failing" "main failing = Selecting" "accept_ch failing \<noteq> []"
proof -
  obtain s where run: "run 7000 [AcceptReturns (Received 5 7001 None), HandOver, ManagerExits None, Reap] started = Some s"
    and s: "main s = Selecting" "accept_ch s \<noteq> []"
    by (simp add: step_defs started_def accept_cap_def Let_def)
  then have "failing = s" by (simp add: failing_def)
  with s run_reachable[OF run reachable.start] show "reachable 7000 failing" "main failing = Selecting"
    "accept_ch failing \<noteq> []" by simp_all
qed

theorem take_accept_never_blocks_witness: "\<exists>t. step 7000 TakeAccept failing = Some t"
  using take_accept_never_blocks[OF failing_run] .

definition exited_actions :: "action list" where
  "exited_actions = [AcceptReturns (Received 5 7001 None), HandOver, ManagerExits None, Reap, TakeExit]"

definition exited_err :: goerr where
  "exited_err = Wrapf ''vm manager exited before agent readiness: %w'' [] (Errorf ''%!w(<nil>)'' [])"

definition exited :: runner where
  "exited = the (run 7000 exited_actions started)"

definition failed :: runner where
  "failed = the (run 7000 (exited_actions @
     [MainNext, AcceptReturns (AcceptError ErrClosed), AcceptorExit, MainNext, MainNext, MainNext]) started)"

lemma exited_run:
  "reachable 7000 exited" "main exited = Cleanup exited_stmts exited_err" "length (accepted exited) \<le> 32"
proof -
  obtain s where run: "run 7000 exited_actions started = Some s"
    and s: "main s = Cleanup exited_stmts exited_err" "length (accepted s) = 1"
    by (simp add: step_defs started_def accept_cap_def Let_def exited_actions_def exited_err_def)
  then have "exited = s" by (simp add: exited_def)
  with s run_reachable[OF run reachable.start] show "reachable 7000 exited"
    "main exited = Cleanup exited_stmts exited_err" "length (accepted exited) \<le> 32" by simp_all
qed

lemma failed_run: "reachable 7000 failed" "main failed = Failed exited_err"
proof -
  obtain s where run: "run 7000 (exited_actions @
      [MainNext, AcceptReturns (AcceptError ErrClosed), AcceptorExit, MainNext, MainNext, MainNext]) started = Some s"
    and s: "main s = Failed exited_err"
    by (simp add: step_defs started_def accept_cap_def Let_def exited_actions_def exited_err_def exited_stmts_def)
  then have "failed = s" by (simp add: failed_def)
  with s run_reachable[OF run reachable.start] show "reachable 7000 failed" "main failed = Failed exited_err"
    by simp_all
qed



end
