(* ===== verification/VM_State.thy ===== *)
theory VM_State
  imports Lock
begin

text \<open>
  \<open>vm/state.go\<close>: where a runner keeps the state of its virtual machines, the creation of the
  directories and the copy of the base root image. \<open>now\<close> is the Unix time \<open>DefaultVMName\<close>
  reads.
\<close>

definition default_home_state_dir_name :: string where
  "default_home_state_dir_name = ''.slopvmrunner''"

definition default_work_state_dir_name :: string where
  "default_work_state_dir_name = ''.slopvmrunner''"

record vm_runner_state =
  home_root :: string
  work_root :: string
  vm_name :: string
  images_dir :: string
  vms_dir :: string
  vm_dir :: string
  s_lock_file_path :: string
  ready_socket_path :: string
  s_virtiofs_host_dir :: string
  container_state :: string
  default_oci_spec :: string
  vm_root_image_path :: string
  s_kernel_path :: string
  base_root_image :: string
  manager_binary :: string
  runner_binary_path :: string

definition default_vm_name :: "int \<Rightarrow> string" where
  "default_vm_name now = ''vm-'' @ itoa now"

text \<open>\<open>os.UserHomeDir\<close>: the variable \<open>HOME\<close>, which must not be empty.\<close>

definition user_home_dir :: "string sys" where
  "user_home_dir = do {
     h \<leftarrow> os_getenv ''HOME'';
     State_Monad.return (if h = [] then Inl (Errorf ''$HOME is not defined'' []) else Inr h)
   }"

definition state_paths :: "string \<Rightarrow> string \<Rightarrow> string \<Rightarrow> vm_runner_state" where
  "state_paths hr wr name =
    (let vmd = join_path [wr, ''vms'', name] in
     \<lparr>home_root = hr, work_root = wr, vm_name = name,
      images_dir = join_path [wr, ''images''],
      vms_dir = join_path [wr, ''vms''],
      vm_dir = vmd,
      s_lock_file_path = join_path [vmd, ''vm.lock''],
      ready_socket_path = join_path [vmd, ''agent-ready.sock''],
      s_virtiofs_host_dir = join_path [wr, ''images''],
      container_state = join_path [vmd, ''container-state.raw''],
      default_oci_spec = join_path [vmd, ''oci-default.json''],
      vm_root_image_path = join_path [vmd, ''rootfs.raw''],
      s_kernel_path = join_path [hr, ''kernels'', ''default''],
      base_root_image = join_path [hr, ''rootfs'', ''default.raw''],
      manager_binary = join_path [hr, ''bin'', ''vmmanager''],
      runner_binary_path = join_path [hr, ''bin'', ''vm'']\<rparr>)"

definition resolve_vm_runner_state ::
  "int \<Rightarrow> string \<Rightarrow> string \<Rightarrow> string \<Rightarrow> string \<Rightarrow> vm_runner_state sys" where
  "resolve_vm_runner_state now wd name hr wr =
    (if wd = [] then State_Monad.return (Inl (Errorf ''cwd is required'' []))
     else
       (let name = (if name = [] then default_vm_name now else name) in
        or_fail
          (if hr = [] then
             or_fail user_home_dir (Wrapf ''resolve user home: %w'' [])
               (\<lambda>home. State_Monad.return (Inr (join_path [home, default_home_state_dir_name])))
           else State_Monad.return (Inr hr))
          (\<lambda>e. e)
          (\<lambda>hr. State_Monad.return (Inr (state_paths hr
             (if wr = [] then join_path [wd, default_work_state_dir_name] else wr) name)))))"

definition state_dirs :: "vm_runner_state \<Rightarrow> string list" where
  "state_dirs s =
    [home_root s, join_path [home_root s, ''bin''], join_path [home_root s, ''kernels''],
     join_path [home_root s, ''rootfs''], work_root s, images_dir s, vms_dir s, vm_dir s,
     s_virtiofs_host_dir s]"

definition ensure_dir :: "string \<Rightarrow> unit sys" where
  "ensure_dir d = or_fail (os_mkdir_all d 493) (Wrapf ''create state dir %q: %w'' [d])
     (\<lambda>_. State_Monad.return (Inr ()))"

definition ensure_dirs :: "vm_runner_state \<Rightarrow> unit sys" where
  "ensure_dirs s = for_each ensure_dir (state_dirs s)"

text \<open>\<open>EnsureVMRootImage\<close>; the deferred closes run last to first and their errors are dropped.\<close>

definition ensure_vm_root_image :: "vm_runner_state \<Rightarrow> unit sys" where
  "ensure_vm_root_image s = do {
     st \<leftarrow> os_stat (vm_root_image_path s);
     case st of
       Inr _ \<Rightarrow> State_Monad.return (Inr ())
     | Inl _ \<Rightarrow>
         or_fail (os_open (base_root_image s)) (Wrapf ''open base root image %q: %w'' [base_root_image s])
           (\<lambda>src. do {
             r \<leftarrow> or_fail (os_create (vm_root_image_path s) True 420)
               (Wrapf ''create vm root image %q: %w'' [vm_root_image_path s]) (\<lambda>dst. do {
                 c \<leftarrow> os_copy dst src;
                 _ \<leftarrow> os_close dst;
                 State_Monad.return
                   (case c of Inl e \<Rightarrow> Inl (Wrapf ''copy base root image to vm root image: %w'' [] e)
                    | Inr _ \<Rightarrow> Inr ())
               });
             _ \<leftarrow> os_close src;
             State_Monad.return r
           })
   }"

section \<open>Paths\<close>

definition vm_files :: "vm_runner_state \<Rightarrow> string list" where
  "vm_files s = [s_lock_file_path s, ready_socket_path s, container_state s, default_oci_spec s,
     vm_root_image_path s]"

lemma plain_names:
  "plain ''vms''" "plain ''images''" "plain ''vm.lock''" "plain ''agent-ready.sock''" "plain ''container-state.raw''"
  "plain ''oci-default.json''" "plain ''rootfs.raw''"
  by (simp_all add: plain_def good_comp_def)

lemma vm_dir_eq: "vm_dir (state_paths hr wr name) = join_path [wr, ''vms'', name]"
  by (simp add: state_paths_def Let_def)

definition vm_file_names :: "string list" where
  "vm_file_names =
    [''vm.lock'', ''agent-ready.sock'', ''container-state.raw'', ''oci-default.json'', ''rootfs.raw'']"

lemma vm_files_eq: "vm_files (state_paths hr wr name) =
  map (\<lambda>f. join_path [join_path [wr, ''vms'', name], f]) vm_file_names"
  by (simp add: vm_files_def state_paths_def Let_def vm_file_names_def)

lemma vm_file_names_plain: "f \<in> set vm_file_names \<Longrightarrow> plain f"
  using plain_names by (auto simp: vm_file_names_def)



section \<open>Directories\<close>

interpretation state_dir: dir_maker ensure_dir dir_exists
proof
  show "dir_exists d w'" if "run_state (ensure_dir d) w = (Inr (), w')" for d w w'
    using that by (auto simp: ensure_dir_def split: prod.splits sum.splits dest: mkdir_all_dir)
  show "dir_exists d w'" if "dir_exists d w" "run_state (ensure_dir t) w = (r, w')" for d t w r w'
  proof -
    have "growing (ensure_dir t)" unfolding ensure_dir_def by (intro growing_intros)
    from obeysD[OF this that(2)] that(1) show ?thesis by (rule dir_exists_grows[rotated])
  qed
qed

text \<open>
  When \<open>EnsureDirs\<close> succeeds on a resolved state, every directory of the state exists,
  and with them the directory of every file the runner will create for the machine.
\<close>

theorem ensure_dirs_prepares:
  assumes "wr \<noteq> []" and "s = state_paths hr wr name" and "run_state (ensure_dirs s) w = (Inr (), w')"
  shows "list_all (\<lambda>d. dir_exists d w') (state_dirs s) \<and>
    list_all (\<lambda>f. dir_exists (dir f) w') (vm_files s)"
proof
  have all: "\<forall>d \<in> set (state_dirs s). dir_exists d w'"
    using assms(3) unfolding ensure_dirs_def by (rule state_dir.makes_all)
  then show "list_all (\<lambda>d. dir_exists d w') (state_dirs s)" by (simp add: list_all_iff)
  have vmd: "vm_dir s = join_path [wr, ''vms'', name]" using assms(2) by (simp add: vm_dir_eq)
  have "dir (join_path [join_path [wr, ''vms'', name], f]) = vm_dir s" if "plain f" for f
    using dir_join_plain[OF join_path_nonempty[OF assms(1)] that] assms(1) vmd by simp
  moreover have "dir_exists (vm_dir s) w'" using all by (simp add: state_dirs_def)
  ultimately show "list_all (\<lambda>f. dir_exists (dir f) w') (vm_files s)"
    using assms(2) vm_file_names_plain by (simp add: vm_files_eq list_all_iff)
qed

definition ready_world :: world where
  "ready_world = empty_world\<lparr>tree := map (\<lambda>p. ((''root'', p), Dir 493))
     [[], [''h''], [''h'', ''bin''], [''h'', ''kernels''], [''h'', ''rootfs''], [''w''], [''w'', ''images''],
      [''w'', ''vms''], [''w'', ''vms'', ''a'']]\<rparr>"

lemma sample_dirs: "state_dirs (state_paths ''/h'' ''/w'' ''a'') =
  [''/h'', ''/h/bin'', ''/h/kernels'', ''/h/rootfs'', ''/w'', ''/w/images'', ''/w/vms'', ''/w/vms/a'', ''/w/images'']"
  by (simp add: state_dirs_def state_paths_def join_path_def clean_def comps_def clean_comps_def push_def render_def)

lemma ready_world_dirs: "d \<in> set (state_dirs (state_paths ''/h'' ''/w'' ''a'')) \<Longrightarrow>
   run_state (ensure_dir d) (ready_world\<lparr>tick := n\<rparr>) = (Inr (), ready_world\<lparr>tick := Suc n\<rparr>)"
  unfolding sample_dirs ensure_dir_def os_mkdir_all_def
  by (auto simp: ready_world_def empty_world_def comps_def render_def os_stat_def on_node_def syscall_def
      resolve_def look_def locate_def max_links_def is_dir_def Let_def)

lemma ready_world_run:
  "set ds \<subseteq> set (state_dirs (state_paths ''/h'' ''/w'' ''a'')) \<Longrightarrow>
   \<exists>n'. run_state (for_each ensure_dir ds) (ready_world\<lparr>tick := n\<rparr>) = (Inr (), ready_world\<lparr>tick := n'\<rparr>)"
  by (induction ds arbitrary: n) (auto simp: ready_world_dirs intro: exI)

theorem ensure_dirs_prepares_witness:
  "\<exists>w'. run_state (ensure_dirs (state_paths ''/h'' ''/w'' ''a'')) (ready_world\<lparr>tick := 0\<rparr>) = (Inr (), w') \<and>
     dir_exists ''/w/vms/a'' w'"
proof -
  let ?s = "state_paths ''/h'' ''/w'' ''a''"
  obtain w' where run: "run_state (ensure_dirs ?s) (ready_world\<lparr>tick := 0\<rparr>) = (Inr (), w')"
    unfolding ensure_dirs_def using ready_world_run[OF order_refl, of 0] by blast
  have "list_all (\<lambda>d. dir_exists d w') (state_dirs ?s)"
    using ensure_dirs_prepares[OF _ refl run] by simp
  with run show ?thesis by (auto simp: sample_dirs)
qed

section \<open>The root image\<close>

definition fresh_inodes :: "world \<Rightarrow> bool" where
  "fresh_inodes w \<longleftrightarrow> (\<forall>p i. look w p = Some (Reg i) \<longrightarrow> i < next_ino w)"

lemma resolve_cong: "look w' = look w \<Longrightarrow> cwd w' = cwd w \<Longrightarrow> resolve w' = resolve w"
  by (rule ext)+ (simp add: resolve_def)

definition content :: "world \<Rightarrow> nat \<Rightarrow> string" where
  "content w i = snd (inodes w i)"

lemma open_success:
  assumes "run_state (os_open s) w = (Inr fd, w')"
  obtains p i where "resolve w s True = Inr p" "look w p = Some (Reg i)" "fd = next_fd w"
    "w' = w\<lparr>tick := Suc (tick w), open_files := (open_files w)(fd := Some (i, 0)), next_fd := Suc fd\<rparr>"
  using assms unfolding os_open_def
  by (elim on_nodeE) (auto simp: new_fd_def split: node.splits)

lemma create_fresh:
  assumes "run_state (os_create s trunc m) w = (Inr fd, w')" and "resolve w s True = Inr p" and "look w p = None"
  shows "fd = next_fd w" and "look w' p = Some (Reg (next_ino w))"
    and "open_files w' = (open_files w)(fd := Some (next_ino w, 0))"
    and "inodes w' = (inodes w)(next_ino w := (m, []))"
proof -
  from assms have w': "fd = next_fd w \<and> w' = (set_node p (Reg (next_ino w)) (w\<lparr>tick := Suc (tick w)\<rparr>))\<lparr>
      inodes := (inodes w)(next_ino w := (m, [])), next_ino := Suc (next_ino w),
      open_files := (open_files w)(fd := Some (next_ino w, 0)), next_fd := Suc (next_fd w)\<rparr>"
    unfolding os_create_def
    by (auto elim!: on_nodeE simp: Let_def new_fd_def set_node_def)
  then show "fd = next_fd w" "look w' p = Some (Reg (next_ino w))"
    "open_files w' = (open_files w)(fd := Some (next_ino w, 0))"
    "inodes w' = (inodes w)(next_ino w := (m, []))"
    by (auto simp: look_def set_node_def update_conv')
qed

lemma copy_success:
  assumes "run_state (os_copy dst src) w = (Inr u, w')" and "open_files w src = Some (i, 0)"
    and "open_files w dst = Some (j, 0)" and "content w j = []"
  shows "content w' j = content w i" and "look w' = look w"
  using assms by (auto simp: os_copy_def os_write_def write_at_def content_def splice_at_def Let_def
      look_def fun_eq_iff split: option.splits)

lemma close_content: "run_state (os_close fd) w = (r, w') \<Longrightarrow> content w' = content w \<and> look w' = look w"
  by (auto simp: os_close_def content_def look_def fun_eq_iff Let_def split: option.splits if_splits)

text \<open>
  When the machine has no root image yet and \<open>EnsureVMRootImage\<close> succeeds, the image
  exists afterwards and its content is that of the base image.
\<close>

theorem ensure_root_image_copies:
  assumes "fresh_inodes w" and "resolve w (vm_root_image_path s) True = Inr p" and "look w p = None"
    and "run_state (ensure_vm_root_image s) w = (Inr (), w')"
  shows "\<exists>q i j. resolve w (base_root_image s) True = Inr q \<and> look w q = Some (Reg i) \<and>
     look w' p = Some (Reg j) \<and> content w' j = content w i"
proof -
  let ?img = "vm_root_image_path s" and ?base = "base_root_image s"
  obtain st w1 where st: "run_state (os_stat ?img) w = (st, w1)" by (metis surj_pair)
  have st': "w1 = w\<lparr>tick := Suc (tick w)\<rparr>" "\<exists>e. st = Inl e"
    using st assms(2,3) unfolding os_stat_def by (auto elim!: on_nodeE)
  obtain a w2 where a: "run_state (os_open ?base) w1 = (a, w2)" by (metis surj_pair)
  obtain src where src: "a = Inr src"
    using assms(4) st st'(2) a by (cases a) (auto simp: ensure_vm_root_image_def)
  from a src obtain q i where q: "resolve w1 ?base True = Inr q" "look w1 q = Some (Reg i)" "src = next_fd w1"
    and w2: "w2 = w1\<lparr>tick := Suc (tick w1), open_files := (open_files w1)(src := Some (i, 0)), next_fd := Suc src\<rparr>"
    by (auto elim: open_success)
  have "look w2 = look w" "cwd w2 = cwd w" by (simp_all add: w2 st'(1) look_def fun_eq_iff)
  then have same: "resolve w2 ?img True = Inr p" "look w2 p = None" "next_ino w2 = next_ino w" "inodes w2 = inodes w"
    using assms(2,3) resolve_cong[of w2 w] by (simp_all add: w2 st'(1))
  obtain b w3 where b: "run_state (os_create ?img True 420) w2 = (b, w3)" by (metis surj_pair)
  obtain dst where dst: "b = Inr dst"
    using assms(4) st st'(2) a src b by (cases b) (auto simp: ensure_vm_root_image_def split: prod.splits)
  note new = create_fresh[OF b[unfolded dst] same(1,2)]
  obtain c w4 where c: "run_state (os_copy dst src) w3 = (c, w4)" by (metis surj_pair)
  obtain d w5 where d: "run_state (os_close dst) w4 = (d, w5)" by (metis surj_pair)
  obtain f w6 where f: "run_state (os_close src) w5 = (f, w6)" by (metis surj_pair)
  obtain u where u: "c = Inr u" and w': "w' = w6"
    using assms(4) st st'(2) a src b dst c d f by (cases c) (auto simp: ensure_vm_root_image_def)
  have i: "look w q = Some (Reg i)" "resolve w ?base True = Inr q" using q st'(1) by simp_all
  then have ne: "i \<noteq> next_ino w" using assms(1) by (auto simp: fresh_inodes_def)
  have "dst = Suc src" using new(1) w2 by simp
  then have fds: "open_files w3 src = Some (i, 0)" "open_files w3 dst = Some (next_ino w, 0)"
    using new(3) w2 same(3) by auto
  have cont: "content w3 (next_ino w) = []" "content w3 i = content w i"
    using new(4) same(3,4) ne by (simp_all add: content_def)
  note copied = copy_success[OF c[unfolded u] fds cont(1)]
  have "look w' p = Some (Reg (next_ino w))" "content w' (next_ino w) = content w i"
    using new(2) copied cont(2) close_content[OF d] close_content[OF f] w' same(3) by simp_all
  with i show ?thesis by blast
qed

definition image_world :: world where
  "image_world = empty_world\<lparr>tree := [((''root'', []), Dir 493), ((''root'', [''b'']), Reg 0)],
     inodes := (\<lambda>_. (420, ''base'')), next_ino := 1\<rparr>"

definition image_state :: vm_runner_state where
  "image_state = (state_paths ''/h'' ''/w'' ''a'')\<lparr>vm_root_image_path := ''/r'', base_root_image := ''/b''\<rparr>"

lemma image_paths: "vm_root_image_path image_state = ''/r''" "base_root_image image_state = ''/b''"
  "comps ''r'' = [''r'']" "comps ''b'' = [''b'']"
  by (simp_all add: image_state_def comps_def)

lemma image_world_look: "look image_world q = Some (Reg i) \<longleftrightarrow> q = [''b''] \<and> i = 0"
  by (auto simp: image_world_def empty_world_def look_def locate_def split: if_splits)

text \<open>
  A copy that fails leaves a root image the next call accepts: after one failed write (a
  full disk, here after two bytes) \<open>EnsureVMRootImage\<close> returns an error, and called again it
  succeeds without a fault while the image is still the truncated one.
\<close>

theorem truncated_root_image_accepted:
  "\<exists>w w1 w2. (\<exists>e. run_state (ensure_vm_root_image image_state) w = (Inl e, w1)) \<and>
     run_state (ensure_vm_root_image image_state) (w1\<lparr>faults := \<lambda>_. None\<rparr>) = (Inr (), w2) \<and>
     (\<exists>i j. look w2 [''b''] = Some (Reg i) \<and> content w2 i = ''base'' \<and>
            look w2 [''r''] = Some (Reg j) \<and> content w2 j = ''ba'')"
proof -
  let ?w = "image_world\<lparr>faults := (\<lambda>t. if t = 3 then Some (ENOSPC, 2) else None)\<rparr>"
  obtain e w1 where run1: "run_state (ensure_vm_root_image image_state) ?w = (Inl e, w1)" and
    w1: "mounts w1 = []" "cwd w1 = ''/''" "tick w1 = 6" "content w1 0 = ''base''" "content w1 1 = ''ba''"
      "tree w1 = [((''root'', []), Dir 493), ((''root'', [''b'']), Reg 0), ((''root'', [''r'']), Reg 1)]"
    by (simp add: ensure_vm_root_image_def image_paths image_world_def eval_calls[unfolded comps_def] comps_def
        os_copy_def os_open_def content_def)
  have "run_state (ensure_vm_root_image image_state) (w1\<lparr>faults := \<lambda>_. None\<rparr>) =
      (Inr (), w1\<lparr>faults := \<lambda>_. None, tick := 7\<rparr>)"
    by (simp add: ensure_vm_root_image_def image_paths w1 os_stat_def on_node_def syscall_def resolve_def
        look_def locate_def max_links_def comps_def Let_def)
  moreover have "look (w1\<lparr>faults := \<lambda>_. None, tick := 7\<rparr>) [''b''] = Some (Reg 0)"
    "look (w1\<lparr>faults := \<lambda>_. None, tick := 7\<rparr>) [''r''] = Some (Reg 1)"
    "content (w1\<lparr>faults := \<lambda>_. None, tick := 7\<rparr>) = content w1"
    by (simp_all add: look_def locate_def w1 content_def fun_eq_iff)
  ultimately show ?thesis using run1 w1(4,5) by metis
qed

theorem ensure_root_image_copies_witness:
  "\<exists>w' j. run_state (ensure_vm_root_image image_state) image_world = (Inr (), w') \<and>
     look w' [''r''] = Some (Reg j) \<and> content w' j = ''base''"
proof -
  obtain w' where run: "run_state (ensure_vm_root_image image_state) image_world = (Inr (), w')"
    by (simp add: ensure_vm_root_image_def image_paths image_world_def eval_calls[unfolded comps_def] comps_def
        os_copy_def os_open_def)
  have "fresh_inodes image_world"
    unfolding fresh_inodes_def image_world_look by (auto simp: image_world_def)
  moreover have "resolve image_world (vm_root_image_path image_state) True = Inr [''r'']"
    "look image_world [''r''] = None"
    by (simp_all add: image_paths image_world_def empty_world_def resolve_def look_def locate_def max_links_def)
  ultimately obtain i j where "look image_world [''b''] = Some (Reg i) \<or> True" "look w' [''r''] = Some (Reg j)"
      and c: "content w' j = content image_world i"
    using ensure_root_image_copies[OF _ _ _ run] by metis
  moreover have "content image_world i = ''base''" by (simp add: content_def image_world_def)
  ultimately show ?thesis using run by auto
qed

end
