(* ===== verification/Image_Disk.thy ===== *)
theory Image_Disk
  imports VM_State "HOL-Library.Word"
begin

text \<open>
  \<open>vm/image_disk.go\<close>, \<open>vm/image_shared.go\<close> and \<open>vm/disk_ext4.go\<close>: container images unpacked
  into a directory or an ext4 disk, and the caches in front of them. The registry client
  (\<open>go-containerregistry\<close>) is a parameter; so is the program \<open>mkfs.ext4\<close>.
\<close>

section \<open>Archives\<close>

datatype typeflag = TypeDir | TypeReg | TypeRegA | TypeSymlink | TypeLink | TypeOther

record tar_header =
  h_name :: string
  h_type :: typeflag
  h_mode :: nat
  h_linkname :: string

text \<open>
  What a \<open>tar.Reader\<close> yields: headers with the content that can be read and the error that cuts
  it off, if any; then \<open>io.EOF\<close> or an error of \<open>Next\<close>.
\<close>

type_synonym tar_entry = "tar_header \<times> string \<times> goerr option"
type_synonym tar_stream = "tar_entry list \<times> goerr option"

definition safe_join :: "string \<Rightarrow> string \<Rightarrow> string go" where
  "safe_join root name =
    (let c = clean name in
     if c = dot \<or> c = [slash] then Inl (Errorf ''invalid archive path %q'' [name])
     else
       (let c = dropWhile (\<lambda>x. x = slash) c;
            full = join_path [root, c]
        in case rel_path root full of
             None \<Rightarrow> Inl (Errorf ''Rel'' [root, full])
           | Some rel \<Rightarrow>
               if rel = dotdot \<or> has_prefix (dotdot @ [slash]) rel
               then Inl (Errorf ''archive entry escapes root: %q'' [name]) else Inr full))"

text \<open>\<open>io.Copy(f, tr)\<close>, then the file is closed; the first error of the two is the result.\<close>

definition write_entry :: "string \<Rightarrow> nat \<Rightarrow> string \<times> goerr option \<Rightarrow> unit sys" where
  "write_entry target mode data =
    or_fail (os_create target True mode) (\<lambda>e. e) (\<lambda>f. do {
      c \<leftarrow> os_write f (fst data);
      case (case (c, snd data) of (Inr _, Some e) \<Rightarrow> Inl e | _ \<Rightarrow> c) of
        Inl e \<Rightarrow> do { _ \<leftarrow> os_close f; State_Monad.return (Inl e) }
      | Inr _ \<Rightarrow> os_close f
    })"

text \<open>One round of the loop of \<open>extractTarInto\<close>.\<close>

definition extract_entry :: "string \<Rightarrow> tar_entry \<Rightarrow> unit sys" where
  "extract_entry root entry =
    (case entry of (h, data) \<Rightarrow>
     case safe_join root (h_name h) of
       Inl _ \<Rightarrow> State_Monad.return (Inr ())
     | Inr target \<Rightarrow>
         (case h_type h of
            TypeDir \<Rightarrow> os_mkdir_all target (h_mode h)
          | TypeReg \<Rightarrow>
              or_fail (os_mkdir_all (dir target) 493) (\<lambda>e. e) (\<lambda>_. write_entry target (h_mode h) data)
          | TypeRegA \<Rightarrow>
              or_fail (os_mkdir_all (dir target) 493) (\<lambda>e. e) (\<lambda>_. write_entry target (h_mode h) data)
          | TypeSymlink \<Rightarrow>
              or_fail (os_mkdir_all (dir target) 493) (\<lambda>e. e) (\<lambda>_. do {
                _ \<leftarrow> os_remove target;
                os_symlink (h_linkname h) target
              })
          | TypeLink \<Rightarrow>
              (case safe_join root (h_linkname h) of
                 Inl _ \<Rightarrow> State_Monad.return (Inr ())
               | Inr link_target \<Rightarrow>
                   or_fail (os_mkdir_all (dir target) 493) (\<lambda>e. e) (\<lambda>_. do {
                     _ \<leftarrow> os_remove target;
                     os_link link_target target
                   }))
          | TypeOther \<Rightarrow> State_Monad.return (Inr ())))"

definition extract_tar_into :: "string \<Rightarrow> tar_stream \<Rightarrow> unit sys" where
  "extract_tar_into root tr =
    or_fail (for_each (extract_entry root) (fst tr)) (\<lambda>e. e) (\<lambda>_.
      State_Monad.return (case snd tr of None \<Rightarrow> Inr () | Some e \<Rightarrow> Inl e))"

section \<open>Names and platforms\<close>

definition sanitize_image_ref :: "string \<Rightarrow> string" where
  "sanitize_image_ref = map (\<lambda>c. if c \<in> {CHR ''/'', CHR '':'', CHR ''@''} then CHR ''_'' else c)"

text \<open>The architecture of a linux platform; \<open>goarch\<close> is \<open>runtime.GOARCH\<close>.\<close>

definition guest_platform :: "string \<Rightarrow> string go" where
  "guest_platform goarch =
    (if goarch = ''arm64'' then Inr ''arm64''
     else if goarch = ''amd64'' then Inr ''amd64''
     else Inl (Errorf ''unsupported host arch for guest platform selection: %s'' [goarch]))"

section \<open>The environment: registry, mkfs and the host\<close>

text \<open>
  \<open>parse_ref\<close> is the error of \<open>name.ParseReference\<close>; \<open>get_digest\<close> and \<open>get_image\<close> ask the
  registry for a reference and an architecture; \<open>extract_image\<close> is the flattened archive.
\<close>

record registry =
  parse_ref :: "string \<Rightarrow> goerr option"
  get_digest :: "string \<Rightarrow> string \<Rightarrow> string go"
  get_image :: "string \<Rightarrow> string \<Rightarrow> tar_stream go"

record host =
  goarch :: string
  path_dirs :: "string list"
  temp_dir :: string
  temp_suffix :: string
  mkfs_ext4 :: "string list \<Rightarrow> (world, string \<times> goerr option) state"

section \<open>disk_ext4.go\<close>

text \<open>\<open>int64(sizeMiB) * 1024 * 1024\<close>, which wraps; a negative size is refused by \<open>ftruncate\<close>.\<close>

definition size_bytes :: "int \<Rightarrow> int" where
  "size_bytes size_mib = sint (word_of_int size_mib * 1024 * 1024 :: 64 word)"

definition truncate_to :: "nat \<Rightarrow> int \<Rightarrow> unit sys" where
  "truncate_to f n = (if n < 0 then State_Monad.return (Inl (Errno EINVAL)) else os_truncate f (nat n))"

definition create_ext4_disk_from_dir ::
  "host \<Rightarrow> string \<Rightarrow> int \<Rightarrow> string \<Rightarrow> string \<Rightarrow> unit sys" where
  "create_ext4_disk_from_dir h disk_path size_mib label src_dir =
    (if size_mib \<le> 0 then State_Monad.return (Inl (Errorf ''sizeMiB must be > 0'' []))
     else
       (let label = (if label = [] then ''vmrunner-data'' else label) in
        or_fail (os_mkdir_all (dir disk_path) 493) (Wrapf ''create disk directory: %w'' []) (\<lambda>_.
        or_fail (os_create disk_path True 438) (Wrapf ''create disk file %q: %w'' [disk_path]) (\<lambda>f. do {
          t \<leftarrow> truncate_to f (size_bytes size_mib);
          case t of
            Inl e \<Rightarrow> do {
              _ \<leftarrow> os_close f;
              State_Monad.return (Inl (Wrapf ''truncate disk file %q: %w'' [disk_path] e))
            }
          | Inr _ \<Rightarrow>
              or_fail (os_close f) (Wrapf ''close disk file %q: %w'' [disk_path]) (\<lambda>_.
              or_fail (look_path (path_dirs h) ''mkfs.ext4'')
                (\<lambda>_. Errorf ''mkfs.ext4 not found in PATH'' []) (\<lambda>mkfs. do {
                r \<leftarrow> mkfs_ext4 h ([''-F'', ''-L'', label] @
                  (if src_dir \<noteq> [] then [''-d'', src_dir] else []) @ [disk_path]);
                State_Monad.return (case r of
                  (out, Some e) \<Rightarrow> Inl (Wrapf ''mkfs.ext4 failed: %w (output: %s)'' [out] e)
                | (out, None) \<Rightarrow> Inr ())
              }))
        }))))"

definition create_ext4_disk :: "host \<Rightarrow> string \<Rightarrow> int \<Rightarrow> string \<Rightarrow> unit sys" where
  "create_ext4_disk h disk_path size_mib label = create_ext4_disk_from_dir h disk_path size_mib label []"

section \<open>image_disk.go\<close>

definition os_mkdir_temp :: "host \<Rightarrow> string \<Rightarrow> string sys" where
  "os_mkdir_temp h pat =
    (let d = join_path [temp_dir h, pat @ temp_suffix h] in
     or_fail (os_mkdir d 448) (\<lambda>e. e) (\<lambda>_. State_Monad.return (Inr d)))"

definition write_image_to_disk ::
  "host \<Rightarrow> tar_stream \<Rightarrow> string \<Rightarrow> string \<Rightarrow> int \<Rightarrow> string \<Rightarrow> unit sys" where
  "write_image_to_disk h img image_ref disk_path size_mib label =
    or_fail (os_mkdir_temp h ''vmrunner-image-disk-'') (Wrapf ''create staging dir: %w'' []) (\<lambda>staging. do {
      r \<leftarrow> (let rootfs = join_path [staging, ''images'', sanitize_image_ref image_ref, ''rootfs''] in
        or_fail (os_mkdir_all rootfs 493) (Wrapf ''create rootfs staging dir: %w'' []) (\<lambda>_.
        or_fail (extract_tar_into rootfs img) (Wrapf ''populate rootfs staging dir: %w'' []) (\<lambda>_.
        or_fail (create_ext4_disk_from_dir h disk_path size_mib label staging)
          (Wrapf ''create populated ext4 disk: %w'' []) (\<lambda>_. State_Monad.return (Inr ())))));
      _ \<leftarrow> os_remove_all staging;
      State_Monad.return r
    })"

definition build_image_ext4_disk ::
  "host \<Rightarrow> registry \<Rightarrow> string \<Rightarrow> string \<Rightarrow> int \<Rightarrow> string \<Rightarrow> unit sys" where
  "build_image_ext4_disk h reg image_ref disk_path size_mib label =
    (case parse_ref reg image_ref of
       Some e \<Rightarrow> State_Monad.return (Inl (Wrapf ''parse image reference %q: %w'' [image_ref] e))
     | None \<Rightarrow>
         or_fail (State_Monad.return (guest_platform (goarch h))) (\<lambda>e. e) (\<lambda>arch.
         or_fail (State_Monad.return (get_image reg image_ref arch)) (Wrapf ''pull image %q: %w'' [image_ref])
           (\<lambda>img. write_image_to_disk h img image_ref disk_path size_mib label)))"

definition ref_cache_path :: "string \<Rightarrow> string \<Rightarrow> string \<Rightarrow> string" where
  "ref_cache_path cache_dir image_ref arch =
    join_path [join_path [cache_dir, ''refs''], (sanitize_image_ref image_ref @ ''.'' @ arch) @ ''.digest'']"

definition disk_path_of :: "string \<Rightarrow> string \<Rightarrow> string" where
  "disk_path_of cache_dir digest_hex = join_path [cache_dir, digest_hex @ ''.raw'']"

text \<open>The fast path: the disk a previous call recorded for this reference, if it is still there.\<close>

definition cached_disk :: "string \<Rightarrow> string \<Rightarrow> (world, string option) state" where
  "cached_disk cache_dir ref_path = do {
     b \<leftarrow> os_read_file ref_path;
     case b of
       Inl _ \<Rightarrow> State_Monad.return None
     | Inr bytes \<Rightarrow>
         (let hex = trim_space bytes in
          if hex = [] then State_Monad.return None
          else do {
            st \<leftarrow> os_stat (disk_path_of cache_dir hex);
            State_Monad.return (case st of Inr _ \<Rightarrow> Some (disk_path_of cache_dir hex) | Inl _ \<Rightarrow> None)
          })
   }"

definition resolve_disk ::
  "host \<Rightarrow> registry \<Rightarrow> string \<Rightarrow> string \<Rightarrow> string \<Rightarrow> int \<Rightarrow> string \<Rightarrow> string \<Rightarrow> (string \<times> bool) sys" where
  "resolve_disk h reg arch image_ref cache_dir size_mib label ref_path =
    (case parse_ref reg image_ref of
       Some e \<Rightarrow> State_Monad.return (Inl (Wrapf ''parse image reference %q: %w'' [image_ref] e))
     | None \<Rightarrow>
         or_fail (State_Monad.return (get_digest reg image_ref arch))
           (Wrapf ''resolve manifest digest for %q: %w'' [image_ref]) (\<lambda>digest.
         (let digest_hex = trim_prefix ''sha256:'' digest; disk = disk_path_of cache_dir digest_hex in
          if digest_hex = [] then
            State_Monad.return (Inl (Errorf ''empty manifest digest for %q'' [image_ref]))
          else do {
            st \<leftarrow> os_stat disk;
            case st of
              Inr _ \<Rightarrow> do {
                _ \<leftarrow> os_write_file ref_path (digest_hex @ [CHR 0x0A]) 420;
                State_Monad.return (Inr (disk, False))
              }
            | Inl _ \<Rightarrow>
                or_fail (State_Monad.return (get_image reg image_ref arch))
                  (Wrapf ''load image descriptor for %q: %w'' [image_ref]) (\<lambda>img.
                or_fail (write_image_to_disk h img image_ref disk size_mib label)
                  (Wrapf ''build image disk: %w'' []) (\<lambda>_. do {
                  _ \<leftarrow> os_write_file ref_path (digest_hex @ [CHR 0x0A]) 420;
                  State_Monad.return (Inr (disk, True))
                }))
          })))"

definition prepare_image_ext4_disk ::
  "host \<Rightarrow> registry \<Rightarrow> string \<Rightarrow> string \<Rightarrow> int \<Rightarrow> string \<Rightarrow> (string \<times> bool) sys" where
  "prepare_image_ext4_disk h reg image_ref cache_dir size_mib label =
    or_fail (os_mkdir_all cache_dir 493) (Wrapf ''create image cache dir %q: %w'' [cache_dir]) (\<lambda>_.
    or_fail (State_Monad.return (guest_platform (goarch h))) (\<lambda>e. e) (\<lambda>arch. do {
      _ \<leftarrow> os_mkdir_all (join_path [cache_dir, ''refs'']) 493;
      c \<leftarrow> cached_disk cache_dir (ref_cache_path cache_dir image_ref arch);
      case c of
        Some disk \<Rightarrow> State_Monad.return (Inr (disk, False))
      | None \<Rightarrow> resolve_disk h reg arch image_ref cache_dir size_mib label (ref_cache_path cache_dir image_ref arch)
    }))"

section \<open>image_shared.go\<close>

definition prepare_shared_container_rootfs ::
  "host \<Rightarrow> registry \<Rightarrow> string \<Rightarrow> string \<Rightarrow> (string \<times> bool) sys" where
  "prepare_shared_container_rootfs h reg image_ref shared_host_dir =
    (case parse_ref reg image_ref of
       Some e \<Rightarrow> State_Monad.return (Inl (Wrapf ''parse image reference %q: %w'' [image_ref] e))
     | None \<Rightarrow>
         or_fail (State_Monad.return (guest_platform (goarch h))) (\<lambda>e. e) (\<lambda>arch.
         or_fail (State_Monad.return (get_digest reg image_ref arch))
           (Wrapf ''resolve manifest digest for %q: %w'' [image_ref]) (\<lambda>digest.
         (let digest_hex = trim_prefix ''sha256:'' digest;
              rootfs = join_path [shared_host_dir, digest_hex, ''rootfs''] in
          if digest_hex = [] then
            State_Monad.return (Inl (Errorf ''empty manifest digest for %q'' [image_ref]))
          else do {
            st \<leftarrow> os_stat rootfs;
            case st of
              Inr _ \<Rightarrow> State_Monad.return (Inr (digest_hex, False))
            | Inl e \<Rightarrow>
                if e \<noteq> Errno ENOENT then State_Monad.return (Inl e)
                else
                  or_fail (State_Monad.return (get_image reg image_ref arch))
                    (Wrapf ''load image descriptor for %q: %w'' [image_ref]) (\<lambda>img.
                  or_fail (os_mkdir_all rootfs 493) (\<lambda>e. e) (\<lambda>_.
                  or_fail (extract_tar_into rootfs img) (Wrapf ''extract image to shared rootfs: %w'' []) (\<lambda>_.
                  State_Monad.return (Inr (digest_hex, True)))))
          }))))"

end
