(* ===== verification/Image_Confined.thy ===== *)
theory Image_Confined
  imports Image_Props
begin

text \<open>
  Extraction without symbolic links is confined to the root: \<open>confined\<close> programs change no
  name outside a directory and no byte of a file that is named outside of it. The calls of
  \<open>extractTarInto\<close> are confined when their paths go straight down, and \<open>safeJoin\<close> gives such
  paths.
\<close>

section \<open>Worlds that are tidy below a directory\<close>

text \<open>
  No mounts, no symbolic link on the way to the directory or below it, and no file that is
  named both below and outside of it.
\<close>

definition tidy :: "path \<Rightarrow> world \<Rightarrow> bool" where
  "tidy R w \<longleftrightarrow> mounts w = [] \<and>
     (\<forall>q. strict_prefix q R \<longrightarrow> (\<exists>m. look w q = Some (Dir m))) \<and>
     (\<forall>p t. prefix R p \<longrightarrow> look w p \<noteq> Some (Link t)) \<and>
     (\<forall>p i. look w p = Some (Reg i) \<longrightarrow> i < next_ino w) \<and>
     (\<forall>p q i. prefix R p \<longrightarrow> look w p = Some (Reg i) \<longrightarrow> \<not> prefix R q \<longrightarrow> look w q \<noteq> Some (Reg i))"

definition outside_same :: "path \<Rightarrow> world \<Rightarrow> world \<Rightarrow> bool" where
  "outside_same R w w' \<longleftrightarrow> (\<forall>p. \<not> prefix R p \<longrightarrow>
     look w' p = look w p \<and> (\<forall>i. look w p = Some (Reg i) \<longrightarrow> inodes w' i = inodes w i))"

definition stays_below :: "path \<Rightarrow> world \<Rightarrow> world \<Rightarrow> bool" where
  "stays_below R w w' \<longleftrightarrow> (tidy R w \<longrightarrow> tidy R w' \<and> outside_same R w w')"

abbreviation confined :: "path \<Rightarrow> (world, 'a) state \<Rightarrow> bool" where
  "confined R \<equiv> obeys (stays_below R)"

named_theorems confined_intros \<open>programs that stay below a directory\<close>

lemma outside_same_refl [simp]: "outside_same R w w"
  by (simp add: outside_same_def)

lemma outside_same_trans: "outside_same R u v \<Longrightarrow> outside_same R v w \<Longrightarrow> outside_same R u w"
  by (simp add: outside_same_def)

lemma confinedI:
  "(\<And>w r w'. tidy R w \<Longrightarrow> run_state m w = (r, w') \<Longrightarrow> tidy R w' \<and> outside_same R w w') \<Longrightarrow> confined R m"
  by (simp add: obeys_def stays_below_def)

lemma confinedD: "confined R m \<Longrightarrow> tidy R w \<Longrightarrow> run_state m w = (r, w') \<Longrightarrow> tidy R w' \<and> outside_same R w w'"
  by (simp add: obeys_def stays_below_def)

interpretation confined: state_preorder "stays_below R" for R
  by unfold_locales (auto simp: stays_below_def intro: outside_same_trans)

lemmas confined_rules [confined_intros] = confined.rules

section \<open>Changes below the directory\<close>

lemma tidyI:
  assumes "mounts w = []" and "\<And>q. strict_prefix q R \<Longrightarrow> \<exists>m. look w q = Some (Dir m)"
    and "\<And>p t. prefix R p \<Longrightarrow> look w p \<noteq> Some (Link t)"
    and "\<And>p i. look w p = Some (Reg i) \<Longrightarrow> i < next_ino w"
    and "\<And>p q i. prefix R p \<Longrightarrow> look w p = Some (Reg i) \<Longrightarrow> \<not> prefix R q \<Longrightarrow> look w q \<noteq> Some (Reg i)"
  shows "tidy R w"
  using assms unfolding tidy_def by blast

lemma tidyD:
  assumes "tidy R w"
  shows "mounts w = []" and "strict_prefix q R \<Longrightarrow> \<exists>m. look w q = Some (Dir m)"
    and "prefix R p \<Longrightarrow> look w p \<noteq> Some (Link t)"
    and "look w p = Some (Reg i) \<Longrightarrow> i < next_ino w"
    and "prefix R p \<Longrightarrow> look w p = Some (Reg i) \<Longrightarrow> \<not> prefix R q \<Longrightarrow> look w q \<noteq> Some (Reg i)"
  using assms unfolding tidy_def by blast+

lemma tidy_cong:
  assumes "tidy R w" and "look w' = look w" and "mounts w' = mounts w" and "next_ino w \<le> next_ino w'"
  shows "tidy R w'"
proof (rule tidyI)
  show "i < next_ino w'" if "look w' p = Some (Reg i)" for p i
    using tidyD(4)[OF assms(1)] assms(2,4) that by (metis less_le_trans)
qed (use assms tidyD[OF assms(1)] in auto)

lemma look_node: "mounts w = [] \<Longrightarrow> look (set_node p n w) q = (if q = p then Some n else look w q)"
  by (simp add: look_def set_node_def locate_def update_conv')

lemma look_del: "mounts w = [] \<Longrightarrow> look (del_node p w) q = (if q = p then None else look w q)"
  by (simp add: look_def del_node_def locate_def delete_conv')

lemma look_fields [simp]:
  "look (w\<lparr>inodes := x\<rparr>) = look w" "look (w\<lparr>next_ino := n\<rparr>) = look w" "look (w\<lparr>open_files := f\<rparr>) = look w"
  "look (w\<lparr>next_fd := k\<rparr>) = look w" "look (w\<lparr>flocks := g\<rparr>) = look w"
  by (simp_all add: look_def fun_eq_iff)

lemma node_fields [simp]:
  "mounts (set_node p n w) = mounts w" "inodes (set_node p n w) = inodes w" "next_ino (set_node p n w) = next_ino w"
  "mounts (del_node p w) = mounts w" "inodes (del_node p w) = inodes w" "next_ino (del_node p w) = next_ino w"
  by (simp_all add: set_node_def del_node_def)

lemma not_strict: "prefix R p \<Longrightarrow> \<not> strict_prefix p R"
  by (auto simp: strict_prefix_def dest: prefix_order.antisym)

text \<open>A new node below the directory: not a link, and a file no name outside has.\<close>

lemma set_inside:
  assumes "tidy R w" and "prefix R p" and "\<And>t. n \<noteq> Link t"
    and "\<And>i. n = Reg i \<Longrightarrow> i < next_ino w \<and> (\<forall>q. \<not> prefix R q \<longrightarrow> look w q \<noteq> Some (Reg i))"
  shows "tidy R (set_node p n w) \<and> outside_same R w (set_node p n w)"
proof
  note m = tidyD(1)[OF assms(1)]
  show "tidy R (set_node p n w)"
  proof (rule tidyI, unfold look_node[OF m] node_fields)
    show "\<exists>m. (if q = p then Some n else look w q) = Some (Dir m)" if "strict_prefix q R" for q
      using that not_strict[OF assms(2)] tidyD(2)[OF assms(1) that] by auto
    show "(if q = p then Some n else look w q) \<noteq> Some (Link t)" if "prefix R q" for q t
      using tidyD(3)[OF assms(1) that] assms(3) by simp
    show "i < next_ino w" if "(if q = p then Some n else look w q) = Some (Reg i)" for q i
      using that assms(4) tidyD(4)[OF assms(1)] by (auto split: if_splits)
    show "(if q = p then Some n else look w q) \<noteq> Some (Reg i)"
      if "prefix R o'" "(if o' = p then Some n else look w o') = Some (Reg i)" "\<not> prefix R q" for o' q i
    proof -
      have "q \<noteq> p" using that(3) assms(2) by blast
      moreover have "look w q \<noteq> Some (Reg i)"
      proof (cases "o' = p")
        case True
        with that(2,3) assms(4)[of i] show ?thesis by simp
      next
        case False
        with that tidyD(5)[OF assms(1) that(1), of i q] show ?thesis by simp
      qed
      ultimately show ?thesis by simp
    qed
  qed (rule m)
  show "outside_same R w (set_node p n w)"
    using assms(2) by (auto simp: outside_same_def look_node[OF m])
qed

lemma del_inside:
  assumes "tidy R w" and "prefix R p"
  shows "tidy R (del_node p w) \<and> outside_same R w (del_node p w)"
proof
  note m = tidyD(1)[OF assms(1)]
  show "tidy R (del_node p w)"
  proof (rule tidyI, unfold look_del[OF m] node_fields)
    show "\<exists>m. (if q = p then None else look w q) = Some (Dir m)" if "strict_prefix q R" for q
      using that not_strict[OF assms(2)] tidyD(2)[OF assms(1) that] by auto
    show "(if q = p then None else look w q) \<noteq> Some (Link t)" if "prefix R q" for q t
      using tidyD(3)[OF assms(1) that] by simp
    show "i < next_ino w" if "(if q = p then None else look w q) = Some (Reg i)" for q i
      using that tidyD(4)[OF assms(1)] by (auto split: if_splits)
    show "(if q = p then None else look w q) \<noteq> Some (Reg i)"
      if "prefix R o'" "(if o' = p then None else look w o') = Some (Reg i)" "\<not> prefix R q" for o' q i
      using that tidyD(5)[OF assms(1)] by (auto split: if_splits)
  qed (rule m)
  show "outside_same R w (del_node p w)"
    using assms(2) by (auto simp: outside_same_def look_del[OF m])
qed

text \<open>A call that leaves the tree alone and writes at most one file that is named below.\<close>

lemma same_tree:
  assumes "tidy R w" and "look w' = look w" and "mounts w' = mounts w" and "next_ino w' = next_ino w"
    and "inodes w' = inodes w \<or> (\<exists>p i x. prefix R p \<and> look w p = Some (Reg i) \<and> inodes w' = (inodes w)(i := x))"
  shows "tidy R w' \<and> outside_same R w w'"
proof
  show "tidy R w'" using assms(1-4) by (intro tidy_cong[of R w w']) simp_all
  have "inodes w' i = inodes w i" if "\<not> prefix R q" "look w q = Some (Reg i)" for q i
    using assms(5) tidyD(5)[OF assms(1) _ _ that(1)] that(2) by (metis fun_upd_apply)
  with assms(2) show "outside_same R w w'" by (simp add: outside_same_def)
qed

section \<open>Paths that go straight down\<close>

definition straight :: "path \<Rightarrow> string \<Rightarrow> bool" where
  "straight R s \<longleftrightarrow> is_abs s \<and> dot \<notin> set (comps s) \<and> dotdot \<notin> set (comps s) \<and>
     (prefix R (comps s) \<or> prefix (comps s) R)"

lemma walk_straight:
  "walk lk b cur cs fl = Inr p \<Longrightarrow> dot \<notin> set cs \<Longrightarrow> dotdot \<notin> set cs \<Longrightarrow>
   (\<And>q t. prefix q (cur @ cs) \<Longrightarrow> lk q \<noteq> Some (Link t)) \<Longrightarrow> p = cur @ cs"
proof (induction lk b cur cs fl rule: walk.induct)
  case (1 lk b cur fl)
  then show ?case by simp
next
  case (2 lk b cur c cs fl)
  have no_link: "lk (cur @ [c]) \<noteq> Some (Link t)" for t
    using "2.prems"(4)[of "cur @ [c]"] by simp
  from "2.prems"(1) obtain m where dir: "lk cur = Some (Dir m)" by (auto split: option.splits node.splits)
  show ?case
  proof (cases "lk (cur @ [c])")
    case None
    with "2.prems"(1,2,3) dir show ?thesis by (auto split: if_splits)
  next
    case (Some n)
    have run: "walk lk b (cur @ [c]) cs fl = Inr p"
      using "2.prems"(1,2,3) dir Some no_link by (cases n) auto
    have "p = (cur @ [c]) @ cs"
    proof (cases n)
      case (Dir k)
      show ?thesis by (rule "2.IH"(3)[OF dir refl _ _ Some]) (use "2.prems"(2,3,4) run Dir in auto)
    next
      case (Reg k)
      show ?thesis by (rule "2.IH"(4)[OF dir refl _ _ Some]) (use "2.prems"(2,3,4) run Reg in auto)
    next
      case (Link t)
      with Some no_link show ?thesis by blast
    qed
    then show ?thesis by simp
  qed
qed

lemma straight_resolve:
  assumes "tidy R w" and "straight R s" and "resolve w s fl = Inr p"
  shows "p = comps s"
proof -
  have walk: "walk (look w) max_links [] (comps s) fl = Inr p"
    using assms(2,3) by (auto simp: resolve_def straight_def split: if_splits)
  have "look w q \<noteq> Some (Link t)" if "prefix q (comps s)" for q t
  proof -
    have "prefix R q \<or> strict_prefix q R"
      using assms(2) that prefix_same_cases[of q "comps s" R] prefix_order.trans[of q "comps s" R]
      by (auto simp: straight_def strict_prefix_def)
    then show ?thesis using tidyD(2,3)[OF assms(1)] by (metis node.distinct(3) option.inject)
  qed
  with walk_straight[OF walk] assms(2) show ?thesis by (simp add: straight_def)
qed

text \<open>A path that does not exist yet is below the directory: what is above it exists.\<close>

lemma straight_missing:
  assumes "tidy R w" and "straight R s" and "look w (comps s) = None"
  shows "prefix R (comps s)"
  using assms tidyD(2)[OF assms(1), of "comps s"]
  by (auto simp: straight_def strict_prefix_def)

lemma straight_take: "straight R s \<Longrightarrow> comps s = ds @ es \<Longrightarrow> straight R (slash # join_slash ds)"
proof -
  assume s: "straight R s" and eq: "comps s = ds @ es"
  have "good_comp c" if "c \<in> set ds" for c using comps_good[of c s] eq that by simp
  then have "comps (slash # join_slash ds) = ds" using comps_join_slash[of ds] by simp
  moreover have "prefix R ds \<or> prefix ds R"
    using s eq prefix_same_cases[of R "comps s" ds] prefix_order.trans[of ds "comps s" R]
    by (auto simp: straight_def)
  ultimately show ?thesis using s eq by (simp add: straight_def)
qed

lemma tick_tidy: "tidy R w \<Longrightarrow> tidy R (w\<lparr>tick := n\<rparr>) \<and> outside_same R w (w\<lparr>tick := n\<rparr>)"
  by (rule same_tree) simp_all

lemma confined_on_node:
  assumes "straight R s"
    and "\<And>w r w'. tidy R w \<Longrightarrow> k (comps s) (look w (comps s)) w = (r, w') \<Longrightarrow> tidy R w' \<and> outside_same R w w'"
  shows "confined R (on_node s fl k)"
proof (rule confinedI)
  fix w r w' assume tidy: "tidy R w" and run: "run_state (on_node s fl k) w = (r, w')"
  note t = tick_tidy[OF tidy, of "Suc (tick w)"]
  from run show "tidy R w' \<and> outside_same R w w'"
  proof (cases rule: on_nodeE)
    case (err e)
    with t show ?thesis by simp
  next
    case (none p)
    then have "k (comps s) (look (w\<lparr>tick := Suc (tick w)\<rparr>) (comps s)) (w\<lparr>tick := Suc (tick w)\<rparr>) = (r, w')"
      using straight_resolve[OF tidy assms(1)] by auto
    from assms(2)[OF conjunct1[OF t] this] t show ?thesis by (blast intro: outside_same_trans)
  next
    case (some p n)
    then have "k (comps s) (look (w\<lparr>tick := Suc (tick w)\<rparr>) (comps s)) (w\<lparr>tick := Suc (tick w)\<rparr>) = (r, w')"
      using straight_resolve[OF tidy assms(1)] by auto
    from assms(2)[OF conjunct1[OF t] this] t show ?thesis by (blast intro: outside_same_trans)
  qed
qed

lemma confined_looking [confined_intros]:
  "straight R s \<Longrightarrow> confined R (os_stat s)" "straight R s \<Longrightarrow> confined R (os_lstat s)"
  unfolding os_stat_def os_lstat_def
  by (rule confined_on_node; auto split: option.splits)+

lemma confined_mkdir [confined_intros]: "straight R s \<Longrightarrow> confined R (os_mkdir s m)"
  unfolding os_mkdir_def
proof (rule confined_on_node)
  fix w r w' assume s: "straight R s" and tidy: "tidy R w"
    and run: "(case look w (comps s) of Some _ \<Rightarrow> (Inl (Errno EEXIST), w)
      | None \<Rightarrow> (Inr (), set_node (comps s) (Dir m) w)) = (r, w')"
  show "tidy R w' \<and> outside_same R w w'"
  proof (cases "look w (comps s)")
    case None
    with run set_inside[OF tidy straight_missing[OF tidy s None], of "Dir m"] show ?thesis by auto
  qed (use run tidy in auto)
qed

lemma render_straight:
  "straight R s \<Longrightarrow> comps s = rev (c # rc) @ es \<Longrightarrow> straight R (render True (rev (c # rc)))"
  using straight_take by (simp add: render_def)

lemma confined_mkdir_all_rev:
  "straight R s \<Longrightarrow> comps s = rev rc @ es \<Longrightarrow> confined R (mkdir_all_rev True m rc)"
proof (induction rc arbitrary: es)
  case Nil
  have "straight R [slash]" using straight_take[OF Nil.prems(1), of "[]" "comps s"] by simp
  then show ?case by (auto intro!: confined_intros)
next
  case (Cons c rc)
  have "straight R (render True (rev (c # rc)))" using render_straight[OF Cons.prems] .
  moreover have "confined R (mkdir_all_rev True m rc)" using Cons.IH[of "c # es"] Cons.prems by simp
  ultimately show ?case
    unfolding mkdir_all_rev.simps Let_def
    by (intro confined_intros) (auto intro: confined_intros)
qed

lemma confined_mkdir_all [confined_intros]: "straight R s \<Longrightarrow> confined R (os_mkdir_all s m)"
  unfolding os_mkdir_all_def using confined_mkdir_all_rev[of R s "rev (comps s)" "[]" m]
  by (simp add: straight_def)

lemma confined_remove [confined_intros]:
  assumes "straight R s" and "prefix R (comps s)"
  shows "confined R (os_remove s)"
  unfolding os_remove_def
  by (rule confined_on_node[OF assms(1)])
    (use del_inside[OF _ assms(2)] in \<open>auto split: option.splits node.splits if_splits\<close>)

lemma confined_close [confined_intros]: "confined R (os_close f)"
proof (rule confinedI)
  fix w r w' assume tidy: "tidy R w" and run: "run_state (os_close f) w = (r, w')"
  show "tidy R w' \<and> outside_same R w w'"
    by (rule same_tree[OF tidy])
      (use run in \<open>auto simp: os_close_def look_def fun_eq_iff Let_def split: option.splits if_splits\<close>)
qed

section \<open>Files and links\<close>

text \<open>A file opened for writing below the directory is one that is named there.\<close>

lemma create_inside:
  assumes "tidy R w" and "straight R s" and "prefix R (comps s)" and "run_state (os_create s tr m) w = (r, w')"
  shows "tidy R w' \<and> outside_same R w w' \<and>
    (\<forall>f. r = Inr f \<longrightarrow> (\<exists>i. open_files w' f = Some (i, 0) \<and> look w' (comps s) = Some (Reg i)))"
  using assms(4) unfolding os_create_def
proof (cases rule: on_nodeE)
  case (err e)
  with tick_tidy[OF assms(1)] show ?thesis by simp
next
  case (none p)
  let ?w = "w\<lparr>tick := Suc (tick w)\<rparr>" and ?i = "next_ino w"
  let ?v = "?w\<lparr>inodes := (inodes w)(?i := (m, [])), next_ino := Suc ?i\<rparr>"
  have p: "p = comps s" using straight_resolve[OF assms(1,2) none(1)] .
  have fresh: "look w q \<noteq> Some (Reg ?i)" for q using tidyD(4)[OF assms(1)] by blast
  have v: "tidy R ?v" using tidy_cong[OF assms(1), of ?v] by simp
  have ov: "outside_same R w ?v" using fresh by (auto simp: outside_same_def)
  have node: "tidy R (set_node p (Reg ?i) ?v) \<and> outside_same R ?v (set_node p (Reg ?i) ?v)"
    by (rule set_inside[OF v]) (use assms(3) p fresh in auto)
  have w': "w' = (set_node p (Reg ?i) ?v)\<lparr>open_files := (open_files w)(next_fd w := Some (?i, 0)),
      next_fd := Suc (next_fd w)\<rparr> \<and> r = Inr (next_fd w)"
    using none(3) by (auto simp: Let_def new_fd_def set_node_def intro!: world.equality)
  have "tidy R w' \<and> outside_same R (set_node p (Reg ?i) ?v) w'"
    by (rule same_tree[OF conjunct1[OF node]]) (simp_all add: w')
  moreover have "look w' (comps s) = Some (Reg ?i)"
    using w' p tidyD(1)[OF v] by (simp add: look_node)
  ultimately show ?thesis using node ov w' by (auto intro: outside_same_trans)
next
  case (some p n)
  have p: "p = comps s" using straight_resolve[OF assms(1,2) some(1)] .
  show ?thesis
  proof (cases n)
    case (Reg i)
    with some p have w': "look w' = look w" "mounts w' = mounts w" "next_ino w' = next_ino w"
        "inodes w' = inodes w \<or> inodes w' = (inodes w)(i := (fst (inodes w i), []))"
        "r = Inr (next_fd w)" "open_files w' (next_fd w) = Some (i, 0)"
      by (auto simp: new_fd_def split: if_splits)
    have "tidy R w' \<and> outside_same R w w'"
      by (rule same_tree[OF assms(1) w'(1-3)]) (use w'(4) some(2) p Reg assms(3) in auto)
    with w' some(2) p Reg show ?thesis by auto
  next
    case (Dir k)
    with some tick_tidy[OF assms(1)] show ?thesis by auto
  next
    case (Link t)
    with some tick_tidy[OF assms(1)] show ?thesis by auto
  qed
qed

lemma write_inside:
  assumes "tidy R w" and "open_files w f = Some (i, off)" and "prefix R p" and "look w p = Some (Reg i)"
    and "run_state (os_write f bs) w = (r, w')"
  shows "tidy R w' \<and> outside_same R w w'"
proof (rule same_tree[OF assms(1)])
  show "look w' = look w" "mounts w' = mounts w" "next_ino w' = next_ino w"
    using assms(2,5) by (auto simp: os_write_def write_at_def look_def fun_eq_iff Let_def split: option.splits)
  obtain x where "inodes w' = (inodes w)(i := x)"
    using assms(2,5) by (auto simp: os_write_def write_at_def Let_def split: option.splits)
  with assms(3,4) show "inodes w' = inodes w \<or>
      (\<exists>p i x. prefix R p \<and> look w p = Some (Reg i) \<and> inodes w' = (inodes w)(i := x))" by blast
qed

lemma confined_write_entry:
  assumes "straight R s" and "prefix R (comps s)"
  shows "confined R (write_entry s m data)"
proof (rule confinedI)
  fix w r w' assume tidy: "tidy R w" and run: "run_state (write_entry s m data) w = (r, w')"
  obtain a u where a: "run_state (os_create s True m) w = (a, u)" by (metis surj_pair)
  note u = create_inside[OF tidy assms a]
  show "tidy R w' \<and> outside_same R w w'"
  proof (cases a)
    case (Inl e)
    with a run u show ?thesis by (simp add: write_entry_def)
  next
    case (Inr f)
    then obtain i where i: "open_files u f = Some (i, 0)" "look u (comps s) = Some (Reg i)" using u by blast
    obtain c v where c: "run_state (os_write f (fst data)) u = (c, v)" by (metis surj_pair)
    have v: "tidy R v \<and> outside_same R u v" using write_inside[OF _ i(1) assms(2) i(2) c] u by blast
    define z where "z = (case (c, snd data) of (Inr _, Some e) \<Rightarrow> Inl e | _ \<Rightarrow> c)"
    define rest where "rest = (case z of
        Inl e \<Rightarrow> do { _ \<leftarrow> os_close f; State_Monad.return (Inl e) } | Inr _ \<Rightarrow> os_close f)"
    have z: "run_state rest v = (r, w')"
      using run a Inr c unfolding write_entry_def by (simp add: rest_def z_def)
    have "confined R rest" unfolding rest_def by (intro confined_intros)
    from confinedD[OF this conjunct1[OF v] z] have w': "tidy R w'" "outside_same R v w'" by simp_all
    have "outside_same R w v"
      using outside_same_trans[OF conjunct1[OF conjunct2[OF u]] conjunct2[OF v]] .
    from w'(1) outside_same_trans[OF this w'(2)] show ?thesis ..
  qed
qed

lemma confined_link:
  assumes "straight R s" and "prefix R (comps s)" and "straight R t" and "prefix R (comps t)"
  shows "confined R (os_link s t)"
proof (rule confinedI)
  fix w r w' assume tidy: "tidy R w" and run: "run_state (os_link s t) w = (r, w')"
  let ?w = "w\<lparr>tick := Suc (tick w)\<rparr>"
  note t = tick_tidy[OF tidy, of "Suc (tick w)"]
  show "tidy R w' \<and> outside_same R w w'"
  proof (cases "w' = ?w")
    case True
    with t show ?thesis by simp
  next
    case False
    with run obtain p n q where p: "resolve w s (link_follows w) = Inr p" "look w p = Some n" "\<And>m. n \<noteq> Dir m"
        and q: "resolve w t False = Inr q" "look w q = None" and w': "w' = set_node q n ?w"
      by (auto simp: os_link_def run_syscall split: option.splits sum.splits node.splits if_splits)
    have pq: "p = comps s" "q = comps t"
      using straight_resolve[OF tidy assms(1) p(1)] straight_resolve[OF tidy assms(3) q(1)] by simp_all
    have "tidy R (set_node q n ?w) \<and> outside_same R ?w (set_node q n ?w)"
    proof (rule set_inside)
      show "tidy R ?w" using t by simp
      show "prefix R q" using pq assms(4) by simp
      show "n \<noteq> Link l" for l using tidyD(3)[OF tidy] assms(2) pq(1) p(2) by blast
      show "i < next_ino ?w \<and> (\<forall>q. \<not> prefix R q \<longrightarrow> look ?w q \<noteq> Some (Reg i))" if "n = Reg i" for i
        using tidyD(4,5)[OF tidy] assms(2) pq(1) p(2) that by auto
    qed
    with w' t show ?thesis by (blast intro: outside_same_trans)
  qed
qed

section \<open>The paths of an extraction\<close>

lemma comps_of_clean: "is_abs s \<Longrightarrow> clean s = s \<Longrightarrow> comps s = cleaned s"
  using comps_clean[of s] by simp

lemma dir_comps:
  assumes "is_abs s" and "clean s = s"
  shows "is_abs (dir s) \<and> clean (dir s) = dir s \<and> comps (dir s) = butlast (comps s)"
proof (cases "comps s" rule: rev_cases)
  case Nil
  then have "s = [slash]" using assms comps_of_clean[OF assms] clean_eq[of s] by (simp add: render_def)
  then show ?thesis by (simp add: dir_def clean_def comps_def clean_comps_def render_def)
next
  case (snoc ds b)
  define a where "a = slash # join_slash ds"
  have good: "good_comp c" if "c \<in> set (ds @ [b])" for c using comps_good[of c s] snoc that by simp
  have a: "is_abs a" "comps a = ds" "a \<noteq> []"
    using comps_join_slash[of ds] good by (simp_all add: a_def)
  have st: "stack_ok True (b # rev ds)"
    using cleaned_stack_ok[of s] assms(1) snoc comps_of_clean[OF assms] by simp
  have cl_a: "cleaned a = ds" using clean_comps_id[of True ds] st a by (simp add: cleaned_def)
  have b: "plain b" using st good[of b] by (auto simp: plain_def)
  have "s = render True (ds @ [b])" using clean_eq[of s] assms snoc comps_of_clean[OF assms] by simp
  moreover have "join_path [a, b] = render True (ds @ [b])"
    using clean_eq[of "join_path [a, b]"] cleaned_join_plain[of a "[b]"] a b cl_a by simp
  ultimately have "dir s = clean a" using dir_join_plain[OF a(3) b] by simp
  moreover have "clean a = a" using clean_eq[of a] a cl_a by (simp add: render_def a_def)
  ultimately show ?thesis using a snoc by simp
qed

text \<open>What \<open>safeJoin\<close> accepts goes straight down from a clean, absolute root.\<close>

lemma safe_join_straight:
  assumes "is_abs root" and "clean root = root" and "safe_join root name = Inr t"
  shows "straight (comps root) t \<and> prefix (comps root) (comps t) \<and> straight (comps root) (dir t)"
proof -
  have "root \<noteq> []" using assms(1) by (auto simp: is_abs_def)
  then have under: "under root t" using assms(3) by (rule safe_join_below)
  then have abs: "is_abs t" using assms(1) by (simp add: under_def)
  have "clean t = t" using assms(3) \<open>root \<noteq> []\<close> by (auto simp: safe_join_def Let_def split: if_splits option.splits)
  then have t: "comps t = cleaned t" using abs comps_of_clean by blast
  have r: "comps root = cleaned root" using assms(1,2) comps_of_clean by blast
  have "dotdot \<notin> set (comps t)" "dot \<notin> set (comps t)"
    using t cleaned_abs[OF abs] cleaned_no_dot by simp_all
  moreover have pre: "prefix (comps root) (comps t)" using under t r by (auto simp: under_def)
  moreover note d = dir_comps[OF abs \<open>clean t = t\<close>]
  moreover have "prefix (comps root) (butlast (comps t)) \<or> prefix (butlast (comps t)) (comps root)"
    using prefix_same_cases[OF pre, of "butlast (comps t)"] by (auto simp: prefixeq_butlast)
  ultimately show ?thesis using abs by (auto simp: straight_def dest: in_set_butlastD)
qed

definition no_symlinks :: "tar_stream \<Rightarrow> bool" where
  "no_symlinks tr \<longleftrightarrow> list_all (\<lambda>(h, _). h_type h \<noteq> TypeSymlink) (fst tr)"

lemma confined_extract_entry:
  assumes "is_abs root" and "clean root = root" and "h_type (fst e) \<noteq> TypeSymlink"
  shows "confined (comps root) (extract_entry root e)"
proof -
  obtain h data where e: "e = (h, data)" by (cases e)
  show ?thesis
  proof (cases "safe_join root (h_name h)")
    case (Inl x)
    with e show ?thesis by (simp add: extract_entry_def confined.ret)
  next
    case (Inr t)
    note t = safe_join_straight[OF assms(1,2) Inr]
    show ?thesis
    proof (cases "h_type h")
      case TypeLink
      show ?thesis
      proof (cases "safe_join root (h_linkname h)")
        case (Inl x)
        with e Inr TypeLink show ?thesis by (simp add: extract_entry_def \<open>safe_join root (h_name h) = Inr t\<close> confined.ret)
      next
        case (Inr l)
        note l = safe_join_straight[OF assms(1,2) Inr]
        from e \<open>safe_join root (h_name h) = Inr t\<close> TypeLink Inr show ?thesis
          using t l by (auto simp: extract_entry_def intro!: confined_intros confined_link)
      qed
    qed (use e Inr t assms(3) in \<open>auto simp: extract_entry_def intro!: confined_intros confined_write_entry\<close>)
  qed
qed

text \<open>
  C3. An archive without symbolic links, extracted into a directory that is reached and filled
  without symbolic links either, changes nothing outside of that directory: every name outside
  still means the same, and the files named outside still have the same bytes, whatever the
  names and link targets in the archive are and whichever calls fail.
\<close>

theorem extract_stays_inside:
  assumes "is_abs root" and "clean root = root" and "no_symlinks tr" and "tidy (comps root) w"
    and "run_state (extract_tar_into root tr) w = (r, w')"
  shows "outside_same (comps root) w w'"
proof -
  have "confined (comps root) (extract_tar_into root tr)"
    unfolding extract_tar_into_def
    by (intro confined_intros confined.loop confined_extract_entry assms(1,2))
      (use assms(3) in \<open>auto simp: no_symlinks_def list_all_iff\<close>)
  from confinedD[OF this assms(4,5)] show ?thesis by simp
qed

end
