(* ===== verification/Image_Cases.thy ===== *)
theory Image_Cases
  imports Image_Confined
begin

text \<open>
  Concrete runs of the image components: the escape through a symbolic link, and what the
  caches hand out after a failed call and to another reference.
\<close>

section \<open>Symbolic links\<close>

definition file_header :: "string \<Rightarrow> tar_header" where
  "file_header n = \<lparr>h_name = n, h_type = TypeReg, h_mode = 420, h_linkname = []\<rparr>"

definition link_header :: "string \<Rightarrow> string \<Rightarrow> tar_header" where
  "link_header n t = \<lparr>h_name = n, h_type = TypeSymlink, h_mode = 511, h_linkname = t\<rparr>"

definition etc_world :: world where
  "etc_world = empty_world\<lparr>tree := [((''root'', []), Dir 493), ((''root'', [''r'']), Dir 493),
     ((''root'', [''e'']), Dir 493), ((''root'', [''e'', ''p'']), Reg 0)],
     inodes := (\<lambda>_. (420, ''old'')), next_ino := 1\<rparr>"

lemmas eval_paths = clean_def comps_def clean_comps_def push_def render_def join_path_def rel_path_def dir_def

lemmas eval_os = eval_calls[unfolded comps_def] os_mkdir_all_def is_dir_def os_symlink_def os_copy_def os_open_def
  os_read_file_def os_write_file_def os_remove_all_def del_tree_def link_base_def

lemma etc_paths:
  "safe_join ''/r'' ''x'' = Inr ''/r/x''" "safe_join ''/r'' ''x/p'' = Inr ''/r/x/p''"
  "dir ''/r/x'' = ''/r''" "dir ''/r/x/p'' = ''/r/x''"
  by (simp_all add: safe_join_def eval_paths)

text \<open>
  C34. With symbolic links the extraction escapes: an archive with a link to a directory outside
  of the root and then a file below the link overwrites a file of the host, although \<open>safeJoin\<close>
  accepted both names and no call failed.
\<close>

theorem extract_escapes_through_symlink:
  "\<exists>w'. run_state (extract_tar_into ''/r'' ([(link_header ''x'' ''/e'', [], None),
        (file_header ''x/p'', ''new'', None)], None)) etc_world = (Inr (), w') \<and>
     look etc_world [''e'', ''p''] = Some (Reg 0) \<and> content etc_world 0 = ''old'' \<and>
     look w' [''e'', ''p''] = Some (Reg 0) \<and> content w' 0 = ''new''"
  by (simp add: extract_tar_into_def extract_entry_def etc_paths link_header_def file_header_def write_entry_def
      etc_world_def eval_os content_def comps_def render_def)

text \<open>The same archive without the link, and a name that climbs.\<close>

lemma etc_look: "look etc_world p =
    (if p \<in> {[], [''r''], [''e'']} then Some (Dir 493) else if p = [''e'', ''p''] then Some (Reg 0) else None)"
  by (simp add: etc_world_def empty_world_def look_def locate_def)

lemma etc_tidy: "tidy [''r''] etc_world"
proof (rule tidyI)
  show "mounts etc_world = []" by (simp add: etc_world_def empty_world_def)
  show "\<exists>m. look etc_world q = Some (Dir m)" if "strict_prefix q [''r'']" for q
    using that by (auto simp: etc_look strict_prefix_def prefix_Cons)
  show "i < next_ino etc_world" if "look etc_world p = Some (Reg i)" for p i
  proof -
    have "next_ino etc_world = 1" by (simp add: etc_world_def)
    with that show ?thesis by (auto simp: etc_look split: if_splits)
  qed
qed (auto simp: etc_look prefix_Cons split: if_splits)

theorem extract_stays_inside_witness:
  "outside_same [''r''] etc_world (snd (run_state (extract_tar_into ''/r''
     ([(file_header ''../../e/p'', ''new'', None)], None)) etc_world))"
proof -
  obtain r w' where run: "run_state (extract_tar_into ''/r'' ([(file_header ''../../e/p'', ''new'', None)], None))
      etc_world = (r, w')" by (metis surj_pair)
  have r: "is_abs ''/r''" "clean ''/r'' = ''/r''" "comps ''/r'' = [''r'']" by (simp_all add: eval_paths)
  have "no_symlinks ([(file_header ''../../e/p'', ''new'', None)], None)"
    by (simp add: no_symlinks_def file_header_def)
  from extract_stays_inside[OF r(1,2) this, unfolded r(3), OF etc_tidy run] run show ?thesis by simp
qed

section \<open>The shared rootfs\<close>

definition shared_host :: host where
  "shared_host = \<lparr>goarch = ''arm64'', path_dirs = [], temp_dir = ''/t'', temp_suffix = ''1'',
     mkfs_ext4 = (\<lambda>_. State_Monad.return ([], None))\<rparr>"

definition shared_registry :: "tar_stream \<Rightarrow> registry" where
  "shared_registry tr = \<lparr>parse_ref = (\<lambda>_. None), get_digest = (\<lambda>_ _. Inr ''sha256:d''), get_image = (\<lambda>_ _. Inr tr)\<rparr>"

lemma shared_paths: "join_path [''/s'', ''d'', ''rootfs''] = ''/s/d/rootfs''" "trim_prefix ''sha256:'' ''sha256:d'' = ''d''"
  by (simp_all add: eval_paths trim_prefix_def)

text \<open>
  A failed extraction poisons the shared directory: after \<open>PrepareSharedContainerRootFS\<close>
  returned an error because the download broke off, the next call for the same image succeeds
  at once and hands out the incomplete root file system, here one without its only file.
\<close>

theorem broken_rootfs_handed_out:
  "\<exists>e w1 w2.
     run_state (prepare_shared_container_rootfs shared_host (shared_registry ([], Some (Errno EIO))) ''img'' ''/s'')
       empty_world = (Inl e, w1) \<and>
     run_state (prepare_shared_container_rootfs shared_host
       (shared_registry ([(file_header ''a'', ''x'', None)], None)) ''img'' ''/s'') w1 = (Inr (''d'', False), w2) \<and>
     look w2 [''s'', ''d'', ''rootfs'', ''a''] = None"
proof -
  obtain e w1 where run1: "run_state (prepare_shared_container_rootfs shared_host
        (shared_registry ([], Some (Errno EIO))) ''img'' ''/s'') empty_world = (Inl e, w1)"
    and w1: "mounts w1 = []" "faults w1 = (\<lambda>_. None)" "tree w1 = [((''root'', []), Dir 493), ((''root'', [''s'']), Dir 493),
       ((''root'', [''s'', ''d'']), Dir 493), ((''root'', [''s'', ''d'', ''rootfs'']), Dir 493)]"
    by (simp add: prepare_shared_container_rootfs_def shared_host_def shared_registry_def shared_paths guest_platform_def
        extract_tar_into_def eval_os comps_def render_def)
  have "run_state (prepare_shared_container_rootfs shared_host
       (shared_registry ([(file_header ''a'', ''x'', None)], None)) ''img'' ''/s'') w1 =
      (Inr (''d'', False), w1\<lparr>tick := Suc (tick w1)\<rparr>)"
    by (simp add: prepare_shared_container_rootfs_def shared_host_def shared_registry_def shared_paths guest_platform_def
        os_stat_def on_node_def syscall_def resolve_def look_def locate_def max_links_def comps_def Let_def w1)
  moreover have "look (w1\<lparr>tick := Suc (tick w1)\<rparr>) [''s'', ''d'', ''rootfs'', ''a''] = None"
    by (simp add: look_def locate_def w1)
  ultimately show ?thesis using run1 by blast
qed

section \<open>The disk cache\<close>

definition disk_registry :: registry where
  "disk_registry = \<lparr>parse_ref = (\<lambda>_. None),
     get_digest = (\<lambda>r _. if r = ''a/b'' then Inr ''sha256:d1'' else Inr ''sha256:d2''),
     get_image = (\<lambda>_ _. Inr ([], None))\<rparr>"

definition cache_world :: world where
  "cache_world = empty_world\<lparr>tree := [((''root'', []), Dir 493), ((''root'', [''c'']), Dir 493),
     ((''root'', [''c'', ''refs'']), Dir 493), ((''root'', [''c'', ''d1.raw'']), Reg 0),
     ((''root'', [''c'', ''d2.raw'']), Reg 1)], next_ino := 2\<rparr>"

lemma cache_paths:
  "ref_cache_path ''/c'' ''a/b'' ''arm64'' = ''/c/refs/a_b.arm64.digest''"
  "ref_cache_path ''/c'' ''a_b'' ''arm64'' = ''/c/refs/a_b.arm64.digest''"
  "join_path [''/c'', ''refs''] = ''/c/refs''"
  "disk_path_of ''/c'' ''d1'' = ''/c/d1.raw''" "disk_path_of ''/c'' ''d2'' = ''/c/d2.raw''"
  "trim_prefix ''sha256:'' ''sha256:d1'' = ''d1''" "trim_prefix ''sha256:'' ''sha256:d2'' = ''d2''"
  by (simp_all add: ref_cache_path_def disk_path_of_def sanitize_image_ref_def eval_paths trim_prefix_def)

lemma trim_digest: "trim_space ''d1\<newline>'' = ''d1''"
  by (simp add: trim_space_def trim_left_def trim_right_def trim_with.simps leading_space_def space_runes_def)

text \<open>
  The name under which a reference is cached does not determine the reference: after the
  disk of \<open>a/b\<close> was prepared, the call for the different reference \<open>a_b\<close> returns the disk of
  \<open>a/b\<close>, although the registry knows another digest for it and its disk is there.
\<close>

theorem other_reference_gets_cached_disk:
  "\<exists>w1 w2.
     run_state (prepare_image_ext4_disk shared_host disk_registry ''a/b'' ''/c'' 64 []) cache_world =
       (Inr (''/c/d1.raw'', False), w1) \<and>
     get_digest disk_registry ''a_b'' ''arm64'' = Inr ''sha256:d2'' \<and>
     run_state (prepare_image_ext4_disk shared_host disk_registry ''a_b'' ''/c'' 64 []) w1 =
       (Inr (''/c/d1.raw'', False), w2)"
proof -
  obtain w1 where run1: "run_state (prepare_image_ext4_disk shared_host disk_registry ''a/b'' ''/c'' 64 []) cache_world =
       (Inr (''/c/d1.raw'', False), w1)"
    and w1: "mounts w1 = []" "faults w1 = (\<lambda>_. None)" "content w1 2 = ''d1\<newline>''"
      "tree w1 = [((''root'', []), Dir 493), ((''root'', [''c'']), Dir 493),
     ((''root'', [''c'', ''refs'']), Dir 493), ((''root'', [''c'', ''d1.raw'']), Reg 0),
     ((''root'', [''c'', ''d2.raw'']), Reg 1), ((''root'', [''c'', ''refs'', ''a_b.arm64.digest'']), Reg 2)]"
    by (simp add: prepare_image_ext4_disk_def cached_disk_def resolve_disk_def shared_host_def disk_registry_def
        cache_paths guest_platform_def cache_world_def eval_os comps_def render_def content_def)
  have "\<exists>w2. run_state (prepare_image_ext4_disk shared_host disk_registry ''a_b'' ''/c'' 64 []) w1 =
       (Inr (''/c/d1.raw'', False), w2)"
    using w1(3)
    by (simp add: prepare_image_ext4_disk_def cached_disk_def shared_host_def cache_paths guest_platform_def
        os_mkdir_all_def comps_def render_def os_stat_def os_read_file_def on_node_def syscall_def resolve_def look_def
        locate_def max_links_def is_dir_def Let_def w1(1,2,4) content_def trim_digest)
  with run1 show ?thesis by (auto simp: disk_registry_def)
qed

definition bare_world :: world where
  "bare_world = empty_world\<lparr>tree := [((''root'', []), Dir 493), ((''root'', [''c'']), Dir 493),
     ((''root'', [''c'', ''refs'']), Dir 493), ((''root'', [''t'']), Dir 493)]\<rparr>"

lemma staging_paths:
  "join_path [''/t'', ''vmrunner-image-disk-1''] = ''/t/vmrunner-image-disk-1''"
  "join_path [''/t/vmrunner-image-disk-1'', ''images'', sanitize_image_ref ''a/b'', ''rootfs''] =
     ''/t/vmrunner-image-disk-1/images/a_b/rootfs''"
  "dir ''/c/d1.raw'' = ''/c''"
  by (simp_all add: sanitize_image_ref_def eval_paths)

lemma host_arch: "goarch shared_host = ''arm64''"
  by (simp add: shared_host_def)

lemma size_64: "size_bytes 64 = 67108864"
  by (simp add: size_bytes_def)

text \<open>The staging directory, its rootfs, the disk file that stays behind, and the clean-up.\<close>

definition staging_tree :: "((string \<times> path) \<times> node) list" where
  "staging_tree = [((''root'', [''t'', ''vmrunner-image-disk-1'']), Dir 448),
     ((''root'', [''t'', ''vmrunner-image-disk-1'', ''images'']), Dir 493),
     ((''root'', [''t'', ''vmrunner-image-disk-1'', ''images'', ''a_b'']), Dir 493),
     ((''root'', [''t'', ''vmrunner-image-disk-1'', ''images'', ''a_b'', ''rootfs'']), Dir 493)]"

lemma staging_made:
  "run_state (os_mkdir_temp shared_host ''vmrunner-image-disk-'') (bare_world\<lparr>tick := n\<rparr>) =
    (Inr ''/t/vmrunner-image-disk-1'', bare_world\<lparr>tick := Suc n, tree := tree bare_world @ take 1 staging_tree\<rparr>)"
  by (simp add: os_mkdir_temp_def shared_host_def staging_paths bare_world_def staging_tree_def eval_os comps_def render_def)

lemma staging_rootfs_made:
  "run_state (os_mkdir_all ''/t/vmrunner-image-disk-1/images/a_b/rootfs'' 493)
     (bare_world\<lparr>tick := n, tree := tree bare_world @ take 1 staging_tree\<rparr>) =
   (Inr (), bare_world\<lparr>tick := n + 7, tree := tree bare_world @ staging_tree\<rparr>)"
  by (simp add: bare_world_def staging_tree_def eval_os comps_def render_def)

lemma staging_disk_fails:
  "\<exists>e w. run_state (create_ext4_disk_from_dir shared_host ''/c/d1.raw'' 64 [] ''/t/vmrunner-image-disk-1'')
       (bare_world\<lparr>tick := n, tree := tree bare_world @ staging_tree\<rparr>) = (Inl e, w) \<and>
     mounts w = [] \<and> faults w = (\<lambda>_. None) \<and> cwd w = ''/'' \<and>
     tree w = tree bare_world @ staging_tree @ [((''root'', [''c'', ''d1.raw'']), Reg 0)]"
  by (simp add: create_ext4_disk_from_dir_def size_64 truncate_to_def look_path_def shared_host_def staging_paths
      bare_world_def staging_tree_def eval_os comps_def render_def)

lemma staging_removed:
  assumes "mounts w = []" "faults w = (\<lambda>_. None)"
    and "tree w = tree bare_world @ staging_tree @ [((''root'', [''c'', ''d1.raw'']), Reg 0)]"
  shows "run_state (os_remove_all ''/t/vmrunner-image-disk-1'') w =
    (Inr (), w\<lparr>tick := Suc (tick w), tree := tree bare_world @ [((''root'', [''c'', ''d1.raw'']), Reg 0)]\<rparr>)"
  using assms
  by (simp add: os_remove_all_def on_node_def syscall_def resolve_def look_def locate_def max_links_def comps_def
      Let_def del_tree_def bare_world_def staging_tree_def)

lemma write_image_fails:
  "\<exists>e w. run_state (write_image_to_disk shared_host ([], None) ''a/b'' ''/c/d1.raw'' 64 [])
       (bare_world\<lparr>tick := n\<rparr>) = (Inl e, w) \<and>
     mounts w = [] \<and> faults w = (\<lambda>_. None) \<and>
     tree w = tree bare_world @ [((''root'', [''c'', ''d1.raw'']), Reg 0)]"
proof -
  obtain e w where disk: "run_state (create_ext4_disk_from_dir shared_host ''/c/d1.raw'' 64 [] ''/t/vmrunner-image-disk-1'')
       (bare_world\<lparr>tick := 8 + n, tree := tree bare_world @ staging_tree\<rparr>) = (Inl e, w)"
     and w: "mounts w = []" "faults w = (\<lambda>_. None)"
       "tree w = tree bare_world @ staging_tree @ [((''root'', [''c'', ''d1.raw'']), Reg 0)]"
    using staging_disk_fails[of "8 + n"] by auto
  show ?thesis
    using staging_rootfs_made[of "Suc n"]
    by (simp add: write_image_to_disk_def staging_made staging_paths extract_tar_into_def disk staging_removed[OF w] w)
qed

text \<open>
  A disk that was never formatted is handed out: on a host without \<open>mkfs.ext4\<close> the first
  \<open>PrepareImageExt4Disk\<close> returns an error but leaves its empty disk file, and the second call
  returns that file as the prepared disk.
\<close>

theorem unformatted_disk_handed_out:
  "\<exists>e w1 w2.
     run_state (prepare_image_ext4_disk shared_host disk_registry ''a/b'' ''/c'' 64 []) bare_world = (Inl e, w1) \<and>
     run_state (prepare_image_ext4_disk shared_host disk_registry ''a/b'' ''/c'' 64 []) w1 =
       (Inr (''/c/d1.raw'', False), w2)"
proof -
  have "run_state (prepare_image_ext4_disk shared_host disk_registry ''a/b'' ''/c'' 64 []) bare_world =
     (case run_state (write_image_to_disk shared_host ([], None) ''a/b'' ''/c/d1.raw'' 64 []) (bare_world\<lparr>tick := 4\<rparr>) of
        (Inl e, w) \<Rightarrow> (Inl (Wrapf ''build image disk: %w'' [] e), w)
      | (Inr _, w) \<Rightarrow> (case run_state (os_write_file ''/c/refs/a_b.arm64.digest'' ''d1\<newline>'' 420) w of
          (_, w') \<Rightarrow> (Inr (''/c/d1.raw'', True), w')))"
    by (simp add: prepare_image_ext4_disk_def cached_disk_def resolve_disk_def host_arch disk_registry_def
        cache_paths guest_platform_def os_mkdir_all_def comps_def render_def os_stat_def os_read_file_def on_node_def
        syscall_def resolve_def look_def locate_def max_links_def is_dir_def Let_def bare_world_def empty_world_def
        eval_nat_numeral del: Suc_eq_plus1 split: prod.splits sum.splits)
  with write_image_fails[of 4] obtain e w1 where run1: "run_state (prepare_image_ext4_disk shared_host disk_registry ''a/b''
      ''/c'' 64 []) bare_world = (Inl e, w1)"
    and w1: "mounts w1 = []" "faults w1 = (\<lambda>_. None)"
      "tree w1 = tree bare_world @ [((''root'', [''c'', ''d1.raw'']), Reg 0)]"
    by auto
  have "\<exists>w2. run_state (prepare_image_ext4_disk shared_host disk_registry ''a/b'' ''/c'' 64 []) w1 =
       (Inr (''/c/d1.raw'', False), w2)"
    by (simp add: prepare_image_ext4_disk_def cached_disk_def resolve_disk_def shared_host_def disk_registry_def
        cache_paths guest_platform_def os_mkdir_all_def comps_def render_def os_stat_def os_read_file_def on_node_def
        syscall_def resolve_def look_def locate_def max_links_def is_dir_def Let_def w1 bare_world_def empty_world_def
        split: prod.splits)
  with run1 show ?thesis by blast
qed

text \<open>
  The size of a disk is exact below \<open>2^43\<close> MiB; the product wraps above, and there are
  positive sizes that make an empty disk.
\<close>

theorem size_bytes_exact:
  "{m. 0 < m \<and> m < 2 ^ 43 \<and> size_bytes m \<noteq> m * 1048576} = {} \<and> size_bytes (2 ^ 44) = 0"
proof -
  have "size_bytes m = m * 1048576" if "0 < m" "m < 2 ^ 43" for m
  proof -
    have "word_of_int m * 1024 * 1024 = (word_of_int (m * 1048576) :: 64 word)" by simp
    moreover have "m * 1048576 < 2 ^ 63" "- (2 ^ 63) \<le> m * 1048576" using that by simp_all
    ultimately show ?thesis by (simp only: size_bytes_def sint_sbintrunc') (simp add: signed_take_bit_int_eq_self)
  qed
  moreover have "size_bytes (2 ^ 44) = 0" by (simp add: size_bytes_def)
  ultimately show ?thesis by auto
qed

end
