(* ===== verification/Manager_VM.thy ===== *)
theory Manager_VM
  imports Manager_CLI Runner_Conn
begin

text \<open>
  The rest of the Swift manager (\<open>manager/Sources/vmmanager/main.swift\<close>): \<open>startVM\<close>, which turns
  the parsed arguments into the configuration of a virtual machine, the check of the kernel
  file, the choice of a bridged interface, and the vsock listeners that send every accepted
  connection to the runner. The Virtualization framework and the host are the record
  \<open>vz_host\<close>. Swift's arithmetic and its conversions between integer types stop the process
  when the result does not fit: the outcome \<open>Trap\<close>.
\<close>

section \<open>Arithmetic that traps\<close>

datatype vm_error = BadArg cli_error | InvalidKernel string | Framework goerr | Trap

type_synonym 'a swift = "vm_error + 'a"

definition then_do :: "'a swift \<Rightarrow> ('a \<Rightarrow> 'b swift) \<Rightarrow> 'b swift" where
  "then_do r k = (case r of Inl e \<Rightarrow> Inl e | Inr x \<Rightarrow> k x)"

definition swift_times :: "64 word \<Rightarrow> 64 word \<Rightarrow> 64 word swift" where
  "swift_times a b = (if unat a * unat b < 2 ^ 64 then Inr (a * b) else Inl Trap)"

definition swift_uint32 :: "int \<Rightarrow> 32 word swift" where
  "swift_uint32 i = (if 0 \<le> i \<and> i < 2 ^ 32 then Inr (word_of_int i) else Inl Trap)"

section \<open>The configuration of the virtual machine\<close>

datatype boot_loader = LinuxLoader string "string option" string | EfiLoader

record vz_disk =
  disk_url :: string
  disk_read_only :: bool

datatype vz_network = NatNetwork | BridgedNetwork string

record vz_share =
  share_tag :: string
  share_dir :: string
  share_read_only :: bool

record vz_config =
  vz_cpu_count :: int
  vz_memory_size :: "64 word"
  vz_boot_loader :: boot_loader
  vz_storage :: "vz_disk list"
  vz_serial :: bool
  vz_networks :: "vz_network list"
  vz_shares :: "vz_share list"
  vz_sockets :: nat

text \<open>
  The host: the bytes of a file, the machine name of \<open>sysctl\<close>, whether a disk image can be
  attached, the interfaces for bridging with their display names, and the framework's own
  validation of a configuration.
\<close>

record vz_host =
  file_bytes :: "string \<Rightarrow> 8 word list go"
  hw_machine :: string
  attach_disk :: "string \<Rightarrow> bool \<Rightarrow> goerr option"
  bridged_interfaces :: "(string \<times> string) list"
  vz_validate :: "vz_config \<Rightarrow> goerr option"

definition arm64_image_magic :: "32 word" where
  "arm64_image_magic = 0x644d5241"

definition validate_kernel_artifact :: "vz_host \<Rightarrow> string \<Rightarrow> unit swift" where
  "validate_kernel_artifact h path =
    (case file_bytes h path of
       Inl e \<Rightarrow> Inl (Framework e)
     | Inr bytes \<Rightarrow>
         if length bytes < 64 then Inl (InvalidKernel (''kernel file too small: '' @ path))
         else if has_prefix ''arm64'' (hw_machine h) \<and>
             le_port (drop 56 bytes) \<noteq> arm64_image_magic then
           Inl (InvalidKernel (''kernel '' @ path @ '' is not an ARM64 Linux Image (missing ARM64 image magic).''))
         else Inr ())"

definition pick_bridged_interface :: "vz_host \<Rightarrow> string option \<Rightarrow> string swift" where
  "pick_bridged_interface h requested =
    (if bridged_interfaces h = [] then
       Inl (BadArg (InvalidArg ''no bridged network interfaces available on host''))
     else
       (case requested of
          None \<Rightarrow> Inr (fst (hd (bridged_interfaces h)))
        | Some r \<Rightarrow>
            if r = [] then Inr (fst (hd (bridged_interfaces h)))
            else
              (case find (\<lambda>(ident, shown). ident = r \<or> shown = r) (bridged_interfaces h) of
                 Some (ident, _) \<Rightarrow> Inr ident
               | None \<Rightarrow> Inl (BadArg (InvalidArg (''bridge interface not found: '' @ r))))))"

definition boot_loader_of :: "vz_host \<Rightarrow> manager_config \<Rightarrow> boot_loader swift" where
  "boot_loader_of h m =
    (if m_boot_mode m = boot_linux then
       (case m_kernel_path m of
          None \<Rightarrow> Inl (BadArg (InvalidArg ''missing --kernel for linux boot mode''))
        | Some k \<Rightarrow> then_do (validate_kernel_artifact h k) (\<lambda>_.
            Inr (LinuxLoader k (m_initrd_path m) (boot_args m))))
     else Inr EfiLoader)"

definition attach :: "vz_host \<Rightarrow> string \<Rightarrow> bool \<Rightarrow> vz_disk swift" where
  "attach h path ro =
    (case attach_disk h path ro of
       Some e \<Rightarrow> Inl (Framework e)
     | None \<Rightarrow> Inr \<lparr>disk_url = path, disk_read_only = ro\<rparr>)"

fun attach_extra :: "vz_host \<Rightarrow> string list \<Rightarrow> vz_disk list \<Rightarrow> vz_disk list swift" where
  "attach_extra h [] ds = Inr ds"
| "attach_extra h (p # ps) ds = then_do (attach h p False) (\<lambda>d. attach_extra h ps (ds @ [d]))"

definition storage_of :: "vz_host \<Rightarrow> manager_config \<Rightarrow> vz_disk list swift" where
  "storage_of h m =
    then_do (attach h (or_else (m_root_image_path m) []) True) (\<lambda>root.
    attach_extra h (m_extra_disk_paths m) [root])"

definition networks_of :: "vz_host \<Rightarrow> manager_config \<Rightarrow> vz_network list swift" where
  "networks_of h m =
    (if \<not> m_enable_network m then Inr []
     else if m_network_mode m = net_nat then Inr [NatNetwork]
     else then_do (pick_bridged_interface h (m_bridge_interface m)) (\<lambda>i. Inr [BridgedNetwork i]))"

definition shares_of :: "manager_config \<Rightarrow> vz_share list swift" where
  "shares_of m =
    (if \<not> m_enable_virtiofs m then Inr []
     else
       (case or_else (m_virtiofs_host_dir m) [] of
          [] \<Rightarrow> Inl (BadArg (InvalidArg ''missing --virtiofs-host-dir when --enable-virtiofs=true''))
        | d # ds \<Rightarrow>
            (case or_else (m_virtiofs_tag m) [] of
               [] \<Rightarrow> Inl (BadArg (InvalidArg ''missing --virtiofs-tag when --enable-virtiofs=true''))
             | t # ts \<Rightarrow> Inr [\<lparr>share_tag = t # ts, share_dir = d # ds, share_read_only = True\<rparr>])))"

text \<open>\<open>startVM\<close> up to the virtual machine it makes and starts.\<close>

definition start_vm :: "vz_host \<Rightarrow> manager_config \<Rightarrow> vz_config swift" where
  "start_vm h m =
    then_do (swift_times (word_of_int (m_memory_mib m)) 1024) (\<lambda>kib.
    then_do (swift_times kib 1024) (\<lambda>memory.
    then_do (boot_loader_of h m) (\<lambda>loader.
    then_do (storage_of h m) (\<lambda>disks.
    then_do (networks_of h m) (\<lambda>nets.
    then_do (shares_of m) (\<lambda>shares.
    (let vz = \<lparr>vz_cpu_count = max 1 (m_cpu_count m), vz_memory_size = memory, vz_boot_loader = loader,
           vz_storage = disks, vz_serial = m_verbose m, vz_networks = nets, vz_shares = shares,
           vz_sockets = 1\<rparr> in
     case vz_validate h vz of Some e \<Rightarrow> Inl (Framework e) | None \<Rightarrow> Inr vz)))))))"

section \<open>The vsock listeners\<close>

fun add_ports :: "32 word list \<Rightarrow> int list \<Rightarrow> 32 word list swift" where
  "add_ports ports [] = Inr ports"
| "add_ports ports (p # ps) =
    (if p > 0 then then_do (swift_uint32 p) (\<lambda>u. add_ports (if u \<in> set ports then ports else ports @ [u]) ps)
     else add_ports ports ps)"

definition listen_ports :: "manager_config \<Rightarrow> 32 word list swift" where
  "listen_ports m =
    then_do (swift_uint32 (m_agent_vsock_port m)) (\<lambda>u. add_ports [u] (m_proxy_vsock_ports m))"

text \<open>
  \<open>enableVsockAgentListener\<close>: the ports that have a listener, none without a socket device; and
  \<open>sendConnectionFDOverUnixSocket\<close>: what is sent for a connection to one of them, when the
  path of the socket is set and fits its address and the calls succeed.
\<close>

definition enable_vsock_agent_listener :: "vz_config \<Rightarrow> manager_config \<Rightarrow> 32 word list swift" where
  "enable_vsock_agent_listener vz m = (if vz_sockets vz = 0 then Inr [] else listen_ports m)"

definition socket_path_fits :: "string \<Rightarrow> bool" where
  "socket_path_fits path \<longleftrightarrow> length path < 104"

definition notify_runner ::
  "manager_config \<Rightarrow> int \<Rightarrow> 32 word \<Rightarrow> (string \<times> 8 word list \<times> cmsg list) option" where
  "notify_runner m fd destination_port =
    (case m_agent_ready_socket_path m of
       None \<Rightarrow> None
     | Some path \<Rightarrow>
         if socket_path_fits path then Some (path, readiness_message fd destination_port) else None)"

section \<open>Traps\<close>

lemma then_do_Inr [simp]: "then_do r k = Inr y \<longleftrightarrow> (\<exists>x. r = Inr x \<and> k x = Inr y)"
  by (cases r) (simp_all add: then_do_def)

lemma then_do_simps [simp]: "then_do (Inr x) k = k x" "then_do (Inl e) k = Inl e"
  by (simp_all add: then_do_def)

lemma swift_times_kibi:
  assumes "0 \<le> i" and "i < 18446744073709551616"
  shows "swift_times (word_of_int i) 1024 =
    (if i < 18014398509481984 then Inr (word_of_int (i * 1024)) else Inl Trap)"
proof -
  have "unat (word_of_int i :: 64 word) = nat i"
    using assms by (simp add: unat_eq_nat_uint uint_word_of_int_eq take_bit_int_eq_self)
  moreover have "unat (1024 :: 64 word) = 1024" by simp
  moreover have "nat i * 1024 < 2 ^ 64 \<longleftrightarrow> i < 18014398509481984" using assms(1) by simp linarith
  moreover have "word_of_int i * 1024 = (word_of_int (i * 1024) :: 64 word)" by simp
  ultimately show ?thesis by (simp only: swift_times_def)
qed

lemma swift_times_mebi:
  assumes "0 \<le> i" and "i < 18446744073709551616"
  shows "then_do (swift_times (word_of_int i) 1024) (\<lambda>kib. then_do (swift_times kib 1024) k) =
    (if i < 17592186044416 then k (word_of_int (i * 1048576)) else Inl Trap)"
proof (cases "i < 18014398509481984")
  case True
  have "i * 1024 * 1024 = i * 1048576" by simp
  with True assms swift_times_kibi[of i] swift_times_kibi[of "i * 1024"] show ?thesis
    by (auto simp del: of_int_mult simp: mult.commute)
next
  case False
  with assms swift_times_kibi[of i] show ?thesis by simp
qed

lemma add_ports_ok:
  "add_ports ports ps = Inr ls \<Longrightarrow> distinct ports \<Longrightarrow>
   distinct ls \<and> set ls = set ports \<union> word_of_int ` {p \<in> set ps. 0 < p} \<and> (\<exists>more. ls = ports @ more) \<and>
   (\<forall>p \<in> set ps. p < 2 ^ 32)"
proof (induction ports ps rule: add_ports.induct)
  case (2 ports p ps)
  show ?case
  proof (cases "p > 0")
    case True
    with 2(3) obtain u where u: "u = word_of_int p" "p < 2 ^ 32"
        and rest: "add_ports (if u \<in> set ports then ports else ports @ [u]) ps = Inr ls"
      by (auto simp: swift_uint32_def split: if_splits)
    have "swift_uint32 p = Inr u" using True u by (simp add: swift_uint32_def)
    from 2(1)[OF True, of u] rest 2(4)
    have "distinct ls \<and> set ls = set ports \<union> {u} \<union> word_of_int ` {p \<in> set ps. 0 < p} \<and>
        (\<exists>more. ls = ports @ more) \<and> (\<forall>p \<in> set ps. p < 2 ^ 32)"
      by (auto split: if_splits)
    moreover have "{q \<in> set (p # ps). 0 < q} = insert p {q \<in> set ps. 0 < q}" using True by auto
    ultimately show ?thesis using u by auto
  next
    case False
    with 2(3) have "add_ports ports ps = Inr ls" by simp
    from 2(2)[OF False this 2(4)] False show ?thesis by auto
  qed
qed simp

end
