(* ===== verification/Agent_Boot.thy ===== *)
theory Agent_Boot
  imports Manager_CLI Runner_Conn
begin

text \<open>
  The guest agent up to its connection with the host: \<open>agent/cmd/agent/main.go\<close> (the kernel
  command line, the vsock target, the endless connection loop), \<open>vsock.go\<close> (the socket
  address as the kernel reads it) and \<open>runtime_mounts.go\<close> (the first mounts and the settings
  read from the command line). The argument \<open>os_args\<close> is \<open>os.Args\<close>; the theorems show which
  setting wins, that the address has the kernel's layout, which mounts may fail, and that the
  loop keeps trying without leaking a descriptor.
\<close>

section \<open>The kernel command line\<close>

definition read_kernel_cmdline :: "string list \<Rightarrow> (world, string list) state" where
  "read_kernel_cmdline os_args = do {
     r \<leftarrow> os_read_file ''/proc/cmdline'';
     State_Monad.return (case r of Inl _ \<Rightarrow> os_args | Inr data \<Rightarrow> fields_of data)
   }"

text \<open>\<open>if env := os.Getenv(k); env != "" { if p, err := strconv.Atoi(env); err == nil { ... } }\<close>\<close>

definition env_uint32 :: "string \<Rightarrow> 32 word \<Rightarrow> (world, 32 word) state" where
  "env_uint32 k d = do {
     v \<leftarrow> os_getenv k;
     State_Monad.return
       (if v = [] then d else case atoi v of None \<Rightarrow> d | Some p \<Rightarrow> word_of_int p)
   }"

definition target_arg :: "string \<Rightarrow> 32 word \<times> 32 word \<Rightarrow> 32 word \<times> 32 word" where
  "target_arg arg t =
    (if has_prefix ''agent.vsock_cid='' arg then
       (case atoi (trim_prefix ''agent.vsock_cid='' arg) of
          None \<Rightarrow> t | Some p \<Rightarrow> (word_of_int p, snd t))
     else if has_prefix ''agent.vsock_port='' arg then
       (case atoi (trim_prefix ''agent.vsock_port='' arg) of
          None \<Rightarrow> t | Some p \<Rightarrow> (fst t, word_of_int p))
     else t)"

definition parse_vsock_target :: "string list \<Rightarrow> (world, 32 word \<times> 32 word) state" where
  "parse_vsock_target os_args = do {
     cid \<leftarrow> env_uint32 ''AGENT_VSOCK_CID'' 2;
     port \<leftarrow> env_uint32 ''AGENT_VSOCK_PORT'' 7000;
     args \<leftarrow> read_kernel_cmdline os_args;
     State_Monad.return (fold target_arg args (cid, port))
   }"

section \<open>Settings of runtime_mounts.go\<close>

definition virtiofs_enabled :: "string list \<Rightarrow> (world, bool) state" where
  "virtiofs_enabled os_args = do {
     args \<leftarrow> read_kernel_cmdline os_args;
     State_Monad.return (list_ex (\<lambda>arg. arg = ''agent.virtiofs=1'' \<or> arg = ''agent.virtiofs=true'') args)
   }"

text \<open>The loop the four functions below share: the first value that is not blank.\<close>

fun first_value :: "string \<Rightarrow> string list \<Rightarrow> string option" where
  "first_value key [] = None"
| "first_value key (arg # args) =
    (if has_prefix key arg then
       (let v = trim_space (trim_prefix key arg) in if v \<noteq> [] then Some v else first_value key args)
     else first_value key args)"

definition setting :: "string \<Rightarrow> string \<Rightarrow> string list \<Rightarrow> (world, string) state" where
  "setting key d os_args = do {
     args \<leftarrow> read_kernel_cmdline os_args;
     State_Monad.return (case first_value key args of Some v \<Rightarrow> v | None \<Rightarrow> d)
   }"

definition virtiofs_tag_of :: "string list \<Rightarrow> (world, string) state" where
  "virtiofs_tag_of = setting ''agent.virtiofs_tag='' ''vmrunnerfs0''"

definition virtiofs_mount_point_of :: "string list \<Rightarrow> (world, string) state" where
  "virtiofs_mount_point_of = setting ''agent.virtiofs_mount='' ''/run/vmrunner/shared''"

definition container_writable_disk_device :: "string list \<Rightarrow> (world, string) state" where
  "container_writable_disk_device = setting ''agent.overlay_device='' ''/dev/vdb''"

definition overlay_state_mount_point_fs :: "string list \<Rightarrow> (world, string) state" where
  "overlay_state_mount_point_fs = setting ''agent.overlay_mount='' ''/mnt/containers''"

section \<open>The first mounts\<close>

record mount_spec =
  ms_target :: string
  ms_fstype :: string
  ms_source :: string
  ms_optional :: bool

definition runtime_specs :: "mount_spec list" where
  "runtime_specs =
    [\<lparr>ms_target = ''/proc'', ms_fstype = ''proc'', ms_source = ''proc'', ms_optional = False\<rparr>,
     \<lparr>ms_target = ''/sys'', ms_fstype = ''sysfs'', ms_source = ''sysfs'', ms_optional = False\<rparr>,
     \<lparr>ms_target = ''/dev'', ms_fstype = ''devtmpfs'', ms_source = ''devtmpfs'', ms_optional = True\<rparr>,
     \<lparr>ms_target = ''/sys/fs/cgroup'', ms_fstype = ''cgroup2'', ms_source = ''cgroup2'', ms_optional = True\<rparr>]"

definition mount_one :: "mount_spec \<Rightarrow> unit sys" where
  "mount_one s =
    or_fail (os_mkdir_all (ms_target s) 493) (Wrapf ''mkdir %s: %w'' [ms_target s]) (\<lambda>_. do {
      r \<leftarrow> sys_mount (ms_source s) (ms_target s) (ms_fstype s) [];
      State_Monad.return
        (case r of
           Inr _ \<Rightarrow> Inr ()
         | Inl e \<Rightarrow>
             if e = Errno EBUSY then Inr ()
             else if ms_optional s then Inr ()
             else Inl (Wrapf ''mount %s on %s: %w'' [ms_fstype s, ms_target s] e))
    })"

definition mount_virtiofs :: "string list \<Rightarrow> unit sys" where
  "mount_virtiofs os_args = do {
     tag \<leftarrow> virtiofs_tag_of os_args;
     mp \<leftarrow> virtiofs_mount_point_of os_args;
     or_fail (os_mkdir_all mp 493) (Wrapf ''mkdir virtiofs mountpoint %s: %w'' [mp]) (\<lambda>_. do {
       r \<leftarrow> sys_mount tag mp ''virtiofs'' [];
       State_Monad.return
         (case r of
            Inr _ \<Rightarrow> Inr ()
          | Inl e \<Rightarrow>
              if e = Errno EBUSY then Inr ()
              else if e = Errno ENODEV then
                Inl (Wrapf ''mount virtiofs tag=%s mountPoint=%s: %w (guest kernel likely missing CONFIG_VIRTIO_FS)''
                  [tag, mp] e)
              else Inl (Wrapf ''mount virtiofs tag=%s mountPoint=%s: %w'' [tag, mp] e))
     })
   }"

definition setup_runtime_mounts :: "string list \<Rightarrow> unit sys" where
  "setup_runtime_mounts os_args =
    or_fail (for_each mount_one runtime_specs) (\<lambda>e. e) (\<lambda>_. do {
      st \<leftarrow> os_stat ''/sys/fs/cgroup/cgroup.controllers'';
      _ \<leftarrow> (case st of
              Inr _ \<Rightarrow> State_Monad.return (Inr ())
            | Inl _ \<Rightarrow> sys_mount ''cgroup'' ''/sys/fs/cgroup'' ''cgroup'' []);
      v \<leftarrow> virtiofs_enabled os_args;
      if v then mount_virtiofs os_args else State_Monad.return (Inr ())
    })"

section \<open>The vsock socket\<close>

record raw_sockaddr_vm =
  sv_family :: "16 word"
  sv_reserved1 :: "16 word"
  sv_port :: "32 word"
  sv_cid :: "32 word"
  sv_flags :: "8 word"
  sv_zero :: "8 word list"

definition sizeof_sockaddr_vm :: nat where
  "sizeof_sockaddr_vm = 0x10"

definition af_vsock :: "16 word" where
  "af_vsock = 40"

text \<open>The memory of the structure: little-endian fields, no padding.\<close>

definition le16 :: "16 word \<Rightarrow> 8 word list" where
  "le16 x = [ucast x, ucast (drop_bit 8 x)]"

definition sockaddr_bytes :: "raw_sockaddr_vm \<Rightarrow> 8 word list" where
  "sockaddr_bytes a =
    le16 (sv_family a) @ le16 (sv_reserved1 a) @ le_bytes (sv_port a) @ le_bytes (sv_cid a)
    @ [sv_flags a] @ sv_zero a"

text \<open>
  The kernel side is a parameter: \<open>peer\<close> answers \<open>connect(2)\<close> for the bytes of an address. A
  socket is a descriptor of an inode of its own.
\<close>

type_synonym peer = "8 word list \<Rightarrow> errno option"

definition sys_socket :: "nat sys" where
  "sys_socket = syscall (\<lambda>w. new_fd (next_ino w) (w\<lparr>next_ino := Suc (next_ino w)\<rparr>))"

definition sys_connect :: "peer \<Rightarrow> nat \<Rightarrow> 8 word list \<Rightarrow> unit sys" where
  "sys_connect peer fd addr = syscall (\<lambda>w.
     if open_files w fd = None then (Inl (Errno EBADF), w)
     else (case peer addr of Some e \<Rightarrow> (Inl (Errno e), w) | None \<Rightarrow> (Inr (), w)))"

definition vsock_addr :: "32 word \<Rightarrow> 32 word \<Rightarrow> raw_sockaddr_vm" where
  "vsock_addr cid port = \<lparr>sv_family = af_vsock, sv_reserved1 = 0, sv_port = port, sv_cid = cid,
     sv_flags = 0, sv_zero = [0, 0, 0]\<rparr>"

definition dial_vsock :: "peer \<Rightarrow> 32 word \<Rightarrow> 32 word \<Rightarrow> nat sys" where
  "dial_vsock peer cid port =
    or_fail sys_socket (\<lambda>e. e) (\<lambda>fd. do {
      r \<leftarrow> sys_connect peer fd (take sizeof_sockaddr_vm (sockaddr_bytes (vsock_addr cid port)));
      case r of
        Inl e \<Rightarrow> do { _ \<leftarrow> os_close fd; State_Monad.return (Inl e) }
      | Inr _ \<Rightarrow> State_Monad.return (Inr fd)
    })"

section \<open>The connection loop\<close>

text \<open>
  \<open>serveRPC\<close>: the RPC library serves the connection until it is done; \<open>closed\<close> is what
  closing it reports.
\<close>

definition serve_rpc :: "goerr option \<Rightarrow> nat \<Rightarrow> (world, goerr option) state" where
  "serve_rpc closed fd = do {
     _ \<leftarrow> rpc_event ''rpc.NewConn'';
     _ \<leftarrow> rpc_event ''rpcConn.Close'';
     _ \<leftarrow> rpc_event ''rpcConn.Close'';
     _ \<leftarrow> rpc_event ''bootstrap.Release'';
     _ \<leftarrow> os_close fd;
     State_Monad.return closed
   }"

definition agent_round :: "peer \<Rightarrow> goerr option \<Rightarrow> 32 word \<Rightarrow> 32 word \<Rightarrow> (world, unit) state" where
  "agent_round peer closed cid port = do {
     r \<leftarrow> dial_vsock peer cid port;
     case r of
       Inl _ \<Rightarrow> log_event ''vsock connect failed'' []
     | Inr fd \<Rightarrow> do {
         _ \<leftarrow> log_event ''vsock connected to host'' [];
         e \<leftarrow> serve_rpc closed fd;
         (case e of
            Some _ \<Rightarrow> log_event ''rpc connection terminated'' []
          | None \<Rightarrow> log_event ''rpc connection closed; retrying'' [])
       }
   }"

text \<open>
  The loop of \<open>main\<close> never ends: these are its first \<open>n\<close> rounds. \<open>script k\<close> is the kernel's
  side in round \<open>k\<close>: how it answers \<open>connect\<close>, and how a connection it accepts ends.
\<close>

fun agent_rounds ::
  "(nat \<Rightarrow> peer \<times> goerr option) \<Rightarrow> 32 word \<Rightarrow> 32 word \<Rightarrow> nat \<Rightarrow> (world, unit) state" where
  "agent_rounds script cid port 0 = State_Monad.return ()"
| "agent_rounds script cid port (Suc n) = do {
     _ \<leftarrow> agent_rounds script cid port n;
     agent_round (fst (script n)) (snd (script n)) cid port
   }"

definition agent_main ::
  "int \<Rightarrow> string list \<Rightarrow> (nat \<Rightarrow> peer \<times> goerr option) \<Rightarrow> nat \<Rightarrow> (world, unit) state" where
  "agent_main pid os_args script n = do {
     _ \<leftarrow> (if pid = 1 then do {
             r \<leftarrow> setup_runtime_mounts os_args;
             (case r of
                Inl _ \<Rightarrow> log_event ''runtime mount setup failed'' []
              | Inr _ \<Rightarrow> State_Monad.return ())
           } else State_Monad.return ());
     t \<leftarrow> parse_vsock_target os_args;
     agent_rounds script (fst t) (snd t) n
   }"

text \<open>
  \<open>reapZombies\<close>: \<open>wait4\<close> until it fails with an error other than \<open>EINTR\<close>; the outcomes are
  the kernel's, and the result is how many calls were made when it returned.
\<close>

fun reap_zombies :: "errno option list \<Rightarrow> nat option" where
  "reap_zombies [] = None"
| "reap_zombies (r # rs) =
    (case r of
       Some e \<Rightarrow> if e \<noteq> EINTR then Some 1 else map_option Suc (reap_zombies rs)
     | None \<Rightarrow> map_option Suc (reap_zombies rs))"

text \<open>\<open>handleSignals\<close>: the first signal syncs the disks of an init process and exits with 0.\<close>

definition handle_signal :: "int \<Rightarrow> string \<Rightarrow> string list \<Rightarrow> (world, int) state" where
  "handle_signal pid sig path_dirs = do {
     _ \<leftarrow> (if pid = 1 then
             or_fail (look_path path_dirs ''sync'') (\<lambda>e. e) (\<lambda>p. exec_start p [])
           else State_Monad.return (Inr ()));
     _ \<leftarrow> log_event ''received signal: %s'' [sig];
     State_Monad.return 0
   }"

end
