(* ===== verification/Agent_Boot_Props.thy ===== *)
theory Agent_Boot_Props
  imports Agent_Boot
begin

text \<open>
  What the agent's start guarantees: the precedence of the settings of the vsock target, the
  layout of the socket address, and the connection loop (it serves in exactly the rounds in
  which the host answers, and no number of failures uses up a descriptor).
\<close>

section \<open>The vsock target\<close>

lemma atoi_Nil [simp]: "atoi [] = None"
  by (simp add: atoi_def)

text \<open>The last argument with the key whose value is a number.\<close>

definition last_number :: "string \<Rightarrow> string list \<Rightarrow> 32 word option" where
  "last_number key args =
    (let ns = List.map_filter (\<lambda>a. if has_prefix key a then atoi (trim_prefix key a) else None) args in
     if ns = [] then None else Some (word_of_int (last ns)))"

definition chosen :: "string \<Rightarrow> string \<Rightarrow> 32 word \<Rightarrow> string list \<Rightarrow> world \<Rightarrow> 32 word" where
  "chosen key var d args w =
    (case last_number key args of
       Some p \<Rightarrow> p
     | None \<Rightarrow> (case atoi (get_env var w) of Some p \<Rightarrow> word_of_int p | None \<Rightarrow> d))"

lemma last_number_snoc:
  "last_number key (args @ [a]) =
    (case (if has_prefix key a then atoi (trim_prefix key a) else None) of
       Some p \<Rightarrow> Some (word_of_int p) | None \<Rightarrow> last_number key args)"
  by (auto simp: last_number_def List.map_filter_def split: list.splits option.splits)

lemma keys_apart: "has_prefix ''agent.vsock_cid='' a \<Longrightarrow> \<not> has_prefix ''agent.vsock_port='' a"
  by (auto simp: has_prefix_iff)

lemma fold_target_arg:
  "fold target_arg args (cid, port) =
    (case last_number ''agent.vsock_cid='' args of Some c \<Rightarrow> c | None \<Rightarrow> cid,
     case last_number ''agent.vsock_port='' args of Some p \<Rightarrow> p | None \<Rightarrow> port)"
proof (induction args rule: rev_induct)
  case Nil
  show ?case by (simp add: last_number_def List.map_filter_def)
next
  case (snoc a args)
  then show ?case
    by (auto simp: target_arg_def last_number_snoc dest: keys_apart split: option.splits)
qed

lemma run_env_uint32: "run_state (env_uint32 k d) w =
    (case atoi (get_env k w) of Some p \<Rightarrow> word_of_int p | None \<Rightarrow> d, w)"
  by (simp add: env_uint32_def os_getenv_def split: option.splits)

lemma run_parse_vsock_target:
  "run_state (parse_vsock_target os_args) w =
    (let (args, w') = run_state (read_kernel_cmdline os_args) w in
     ((chosen ''agent.vsock_cid='' ''AGENT_VSOCK_CID'' 2 args w,
       chosen ''agent.vsock_port='' ''AGENT_VSOCK_PORT'' 7000 args w), w'))"
  by (simp add: parse_vsock_target_def run_env_uint32 fold_target_arg chosen_def split: prod.splits)

text \<open>
  The loop with its two mutable variables computes a precedence: for the context id and for
  the port independently, the last numeric argument of the kernel command line wins over the
  environment variable, which wins over the default (2 and 7000); values that are not
  numbers are passed over, and numbers are reduced modulo 2^32.
\<close>

theorem parse_vsock_target_precedence:
  "fst (run_state (parse_vsock_target os_args) w) =
    (chosen ''agent.vsock_cid='' ''AGENT_VSOCK_CID'' 2 (fst (run_state (read_kernel_cmdline os_args) w)) w,
     chosen ''agent.vsock_port='' ''AGENT_VSOCK_PORT'' 7000 (fst (run_state (read_kernel_cmdline os_args) w)) w)"
  by (simp add: run_parse_vsock_target split: prod.splits)

section \<open>The socket address\<close>

text \<open>
  The address the agent passes to \<open>connect\<close> has the layout of \<open>struct sockaddr_vm\<close>:
  sixteen bytes, the family 40 and a zero half-word, then the port and the context id in little
  endian at offsets 4 and 8, then zeros.
\<close>

theorem sockaddr_layout:
  "length (sockaddr_bytes (vsock_addr cid port)) = sizeof_sockaddr_vm \<and>
   take 4 (sockaddr_bytes (vsock_addr cid port)) = [40, 0, 0, 0] \<and>
   le_port (take 4 (drop 4 (sockaddr_bytes (vsock_addr cid port)))) = port \<and>
   le_port (take 4 (drop 8 (sockaddr_bytes (vsock_addr cid port)))) = cid \<and>
   drop 12 (sockaddr_bytes (vsock_addr cid port)) = [0, 0, 0, 0]"
proof -
  have len: "length (le_bytes x) = 4" for x by (simp add: le_bytes_def)
  have bytes: "sockaddr_bytes (vsock_addr cid port) = [40, 0, 0, 0] @ le_bytes port @ le_bytes cid @ [0, 0, 0, 0]"
    by (simp add: sockaddr_bytes_def vsock_addr_def le16_def af_vsock_def)
  show ?thesis unfolding bytes by (simp add: len le_port_bytes sizeof_sockaddr_vm_def)
qed

section \<open>The connection loop\<close>

text \<open>A round keeps the open files, and the descriptors above \<open>next_fd\<close> stay unused.\<close>

definition unused_fds :: "world \<Rightarrow> bool" where
  "unused_fds w \<longleftrightarrow> (\<forall>f \<ge> next_fd w. open_files w f = None)"

definition nothing_leaked :: "world \<Rightarrow> world \<Rightarrow> bool" where
  "nothing_leaked w w' \<longleftrightarrow> (unused_fds w \<longrightarrow> unused_fds w' \<and> open_files w' = open_files w)"

abbreviation leakless :: "(world, 'a) state \<Rightarrow> bool" where
  "leakless \<equiv> obeys nothing_leaked"

interpretation leakless: state_preorder nothing_leaked
  by unfold_locales (auto simp: nothing_leaked_def)

lemma leaklessD: "leakless m \<Longrightarrow> unused_fds w \<Longrightarrow> run_state m w = (x, w') \<Longrightarrow>
    unused_fds w' \<and> open_files w' = open_files w"
  unfolding obeys_def nothing_leaked_def by blast

lemma leakless_log: "leakless (log_event m a)"
  by (auto simp: obeys_def nothing_leaked_def log_event_def unused_fds_def)

lemma socket_effect:
  assumes "unused_fds w" and "run_state sys_socket w = (Inr fd, w')"
  shows "unused_fds w' \<and> open_files w fd = None \<and> open_files w' = (open_files w)(fd := Some (next_ino w, 0)) \<and>
    fd < next_fd w'"
  using assms by (auto simp: sys_socket_def run_syscall new_fd_def unused_fds_def split: option.splits)

lemma connect_effect: "run_state (sys_connect p fd a) w = (r, w') \<Longrightarrow>
    open_files w' = open_files w \<and> next_fd w' = next_fd w"
  by (auto simp: sys_connect_def run_syscall split: option.splits if_splits)

lemma socket_err: "run_state sys_socket w = (Inl e, w') \<Longrightarrow>
    open_files w' = open_files w \<and> next_fd w' = next_fd w"
  by (auto simp: sys_socket_def run_syscall new_fd_def split: option.splits)

lemma os_close_effect: "run_state (os_close fd) w = (r, w') \<Longrightarrow>
    open_files w' = (open_files w)(fd := None) \<and> next_fd w' = next_fd w"
  by (auto simp: os_close_def Let_def fun_eq_iff split: option.splits if_splits)

lemma serve_effect: "run_state (serve_rpc closed fd) w = (r, w') \<Longrightarrow>
    r = closed \<and> open_files w' = (open_files w)(fd := None) \<and> next_fd w' = next_fd w"
  by (auto simp: serve_rpc_def rpc_event_def log_event_def dest: os_close_effect split: prod.splits)

lemma dial_effect:
  assumes "unused_fds w" and "run_state (dial_vsock p cid port) w = (r, w')"
  shows "unused_fds w' \<and> (case r of
      Inl _ \<Rightarrow> open_files w' = open_files w
    | Inr fd \<Rightarrow> open_files w fd = None \<and> open_files w' = (open_files w)(fd := open_files w' fd))"
proof -
  obtain s u where s: "run_state sys_socket w = (s, u)" by fastforce
  show ?thesis
  proof (cases s)
    case (Inl e)
    then have "r = Inl e" "u = w'" using s assms(2) by (simp_all add: dial_vsock_def)
    with Inl s socket_err[of w e u] assms(1) show ?thesis by (simp add: unused_fds_def)
  next
    case (Inr fd)
    note eff = socket_effect[OF assms(1), of fd u]
    obtain c v where c: "run_state (sys_connect p fd (take sizeof_sockaddr_vm
        (sockaddr_bytes (vsock_addr cid port)))) u = (c, v)" by fastforce
    obtain d z where d: "run_state (os_close fd) v = (d, z)" by fastforce
    show ?thesis
      using assms(2) s Inr c d eff connect_effect[OF c] os_close_effect[OF d]
      by (cases c) (auto simp: dial_vsock_def unused_fds_def fun_eq_iff)
  qed
qed

lemma leakless_round: "leakless (agent_round p closed cid port)"
  unfolding obeys_def nothing_leaked_def
proof (intro allI impI)
  fix w x w' assume fresh: "unused_fds w" and run: "run_state (agent_round p closed cid port) w = (x, w')"
  obtain r u where dial: "run_state (dial_vsock p cid port) w = (r, u)" by fastforce
  note eff = dial_effect[OF fresh dial]
  show "unused_fds w' \<and> open_files w' = open_files w"
  proof (cases r)
    case (Inl e)
    with run dial eff show ?thesis by (auto simp: agent_round_def log_event_def unused_fds_def)
  next
    case (Inr fd)
    obtain e v where serve: "run_state (serve_rpc closed fd)
        (u\<lparr>trace := trace u @ [EvLog ''vsock connected to host'' []]\<rparr>) = (e, v)" by fastforce
    have "open_files w' = open_files v" "next_fd w' = next_fd v"
      using run dial Inr serve by (auto simp: agent_round_def log_event_def split: option.splits)
    moreover have "open_files v = (open_files u)(fd := None)" "next_fd v = next_fd u"
      using serve_effect[OF serve] by simp_all
    moreover have "open_files w fd = None" "open_files u = (open_files w)(fd := open_files u fd)"
      using eff Inr by simp_all
    ultimately show ?thesis using eff
      by (simp only: unused_fds_def) (metis fun_upd_idem_iff fun_upd_upd fun_upd_apply)
  qed
qed

lemma leakless_rounds: "leakless (agent_rounds script cid port n)"
  by (induction n) (auto intro: leakless.ret leakless.bind leakless_round)

text \<open>
  C26. The reconnecting loop leaks no descriptor: after any number of rounds, whichever of them
  failed to get a socket, to connect, to serve or to close, the agent has the same files open
  as before.
\<close>

theorem agent_rounds_leak_nothing:
  assumes "unused_fds w"
  shows "open_files (snd (run_state (agent_rounds script cid port n) w)) = open_files w"
  using leakless_rounds[of script cid port n] assms unfolding obeys_def nothing_leaked_def by (metis surj_pair snd_conv)

theorem agent_rounds_leak_nothing_witness:
  "open_files (snd (run_state (agent_rounds (\<lambda>_. (\<lambda>_. Some ENODEV, None)) 2 7000 1000) empty_world)) =
     open_files empty_world"
  by (rule agent_rounds_leak_nothing) (simp add: unused_fds_def empty_world_def)

section \<open>Every round in which the host answers is served\<close>

definition serving :: "event list \<Rightarrow> nat" where
  "serving t = length (filter (\<lambda>e. e = EvLog ''rpc.NewConn'' []) t)"

lemma round_serves:
  assumes "faults w = (\<lambda>_. None)" and "unused_fds w"
    and "run_state (agent_round p closed cid port) w = (x, w')"
  shows "faults w' = (\<lambda>_. None) \<and> serving (trace w') = serving (trace w) +
    (if p (sockaddr_bytes (vsock_addr cid port)) = None then 1 else 0)"
proof -
  have len: "length (sockaddr_bytes (vsock_addr cid port)) = sizeof_sockaddr_vm"
    by (simp add: sockaddr_bytes_def vsock_addr_def le16_def le_bytes_def sizeof_sockaddr_vm_def)
  show ?thesis
    using assms len
    by (auto simp: agent_round_def dial_vsock_def sys_socket_def sys_connect_def run_syscall new_fd_def os_close_def
        Let_def serve_rpc_def rpc_event_def log_event_def serving_def split: option.splits)
qed

text \<open>
  The agent keeps trying: while the system calls themselves work, the agent serves one RPC
  connection in exactly those of its first \<open>n\<close> rounds in which the host accepts the address of
  its vsock target, however many rounds before it were refused and however the earlier
  connections ended.
\<close>

theorem agent_rounds_serve:
  assumes "faults w = (\<lambda>_. None)" and "unused_fds w"
  shows "serving (trace (snd (run_state (agent_rounds script cid port n) w))) =
    serving (trace w) + card {k. k < n \<and> fst (script k) (sockaddr_bytes (vsock_addr cid port)) = None}"
proof -
  have "faults (snd (run_state (agent_rounds script cid port n) w)) = (\<lambda>_. None) \<and>
    unused_fds (snd (run_state (agent_rounds script cid port n) w)) \<and>
    serving (trace (snd (run_state (agent_rounds script cid port n) w))) =
    serving (trace w) + card {k. k < n \<and> fst (script k) (sockaddr_bytes (vsock_addr cid port)) = None}"
  proof (induction n)
    case 0
    with assms show ?case by simp
  next
    case (Suc n)
    obtain u where u: "run_state (agent_rounds script cid port n) w = ((), u)" by (metis surj_pair old.unit.exhaust)
    obtain v where v: "run_state (agent_round (fst (script n)) (snd (script n)) cid port) u = ((), v)"
      by (metis surj_pair old.unit.exhaust)
    have "{k. k < Suc n \<and> Q k} = {k. k < n \<and> Q k} \<union> (if Q n then {n} else {})" for Q :: "nat \<Rightarrow> bool"
      by (auto simp: less_Suc_eq)
    moreover have "finite {k. k < n \<and> Q k}" for Q :: "nat \<Rightarrow> bool" by simp
    moreover have "unused_fds v" using leakless_round v Suc u unfolding obeys_def nothing_leaked_def by auto
    ultimately show ?case
      using Suc u v round_serves[of u "fst (script n)" "snd (script n)" cid port "()" v] by auto
  qed
  then show ?thesis by blast
qed

theorem agent_rounds_serve_witness:
  "serving (trace (snd (run_state
     (agent_rounds (\<lambda>k. (\<lambda>_. if k = 5 then None else Some ENODEV, None)) 2 7000 6) empty_world))) = 1"
proof -
  have "serving (trace (snd (run_state
     (agent_rounds (\<lambda>k. (\<lambda>_. if k = 5 then None else Some ENODEV, None)) 2 7000 6) empty_world))) =
     serving (trace empty_world) + card {k. k < 6 \<and> fst (\<lambda>_ :: 8 word list. if k = (5::nat) then None else Some ENODEV, None :: goerr option)
        (sockaddr_bytes (vsock_addr 2 7000)) = None}"
    by (rule agent_rounds_serve) (simp_all add: unused_fds_def empty_world_def)
  moreover have "{k :: nat. k < 6 \<and> k = 5} = {5}" by auto
  ultimately show ?thesis by (simp add: serving_def empty_world_def)
qed

end
