(* ===== verification/Boot_Chain.thy ===== *)
theory Boot_Chain
  imports Config_Props Agent_Boot_Props
begin

text \<open>
  The configuration on its whole way: \<open>VMConfig\<close> on the host, the argument vector of the Swift
  manager, the kernel command line the manager boots the guest with, and the settings the
  agent reads back from \<open>/proc/cmdline\<close>.
\<close>

section \<open>Splitting a joined command line\<close>

text \<open>The two bytes that separate words here; a rune that contains one is that byte alone.\<close>

abbreviation SP :: char where "SP \<equiv> CHR 0x20"
abbreviation LF :: char where "LF \<equiv> CHR 0x0A"

definition separator :: "char \<Rightarrow> bool" where
  "separator d \<longleftrightarrow> d = SP \<or> d = LF"

lemma separator_rune: "separator d \<Longrightarrow> r \<in> set space_runes \<Longrightarrow> d \<in> set r \<Longrightarrow> r = [d]"
  by (auto simp: space_runes_def separator_def)

text \<open>A byte that no white-space rune contains: it stays inside its word.\<close>

definition plain_byte :: "char \<Rightarrow> bool" where
  "plain_byte c \<longleftrightarrow> list_all (\<lambda>r. c \<notin> set r) space_runes"

definition spaceless :: "string \<Rightarrow> bool" where
  "spaceless w \<longleftrightarrow> take_word w = (w, [])"

lemma has_prefix_boundary: "c \<notin> set r \<Longrightarrow> has_prefix r (t @ c # rest) = has_prefix r t"
  by (induction r t rule: has_prefix.induct) auto

lemma leading_space_boundary:
  assumes "t \<noteq> []" and "separator d"
  shows "leading_space space_runes (t @ d # rest) = leading_space space_runes t"
proof -
  have "has_prefix r (t @ d # rest) = has_prefix r t" if "r \<in> set space_runes" for r
  proof (cases "d \<in> set r")
    case True
    with separator_rune[OF assms(2) that] have "r = [d]" by simp
    with assms show ?thesis by (cases t) auto
  next
    case False
    then show ?thesis by (rule has_prefix_boundary)
  qed
  then show ?thesis unfolding leading_space_def by (intro find_cong) auto
qed

lemma leading_space_separator: "separator d \<Longrightarrow> leading_space space_runes (d # rest) = Some [d]"
  unfolding separator_def by (erule disjE) (simp_all add: leading_space_def space_runes_def)

lemma take_word_boundary:
  "spaceless w \<Longrightarrow> separator d \<Longrightarrow> take_word (w @ d # rest) = (w, d # rest)"
proof (induction w)
  case Nil
  then show ?case by (simp add: leading_space_separator)
next
  case (Cons c w)
  have none: "leading_space space_runes (c # w) = None" and w: "spaceless w"
    using Cons.prems by (auto simp: spaceless_def split: option.splits prod.splits)
  have "leading_space space_runes ((c # w) @ d # rest) = None"
    using leading_space_boundary[of "c # w" d rest] none Cons.prems(2) by simp
  with Cons.IH[OF w Cons.prems(2)] show ?case by simp
qed

lemma spaceless_ConsD: "spaceless (c # w) \<Longrightarrow> leading_space space_runes (c # w) = None \<and> spaceless w"
  by (cases "take_word w") (simp add: spaceless_def split: option.splits)

lemma leading_space_plain: "plain_byte c \<Longrightarrow> leading_space space_runes (c # w) = None"
  unfolding leading_space_def find_None_iff plain_byte_def list_all_iff
  by (metis has_prefix.simps(3) list.set_intros(1) neq_Nil_conv space_runes_nonempty)

lemma spaceless_Cons: "plain_byte c \<Longrightarrow> spaceless w \<Longrightarrow> spaceless (c # w)"
  by (simp add: spaceless_def leading_space_plain)

lemma spaceless_append: "list_all plain_byte p \<Longrightarrow> spaceless w \<Longrightarrow> spaceless (p @ w)"
  by (induction p) (auto intro: spaceless_Cons)

lemma spaceless_Nil [simp]: "spaceless []"
  by (simp add: spaceless_def)

lemma spaceless_plain: "list_all plain_byte p \<Longrightarrow> spaceless p"
  using spaceless_append[of p "[]"] by simp

lemma trim_left_spaceless:
  assumes "spaceless w" and "w \<noteq> []" and "rest = [] \<or> separator (hd rest)"
  shows "trim_left (w @ rest) = w @ rest"
proof -
  obtain c v where cv: "w = c # v" using assms(2) by (cases w) auto
  then have "leading_space space_runes w = None" using assms(1) spaceless_ConsD[of c v] by simp
  moreover have "leading_space space_runes (w @ rest) = leading_space space_runes w"
    using leading_space_boundary[OF assms(2), of "hd rest" "tl rest"] assms(3) by (cases rest) auto
  ultimately show ?thesis by (simp add: trim_left_def trim_with.simps)
qed

lemma trim_left_separator: "separator d \<Longrightarrow> trim_left (d # s) = trim_left s"
  by (simp add: trim_left_def) (subst trim_with.simps, simp add: leading_space_separator)

lemma fields_trim: "fields_of s = fields_of (trim_left s)"
  using trim_left_no_space[of s] by (subst (1 2) fields_of.simps) (simp add: trim_left_def trim_with.simps)

lemma fields_separator: "separator d \<Longrightarrow> fields_of (d # s) = fields_of s"
  by (metis fields_trim trim_left_separator)

lemma fields_Nil [simp]: "fields_of [] = []"
  by (subst fields_of.simps) (simp add: trim_left_def)

lemma fields_word:
  assumes "spaceless w" and "w \<noteq> []" and "separator d"
  shows "fields_of (w @ d # rest) = w # fields_of rest"
proof -
  obtain c v where w: "w = c # v" using assms(2) by (cases w) auto
  then show ?thesis
    using trim_left_spaceless[OF assms(1,2), of "d # rest"] take_word_boundary[OF assms(1,3), of rest] assms(3)
    by (subst fields_of.simps) (simp add: fields_separator del: take_word.simps)
qed

lemma fields_join:
  "list_all (\<lambda>w. spaceless w \<and> w \<noteq> []) ws \<Longrightarrow> fields_of (join_with '' '' ws @ [LF]) = ws"
proof (induction "'' ''" ws rule: join_with.induct)
  case 1
  show ?case using fields_separator[of LF "[]"] by (simp add: separator_def)
next
  case (2 x)
  then show ?case using fields_word[of x LF "[]"] by (simp add: separator_def)
next
  case (3 x y ys)
  then show ?case using fields_word[of x SP "join_with '' '' (y # ys) @ [LF]"] by (simp add: separator_def)
qed

text \<open>A word without white space is not trimmed.\<close>

lemma spaceless_appendD: "spaceless (u @ v) \<Longrightarrow> spaceless v"
  by (induction u) (auto dest: spaceless_ConsD)

lemma spaceless_trim: "spaceless w \<Longrightarrow> trim_space w = w"
proof (rule trim_space_id)
  assume w: "spaceless w"
  show "leading_space space_runes w = None"
  proof (cases w)
    case Nil
    then show ?thesis by (simp add: leading_space_def space_runes_def)
  next
    case (Cons c v)
    with w spaceless_ConsD[of c v] show ?thesis by simp
  qed
  show "leading_space (map rev space_runes) (rev w) = None"
  proof (rule ccontr)
    assume "leading_space (map rev space_runes) (rev w) \<noteq> None"
    then obtain r t where r: "r \<in> set space_runes" and t: "rev w = rev r @ t"
      using leading_space_Some by fastforce
    then have "w = rev t @ r" by (metis rev_append rev_rev_ident)
    with w have "spaceless r" using spaceless_appendD by blast
    moreover obtain c q where "r = c # q" using space_runes_nonempty[OF r] by (cases r) auto
    ultimately have "leading_space space_runes r = None" using spaceless_ConsD[of c q] by simp
    with r show False by (auto simp: leading_space_def find_None_iff has_prefix_iff)
  qed
qed

section \<open>The words of the kernel command line\<close>

definition boot_words :: "manager_config \<Rightarrow> string list" where
  "boot_words m =
    [''console=hvc0'', ''loglevel=7'', ''printk.time=1'', ''root=/dev/vda'', ''rw'', ''init=/sbin/agent'',
     ''agent.vsock_port='' @ itoa (m_agent_vsock_port m)] @ drop 6 (boot_arg_list m)"

lemma boot_args_words: "boot_args m = join_with '' '' (boot_words m)"
proof -
  obtain tl where "boot_arg_list m = [''console=hvc0'', ''loglevel=7'', ''printk.time=1'', ''root=/dev/vda rw'',
     ''init=/sbin/agent'', ''agent.vsock_port='' @ itoa (m_agent_vsock_port m)] @ tl"
    by (simp add: boot_arg_list_def)
  then show ?thesis by (cases tl) (simp_all add: boot_args_def boot_words_def)
qed

text \<open>The strings the manager copies into the command line have no white space in them.\<close>

definition spaceless_opt :: "string option \<Rightarrow> bool" where
  "spaceless_opt v = (case v of None \<Rightarrow> True | Some s \<Rightarrow> spaceless s)"

definition boot_spaceless :: "manager_config \<Rightarrow> bool" where
  "boot_spaceless m \<longleftrightarrow> spaceless_opt (m_vm_network_cidr m) \<and> spaceless_opt (m_vm_network_gateway m) \<and>
     spaceless_opt (m_vm_network_if_name m) \<and> spaceless_opt (m_virtiofs_tag m) \<and>
     spaceless_opt (m_virtiofs_mount_point m) \<and> spaceless_opt (m_overlay_state_device m) \<and>
     spaceless_opt (m_overlay_state_mount m)"

lemma printable_plain: "33 \<le> (of_char c :: nat) \<Longrightarrow> (of_char c :: nat) < 128 \<Longrightarrow> plain_byte c"
  by (auto simp: plain_byte_def space_runes_def)

lemma itoa_plain: "list_all plain_byte (itoa i)"
proof -
  have "plain_byte (digit_char d)" if "d < 10" for d
    by (rule printable_plain) (use that in \<open>simp_all add: digit_char_def\<close>)
  then have "list_all plain_byte (show_nat n)" for n
    using show_nat_digits unfolding list_all_iff by metis
  moreover have "plain_byte (CHR ''-'')" by (simp add: plain_byte_def space_runes_def)
  ultimately show ?thesis by (simp add: itoa_def)
qed

lemma cmdline_arg_spaceless:
  assumes "list_all plain_byte key" and "spaceless_opt v"
  shows "list_all (\<lambda>w. spaceless w \<and> w \<noteq> []) (cmdline_arg key v)"
proof -
  have "plain_byte (CHR ''='')" by (simp add: plain_byte_def space_runes_def)
  with assms show ?thesis
    by (cases v) (auto simp: cmdline_arg_def spaceless_opt_def intro: spaceless_append spaceless_Cons)
qed

lemma boot_words_spaceless:
  assumes "boot_spaceless m"
  shows "list_all (\<lambda>w. spaceless w \<and> w \<noteq> []) (boot_words m)"
proof -
  have plain: "list_all plain_byte ''agent.network_cidr''" "list_all plain_byte ''agent.network_gateway''"
     "list_all plain_byte ''agent.network_ifname''" "list_all plain_byte ''agent.virtiofs_tag=''"
     "list_all plain_byte ''agent.virtiofs_mount''" "list_all plain_byte ''agent.overlay_device''"
     "list_all plain_byte ''agent.overlay_mount''" "list_all plain_byte ''agent.virtiofs=1''"
     "list_all plain_byte ''agent.vsock_port=''"
    and fixed: "list_all plain_byte ''console=hvc0''" "list_all plain_byte ''loglevel=7''"
     "list_all plain_byte ''printk.time=1''" "list_all plain_byte ''root=/dev/vda''" "list_all plain_byte ''rw''"
     "list_all plain_byte ''init=/sbin/agent''"
    by (simp_all add: plain_byte_def space_runes_def)
  note arg = cmdline_arg_spaceless[OF plain(1), of "m_vm_network_cidr m"]
    cmdline_arg_spaceless[OF plain(2), of "m_vm_network_gateway m"]
    cmdline_arg_spaceless[OF plain(3), of "m_vm_network_if_name m"]
    cmdline_arg_spaceless[OF plain(5), of "m_virtiofs_mount_point m"]
    cmdline_arg_spaceless[OF plain(6), of "m_overlay_state_device m"]
    cmdline_arg_spaceless[OF plain(7), of "m_overlay_state_mount m"]
  have tag: "spaceless (''agent.virtiofs_tag='' @ t)" if "m_virtiofs_tag m = Some t" for t
    using assms that by (intro spaceless_append[OF plain(4)]) (simp add: boot_spaceless_def spaceless_opt_def)
  have "list_all (\<lambda>w. spaceless w \<and> w \<noteq> []) (drop 6 (boot_arg_list m))"
    using arg assms tag spaceless_plain[OF plain(8)]
    by (auto simp: boot_arg_list_def boot_spaceless_def split: option.splits)
  moreover have "spaceless (''agent.vsock_port='' @ itoa (m_agent_vsock_port m))"
    by (rule spaceless_append[OF plain(9) spaceless_plain[OF itoa_plain]])
  ultimately show ?thesis
    using fixed[THEN spaceless_plain] unfolding boot_words_def by simp
qed

lemma fields_boot_args: "boot_spaceless m \<Longrightarrow> fields_of (boot_args m @ [LF]) = boot_words m"
  unfolding boot_args_words by (intro fields_join boot_words_spaceless)

section \<open>What the agent finds among the words\<close>

lemma map_filter_append: "List.map_filter f (xs @ ys) = List.map_filter f xs @ List.map_filter f ys"
  by (simp add: List.map_filter_def)

lemma map_filter_if: "List.map_filter f (if b then xs else ys) = (if b then List.map_filter f xs else List.map_filter f ys)"
  by simp

lemma map_filter_cmdline_arg:
  "(\<And>s. f (key @ CHR ''='' # s) = None) \<Longrightarrow> List.map_filter f (cmdline_arg key v) = []"
  by (auto simp: cmdline_arg_def List.map_filter_def split: option.splits)

lemma boot_words_port:
  assumes "int64 (m_agent_vsock_port m)"
  shows "last_number ''agent.vsock_port='' (boot_words m) = Some (word_of_int (m_agent_vsock_port m))"
    and "last_number ''agent.vsock_cid='' (boot_words m) = None"
proof -
  have tag: "List.map_filter f (case v of None \<Rightarrow> [] | Some t \<Rightarrow> if t = [] then [] else [''agent.virtiofs=1'', ''agent.virtiofs_tag='' @ t]) = []"
    if "f ''agent.virtiofs=1'' = None" "\<And>t. f (''agent.virtiofs_tag='' @ t) = None" for f :: "string \<Rightarrow> int option" and v
    using that by (auto simp: List.map_filter_def split: option.splits)
  show "last_number ''agent.vsock_port='' (boot_words m) = Some (word_of_int (m_agent_vsock_port m))"
    using assms unfolding last_number_def boot_words_def boot_arg_list_def
    by (simp add: map_filter_append map_filter_if map_filter_cmdline_arg tag Let_def List.map_filter_simps
        trim_prefix_def atoi_itoa64)
  show "last_number ''agent.vsock_cid='' (boot_words m) = None"
    unfolding last_number_def boot_words_def boot_arg_list_def
    by (simp add: map_filter_append map_filter_if map_filter_cmdline_arg tag Let_def List.map_filter_simps)
qed

lemma first_value_append:
  "first_value key (xs @ ys) = (case first_value key xs of None \<Rightarrow> first_value key ys | Some v \<Rightarrow> Some v)"
  by (induction key xs rule: first_value.induct) (auto simp: Let_def)

lemma first_value_cmdline_arg:
  "spaceless_opt v \<Longrightarrow> first_value (key @ ''='') (cmdline_arg key v) = (if v = Some [] then None else v)"
  by (auto simp: cmdline_arg_def spaceless_opt_def spaceless_trim trim_prefix_def has_prefix_iff
      split: option.splits)

lemma cmdline_arg_empty [simp]: "cmdline_arg key (Some []) = []"
  by (simp add: cmdline_arg_def)

lemma first_value_other:
  "(\<And>s. \<not> has_prefix k (key @ CHR ''='' # s)) \<Longrightarrow> first_value k (cmdline_arg key v) = None"
  by (auto simp: cmdline_arg_def split: option.splits)

lemma boot_words_virtiofs:
  "list_ex (\<lambda>arg. arg = ''agent.virtiofs=1'' \<or> arg = ''agent.virtiofs=true'') (boot_words m) =
    (m_enable_virtiofs m \<and> opt_str (or_else (m_virtiofs_tag m) []) \<noteq> None)"
proof -
  have arg: "\<not> list_ex (\<lambda>arg. arg = ''agent.virtiofs=1'' \<or> arg = ''agent.virtiofs=true'') (cmdline_arg key v)"
    if "\<And>s. key @ CHR ''='' # s \<noteq> ''agent.virtiofs=1'' \<and> key @ CHR ''='' # s \<noteq> ''agent.virtiofs=true''" for key v
    using that by (auto simp: cmdline_arg_def split: option.splits)
  show ?thesis
    unfolding boot_words_def boot_arg_list_def
    by (simp add: arg opt_str_def or_else_def split: option.splits)
qed

lemma boot_words_settings:
  assumes "boot_spaceless m" and "m_enable_virtiofs m" and "m_virtiofs_tag m = Some t" and "t \<noteq> []"
  shows "first_value ''agent.virtiofs_tag='' (boot_words m) = Some t"
    and "first_value ''agent.virtiofs_mount='' (boot_words m) =
      (if m_virtiofs_mount_point m = Some [] then None else m_virtiofs_mount_point m)"
    and "first_value ''agent.overlay_device='' (boot_words m) =
      (if m_overlay_state_device m = Some [] then None else m_overlay_state_device m)"
    and "first_value ''agent.overlay_mount='' (boot_words m) =
      (if m_overlay_state_mount m = Some [] then None else m_overlay_state_mount m)"
proof -
  have t: "trim_space t = t" using assms by (intro spaceless_trim) (simp add: boot_spaceless_def spaceless_opt_def)
  have s: "spaceless_opt (m_virtiofs_mount_point m)" "spaceless_opt (m_overlay_state_device m)"
      "spaceless_opt (m_overlay_state_mount m)"
    using assms(1) by (simp_all add: boot_spaceless_def)
  note own = first_value_cmdline_arg[OF s(1), of "''agent.virtiofs_mount''"]
    first_value_cmdline_arg[OF s(2), of "''agent.overlay_device''"]
    first_value_cmdline_arg[OF s(3), of "''agent.overlay_mount''"]
  show "first_value ''agent.virtiofs_tag='' (boot_words m) = Some t"
    unfolding boot_words_def boot_arg_list_def using assms
    by (simp add: first_value_append first_value_other trim_prefix_def t Let_def)
  show "first_value ''agent.virtiofs_mount='' (boot_words m) =
      (if m_virtiofs_mount_point m = Some [] then None else m_virtiofs_mount_point m)"
    unfolding boot_words_def boot_arg_list_def using assms own(1)
    by (simp add: first_value_append first_value_other split: option.splits)
  show "first_value ''agent.overlay_device='' (boot_words m) =
      (if m_overlay_state_device m = Some [] then None else m_overlay_state_device m)"
    unfolding boot_words_def boot_arg_list_def using assms own(2)
    by (simp add: first_value_append first_value_other split: option.splits)
  show "first_value ''agent.overlay_mount='' (boot_words m) =
      (if m_overlay_state_mount m = Some [] then None else m_overlay_state_mount m)"
    unfolding boot_words_def boot_arg_list_def using assms own(3)
    by (simp add: first_value_append first_value_other)
qed

section \<open>From the configuration to the agent\<close>

definition booted :: "manager_config \<Rightarrow> world \<Rightarrow> bool" where
  "booted m w \<longleftrightarrow> fst (run_state (os_read_file ''/proc/cmdline'') w) = Inr (boot_args m @ [LF])"

lemma booted_cmdline:
  "booted m w \<Longrightarrow> boot_spaceless m \<Longrightarrow> fst (run_state (read_kernel_cmdline os_args) w) = boot_words m"
  by (auto simp: booted_def read_kernel_cmdline_def fields_boot_args split: prod.splits)

lemma run_setting: "fst (run_state (setting key d os_args) w) =
    (case first_value key (fst (run_state (read_kernel_cmdline os_args) w)) of Some v \<Rightarrow> v | None \<Rightarrow> d)"
  by (simp add: setting_def split: prod.splits)

definition or_default :: "string \<Rightarrow> string \<Rightarrow> string" where
  "or_default v d = (if v = [] then d else v)"

lemma configuration_read:
  assumes "manager_args c = Inr args" and "config_ints c"
    and "enable_network c \<or> network_mode c = [] \<or> net_valid (network_mode c)"
    and "parse_manager_args args = Inr m" and "boot_spaceless m" and "booted m w"
    and "get_env ''AGENT_VSOCK_CID'' w = []"
  shows "fst (run_state (parse_vsock_target os_args) w) = (2, word_of_int (agent_vsock_port c)) \<and>
    fst (run_state (virtiofs_enabled os_args) w) = enable_virtiofs c \<and>
    (enable_virtiofs c \<longrightarrow>
       fst (run_state (virtiofs_tag_of os_args) w) = virtiofs_tag c \<and>
       fst (run_state (virtiofs_mount_point_of os_args) w) =
         or_default (virtiofs_mount_point c) ''/run/vmrunner/shared'' \<and>
       fst (run_state (container_writable_disk_device os_args) w) =
         or_default (overlay_state_device c) ''/dev/vdb'' \<and>
       fst (run_state (overlay_state_mount_point_fs os_args) w) = overlay_state_mount c)"
proof -
  have m: "m = manager_view (boot_default c)"
    using manager_args_parsed[OF assms(1-3)] assms(4) by simp
  have fields: "m_agent_vsock_port m = agent_vsock_port c" "m_enable_virtiofs m = enable_virtiofs c"
      "m_virtiofs_tag m = opt_str (virtiofs_tag c)" "m_virtiofs_mount_point m = opt_str (virtiofs_mount_point c)"
      "m_overlay_state_device m = opt_str (overlay_state_device c)"
      "m_overlay_state_mount m = opt_str (overlay_state_mount c)"
    by (simp_all add: m manager_view_def boot_default_def)
  have "config_ok (boot_default c)" using assms(1) manager_args_ok by blast
  moreover have "enable_virtiofs (boot_default c) = enable_virtiofs c" "virtiofs_tag (boot_default c) = virtiofs_tag c"
      "overlay_state_mount (boot_default c) = overlay_state_mount c"
    by (simp_all add: boot_default_def)
  ultimately have virtiofs: "virtiofs_tag c \<noteq> [] \<and> overlay_state_mount c \<noteq> []" if "enable_virtiofs c"
    using that by (auto simp: config_ok_def virtiofs_ok_def)
  note words = booted_cmdline[OF assms(6,5), of os_args]
  have "int64 (m_agent_vsock_port m)" using assms(2) by (simp add: fields config_ints_def)
  note port = boot_words_port[OF this]
  have "fst (run_state (parse_vsock_target os_args) w) = (2, word_of_int (agent_vsock_port c))"
    using words port assms(7) by (auto simp: run_parse_vsock_target chosen_def fields split: prod.splits)
  moreover have "fst (run_state (virtiofs_enabled os_args) w) = enable_virtiofs c"
    using words virtiofs boot_words_virtiofs[of m]
    by (auto simp: virtiofs_enabled_def fields opt_str_def or_else_def split: prod.splits)
  moreover have "fst (run_state (virtiofs_tag_of os_args) w) = virtiofs_tag c \<and>
       fst (run_state (virtiofs_mount_point_of os_args) w) =
         or_default (virtiofs_mount_point c) ''/run/vmrunner/shared'' \<and>
       fst (run_state (container_writable_disk_device os_args) w) =
         or_default (overlay_state_device c) ''/dev/vdb'' \<and>
       fst (run_state (overlay_state_mount_point_fs os_args) w) = overlay_state_mount c" if on: "enable_virtiofs c"
    using boot_words_settings[OF assms(5), of "virtiofs_tag c"] virtiofs[OF on] on
    by (simp add: fields opt_str_def virtiofs_tag_of_def virtiofs_mount_point_of_def
        container_writable_disk_device_def overlay_state_mount_point_fs_def run_setting words or_default_def)
  ultimately show ?thesis by blast
qed


definition shared_config :: vm_config where
  "shared_config = sample_config\<lparr>enable_virtiofs := True, virtiofs_host_dir := ''/images'',
     virtiofs_tag := ''vmrunnerfs0'', overlay_state_mount := ''/containers''\<rparr>"

definition guest_of :: "manager_config \<Rightarrow> world" where
  "guest_of m = empty_world\<lparr>tree := [((''root'', []), Dir 493), ((''root'', [''proc'']), Dir 493),
     ((''root'', [''proc'', ''cmdline'']), Reg 0)], inodes := (\<lambda>_. (420, boot_args m @ [LF]))\<rparr>"

lemma booted_guest: "booted m (guest_of m)"
  by (simp add: booted_def guest_of_def empty_world_def os_read_file_def on_node_def run_syscall resolve_def look_def
      locate_def max_links_def comps_def)

lemma not_blank_plain: "spaceless w \<Longrightarrow> w \<noteq> [] \<Longrightarrow> \<not> blank w"
  by (simp add: blank_def spaceless_trim)

lemma shared_spaceless: "spaceless ''/images''" "spaceless ''vmrunnerfs0''" "spaceless ''/containers''"
  by (rule spaceless_plain; simp add: plain_byte_def space_runes_def)+

lemma shared_config_ok: "config_ok (boot_default shared_config)"
  using not_blank_plain[OF shared_spaceless(1)] not_blank_plain[OF shared_spaceless(2)] not_blank_plain[OF shared_spaceless(3)]
  by (simp add: config_ok_def boot_default_def shared_config_def sample_config_def zero_config_def boot_valid_def
      virtiofs_ok_def)


text \<open>
  White space in a setting is not checked and adds words to the command line: \<open>ManagerArgs\<close>
  accepts a virtiofs tag that holds a second \<open>agent.vsock_port\<close> argument, the manager copies it,
  and the agent connects to that port instead of the configured one.
\<close>

theorem setting_overrides_port:
  "\<exists>c args m. manager_args c = Inr args \<and> parse_manager_args args = Inr m \<and> agent_vsock_port c = 7000 \<and>
     booted m (guest_of m) \<and> fst (run_state (parse_vsock_target []) (guest_of m)) = (2, 1)"
proof -
  define c where "c = shared_config\<lparr>virtiofs_tag := ''t agent.vsock_port=1''\<rparr>"
  let ?m = "manager_view (boot_default c)"
  have "\<not> blank ''t agent.vsock_port=1''"
    by (rule not_blank) (simp_all add: leading_space_def space_runes_def)
  then have "config_ok (boot_default c)"
    using not_blank_plain[OF shared_spaceless(1)] not_blank_plain[OF shared_spaceless(3)]
    by (simp add: c_def config_ok_def boot_default_def shared_config_def sample_config_def zero_config_def boot_valid_def
      virtiofs_ok_def)
  then obtain args where args: "manager_args c = Inr args" using manager_args_ok by blast
  have "config_ints c" "network_mode c = []" "agent_vsock_port c = 7000"
    by (simp_all add: c_def config_ints_def int64_def shared_config_def sample_config_def zero_config_def)
  with args have parsed: "parse_manager_args args = Inr ?m" using manager_args_parsed by blast
  have args_eq: "boot_args ?m = join_with '' '' [''console=hvc0'', ''loglevel=7'', ''printk.time=1'', ''root=/dev/vda'', ''rw'',
      ''init=/sbin/agent'', ''agent.vsock_port=7000'', ''agent.virtiofs=1'', ''agent.virtiofs_tag=t'',
      ''agent.vsock_port=1'', ''agent.overlay_mount=/containers'']"
    by (simp add: boot_args_def boot_arg_list_def manager_view_def boot_default_def c_def shared_config_def
        sample_config_def zero_config_def opt_str_def cmdline_arg_def itoa_def show_nat.simps digit_char_def char_of_def bit_0 bit_Suc)
  have "fields_of (boot_args ?m @ [LF]) = [''console=hvc0'', ''loglevel=7'', ''printk.time=1'', ''root=/dev/vda'', ''rw'',
      ''init=/sbin/agent'', ''agent.vsock_port=7000'', ''agent.virtiofs=1'', ''agent.virtiofs_tag=t'',
      ''agent.vsock_port=1'', ''agent.overlay_mount=/containers'']"
    unfolding args_eq
    by (rule fields_join) (simp, intro conjI; rule spaceless_plain; simp add: plain_byte_def space_runes_def)
  then have "fst (run_state (read_kernel_cmdline []) (guest_of ?m)) = [''console=hvc0'', ''loglevel=7'', ''printk.time=1'',
      ''root=/dev/vda'', ''rw'', ''init=/sbin/agent'', ''agent.vsock_port=7000'', ''agent.virtiofs=1'',
      ''agent.virtiofs_tag=t'', ''agent.vsock_port=1'', ''agent.overlay_mount=/containers'']"
    using booted_guest[of ?m] by (auto simp: booted_def read_kernel_cmdline_def split: prod.splits)
  moreover have "get_env v (guest_of ?m) = []" for v by (simp add: get_env_def guest_of_def empty_world_def)
  ultimately have "fst (run_state (parse_vsock_target []) (guest_of ?m)) = (2, 1)"
    by (auto simp: run_parse_vsock_target chosen_def last_number_def List.map_filter_simps trim_prefix_def atoi_def
        digit_val_def Let_def split: prod.splits)
  with args parsed booted_guest \<open>agent_vsock_port c = 7000\<close> show ?thesis by blast
qed

end
