(* ===== verification/Go_Flag.thy ===== *)
theory Go_Flag
  imports Go_Strings
begin

text \<open>
  Package \<open>flag\<close>, as far as the command line of \<open>vm\<close> uses it: string, integer and boolean flags,
  one or two dashes, values after an equals sign or in the next argument. A flag is what its
  value does to the record of the program's variables.
\<close>

section \<open>Values\<close>

text \<open>\<open>strconv.ParseInt(s, 0, 64)\<close>: base prefixes, and underscores between digits.\<close>

definition lower_ascii :: "char \<Rightarrow> nat" where
  "lower_ascii c = (let n = of_char c in if 65 \<le> n \<and> n \<le> 90 then n + 32 else n)"

definition base_digit :: "nat \<Rightarrow> char \<Rightarrow> nat option" where
  "base_digit b c =
    (let n = lower_ascii c;
         d = (if 48 \<le> n \<and> n \<le> 57 then Some (n - 48) else if 97 \<le> n \<and> n \<le> 122 then Some (n - 87) else None) in
     case d of None \<Rightarrow> None | Some k \<Rightarrow> if k < b then Some k else None)"

fun base_digits :: "nat \<Rightarrow> nat \<Rightarrow> string \<Rightarrow> nat option" where
  "base_digits b acc [] = Some acc"
| "base_digits b acc (c # cs) =
    (if c = CHR ''_'' then base_digits b acc cs
     else case base_digit b c of None \<Rightarrow> None | Some d \<Rightarrow> base_digits b (b * acc + d) cs)"

definition base_prefix :: "string \<Rightarrow> nat \<times> string" where
  "base_prefix s =
    (case s of
       c # d # e # rest \<Rightarrow>
         if c \<noteq> CHR ''0'' then (10, s)
         else if lower_ascii d = 98 then (2, e # rest)
         else if lower_ascii d = 111 then (8, e # rest)
         else if lower_ascii d = 120 then (16, e # rest)
         else (8, d # e # rest)
     | c # rest \<Rightarrow> if c = CHR ''0'' then (8, rest) else (10, s)
     | [] \<Rightarrow> (10, []))"

text \<open>
  \<open>underscoreOK\<close>: the class of the previous character is \<open>^\<close> at the start, \<open>0\<close> for a digit (or
  the base prefix), \<open>_\<close> or \<open>!\<close>.
\<close>

fun underscores_ok :: "bool \<Rightarrow> char \<Rightarrow> string \<Rightarrow> bool" where
  "underscores_ok hex i [] = (i \<noteq> CHR ''_'')"
| "underscores_ok hex i (c # cs) =
    (if base_digit 10 c \<noteq> None \<or> hex \<and> base_digit 16 c \<noteq> None then underscores_ok hex (CHR ''0'') cs
     else if c = CHR ''_'' then i = CHR ''0'' \<and> underscores_ok hex (CHR ''_'') cs
     else i \<noteq> CHR ''_'' \<and> underscores_ok hex (CHR ''!'') cs)"

definition underscore_ok :: "string \<Rightarrow> bool" where
  "underscore_ok s =
    (case s of
       c # d # rest \<Rightarrow>
         if c = CHR ''0'' \<and> lower_ascii d \<in> {98, 111, 120} then
           underscores_ok (lower_ascii d = 120) (CHR ''0'') rest
         else underscores_ok False (CHR ''^'') s
     | _ \<Rightarrow> underscores_ok False (CHR ''^'') s)"

definition parse_int :: "string \<Rightarrow> int option" where
  "parse_int s =
    (let neg = (s \<noteq> [] \<and> hd s = CHR ''-'');
         body = (if s \<noteq> [] \<and> hd s \<in> {CHR ''-'', CHR ''+''} then tl s else s) in
     if body = [] then None
     else (case base_prefix body of (b, ds) \<Rightarrow>
       (case base_digits b 0 ds of
          None \<Rightarrow> None
        | Some n \<Rightarrow>
            if CHR ''_'' \<in> set ds \<and> \<not> underscore_ok body then None
            else if neg then (if n \<le> 2 ^ 63 then Some (- int n) else None)
            else (if n < 2 ^ 63 then Some (int n) else None))))"

definition parse_bool :: "string \<Rightarrow> bool option" where
  "parse_bool s =
    (if s \<in> {''1'', ''t'', ''T'', ''true'', ''TRUE'', ''True''} then Some True
     else if s \<in> {''0'', ''f'', ''F'', ''false'', ''FALSE'', ''False''} then Some False
     else None)"

section \<open>The command line\<close>

datatype 'o flag =
    StringVar "string \<Rightarrow> 'o \<Rightarrow> 'o"
  | IntVar "int \<Rightarrow> 'o \<Rightarrow> 'o"
  | BoolVar "bool \<Rightarrow> 'o \<Rightarrow> 'o"

definition set_value :: "'o flag \<Rightarrow> string \<Rightarrow> 'o \<Rightarrow> 'o option" where
  "set_value f v o' =
    (case f of
       StringVar g \<Rightarrow> Some (g v o')
     | IntVar g \<Rightarrow> map_option (\<lambda>i. g i o') (parse_int v)
     | BoolVar g \<Rightarrow> map_option (\<lambda>b. g b o') (parse_bool v))"

text \<open>The name without its dashes, and the value after an equals sign that is not its first byte.\<close>

definition split_value :: "string \<Rightarrow> string \<times> string option" where
  "split_value name =
    (case name of
       [] \<Rightarrow> ([], None)
     | c # cs \<Rightarrow>
         if CHR ''='' \<in> set cs then
           (c # takeWhile (\<lambda>x. x \<noteq> CHR ''='') cs, Some (tl (dropWhile (\<lambda>x. x \<noteq> CHR ''='') cs)))
         else (name, None))"

text \<open>
  \<open>Parse\<close> with \<open>ExitOnError\<close>: the exit code and the complaint, or the variables. Parsing stops at
  the first argument that is not a flag, or after two dashes alone.
\<close>

fun flag_parse :: "(string \<times> 'o flag) list \<Rightarrow> string list \<Rightarrow> 'o \<Rightarrow> (int \<times> goerr) + 'o" where
  "flag_parse fs [] o' = Inr o'"
| "flag_parse fs (s # args) o' =
    (if length s < 2 \<or> hd s \<noteq> CHR ''-'' \<or> s = ''--'' then Inr o'
     else
       (let name = (if s ! 1 = CHR ''-'' then drop 2 s else drop 1 s) in
        if name = [] \<or> hd name = CHR ''-'' \<or> hd name = CHR ''='' then
          Inl (2, Errorf ''bad flag syntax: %s'' [s])
        else (case split_value name of (n, v) \<Rightarrow>
          (case map_of fs n of
             None \<Rightarrow>
               if n = ''help'' \<or> n = ''h'' then Inl (0, Errorf ''flag: help requested'' [])
               else Inl (2, Errorf ''flag provided but not defined: -%s'' [n])
           | Some f \<Rightarrow>
               (case (f, v, args) of
                  (BoolVar g, None, _) \<Rightarrow> flag_parse fs args (g True o')
                | (_, Some x, _) \<Rightarrow>
                    (case set_value f x o' of
                       None \<Rightarrow> Inl (2, Errorf ''invalid value %q for flag -%s'' [x, n])
                     | Some p \<Rightarrow> flag_parse fs args p)
                | (_, None, x # rest) \<Rightarrow>
                    (case set_value f x o' of
                       None \<Rightarrow> Inl (2, Errorf ''invalid value %q for flag -%s'' [x, n])
                     | Some p \<Rightarrow> flag_parse fs rest p)
                | (_, None, []) \<Rightarrow> Inl (2, Errorf ''flag needs an argument: -%s'' [n]))))))"

end
