(* ===== verification/OCI_Spec.thy ===== *)
theory OCI_Spec
  imports Go_Strings "HOL-Library.List_Lexorder"
begin

text \<open>
  \<open>vm/oci_spec.go\<close>: the default OCI runtime specification of a container as a JSON value, and
  its text as \<open>encoding/json\<close> writes it with \<open>MarshalIndent\<close>: object keys sorted, two spaces
  per level, strings escaped for HTML.
\<close>

section \<open>JSON values\<close>

datatype json =
    JBool bool
  | JInt int
  | JStr string
  | JArr "json list"
  | JObj "(string \<times> json) list"

subsection \<open>Strings\<close>

text \<open>
  The number of bytes of the UTF-8 encoded rune at the head of a string, \<open>None\<close> when the bytes
  are not one (an overlong form, a surrogate, a broken sequence).
\<close>

definition cont :: "string \<Rightarrow> nat \<Rightarrow> nat \<Rightarrow> nat \<Rightarrow> bool" where
  "cont s i lo hi \<longleftrightarrow> i < length s \<and> lo \<le> (of_char (s ! i) :: nat) \<and> (of_char (s ! i) :: nat) \<le> hi"

definition rune_len :: "string \<Rightarrow> nat option" where
  "rune_len s =
    (case s of
       [] \<Rightarrow> None
     | c # _ \<Rightarrow>
         (let b = (of_char c :: nat) in
          if b < 0x80 then Some 1
          else if 0xC2 \<le> b \<and> b \<le> 0xDF then (if cont s 1 0x80 0xBF then Some 2 else None)
          else if 0xE0 \<le> b \<and> b \<le> 0xEF then
            (if cont s 1 (if b = 0xE0 then 0xA0 else 0x80) (if b = 0xED then 0x9F else 0xBF) \<and> cont s 2 0x80 0xBF
             then Some 3 else None)
          else if 0xF0 \<le> b \<and> b \<le> 0xF4 then
            (if cont s 1 (if b = 0xF0 then 0x90 else 0x80) (if b = 0xF4 then 0x8F else 0xBF) \<and>
                cont s 2 0x80 0xBF \<and> cont s 3 0x80 0xBF
             then Some 4 else None)
          else None))"

definition hex_digit :: "nat \<Rightarrow> char" where
  "hex_digit n = (if n < 10 then char_of (48 + n) else char_of (87 + n))"

definition u00 :: "nat \<Rightarrow> string" where
  "u00 b = [CHR 0x5C, CHR ''u'', CHR ''0'', CHR ''0'', hex_digit (b div 16), hex_digit (b mod 16)]"

text \<open>One rune of a string: its text, and how many bytes it takes.\<close>

definition escape_rune :: "string \<Rightarrow> string \<times> nat" where
  "escape_rune s =
    (case s of
       [] \<Rightarrow> ([], 0)
     | c # _ \<Rightarrow>
         (let b = (of_char c :: nat) in
          if b < 0x80 then
            (if c = CHR 0x22 \<or> c = CHR 0x5C then ([CHR 0x5C, c], 1)
             else if b = 8 then ([CHR 0x5C, CHR ''b''], 1)
             else if b = 12 then ([CHR 0x5C, CHR ''f''], 1)
             else if b = 10 then ([CHR 0x5C, CHR ''n''], 1)
             else if b = 13 then ([CHR 0x5C, CHR ''r''], 1)
             else if b = 9 then ([CHR 0x5C, CHR ''t''], 1)
             else if b < 32 \<or> c = CHR ''<'' \<or> c = CHR ''>'' \<or> c = CHR ''&'' then (u00 b, 1)
             else ([c], 1))
          else (case rune_len s of
              None \<Rightarrow> (CHR 0x5C # ''ufffd'', 1)
            | Some n \<Rightarrow>
                if take 3 s = [CHR 0xE2, CHR 0x80, CHR 0xA8] then (CHR 0x5C # ''u2028'', 3)
                else if take 3 s = [CHR 0xE2, CHR 0x80, CHR 0xA9] then (CHR 0x5C # ''u2029'', 3)
                else (take n s, n))))"

function escape :: "string \<Rightarrow> string" where
  "escape s = (if s = [] then [] else fst (escape_rune s) @ escape (drop (max 1 (snd (escape_rune s))) s))"
  by pat_completeness auto
termination by (relation "measure length") auto

declare escape.simps [simp del]

definition quote :: "string \<Rightarrow> string" where
  "quote s = CHR 0x22 # escape s @ [CHR 0x22]"

subsection \<open>MarshalIndent\<close>

definition newline :: "nat \<Rightarrow> string" where
  "newline d = CHR 0x0A # replicate (2 * d) (CHR '' '')"

fun separated :: "string \<Rightarrow> string list \<Rightarrow> string" where
  "separated sep [] = []"
| "separated sep [x] = x"
| "separated sep (x # y # ys) = x @ sep @ separated sep (y # ys)"

text \<open>
  \<open>d\<close> is the nesting depth; an empty array or object has no line of its own. Keys are sorted
  by their bytes, which is the order of strings of the library.
\<close>

fun print_json :: "nat \<Rightarrow> json \<Rightarrow> string" where
  "print_json d (JBool b) = format_bool b"
| "print_json d (JInt i) = itoa i"
| "print_json d (JStr s) = quote s"
| "print_json d (JArr js) =
    (if js = [] then ''[]''
     else CHR ''['' # newline (Suc d) @ separated (CHR '','' # newline (Suc d)) (map (print_json (Suc d)) js)
       @ newline d @ '']'')"
| "print_json d (JObj ms) =
    (if ms = [] then ''{}''
     else CHR ''{'' # newline (Suc d)
       @ separated (CHR '','' # newline (Suc d))
           (map (\<lambda>(k, t). quote k @ '': '' @ t) (sort_key fst (map (\<lambda>(k, j). (k, print_json (Suc d) j)) ms)))
       @ newline d @ ''}'')"

section \<open>The default specification\<close>

record default_oci_spec_options =
  opt_image_ref :: string
  opt_rootfs_path :: string
  opt_entrypoint :: "string list"
  opt_cmd :: "string list"
  opt_terminal :: bool
  opt_readonly_root :: bool
  opt_container_name :: string

definition oci_mount :: "string \<Rightarrow> string \<Rightarrow> string \<Rightarrow> string list \<Rightarrow> json" where
  "oci_mount dest ty src opts = JObj [(''destination'', JStr dest), (''type'', JStr ty), (''source'', JStr src),
     (''options'', JArr (map JStr opts))]"

definition default_mounts :: "json list" where
  "default_mounts =
    [oci_mount ''/proc'' ''proc'' ''proc'' [''nosuid'', ''noexec'', ''nodev''],
     oci_mount ''/dev'' ''tmpfs'' ''tmpfs'' [''nosuid'', ''strictatime'', ''mode=755'', ''size=65536k''],
     oci_mount ''/dev/pts'' ''devpts'' ''devpts''
       [''nosuid'', ''noexec'', ''newinstance'', ''ptmxmode=0666'', ''mode=0620'', ''gid=5''],
     oci_mount ''/dev/shm'' ''tmpfs'' ''shm'' [''nosuid'', ''noexec'', ''nodev'', ''mode=1777'', ''size=65536k''],
     oci_mount ''/dev/mqueue'' ''mqueue'' ''mqueue'' [''nosuid'', ''noexec'', ''nodev''],
     oci_mount ''/sys'' ''sysfs'' ''sysfs'' [''nosuid'', ''noexec'', ''nodev'', ''ro''],
     oci_mount ''/sys/fs/cgroup'' ''cgroup'' ''cgroup'' [''nosuid'', ''noexec'', ''nodev'', ''relatime'', ''ro'']]"

definition process_args :: "default_oci_spec_options \<Rightarrow> string list" where
  "process_args opts =
    (if opt_entrypoint opts = [] then [''/bin/sh'', ''-lc''] else opt_entrypoint opts)
    @ (if opt_cmd opts = [] then [''echo hello world; sleep infinity''] else opt_cmd opts)"

definition default_spec :: "default_oci_spec_options \<Rightarrow> json" where
  "default_spec opts =
    (let rootfs = (if opt_rootfs_path opts = [] then ''/'' else opt_rootfs_path opts);
         image_ref = (if opt_image_ref opts = [] then ''unknown'' else opt_image_ref opts) in
     JObj
       [(''ociVersion'', JStr ''1.1.0''),
        (''process'', JObj
          [(''terminal'', JBool (opt_terminal opts)),
           (''user'', JObj [(''uid'', JInt 0), (''gid'', JInt 0)]),
           (''args'', JArr (map JStr (process_args opts))),
           (''env'', JArr [JStr ''PATH=/usr/local/sbin:/usr/local/bin:/usr/sbin:/usr/bin:/sbin:/bin'',
              JStr (''VMRUNNER_IMAGE_REF='' @ image_ref)]),
           (''cwd'', JStr ''/'')]),
        (''root'', JObj [(''path'', JStr rootfs), (''readonly'', JBool (opt_readonly_root opts))]),
        (''mounts'', JArr default_mounts),
        (''hostname'', JStr ''vmrunner''),
        (''linux'', JObj [(''namespaces'', JArr (map (\<lambda>t. JObj [(''type'', JStr t)])
           [''pid'', ''network'', ''ipc'', ''uts'', ''mount'']))])])"

definition build_default_oci_spec_json :: "default_oci_spec_options \<Rightarrow> string go" where
  "build_default_oci_spec_json opts = Inr (print_json 0 (default_spec opts))"

end
