(* ===== verification/VM_Main.thy ===== *)
theory VM_Main
  imports Go_Flag Runner VM_State Image_Disk Container_Client OCI_Spec
begin

text \<open>
  \<open>vm/cmd/vm/main.go\<close>: the command that prepares the state of a virtual machine, runs it and
  runs a container in it. Its result is the exit code of the process with the error it
  reported, or the normal return. What the program does not decide itself is in \<open>main_env\<close>:
  the clock, the host's tools and registry, how the wait for the agent ends, what the agent
  answers and how the manager exits.
\<close>

datatype stop = Exit int goerr

section \<open>Flags\<close>

record main_opts =
  o_cfg :: vm_config
  o_boot_mode_raw :: string
  o_network_mode_raw :: string
  o_vm_name :: string
  o_work_state_root :: string
  o_home_state_root :: string
  o_vm_manager_path :: string
  o_container_image_ref :: string
  o_shared_host_dir :: string
  o_virtiofs_tag :: string
  o_virtiofs_mount_point :: string
  o_container_state_mount :: string
  o_disk_size_mib :: int
  o_disk_label :: string
  o_oci_spec_path :: string
  o_generated_spec_out :: string
  o_container_id :: string

definition default_opts :: "int \<Rightarrow> main_opts" where
  "default_opts now = \<lparr>o_cfg = zero_config\<lparr>memory_mib := 512, cpus := 2, agent_vsock_port := 7000\<rparr>,
     o_boot_mode_raw = boot_linux, o_network_mode_raw = net_hostonly, o_vm_name = default_vm_name now,
     o_work_state_root = [], o_home_state_root = [], o_vm_manager_path = [], o_container_image_ref = [],
     o_shared_host_dir = [], o_virtiofs_tag = ''vmrunnerfs0'', o_virtiofs_mount_point = ''/var/run/vmrunner'',
     o_container_state_mount = ''/containers'', o_disk_size_mib = 4096, o_disk_label = ''vmrunner-data'',
     o_oci_spec_path = [], o_generated_spec_out = [], o_container_id = ''vmrunner-container''\<rparr>"

definition on_cfg :: "(vm_config \<Rightarrow> vm_config) \<Rightarrow> main_opts \<Rightarrow> main_opts" where
  "on_cfg f o' = o'\<lparr>o_cfg := f (o_cfg o')\<rparr>"

definition main_flags :: "(string \<times> main_opts flag) list" where
  "main_flags =
    [(''vm-name'', StringVar (\<lambda>v. o_vm_name_update (\<lambda>_. v))),
     (''work-state-root'', StringVar (\<lambda>v. o_work_state_root_update (\<lambda>_. v))),
     (''home-state-root'', StringVar (\<lambda>v. o_home_state_root_update (\<lambda>_. v))),
     (''vmmanager'', StringVar (\<lambda>v. o_vm_manager_path_update (\<lambda>_. v))),
     (''boot-mode'', StringVar (\<lambda>v. o_boot_mode_raw_update (\<lambda>_. v))),
     (''kernel'', StringVar (\<lambda>v. on_cfg (kernel_path_update (\<lambda>_. v)))),
     (''initrd'', StringVar (\<lambda>v. on_cfg (initrd_path_update (\<lambda>_. v)))),
     (''root-image'', StringVar (\<lambda>v. on_cfg (root_image_update (\<lambda>_. v)))),
     (''memory-mib'', IntVar (\<lambda>v. on_cfg (memory_mib_update (\<lambda>_. v)))),
     (''cpus'', IntVar (\<lambda>v. on_cfg (cpus_update (\<lambda>_. v)))),
     (''agent-vsock-port'', IntVar (\<lambda>v. on_cfg (agent_vsock_port_update (\<lambda>_. v)))),
     (''agent-ready-socket'', StringVar (\<lambda>v. on_cfg (agent_ready_socket_path_update (\<lambda>_. v)))),
     (''enable-network'', BoolVar (\<lambda>v. on_cfg (enable_network_update (\<lambda>_. v)))),
     (''network-mode'', StringVar (\<lambda>v. o_network_mode_raw_update (\<lambda>_. v))),
     (''bridge-interface'', StringVar (\<lambda>v. on_cfg (bridge_interface_update (\<lambda>_. v)))),
     (''verbose'', BoolVar (\<lambda>v. on_cfg (verbose_update (\<lambda>_. v)))),
     (''container-image'', StringVar (\<lambda>v. o_container_image_ref_update (\<lambda>_. v))),
     (''container-shared-host-dir'', StringVar (\<lambda>v. o_shared_host_dir_update (\<lambda>_. v))),
     (''virtiofs-tag'', StringVar (\<lambda>v. o_virtiofs_tag_update (\<lambda>_. v))),
     (''virtiofs-mount-point'', StringVar (\<lambda>v. o_virtiofs_mount_point_update (\<lambda>_. v))),
     (''container-state-mount'', StringVar (\<lambda>v. o_container_state_mount_update (\<lambda>_. v))),
     (''container-disk-size-mib'', IntVar (\<lambda>v. o_disk_size_mib_update (\<lambda>_. v))),
     (''container-disk-label'', StringVar (\<lambda>v. o_disk_label_update (\<lambda>_. v))),
     (''oci-spec'', StringVar (\<lambda>v. o_oci_spec_path_update (\<lambda>_. v))),
     (''oci-default-out'', StringVar (\<lambda>v. o_generated_spec_out_update (\<lambda>_. v))),
     (''container-id'', StringVar (\<lambda>v. o_container_id_update (\<lambda>_. v)))]"

definition parse_main_flags :: "int \<Rightarrow> string list \<Rightarrow> stop + main_opts" where
  "parse_main_flags now args =
    (case flag_parse main_flags args (default_opts now) of
       Inl (code, e) \<Rightarrow> Inl (Exit code e)
     | Inr o' \<Rightarrow> Inr o')"

section \<open>Paths and checks\<close>

definition os_getwd :: "string sys" where
  "os_getwd = syscall (\<lambda>w. (Inr (cwd w), w))"

definition filepath_abs :: "string \<Rightarrow> string sys" where
  "filepath_abs s =
    (if is_abs s then State_Monad.return (Inr (clean s))
     else or_fail os_getwd (\<lambda>e. e) (\<lambda>wd. State_Monad.return (Inr (join_path [wd, s]))))"

definition or_else_str :: "string \<Rightarrow> string \<Rightarrow> string" where
  "or_else_str v d = (if v = [] then d else v)"

definition with_defaults :: "vm_runner_state \<Rightarrow> main_opts \<Rightarrow> main_opts" where
  "with_defaults st o' = o'\<lparr>
     o_cfg := (o_cfg o')\<lparr>
       kernel_path := or_else_str (kernel_path (o_cfg o')) (s_kernel_path st),
       root_image := or_else_str (root_image (o_cfg o')) (vm_root_image_path st),
       agent_ready_socket_path := or_else_str (agent_ready_socket_path (o_cfg o')) (ready_socket_path st),
       lock_file_path := or_else_str (lock_file_path (o_cfg o')) (s_lock_file_path st)\<rparr>,
     o_shared_host_dir := or_else_str (o_shared_host_dir o') (s_virtiofs_host_dir st),
     o_generated_spec_out := or_else_str (o_generated_spec_out o') (default_oci_spec st),
     o_vm_manager_path := or_else_str (o_vm_manager_path o') (manager_binary st)\<rparr>"

definition main_setup :: "int \<Rightarrow> main_opts \<Rightarrow> (world, stop + (vm_runner_state \<times> main_opts)) state" where
  "main_setup now o' =
    or_fail os_getwd (Exit 2) (\<lambda>wd.
    or_fail (resolve_vm_runner_state now wd (o_vm_name o') (o_home_state_root o') (o_work_state_root o')) (Exit 2) (\<lambda>st.
    or_fail (ensure_dirs st) (Exit 2) (\<lambda>_.
    or_fail (if root_image (o_cfg o') = [] then ensure_vm_root_image st else State_Monad.return (Inr ())) (Exit 2) (\<lambda>_.
    (let p = with_defaults st o' in
     or_fail (os_stat (o_vm_manager_path p)) (\<lambda>e. Exit 2 (Wrapf ''missing vmmanager binary at %s: %v'' [o_vm_manager_path p] e)) (\<lambda>_.
     or_fail (os_stat (kernel_path (o_cfg p))) (\<lambda>e. Exit 2 (Wrapf ''missing kernel artifact at %s: %v'' [kernel_path (o_cfg p)] e)) (\<lambda>_.
     or_fail (os_stat (root_image (o_cfg p))) (\<lambda>e. Exit 2 (Wrapf ''missing root image at %s: %v'' [root_image (o_cfg p)] e)) (\<lambda>_.
     State_Monad.return (Inr (st, p))))))))))"

definition main_modes :: "main_opts \<Rightarrow> stop + main_opts" where
  "main_modes o' =
    (case parse_boot_mode (o_boot_mode_raw o') of
       Inl e \<Rightarrow> Inl (Exit 2 e)
     | Inr bm \<Rightarrow>
         (case parse_network_mode (o_network_mode_raw o') of
            Inl e \<Rightarrow> Inl (Exit 2 e)
          | Inr nm \<Rightarrow>
              if o_oci_spec_path o' \<noteq> [] \<and> o_container_image_ref o' = [] then
                Inl (Exit 2 (Errorf ''container-image is required when oci-spec is set'' []))
              else Inr (on_cfg (\<lambda>c. c\<lparr>boot_mode := bm, network_mode := nm\<rparr>) o')))"

section \<open>The container's disk and root file system\<close>

text \<open>
  The result also holds the two paths \<open>RunContainer\<close> is given: the root file system and the
  mount point of the state disk, both in the guest.
\<close>

definition main_container ::
  "host \<Rightarrow> registry \<Rightarrow> vm_runner_state \<Rightarrow> main_opts \<Rightarrow> (world, stop + (main_opts \<times> string \<times> string)) state" where
  "main_container h reg st o' =
    (if o_container_image_ref o' = [] \<and> o_oci_spec_path o' = [] then
       State_Monad.return (Inr (o', [], ''/var/run/vmrunner''))
     else if o_container_image_ref o' = [] then
       State_Monad.return (Inl (Exit 2 (Errorf ''container-image is required for virtiofs mode'' [])))
     else
       or_fail (os_mkdir_all (o_shared_host_dir o') 493) (Exit 1) (\<lambda>_.
       or_fail (filepath_abs (o_shared_host_dir o')) (Exit 1) (\<lambda>shared.
       or_fail (create_ext4_disk h (container_state st) (o_disk_size_mib o') ''vmrunner-state'') (Exit 1) (\<lambda>_.
       or_fail (filepath_abs (container_state st)) (Exit 1) (\<lambda>state_disk.
       (let p = on_cfg (\<lambda>c. c\<lparr>enable_virtiofs := True, virtiofs_host_dir := shared, virtiofs_tag := o_virtiofs_tag o',
              virtiofs_mount_point := o_virtiofs_mount_point o', overlay_state_device := ''/dev/vdb'',
              overlay_state_mount := o_container_state_mount o',
              extra_disk_paths := extra_disk_paths c @ [state_disk]\<rparr>) o' in
        or_fail (prepare_shared_container_rootfs h reg (o_container_image_ref o') shared) (Exit 1) (\<lambda>(hash, _).
        or_fail (os_stat (join_path [shared, hash, ''rootfs''])) (Exit 1) (\<lambda>_.
        State_Monad.return (Inr (p, join_path [o_virtiofs_mount_point o', hash, ''rootfs''], o_container_state_mount o'))))))))))"

section \<open>The run\<close>

record main_env =
  e_now :: int
  e_host :: host
  e_registry :: registry
  e_stamp :: string
  e_ready :: "goerr option"
  e_remote :: remote
  e_exited :: "goerr option"

text \<open>
  \<open>logger.Info\<close>: the logger's level is \<open>LevelError\<close> unless \<open>-verbose\<close> is given, and then
  \<open>LevelDebug\<close>.
\<close>

definition logger_info :: "main_opts \<Rightarrow> string \<Rightarrow> string list \<Rightarrow> (world, unit) state" where
  "logger_info o' m args = (if verbose (o_cfg o') then log_event m args else State_Monad.return ())"

text \<open>The specification: the file that was named, or the default one, which is also written out.\<close>

definition main_spec :: "main_opts \<Rightarrow> (world, stop + string) state" where
  "main_spec o' =
    (if o_oci_spec_path o' \<noteq> [] then
       or_fail (os_read_file (o_oci_spec_path o')) (Exit 1) (\<lambda>raw. State_Monad.return (Inr raw))
     else if o_container_image_ref o' \<noteq> [] then
       (case build_default_oci_spec_json \<lparr>opt_image_ref = o_container_image_ref o', opt_rootfs_path = ''rootfs'',
            opt_entrypoint = [], opt_cmd = [], opt_terminal = False, opt_readonly_root = False,
            opt_container_name = o_container_id o'\<rparr> of
          Inl e \<Rightarrow> State_Monad.return (Inl (Exit 1 e))
        | Inr raw \<Rightarrow> do {
            r \<leftarrow> os_mkdir_all (dir (o_generated_spec_out o')) 493;
            _ \<leftarrow> (case r of
                   Inl _ \<Rightarrow> State_Monad.return ()
                 | Inr _ \<Rightarrow> do {
                     written \<leftarrow> os_write_file (o_generated_spec_out o') raw 420;
                     (case written of
                        Inl _ \<Rightarrow> State_Monad.return ()
                      | Inr _ \<Rightarrow> logger_info o' ''generated default oci spec'' [o_generated_spec_out o'])
                   });
            State_Monad.return (Inr raw)
          })
     else State_Monad.return (Inr []))"

text \<open>
  The container with that specification, when there is one. The code it exits with is logged.
\<close>

definition main_run_container ::
  "main_env \<Rightarrow> main_opts \<Rightarrow> string \<Rightarrow> string \<Rightarrow> string \<Rightarrow> (world, stop + unit) state" where
  "main_run_container me o' rootfs disk_mount spec =
    (if spec = [] then State_Monad.return (Inr ())
     else
       (case fst (run_state (run_container (e_remote me) (o_container_id o') (o_container_image_ref o') rootfs
               disk_mount spec) []) of
          Inl e \<Rightarrow> State_Monad.return (Inl (Exit 1 (Wrapf ''run oci failed'' [] e)))
        | Inr code \<Rightarrow> do {
            _ \<leftarrow> logger_info o' ''run container finished'' [o_container_id o', itoa (sint code)];
            State_Monad.return (Inr ())
          }))"

text \<open>A failure after the start: \<open>vmCtx.Kill\<close> and then \<open>os.Exit\<close>, which runs no deferred call.\<close>

definition or_kill :: "(world, stop + 'a) state \<Rightarrow> ('a \<Rightarrow> (world, stop + 'b) state) \<Rightarrow> (world, stop + 'b) state" where
  "or_kill m k = do {
     r \<leftarrow> m;
     case r of
       Inl s \<Rightarrow> do { _ \<leftarrow> kill_event; State_Monad.return (Inl s) }
     | Inr x \<Rightarrow> k x
   }"

text \<open>
  After \<open>Run\<close> returned: the container, then the wait for the manager. When the manager has
  exited \<open>Run\<close>'s goroutine closes the context before it sends the result; the deferred
  \<open>Close\<close> that follows does nothing.
\<close>

definition main_serve ::
  "main_env \<Rightarrow> main_opts \<Rightarrow> string \<Rightarrow> string \<Rightarrow> vm_context \<Rightarrow> (world, stop + unit) state" where
  "main_serve me o' rootfs disk_mount ctx =
    or_kill (main_spec o') (\<lambda>spec.
    or_kill (main_run_container me o' rootfs disk_mount spec) (\<lambda>_. do {
      ctx' \<leftarrow> vm_close ctx;
      (case e_exited me of
         Some e \<Rightarrow> State_Monad.return (Inl (Exit 1 (Wrapf ''vm exited with error'' [] e)))
       | None \<Rightarrow> do { _ \<leftarrow> vm_close ctx'; State_Monad.return (Inr ()) })
    }))"

definition main_run ::
  "main_env \<Rightarrow> main_opts \<Rightarrow> string \<Rightarrow> string \<Rightarrow> (world, stop + unit) state" where
  "main_run me o' rootfs disk_mount =
    or_fail (run_start (e_stamp me) (path_dirs (e_host me))
        (new_vm_runner_with_manager (Some ''logger'') (o_vm_manager_path o')) (o_cfg o'))
      (\<lambda>e. Exit 1 (Wrapf ''vm runner failed'' [] e)) (\<lambda>(lock, _).
    (case e_ready me of
       Some e \<Rightarrow> do {
         _ \<leftarrow> release lock (lock_file_path (o_cfg o'));
         State_Monad.return (Inl (Exit 1 (Wrapf ''vm runner failed'' [] e)))
       }
     | None \<Rightarrow>
         main_serve me o' rootfs disk_mount
           \<lparr>agent_valid = True, rpc_conn = True, agent_rwc = None, lock_file = lock,
            lock_path = lock_file_path (o_cfg o'), close_done = False\<rparr>))"

definition vm_main :: "main_env \<Rightarrow> string list \<Rightarrow> (world, stop + unit) state" where
  "vm_main me args =
    or_fail (State_Monad.return (parse_main_flags (e_now me) args)) (\<lambda>s. s) (\<lambda>o'.
    or_fail (main_setup (e_now me) o') (\<lambda>s. s) (\<lambda>(st, p).
    or_fail (State_Monad.return (main_modes p)) (\<lambda>s. s) (\<lambda>q.
    or_fail (main_container (e_host me) (e_registry me) st q) (\<lambda>s. s) (\<lambda>(r, rootfs, disk_mount).
    main_run me r rootfs disk_mount))))"

definition exit_status :: "stop + unit \<Rightarrow> int" where
  "exit_status r = (case r of Inl (Exit n _) \<Rightarrow> n | Inr _ \<Rightarrow> 0)"

end
