(* ===== verification/Agent_Container.thy ===== *)
theory Agent_Container
  imports Agent_Boot_Props Runner
begin

text \<open>
  \<open>agent/cmd/agent/container_service.go\<close>: the service that creates containers, the start of one
  (bundle, overlay root file system, \<open>runc\<close>) and its task. The servers are values: a server's
  fields are the state the handler's closure keeps. What the RPC library answers to
  \<open>AllocResults\<close> and to the setter of a result are parameters of each handler.
\<close>

section \<open>Handlers\<close>

definition and_then :: "'a go \<Rightarrow> ('a \<Rightarrow> 'b go) \<Rightarrow> 'b go" where
  "and_then r k = (case r of Inl e \<Rightarrow> Inl e | Inr x \<Rightarrow> k x)"

text \<open>
  The end of a handler: \<open>res, err := call.AllocResults(); if err != nil { return err }; return
  res.SetX(x)\<close>.
\<close>

record rpc_results =
  alloc_err :: "goerr option"
  set_err :: "goerr option"

definition answer :: "rpc_results \<Rightarrow> 'a \<Rightarrow> 'a go" where
  "answer rr x =
    (case alloc_err rr of
       Some e \<Rightarrow> Inl e
     | None \<Rightarrow> (case set_err rr of Some e \<Rightarrow> Inl e | None \<Rightarrow> Inr x))"

datatype service = ContainerServiceServer | DebugServer | NetworkServer

definition agent_container_service :: "rpc_results \<Rightarrow> service go" where
  "agent_container_service rr = answer rr ContainerServiceServer"

section \<open>Create\<close>

text \<open>\<open>^[a-zA-Z0-9][a-zA-Z0-9_.-]{0,127}$\<close>\<close>

definition id_head :: "char \<Rightarrow> bool" where
  "id_head c = (let n = (of_char c :: nat) in
     97 \<le> n \<and> n \<le> 122 \<or> 65 \<le> n \<and> n \<le> 90 \<or> 48 \<le> n \<and> n \<le> 57)"

definition id_rest :: "char \<Rightarrow> bool" where
  "id_rest c \<longleftrightarrow> id_head c \<or> c = CHR ''_'' \<or> c = CHR ''.'' \<or> c = CHR ''-''"

definition container_id_ok :: "string \<Rightarrow> bool" where
  "container_id_ok s = (case s of [] \<Rightarrow> False | c # cs \<Rightarrow> id_head c \<and> length cs \<le> 127 \<and> list_all id_rest cs)"

record container_server =
  cs_id :: string
  cs_image_ref :: string
  cs_oci_spec :: string
  cs_rootfs_path :: string
  cs_state_disk :: string

text \<open>The arguments of a call: reading one out of the message may fail.\<close>

record create_args =
  arg_id :: "string go"
  arg_image :: "string go"
  arg_oci :: "string go"
  arg_rootfs_path :: "string go"
  arg_state_disk :: "string go"

definition create :: "create_args \<Rightarrow> rpc_results \<Rightarrow> container_server go" where
  "create a rr =
    and_then (arg_id a) (\<lambda>i.
    if \<not> container_id_ok i then Inl (Errorf ''invalid container id %q'' [i])
    else and_then (arg_image a) (\<lambda>image_ref.
    if blank image_ref then Inl (Errorf ''imageRef is required'' [])
    else and_then (arg_oci a) (\<lambda>oci.
    and_then (arg_rootfs_path a) (\<lambda>rootfs.
    if blank rootfs then Inl (Errorf ''rootfsPath is required'' [])
    else and_then (arg_state_disk a) (\<lambda>disk.
    if blank disk then Inl (Errorf ''containerStateDisk is required'' [])
    else if oci = [] then Inl (Errorf ''oci spec is empty'' [])
    else answer rr \<lparr>cs_id = i, cs_image_ref = image_ref, cs_oci_spec = oci, cs_rootfs_path = rootfs,
           cs_state_disk = disk\<rparr>)))))"

section \<open>Start\<close>

definition default_runc_path :: string where
  "default_runc_path = ''/usr/bin/runc''"

definition ensure_overlay_state_mounted :: "string list \<Rightarrow> string \<Rightarrow> string sys" where
  "ensure_overlay_state_mounted os_args mount_point = do {
     device \<leftarrow> container_writable_disk_device os_args;
     mp \<leftarrow> (if blank mount_point then overlay_state_mount_point_fs os_args
            else State_Monad.return mount_point);
     or_fail (os_stat device) (Wrapf ''overlay state disk device not found: %s (%w)'' [device]) (\<lambda>_.
     or_fail (os_mkdir_all mp 493) (Wrapf ''create overlay mountpoint %s: %w'' [mp]) (\<lambda>_. do {
       r \<leftarrow> sys_mount device mp ''ext4'' [];
       State_Monad.return
         (case r of
            Inr _ \<Rightarrow> Inr mp
          | Inl e \<Rightarrow>
              if e = Errno EBUSY then Inr mp
              else Inl (Wrapf ''mount overlay state disk %s at %s: %w'' [device, mp] e))
     }))
   }"

definition overlay_opts :: "string \<Rightarrow> string \<Rightarrow> string \<Rightarrow> string" where
  "overlay_opts lower upper work =
    ''lowerdir='' @ lower @ '',upperdir='' @ upper @ '',workdir='' @ work"

definition mount_overlay_from_rootfs ::
  "string list \<Rightarrow> string \<Rightarrow> string \<Rightarrow> string \<Rightarrow> string \<Rightarrow> unit sys" where
  "mount_overlay_from_rootfs os_args cid bundle lower disk =
    or_fail (os_stat lower) (Wrapf ''lowerdir not found at %s: %w'' [lower]) (\<lambda>info.
    if \<not> is_dir info then State_Monad.return (Inl (Errorf ''lowerdir is not directory: %s'' [lower]))
    else or_fail (ensure_overlay_state_mounted os_args disk) (\<lambda>e. e) (\<lambda>state_mount.
    (let run_root = join_path [state_mount, cid];
         overlays = join_path [run_root, ''overlays''];
         upper = join_path [overlays, ''diff''];
         work = join_path [overlays, ''work''];
         merged = join_path [bundle, ''rootfs''] in
     or_fail (os_mkdir_all upper 493) (\<lambda>e. e) (\<lambda>_.
     or_fail (os_mkdir_all work 493) (\<lambda>e. e) (\<lambda>_.
     or_fail (os_mkdir_all merged 493) (\<lambda>e. e) (\<lambda>_.
     or_fail (sys_mount ''overlay'' merged ''overlay'' (overlay_opts lower upper work))
       (Wrapf ''mount overlay lower=%s upper=%s work=%s merged=%s: %w'' [lower, upper, work, merged])
       (\<lambda>_. State_Monad.return (Inr ()))))))))"

definition bind_image_rootfs :: "string list \<Rightarrow> string \<Rightarrow> string \<Rightarrow> string \<Rightarrow> string \<Rightarrow> unit sys" where
  "bind_image_rootfs os_args cid bundle rootfs disk = mount_overlay_from_rootfs os_args cid bundle rootfs disk"

text \<open>
  The task: \<open>wait_done\<close> is the state of \<open>waitOnce\<close>; \<open>cleanup_path\<close> is the mount point that the
  \<open>cleanup\<close> closure unmounts. The pipes of the command appear by whether making them failed.
\<close>

record task_server =
  wait_done :: bool
  wait_err :: "goerr option"
  exit_code_of :: "32 word"
  cleanup_path :: string

definition std_pipe :: "unit sys" where
  "std_pipe = syscall (\<lambda>w. (Inr (), w))"

definition runc_args :: "string \<Rightarrow> string \<Rightarrow> string \<Rightarrow> string list" where
  "runc_args runc_root bundle cid = [''--root'', runc_root, ''run'', ''--bundle'', bundle, cid]"

text \<open>The part of \<open>Start\<close> from the pipes to the running process and its task.\<close>

definition start_runc ::
  "string list \<Rightarrow> string \<Rightarrow> string list \<Rightarrow> string \<Rightarrow> rpc_results \<Rightarrow> task_server sys" where
  "start_runc path_dirs runc_path args bundle rr =
    or_fail std_pipe (Wrapf ''stdin pipe: %w'' []) (\<lambda>_.
    or_fail std_pipe (Wrapf ''stdout pipe: %w'' []) (\<lambda>_.
    or_fail std_pipe (Wrapf ''stderr pipe: %w'' []) (\<lambda>_.
    or_fail (start_command path_dirs (runc_path, args)) (Wrapf ''start runc: %w'' []) (\<lambda>_.
    State_Monad.return (answer rr \<lparr>wait_done = False, wait_err = None, exit_code_of = 0,
      cleanup_path = join_path [bundle, ''rootfs'']\<rparr>)))))"

definition start ::
  "string list \<Rightarrow> string list \<Rightarrow> container_server \<Rightarrow> rpc_results \<Rightarrow> task_server sys" where
  "start os_args path_dirs c rr = do {
     v \<leftarrow> virtiofs_enabled os_args;
     or_fail (if v then ensure_overlay_state_mounted os_args (cs_state_disk c)
              else State_Monad.return (Inr [])) (\<lambda>e. e) (\<lambda>_.
     (let run_root = join_path [cs_state_disk c, cs_id c];
          bundle = join_path [run_root, ''bundle''];
          runc_root = join_path [run_root, ''runc-root''] in do {
        env_path \<leftarrow> os_getenv ''AGENT_RUNC_PATH'';
        or_fail (os_mkdir_all bundle 493) (Wrapf ''create bundle dir %q: %w'' [bundle]) (\<lambda>_.
        or_fail (os_write_file (join_path [bundle, ''config.json'']) (cs_oci_spec c) 420)
          (Wrapf ''write OCI spec: %w'' []) (\<lambda>_.
        or_fail (bind_image_rootfs os_args (cs_id c) bundle (cs_rootfs_path c) (cs_state_disk c)) (\<lambda>e. e) (\<lambda>_.
        or_fail (os_mkdir_all runc_root 493) (Wrapf ''create runc root %q: %w'' [runc_root]) (\<lambda>_.
        start_runc path_dirs (if env_path = [] then default_runc_path else env_path)
          (runc_args runc_root bundle (cs_id c)) bundle rr))))
      }))
   }"

section \<open>The task\<close>

definition as_exit_error :: "goerr option \<Rightarrow> int option" where
  "as_exit_error e = (case e of Some (ExitError n) \<Rightarrow> Some n | _ \<Rightarrow> None)"

text \<open>\<open>waitFn\<close> for an outcome of \<open>cmd.Wait\<close>.\<close>

definition wait_fn :: "goerr option \<Rightarrow> 32 word \<times> goerr option" where
  "wait_fn task_err =
    (case task_err of
       None \<Rightarrow> (0, None)
     | Some e \<Rightarrow> (case as_exit_error (Some e) of
           None \<Rightarrow> (-1, Some e)
         | Some n \<Rightarrow> (word_of_int n, None)))"

definition task_exit_code ::
  "goerr option \<Rightarrow> goerr option \<Rightarrow> task_server \<Rightarrow> (world, 32 word go \<times> task_server) state" where
  "task_exit_code waited alloc t = do {
     t' \<leftarrow> (if wait_done t then State_Monad.return t
            else do {
              _ \<leftarrow> sys_unmount (cleanup_path t);
              State_Monad.return (t\<lparr>wait_done := True, exit_code_of := fst (wait_fn waited),
                wait_err := snd (wait_fn waited)\<rparr>)
            });
     State_Monad.return
       (case wait_err t' of
          Some e \<Rightarrow> Inl (Wrapf ''wait container: %w'' [] e)
        | None \<Rightarrow> (case alloc of Some e \<Rightarrow> Inl e | None \<Rightarrow> Inr (exit_code_of t')),
        t')
   }"

end
