(* ===== verification/Agent_Container_Props.thy ===== *)
theory Agent_Container_Props
  imports Agent_Container
begin

text \<open>
  What the container service guarantees: which calls create a container, that accepted
  identifiers name separate directories, what \<open>Start\<close> mounts and executes, and that the task
  waits and cleans up once.
\<close>

section \<open>Create\<close>

lemma and_then_Inr [simp]: "and_then r k = Inr y \<longleftrightarrow> (\<exists>x. r = Inr x \<and> k x = Inr y)"
  by (auto simp: and_then_def split: sum.splits)

lemma answer_Inr [simp]: "answer rr x = Inr y \<longleftrightarrow> alloc_err rr = None \<and> set_err rr = None \<and> x = y"
  by (auto simp: answer_def split: option.splits)

lemma create_iff:
  "create a rr = Inr c \<longleftrightarrow>
     arg_id a = Inr (cs_id c) \<and> arg_image a = Inr (cs_image_ref c) \<and> arg_oci a = Inr (cs_oci_spec c) \<and>
     arg_rootfs_path a = Inr (cs_rootfs_path c) \<and> arg_state_disk a = Inr (cs_state_disk c) \<and>
     container_id_ok (cs_id c) \<and> \<not> blank (cs_image_ref c) \<and> \<not> blank (cs_rootfs_path c) \<and>
     \<not> blank (cs_state_disk c) \<and> cs_oci_spec c \<noteq> [] \<and> alloc_err rr = None \<and> set_err rr = None"
proof
  assume "create a rr = Inr c"
  then show "arg_id a = Inr (cs_id c) \<and> arg_image a = Inr (cs_image_ref c) \<and> arg_oci a = Inr (cs_oci_spec c) \<and>
     arg_rootfs_path a = Inr (cs_rootfs_path c) \<and> arg_state_disk a = Inr (cs_state_disk c) \<and>
     container_id_ok (cs_id c) \<and> \<not> blank (cs_image_ref c) \<and> \<not> blank (cs_rootfs_path c) \<and>
     \<not> blank (cs_state_disk c) \<and> cs_oci_spec c \<noteq> [] \<and> alloc_err rr = None \<and> set_err rr = None"
    by (auto simp: create_def split: if_splits)
next
  assume "arg_id a = Inr (cs_id c) \<and> arg_image a = Inr (cs_image_ref c) \<and> arg_oci a = Inr (cs_oci_spec c) \<and>
     arg_rootfs_path a = Inr (cs_rootfs_path c) \<and> arg_state_disk a = Inr (cs_state_disk c) \<and>
     container_id_ok (cs_id c) \<and> \<not> blank (cs_image_ref c) \<and> \<not> blank (cs_rootfs_path c) \<and>
     \<not> blank (cs_state_disk c) \<and> cs_oci_spec c \<noteq> [] \<and> alloc_err rr = None \<and> set_err rr = None"
  then show "create a rr = Inr c"
    by (cases c) (simp add: create_def and_then_def answer_def)
qed


text \<open>
  \<open>Create\<close> makes a container exactly when every argument can be read, the identifier
  matches the pattern, the image reference, the root file system path and the state disk are
  not blank, the spec is not empty and the reply can be built; the container then keeps the
  arguments as they came.
\<close>

theorem create_accepts_iff:
  "create a rr = Inr c \<longleftrightarrow>
     arg_id a = Inr (cs_id c) \<and> arg_image a = Inr (cs_image_ref c) \<and> arg_oci a = Inr (cs_oci_spec c) \<and>
     arg_rootfs_path a = Inr (cs_rootfs_path c) \<and> arg_state_disk a = Inr (cs_state_disk c) \<and>
     container_id_ok (cs_id c) \<and> \<not> blank (cs_image_ref c) \<and> \<not> blank (cs_rootfs_path c) \<and>
     \<not> blank (cs_state_disk c) \<and> cs_oci_spec c \<noteq> [] \<and> alloc_err rr = None \<and> set_err rr = None"
  by (rule create_iff)

section \<open>Directories of containers\<close>

lemma id_chars: "container_id_ok s \<Longrightarrow> c \<in> set s \<Longrightarrow> id_rest c"
  by (cases s) (auto simp: container_id_ok_def id_rest_def list_all_iff)

lemma id_plain: "container_id_ok s \<Longrightarrow> plain s"
proof -
  assume ok: "container_id_ok s"
  then obtain c cs where s: "s = c # cs" and head: "id_head c" by (cases s) (auto simp: container_id_ok_def)
  have "\<not> id_rest slash" by (simp add: id_rest_def id_head_def)
  then have "slash \<notin> set s" using id_chars[OF ok] by blast
  moreover have "c \<noteq> CHR ''.''" using head by (auto simp: id_head_def)
  ultimately show ?thesis using s by (auto simp: plain_def good_comp_def)
qed

definition run_root :: "container_server \<Rightarrow> string" where
  "run_root c = join_path [cs_state_disk c, cs_id c]"

text \<open>
  C21. The identifier of a container cannot reach outside of the state disk or into another
  container: the directory of every container \<open>Create\<close> accepts lies under its state disk, and
  of two containers with different identifiers on one disk neither directory lies under the
  other.
\<close>

theorem container_directories_apart:
  assumes "create a rr = Inr c" and "create b qq = Inr d"
    and "cs_state_disk c = cs_state_disk d" and "cs_id c \<noteq> cs_id d"
  shows "under (cs_state_disk c) (run_root c) \<and>
    \<not> under (run_root c) (run_root d) \<and> \<not> under (run_root d) (run_root c)"
proof -
  have ok: "plain (cs_id c)" "plain (cs_id d)" "cs_state_disk c \<noteq> []"
    using assms(1,2) by (auto simp: create_iff intro: id_plain)
  have cl: "cleaned (run_root x) = cleaned (cs_state_disk x) @ [cs_id x]"
    if "x = c \<or> x = d" for x
    unfolding run_root_def by (rule cleaned_join_plain(1)) (use that ok assms(3) in auto)
  have "under (cs_state_disk c) (run_root c)"
    unfolding run_root_def by (rule under_join_plain) (use ok in auto)
  moreover have "\<not> under (run_root c) (run_root d)" "\<not> under (run_root d) (run_root c)"
    using cl[of c] cl[of d] assms(3,4) by (auto simp: under_def)
  ultimately show ?thesis by blast
qed

definition sample_args :: "string \<Rightarrow> create_args" where
  "sample_args i = \<lparr>arg_id = Inr i, arg_image = Inr ''img'', arg_oci = Inr ''{}'', arg_rootfs_path = Inr ''/img'',
     arg_state_disk = Inr ''/mnt''\<rparr>"

definition all_good :: rpc_results where
  "all_good = \<lparr>alloc_err = None, set_err = None\<rparr>"

definition sample_container :: "string \<Rightarrow> container_server" where
  "sample_container i = \<lparr>cs_id = i, cs_image_ref = ''img'', cs_oci_spec = ''{}'', cs_rootfs_path = ''/img'',
     cs_state_disk = ''/mnt''\<rparr>"

lemma sample_not_blank: "\<not> blank ''img''" "\<not> blank ''/img''" "\<not> blank ''/mnt''"
  by (rule not_blank; simp add: leading_space_def space_runes_def)+

lemma sample_created: "container_id_ok i \<Longrightarrow> create (sample_args i) all_good = Inr (sample_container i)"
  by (simp add: create_iff sample_args_def sample_container_def all_good_def sample_not_blank)

lemma sample_ids: "container_id_ok ''c1''" "container_id_ok ''c1.x''"
  by (simp_all add: container_id_ok_def id_head_def id_rest_def)

theorem container_directories_apart_witness:
  "\<not> under (run_root (sample_container ''c1'')) (run_root (sample_container ''c1.x''))"
  using container_directories_apart[OF sample_created[OF sample_ids(1)] sample_created[OF sample_ids(2)]]
  by (simp add: sample_container_def)

section \<open>The task\<close>

text \<open>
  C22. The task waits for the process and unmounts the root file system once: asking for the
  exit code again gives the same answer and has no effect, whatever waiting a second time
  would have brought.
\<close>

theorem exit_code_once:
  "run_state (do { p \<leftarrow> task_exit_code waited alloc t; task_exit_code waited' alloc (snd p) }) w =
     run_state (task_exit_code waited alloc t) w"
  by (auto simp: task_exit_code_def split: prod.splits)

lemma exit_code_answer:
  "fst (fst (run_state (task_exit_code waited None (t\<lparr>wait_done := False\<rparr>)) w)) =
    (case waited of
       None \<Rightarrow> Inr 0
     | Some e \<Rightarrow> (case e of ExitError n \<Rightarrow> Inr (word_of_int n) | _ \<Rightarrow> Inl (Wrapf ''wait container: %w'' [] e)))"
  by (auto simp: task_exit_code_def wait_fn_def as_exit_error_def split: prod.splits option.splits goerr.splits)

section \<open>What Start mounts and executes\<close>

lemma quiet_settings [quiet_intros]:
  "quiet (read_kernel_cmdline a)" "quiet (setting k d a)" "quiet (os_getenv v)" "quiet std_pipe"
  unfolding read_kernel_cmdline_def setting_def std_pipe_def
  by (intro quiet_intros | (simp add: obeys_def same_trace_def os_getenv_def; fail) | (rule quiet_syscall, simp))+

lemma quiet_agent_settings [quiet_intros]:
  "quiet (virtiofs_enabled a)" "quiet (container_writable_disk_device a)" "quiet (overlay_state_mount_point_fs a)"
  unfolding virtiofs_enabled_def container_writable_disk_device_def overlay_state_mount_point_fs_def
  by (intro quiet_intros)+

lemma sys_mount_trace:
  assumes "run_state (sys_mount src tgt ty opts) w = (r, w')"
  shows "(r = Inr () \<and> (\<exists>p. trace w' = trace w @ [EvMount src p ty opts])) \<or> (\<exists>e. r = Inl e \<and> trace w' = trace w)"
  using assms unfolding sys_mount_def
proof (cases rule: on_nodeE)
  case (some p n)
  then show ?thesis by (cases n) (auto simp: Let_def split: if_splits)
qed auto

text \<open>The events that mount the state disk.\<close>

definition disk_mounts :: "event list \<Rightarrow> bool" where
  "disk_mounts es \<longleftrightarrow> (\<forall>e \<in> set es. \<exists>d p. e = EvMount d p ''ext4'' [])"

lemma disk_mounts_append [simp]: "disk_mounts (a @ b) \<longleftrightarrow> disk_mounts a \<and> disk_mounts b"
  by (auto simp: disk_mounts_def)

lemma disk_mounts_Nil [simp]: "disk_mounts []"
  by (simp add: disk_mounts_def)

definition only_disk_mounts :: "world \<Rightarrow> world \<Rightarrow> bool" where
  "only_disk_mounts w w' \<longleftrightarrow> (\<exists>es. trace w' = trace w @ es \<and> disk_mounts es)"

abbreviation adds_disk_mounts :: "(world, 'a) state \<Rightarrow> bool" where
  "adds_disk_mounts \<equiv> obeys only_disk_mounts"

interpretation adds: state_preorder only_disk_mounts
proof
  show "only_disk_mounts w w" for w by (simp add: only_disk_mounts_def)
  show "only_disk_mounts u w" if "only_disk_mounts u v" "only_disk_mounts v w" for u v w
    using that unfolding only_disk_mounts_def by (metis append.assoc disk_mounts_append)
qed

lemma adds_quiet: "quiet m \<Longrightarrow> adds_disk_mounts m"
  by (auto simp: obeys_def same_trace_def only_disk_mounts_def disk_mounts_def)

lemma adds_mount: "adds_disk_mounts (sys_mount d mp ''ext4'' [])"
  by (auto simp: obeys_def only_disk_mounts_def disk_mounts_def dest!: sys_mount_trace)

lemma adds_ensure: "adds_disk_mounts (ensure_overlay_state_mounted os_args mp)"
  unfolding ensure_overlay_state_mounted_def
  by (intro adds.bind adds.or_fails adds_mount adds.cond) (intro adds_quiet quiet_intros)+

text \<open>\<open>yields P m\<close>: when \<open>m\<close> succeeds it has added events that satisfy \<open>P\<close>.\<close>

definition yields :: "(event list \<Rightarrow> bool) \<Rightarrow> 'a sys \<Rightarrow> bool" where
  "yields P m \<longleftrightarrow> (\<forall>w x w'. run_state m w = (Inr x, w') \<longrightarrow> (\<exists>es. trace w' = trace w @ es \<and> P es))"

definition after_disk :: "(event list \<Rightarrow> bool) \<Rightarrow> event list \<Rightarrow> bool" where
  "after_disk Q es \<longleftrightarrow> (\<exists>a b. es = a @ b \<and> disk_mounts a \<and> Q b)"

lemma yieldsD: "yields P m \<Longrightarrow> run_state m w = (Inr x, w') \<Longrightarrow> \<exists>es. trace w' = trace w @ es \<and> P es"
  unfolding yields_def by blast

lemma yields_mono: "yields P m \<Longrightarrow> (\<And>es. P es \<Longrightarrow> Q es) \<Longrightarrow> yields Q m"
  unfolding yields_def by blast

lemma yields_seq:
  assumes "yields P m" and "\<And>x. yields Q (k x)"
  shows "yields (\<lambda>es. \<exists>a b. es = a @ b \<and> P a \<and> Q b) (or_fail m wrap k)"
  unfolding yields_def
proof (intro allI impI)
  fix w y w' assume run: "run_state (or_fail m wrap k) w = (Inr y, w')"
  then obtain x u where m: "run_state m w = (Inr x, u)" and k: "run_state (k x) u = (Inr y, w')"
    by (auto split: prod.splits sum.splits)
  obtain a where "trace u = trace w @ a" "P a" using yieldsD[OF assms(1) m] by blast
  moreover obtain b where "trace w' = trace u @ b" "Q b" using yieldsD[OF assms(2) k] by blast
  ultimately show "\<exists>es. trace w' = trace w @ es \<and> (\<exists>a b. es = a @ b \<and> P a \<and> Q b)" by auto
qed

lemma yields_adds: "adds_disk_mounts m \<Longrightarrow> yields disk_mounts m"
  unfolding yields_def obeys_def only_disk_mounts_def by blast

lemma yields_after:
  assumes "adds_disk_mounts (m :: 'x sys)" and "\<And>x. yields (after_disk Q) (k x)"
  shows "yields (after_disk Q) (or_fail m wrap k)"
  by (rule yields_mono[OF yields_seq[OF yields_adds[OF assms(1)] assms(2)]])
    (auto simp: after_disk_def, metis append.assoc disk_mounts_append)

lemma yields_after_bind:
  assumes "adds_disk_mounts m" and "\<And>x. yields (after_disk Q) (f x)"
  shows "yields (after_disk Q) (State_Monad.bind m f)"
  unfolding yields_def
proof (intro allI impI)
  fix w y w' assume run: "run_state (State_Monad.bind m f) w = (Inr y, w')"
  obtain a u where m: "run_state m w = (a, u)" by (metis surj_pair)
  with run have f: "run_state (f a) u = (Inr y, w')" by simp
  obtain es where "trace u = trace w @ es" "disk_mounts es" using assms(1) m unfolding obeys_def only_disk_mounts_def by blast
  moreover obtain b c where "trace w' = trace u @ b @ c" "disk_mounts b" "Q c"
    using yieldsD[OF assms(2) f] by (auto simp: after_disk_def)
  ultimately show "\<exists>es. trace w' = trace w @ es \<and> after_disk Q es"
    unfolding after_disk_def
    by (intro exI[of _ "es @ b @ c"] conjI exI[of _ "es @ b"] exI[of _ c]) simp_all
qed

lemma yields_fail: "yields P (State_Monad.return (Inl e))"
  by (simp add: yields_def)

lemma yields_mount: "yields (\<lambda>es. \<exists>p. es = [EvMount s p ty opts]) (sys_mount s t ty opts)"
  unfolding yields_def using sys_mount_trace by fastforce

lemma yields_ok: "yields (\<lambda>es. es = []) (State_Monad.return r)"
  by (simp add: yields_def)

lemma yields_exec:
  "yields (\<lambda>es. \<exists>p. es = [EvExec p args] \<and> (slash \<in> set path \<longrightarrow> p = path)) (start_command dirs (path, args))"
  unfolding yields_def using start_command_trace by fastforce

lemmas adds_intros = adds_ensure adds.cond adds_quiet quiet_intros

lemma mount_overlay_yields:
  "yields (after_disk (\<lambda>es. \<exists>p sm. es = [EvMount ''overlay'' p ''overlay''
       (overlay_opts lower (join_path [join_path [join_path [sm, cid], ''overlays''], ''diff''])
          (join_path [join_path [join_path [sm, cid], ''overlays''], ''work'']))]))
     (mount_overlay_from_rootfs os_args cid bundle lower disk)"
proof -
  have last: "yields (after_disk (\<lambda>es. \<exists>p sm. es = [EvMount ''overlay'' p ''overlay''
       (overlay_opts lower (join_path [join_path [join_path [sm, cid], ''overlays''], ''diff''])
          (join_path [join_path [join_path [sm, cid], ''overlays''], ''work'']))]))
     (or_fail (sys_mount ''overlay'' t ''overlay''
        (overlay_opts lower (join_path [join_path [join_path [sm, cid], ''overlays''], ''diff''])
          (join_path [join_path [join_path [sm, cid], ''overlays''], ''work'']))) wrap
       (\<lambda>_. State_Monad.return (Inr ())))" for t sm wrap
    by (rule yields_mono[OF yields_seq[OF yields_mount yields_ok]]) (fastforce simp: after_disk_def disk_mounts_def)
  show ?thesis
    unfolding mount_overlay_from_rootfs_def Let_def
    apply (rule yields_after[OF adds_quiet[OF quiet_calls(1)]])
    subgoal for info
      by (cases "is_dir info")
        (auto intro!: yields_fail yields_after[OF adds_ensure] yields_after[OF adds_quiet[OF quiet_mkdir_all]] last)
    done
qed

definition bundle_of :: "container_server \<Rightarrow> string" where
  "bundle_of c = join_path [run_root c, ''bundle'']"

definition start_events :: "container_server \<Rightarrow> event list \<Rightarrow> bool" where
  "start_events c es \<longleftrightarrow> (\<exists>p sm q. es =
     [EvMount ''overlay'' p ''overlay'' (overlay_opts (cs_rootfs_path c)
        (join_path [join_path [join_path [sm, cs_id c], ''overlays''], ''diff''])
        (join_path [join_path [join_path [sm, cs_id c], ''overlays''], ''work''])),
      EvExec q (runc_args (join_path [run_root c, ''runc-root'']) (bundle_of c) (cs_id c))])"

lemma start_runc_yields: "yields (\<lambda>es. \<exists>q. es = [EvExec q args]) (start_runc dirs path args bundle rr)"
proof -
  have exec: "yields (\<lambda>es. \<exists>q. es = [EvExec q args])
     (or_fail (start_command dirs (path, args)) wrap (\<lambda>_. State_Monad.return r))" for wrap :: "goerr \<Rightarrow> goerr" and r :: "task_server go"
    by (rule yields_mono[OF yields_seq[OF yields_exec yields_ok]]) auto
  have pipe: "yields P (or_fail std_pipe wrap k)" if "\<And>x. yields P (k x)" for P wrap and k :: "unit \<Rightarrow> task_server sys"
  proof -
    have "yields (\<lambda>es. es = []) std_pipe"
      unfolding yields_def using quiet_settings(4) by (auto simp: obeys_def same_trace_def)
    from yields_seq[OF this that] show ?thesis by (rule yields_mono) simp
  qed
  show ?thesis unfolding start_runc_def by (intro pipe exec)
qed

lemma bind_image_yields:
  "yields (after_disk (\<lambda>es. \<exists>p sm. es = [EvMount ''overlay'' p ''overlay''
       (overlay_opts lower (join_path [join_path [join_path [sm, cid], ''overlays''], ''diff''])
          (join_path [join_path [join_path [sm, cid], ''overlays''], ''work'']))]))
     (bind_image_rootfs os_args cid bundle lower disk)"
  unfolding bind_image_rootfs_def by (rule mount_overlay_yields)

lemma start_yields: "yields (after_disk (start_events c)) (start os_args dirs c rr)"
proof -
  let ?runc_root = "join_path [run_root c, ''runc-root'']"
  have tail: "yields (\<lambda>es. \<exists>q. es = [EvExec q (runc_args ?runc_root (bundle_of c) (cs_id c))])
     (or_fail (os_mkdir_all ?runc_root 493) wrap (\<lambda>_.
        start_runc dirs path (runc_args ?runc_root (bundle_of c) (cs_id c)) (bundle_of c) rr))" for wrap path
  proof -
    have "yields (\<lambda>es. es = []) (os_mkdir_all ?runc_root 493)"
      unfolding yields_def using quiet_mkdir_all by (auto simp: obeys_def same_trace_def)
    from yields_seq[OF this start_runc_yields] show ?thesis by (rule yields_mono) simp
  qed
  have "yields (after_disk (start_events c))
     (or_fail (bind_image_rootfs os_args (cs_id c) (bundle_of c) (cs_rootfs_path c) (cs_state_disk c)) (\<lambda>e. e)
        (\<lambda>_. or_fail (os_mkdir_all ?runc_root 493) wrap (\<lambda>_.
        start_runc dirs path (runc_args ?runc_root (bundle_of c) (cs_id c)) (bundle_of c) rr)))" for wrap path
  proof (rule yields_mono[OF yields_seq[OF bind_image_yields tail]])
    fix es assume "\<exists>a b. es = a @ b \<and> after_disk (\<lambda>es. \<exists>p sm. es = [EvMount ''overlay'' p ''overlay''
       (overlay_opts (cs_rootfs_path c) (join_path [join_path [join_path [sm, cs_id c], ''overlays''], ''diff''])
          (join_path [join_path [join_path [sm, cs_id c], ''overlays''], ''work'']))]) a \<and>
        (\<exists>q. b = [EvExec q (runc_args ?runc_root (bundle_of c) (cs_id c))])"
    then show "after_disk (start_events c) es"
      unfolding after_disk_def start_events_def by fastforce
  qed
  note mid = this
  show ?thesis
    unfolding start_def Let_def run_root_def[symmetric] bundle_of_def[symmetric]
    by (rule mid | rule yields_after_bind yields_after | intro adds_intros)+
qed


end
