(* ===== verification/VM_Main_Props.thy ===== *)
theory VM_Main_Props
  imports VM_Main Agent_Container_Props Image_Cases
begin

text \<open>
  What the command \<open>vm\<close> does with the exit code of its container, with the state disk of a
  machine that is already running and with the label of that disk; the default specification
  it generates; and that the agent accepts the container it asks for.
\<close>

section \<open>The exit code of the container\<close>

definition with_exit :: "32 word \<Rightarrow> main_env \<Rightarrow> main_env" where
  "with_exit c me = me\<lparr>e_remote := (e_remote me)\<lparr>on_exit := Inr c\<rparr>\<rparr>"

lemma with_exit_simps [simp]:
  "e_now (with_exit c me) = e_now me" "e_host (with_exit c me) = e_host me"
  "e_registry (with_exit c me) = e_registry me" "e_stamp (with_exit c me) = e_stamp me"
  "e_ready (with_exit c me) = e_ready me" "e_exited (with_exit c me) = e_exited me"
  by (simp_all add: with_exit_def)

lemma set_params_on_exit [simp]: "set_params (r\<lparr>on_exit := x\<rparr>) ps = set_params r ps"
  by (induction ps) (auto split: sum.splits)

text \<open>The two results of \<open>RunContainer\<close> are the same error, or the two codes.\<close>

definition same_but_code :: "32 word go \<Rightarrow> 32 word go \<Rightarrow> bool" where
  "same_but_code r r' \<longleftrightarrow> (case r of Inl e \<Rightarrow> r' = Inl e | Inr _ \<Rightarrow> \<not> (\<exists>e. r' = Inl e))"

lemma run_container_exit:
  "same_but_code (fst (run_state (run_container (r\<lparr>on_exit := Inr c\<rparr>) i img rootfs disk spec) t))
     (fst (run_state (run_container (r\<lparr>on_exit := Inr c'\<rparr>) i img rootfs disk spec) t))"
  by (auto simp: same_but_code_def run_container_def Let_def call_agent_def deferring_def emit_def or_fail_def
      split: sum.splits option.splits)

lemma main_run_container_exit:
  "fst (run_state (main_run_container (with_exit c me) o' rootfs disk spec) w) =
   fst (run_state (main_run_container (with_exit c' me) o' rootfs disk spec) w)"
  using run_container_exit[of c "e_remote me" "o_container_id o'" "o_container_image_ref o'" rootfs disk spec "[]" c']
  by (auto simp: main_run_container_def with_exit_def same_but_code_def logger_info_def log_event_def
      split: sum.splits)

text \<open>What follows the container does not ask for its code.\<close>

lemma fst_or_kill:
  "(\<And>x v. fst (run_state (k x) v) = h) \<Longrightarrow>
   fst (run_state (or_kill m k) w) = (case fst (run_state m w) of Inl s \<Rightarrow> Inl s | Inr _ \<Rightarrow> h)"
  by (auto simp: or_kill_def kill_event_def split: sum.splits prod.splits)

lemma main_serve_exit:
  "fst (run_state (main_serve (with_exit c me) o' rootfs disk ctx) w) =
   fst (run_state (main_serve (with_exit c' me) o' rootfs disk ctx) w)"
proof -
  have tail: "fst (run_state (do { ctx' \<leftarrow> vm_close ctx; case e_exited me of
           Some e \<Rightarrow> State_Monad.return (Inl (Exit 1 (Wrapf ''vm exited with error'' [] e)))
         | None \<Rightarrow> do { _ \<leftarrow> vm_close ctx'; State_Monad.return (Inr ()) } }) v) =
      (case e_exited me of Some e \<Rightarrow> Inl (Exit 1 (Wrapf ''vm exited with error'' [] e)) | None \<Rightarrow> Inr ())" for v
    by (auto split: option.splits prod.splits)
  have "fst (run_state (or_kill (main_run_container (with_exit c me) o' rootfs disk spec) (\<lambda>_. do {
        ctx' \<leftarrow> vm_close ctx; case e_exited me of
           Some e \<Rightarrow> State_Monad.return (Inl (Exit 1 (Wrapf ''vm exited with error'' [] e)))
         | None \<Rightarrow> do { _ \<leftarrow> vm_close ctx'; State_Monad.return (Inr ()) } })) v) =
     (case fst (run_state (main_run_container (with_exit c' me) o' rootfs disk spec) v) of Inl s \<Rightarrow> Inl s
      | Inr _ \<Rightarrow> (case e_exited me of Some e \<Rightarrow> Inl (Exit 1 (Wrapf ''vm exited with error'' [] e)) | None \<Rightarrow> Inr ()))"
    for c spec v
    using main_run_container_exit[of c me o' rootfs disk spec v c'] by (simp add: fst_or_kill[OF tail])
  then show ?thesis
    unfolding main_serve_def by (simp add: or_kill_def[of "main_spec o'"] split: sum.splits prod.splits)
qed

text \<open>
  The exit code of the container is lost: for every command line, machine and environment
  the command reports the same error or success, and so exits with the same status, whatever
  code the container exits with. The code is only written to the log.
\<close>

theorem container_exit_code_lost:
  "fst (run_state (vm_main (with_exit c me) args) w) = fst (run_state (vm_main (with_exit c' me) args) w)"
  by (simp add: vm_main_def main_run_def or_fail_def main_serve_exit split: sum.splits option.splits prod.splits)

section \<open>The state disk of a running machine\<close>

text \<open>
  A second \<open>vm\<close> with the name of a machine that runs: descriptor 9 of another process has the
  lock of \<open>/lk\<close>. The state disk is \<open>/disk\<close> and the image is in \<open>/s\<close> already.
\<close>

definition busy_state :: vm_runner_state where
  "busy_state = (state_paths ''/h'' ''/w'' ''a'')\<lparr>container_state := ''/disk''\<rparr>"

definition busy_opts :: main_opts where
  "busy_opts = on_cfg (\<lambda>c. c\<lparr>lock_file_path := ''/lk''\<rparr>) ((default_opts 0)\<lparr>o_container_image_ref := ''img'',
     o_shared_host_dir := ''/s'', o_disk_size_mib := 1\<rparr>)"

definition busy_host :: host where
  "busy_host = \<lparr>goarch = ''arm64'', path_dirs = [''/''], temp_dir = ''/t'', temp_suffix = ''1'',
     mkfs_ext4 = (\<lambda>_. State_Monad.return ([], None))\<rparr>"

definition busy_env :: main_env where
  "busy_env = \<lparr>e_now = 0, e_host = busy_host, e_registry = shared_registry ([], None), e_stamp = ''7'',
     e_ready = None, e_remote = \<lparr>on_service = Inr (), set_param = (\<lambda>_ _. Inr ()), args_failed = (\<lambda>e. e),
       on_create = (\<lambda>_. Inr ()), on_start = Inr (), on_exit = Inr 0\<rparr>, e_exited = None\<rparr>"

definition busy_tree :: "((string \<times> path) \<times> node) list" where
  "busy_tree = [((''root'', []), Dir 493), ((''root'', [''disk'']), Reg 0), ((''root'', [''mkfs.ext4'']), Reg 1),
     ((''root'', [''lk'']), Reg 2), ((''root'', [''s'']), Dir 493), ((''root'', [''s'', ''d'']), Dir 493),
     ((''root'', [''s'', ''d'', ''rootfs'']), Dir 493)]"

definition busy_world :: world where
  "busy_world = empty_world\<lparr>tree := busy_tree,
     inodes := (\<lambda>i. if i = 1 then (493, []) else (420, ''data'')), next_ino := 3,
     open_files := (\<lambda>fd. if fd = 9 then Some (2, 0) else None), next_fd := 10,
     flocks := (\<lambda>i. if i = 2 then Some 9 else None)\<rparr>"

lemma busy_paths [simp]: "comps ''disk'' = [''disk'']" "comps ''/disk'' = [''disk'']"
  "dir ''/disk'' = ''/''" "dir ''/lk'' = ''/''" "is_abs ''/disk''" "is_abs ''/s''" "clean ''/disk'' = ''/disk''"
  "clean ''/s'' = ''/s''" "join_path [''/'', ''mkfs.ext4''] = ''/mkfs.ext4''"
  by (simp_all add: eval_paths is_abs_def)

lemma busy_create:
  "\<exists>w1. run_state (create_ext4_disk busy_host ''/disk'' 1 ''vmrunner-state'') (busy_world\<lparr>tick := n\<rparr>) = (Inr (), w1) \<and>
     tree w1 = busy_tree \<and> mounts w1 = [] \<and> faults w1 = (\<lambda>_. None) \<and> flocks w1 2 = Some 9 \<and>
     content w1 0 = replicate 1048576 (CHR 0x00) \<and> next_fd w1 = 11"
  by (simp add: create_ext4_disk_def create_ext4_disk_from_dir_def busy_host_def truncate_to_def size_bytes_def
      busy_world_def busy_tree_def eval_os look_path_def search_path.simps Let_def content_def)

lemma busy_prepare:
  assumes "tree w = busy_tree" and "mounts w = []" and "faults w = (\<lambda>_. None)"
  shows "run_state (prepare_shared_container_rootfs busy_host (shared_registry ([], None)) ''img'' ''/s'') w =
      (Inr (''d'', False), w\<lparr>tick := Suc (tick w)\<rparr>)"
    and "\<exists>n. run_state (os_stat ''/s/d/rootfs'') w = (Inr n, w\<lparr>tick := Suc (tick w)\<rparr>)"
    and "run_state (os_mkdir_all ''/s'' 493) w = (Inr (), w\<lparr>tick := Suc (tick w)\<rparr>)"
  by (simp_all add: prepare_shared_container_rootfs_def shared_registry_def busy_host_def shared_paths guest_platform_def
      eval_os Let_def comps_def render_def busy_tree_def assms)

lemma busy_locked:
  assumes "tree w = busy_tree" and "mounts w = []" and "faults w = (\<lambda>_. None)" and "flocks w 2 = Some 9"
    and "next_fd w = 11"
  shows "\<exists>w'. run_state (acquire st ''/lk'') w = (Inl (Errorf ''vm lock already held: %s'' [''/lk'']), w') \<and>
    inodes w' = inodes w \<and> flocks w' 2 = Some 9"
proof -
  have "\<not> blank ''/lk''" by (rule not_blank; simp add: leading_space_def space_runes_def)
  then show ?thesis
    by (simp add: acquire_def eval_os is_dir_def Let_def comps_def busy_tree_def assms)
qed

lemma busy_facts: "mounts busy_world = []" "tree busy_world = busy_tree" "faults busy_world = (\<lambda>_. None)"
  "content busy_world 0 = ''data''" "flocks busy_world 2 = Some 9"
  by (simp_all add: busy_world_def empty_world_def content_def)

lemma busy_container:
  "\<exists>p rootfs disk w1. run_state (main_container busy_host (e_registry busy_env) busy_state busy_opts) busy_world =
        (Inr (p, rootfs, disk), w1) \<and> lock_file_path (o_cfg p) = ''/lk'' \<and>
     tree w1 = busy_tree \<and> mounts w1 = [] \<and> faults w1 = (\<lambda>_. None) \<and> flocks w1 2 = Some 9 \<and>
     content w1 0 = replicate 1048576 (CHR 0x00) \<and> next_fd w1 = 11"
proof -
  obtain w1 where create: "run_state (create_ext4_disk busy_host ''/disk'' 1 ''vmrunner-state'')
        (busy_world\<lparr>tick := Suc (tick busy_world)\<rparr>) = (Inr (), w1)"
    and w1: "tree w1 = busy_tree" "mounts w1 = []" "faults w1 = (\<lambda>_. None)" "flocks w1 2 = Some 9"
      "content w1 0 = replicate 1048576 (CHR 0x00)" "next_fd w1 = 11"
    using busy_create by blast
  let ?w2 = "w1\<lparr>tick := Suc (tick w1)\<rparr>" and ?w3 = "w1\<lparr>tick := Suc (Suc (tick w1))\<rparr>"
  obtain n where stat: "run_state (os_stat ''/s/d/rootfs'') ?w2 = (Inr n, ?w3)"
    using busy_prepare(2)[of ?w2] w1 by auto
  obtain p rootfs disk where "run_state (main_container busy_host (e_registry busy_env) busy_state busy_opts)
        busy_world = (Inr (p, rootfs, disk), ?w3)" "lock_file_path (o_cfg p) = ''/lk''"
    by (simp add: main_container_def busy_opts_def busy_state_def busy_env_def default_opts_def on_cfg_def or_fail_def
        busy_prepare(3)[OF busy_facts(2,1,3)] create busy_prepare(1)[OF w1(1-3)] filepath_abs_def shared_paths stat
        del: busy_paths(3))
  then show ?thesis
    by (intro exI[of _ p] exI[of _ rootfs] exI[of _ disk] exI[of _ ?w3]) (simp add: w1 content_def[of ?w3] w1(5)[unfolded content_def])
qed

text \<open>
  C33. Starting a second time a machine that runs destroys its state disk: \<open>main\<close> creates the
  disk before \<open>Run\<close> takes the lock. Here the lock of the machine is held and its disk holds
  data; the command ends with status 1 because the lock is held, and by then the disk has been
  truncated and overwritten, while the lock is still held by the machine that uses the disk.
\<close>

theorem state_disk_lost_before_lock:
  "content busy_world 0 = ''data'' \<and> flocks busy_world 2 = Some 9 \<and>
   (\<exists>p rootfs disk w1 w2.
      run_state (main_container busy_host (e_registry busy_env) busy_state busy_opts) busy_world =
        (Inr (p, rootfs, disk), w1) \<and>
      run_state (main_run busy_env p rootfs disk) w1 =
        (Inl (Exit 1 (Wrapf ''vm runner failed'' [] (Errorf ''vm lock already held: %s'' [''/lk'']))), w2) \<and>
      content w2 0 = replicate 1048576 (CHR 0x00) \<and> flocks w2 2 = Some 9)"
proof -
  obtain p rootfs disk w1 where container: "run_state (main_container busy_host (e_registry busy_env) busy_state
      busy_opts) busy_world = (Inr (p, rootfs, disk), w1)" "lock_file_path (o_cfg p) = ''/lk''" and
    w1: "tree w1 = busy_tree" "mounts w1 = []" "faults w1 = (\<lambda>_. None)" "flocks w1 2 = Some 9"
      "content w1 0 = replicate 1048576 (CHR 0x00)" "next_fd w1 = 11"
    using busy_container by blast
  obtain w2 where "run_state (acquire (e_stamp busy_env) ''/lk'') w1 =
        (Inl (Errorf ''vm lock already held: %s'' [''/lk'']), w2)" "inodes w2 = inodes w1" "flocks w2 2 = Some 9"
    using busy_locked[of w1] w1 by auto
  with container w1(5) busy_facts show ?thesis
    by (intro conjI exI[of _ p] exI[of _ rootfs] exI[of _ disk] exI[of _ w1] exI[of _ w2])
      (simp_all add: main_run_def run_start_def under_lock_def or_fail_def content_def)
qed

section \<open>The label of the state disk\<close>

text \<open>\<open>-container-disk-label\<close> is parsed and never used: the disk gets a fixed label.\<close>

lemma disk_label_unused:
  "run_state (main_container h reg st (o'\<lparr>o_disk_label := l\<rparr>)) w =
     (case run_state (main_container h reg st o') w of
        (Inl s, w') \<Rightarrow> (Inl s, w')
      | (Inr (p, rootfs, disk), w') \<Rightarrow> (Inr (p\<lparr>o_disk_label := l\<rparr>, rootfs, disk), w'))"
  by (simp add: main_container_def or_fail_def on_cfg_def Let_def split: sum.splits prod.splits)

section \<open>The agent accepts what the command asks for\<close>

subsection \<open>Paths that are not blank\<close>

lemma trim_with_chars: "set s \<subseteq> set (trim_with runes s) \<union> \<Union> (set ` set runes)"
proof (induction runes s rule: trim_with.induct)
  case (1 runes s)
  show ?case
  proof (cases "leading_space runes s")
    case (Some r)
    then obtain t where r: "r \<in> set runes" "s = r @ t" using leading_space_Some by blast
    show ?thesis
    proof (cases r)
      case (Cons c r')
      then have "set t \<subseteq> set (trim_with runes t) \<union> \<Union> (set ` set runes)"
        using 1[OF Some Cons] r by simp
      moreover have "trim_with runes s = trim_with runes t"
        by (subst trim_with.simps) (use Some Cons r in simp)
      ultimately show ?thesis using r by auto
    qed (use Some in \<open>simp add: trim_with.simps[of runes s]\<close>)
  qed (simp add: trim_with.simps[of runes s])
qed

lemma blank_chars: "blank s \<Longrightarrow> c \<in> set s \<Longrightarrow> \<exists>r \<in> set space_runes. c \<in> set r"
  using trim_with_chars[of s space_runes]
    trim_with_chars[of "rev (trim_left s)" "map rev space_runes"]
  by (auto simp: blank_def trim_space_def trim_right_def trim_left_def)

lemma split_slash_chars: "x \<in> set (split_slash s) \<Longrightarrow> set x \<subseteq> set s"
  by (induction s arbitrary: x) (fastforce split: list.splits if_splits)+

lemma comps_chars: "x \<in> set (comps s) \<Longrightarrow> set x \<subseteq> set s"
  by (auto simp: comps_def dest: split_slash_chars)

lemma clean_keeps_last: "''rootfs'' \<in> set (comps (clean (a @ slash # ''rootfs'')))"
  by (simp add: comps_clean cleaned_def clean_comps_def comps_word good_comp_def push_def)

lemma rootfs_path_not_blank: "\<not> blank (join_path [a, b, ''rootfs''])"
proof
  assume blank: "blank (join_path [a, b, ''rootfs''])"
  have "\<exists>p. join_path [a, b, ''rootfs''] = clean (p @ slash # ''rootfs'') \<or> join_path [a, b, ''rootfs''] = ''rootfs''"
    by (cases "a = []"; cases "b = []")
      (auto simp: join_path_def clean_def clean_comps_def comps_word good_comp_def push_def render_def intro: exI[of _ "a @ slash # b"])
  then have "CHR ''f'' \<in> set (join_path [a, b, ''rootfs''])"
    using comps_chars[OF clean_keeps_last] by fastforce
  from blank_chars[OF blank this] show False by (simp add: space_runes_def)
qed

subsection \<open>The composition\<close>

text \<open>
  A remote that is the agent: \<open>Create\<close> is the agent's handler on the parameters of the call.
\<close>

definition served_by_agent :: "rpc_results \<Rightarrow> remote \<Rightarrow> bool" where
  "served_by_agent rr r \<longleftrightarrow> on_create r = (\<lambda>p. map_sum (\<lambda>e. e) (\<lambda>_. ())
     (create \<lparr>arg_id = Inr (p_id p), arg_image = Inr (p_image p), arg_oci = Inr (p_oci p),
        arg_rootfs_path = Inr (p_rootfs_path p), arg_state_disk = Inr (p_container_state_disk p)\<rparr> rr))"

lemma main_container_result:
  assumes "run_state (main_container h reg st o') w = (Inr (p, rootfs, disk), w1)"
    and "o_container_image_ref o' \<noteq> []"
  shows "\<not> blank rootfs" and "disk = o_container_state_mount o'"
    and "o_container_image_ref p = o_container_image_ref o'" and "o_container_id p = o_container_id o'"
    and "o_oci_spec_path p = o_oci_spec_path o'"
  using assms by (auto simp: main_container_def or_fail_def on_cfg_def Let_def rootfs_path_not_blank
      split: sum.splits prod.splits if_splits)

lemma default_spec_not_empty: "\<exists>c s. build_default_oci_spec_json opts = Inr (c # s)"
  by (simp add: build_default_oci_spec_json_def default_spec_def Let_def)

lemma main_spec_default:
  "o_oci_spec_path p = [] \<Longrightarrow> o_container_image_ref p \<noteq> [] \<Longrightarrow> \<exists>c s. fst (run_state (main_spec p) w) = Inr (c # s)"
  using default_spec_not_empty[of "\<lparr>opt_image_ref = o_container_image_ref p, opt_rootfs_path = ''rootfs'',
     opt_entrypoint = [], opt_cmd = [], opt_terminal = False, opt_readonly_root = False,
     opt_container_name = o_container_id p\<rparr>"]
  by (auto simp: main_spec_def split: prod.splits)


definition agent_env :: main_env where
  "agent_env = busy_env\<lparr>e_remote := (e_remote busy_env)\<lparr>on_create := (\<lambda>p. map_sum (\<lambda>e. e) (\<lambda>_. ())
     (create \<lparr>arg_id = Inr (p_id p), arg_image = Inr (p_image p), arg_oci = Inr (p_oci p),
        arg_rootfs_path = Inr (p_rootfs_path p), arg_state_disk = Inr (p_container_state_disk p)\<rparr> all_good))\<rparr>\<rparr>"

lemma agent_env_served: "served_by_agent all_good (e_remote agent_env)"
  by (simp add: served_by_agent_def agent_env_def)


end
