(* ===== verification/Runner_Exit.thy ===== *)
theory Runner_Exit
  imports Runner_Props
begin

text \<open>
  The end of a running machine: when the manager has exited, the goroutines of \<open>Run\<close> close the
  context and report the exit, under every schedule, provided the caller empties
  \<open>ProxyConnCh\<close>. When nobody does, the exit may never be reported, and a \<open>Run\<close> with more than
  64 early connections never returns. Termination is by a measure that every step decreases.
\<close>

section \<open>What is left of the exit\<close>

text \<open>The steps that are left once the manager is dead: no new connection, no signal.\<close>

definition draining :: "action \<Rightarrow> bool" where
  "draining a \<longleftrightarrow> a \<in> {AcceptReturns (AcceptError ErrClosed), HandOver, AcceptorExit, Reap, ForwardNext,
     CloserNext, UserTake}"

fun acceptor_rank :: "acceptor_pc \<Rightarrow> nat" where
  "acceptor_rank Accepting = 3"
| "acceptor_rank (Handing c) = 7"
| "acceptor_rank ClosingDone = 2"
| "acceptor_rank ClosingCh = 1"
| "acceptor_rank Gone = 0"

fun forwarder_rank :: "forwarder_pc \<Rightarrow> nat" where
  "forwarder_rank (FwdSend c) = 3"
| "forwarder_rank FwdDone = 0"
| "forwarder_rank _ = 1"

fun proc_rank :: "proc \<Rightarrow> nat" where
  "proc_rank Reaped = 0"
| "proc_rank _ = 1"

definition left_to_do :: "runner \<Rightarrow> nat" where
  "left_to_do s =
     acceptor_rank (acceptor s) + 3 * length (accept_ch s) + forwarder_rank (forwarder s) + length (proxy_ch s) +
     proc_rank (manager s) +
     (case closer s of None \<Rightarrow> 0 | Some cs \<Rightarrow> length cs)"

lemma draining_decreases:
  assumes "step port a s = Some t" and "draining a" and "main s = Running"
  shows "left_to_do t < left_to_do s \<and> main t = Running"
proof -
  from assms(2) consider "a = AcceptReturns (AcceptError ErrClosed)" | "a = HandOver" | "a = AcceptorExit" | "a = Reap"
    | "a = ForwardNext" | "a = CloserNext" | "a = UserTake"
    by (auto simp: draining_def)
  then show ?thesis
  proof cases
    case 1
    with assms(1,3) show ?thesis
      by (auto simp: step_def can_accept_def accept_returns_def left_to_do_def split: if_splits)
  next
    case 2
    with assms(1,3) show ?thesis
      by (auto simp: step_def hand_over_def left_to_do_def split: if_splits acceptor_pc.splits)
  next
    case 3
    with assms(1,3) show ?thesis
      by (auto simp: step_def acceptor_exit_def left_to_do_def split: acceptor_pc.splits)
  next
    case 4
    with assms(1,3) show ?thesis by (auto simp: step_def left_to_do_def split: proc.splits)
  next
    case 5
    with assms(1,3) show ?thesis
      by (auto simp: step_def forward_next_def left_to_do_def split: if_splits list.splits forwarder_pc.splits)
  next
    case 6
    with assms(1) obtain c cs u where u: "closer s = Some (c # cs)" "exec_stmt c s = Some u" "t = u\<lparr>closer := Some cs\<rparr>"
      by (auto simp: step_def closer_next_def split: option.splits list.splits)
    have "proc_rank (manager u) = proc_rank (manager s)"
      using u(2) by (cases rule: exec_stmtE) simp_all
    with u exec_stmt_frame[OF u(2)] assms(3) show ?thesis by (simp add: left_to_do_def)
  next
    case 7
    with assms(1,3) show ?thesis by (auto simp: step_def user_take_def left_to_do_def split: list.splits)
  qed
qed

lemma draining_ends:
  "list_all draining as \<Longrightarrow> run port as s = Some t \<Longrightarrow> main s = Running \<Longrightarrow>
   length as + left_to_do t \<le> left_to_do s \<and> main t = Running"
proof (induction as arbitrary: s)
  case (Cons a as)
  then obtain u where u: "step port a s = Some u" "run port as u = Some t" by (auto split: option.splits)
  from draining_decreases[OF u(1)] Cons.prems have "left_to_do u < left_to_do s" "main u = Running" by simp_all
  with Cons.IH[OF _ u(2)] Cons.prems show ?case by simp
qed simp

section \<open>The goroutine that closes the context\<close>

text \<open>How far the exit with error \<open>e\<close> has got: what each statement has done is still so.\<close>

definition exiting :: "goerr option \<Rightarrow> runner \<Rightarrow> bool" where
  "exiting e s \<longleftrightarrow>
     main s = Running \<and>
     (\<exists>cs. closer s = Some cs \<and> suffix cs closer_stmts \<and>
       (if AwaitProc \<in> set cs then manager s = Dead e \<and> wait_ch s = None \<or> manager s = Reaped \<and> wait_ch s = Some e
        else manager s = Reaped \<and> exit_err s = e) \<and>
       (CloseListener \<notin> set cs \<longrightarrow> \<not> listener_open s \<and> \<not> socket_file s) \<and>
       (AwaitAcceptDone \<notin> set cs \<longrightarrow> accept_done s) \<and>
       (CloseContext \<notin> set cs \<longrightarrow> ctx_closed s) \<and>
       (SendWait \<notin> set cs \<longrightarrow> wait_result s = Some e))"

lemma closer_suffix:
  "suffix (c # cs) closer_stmts \<longleftrightarrow>
     c = AwaitProc \<and> cs = tl closer_stmts \<or> c = CloseListener \<and> cs = drop 2 closer_stmts \<or>
     c = AwaitAcceptDone \<and> cs = drop 3 closer_stmts \<or> c = RemoveSocket \<and> cs = drop 4 closer_stmts \<or>
     c = CloseContext \<and> cs = drop 5 closer_stmts \<or> c = SendWait \<and> cs = []"
  by (auto simp: closer_stmts_def suffix_Cons)

lemma exiting_statement:
  assumes "exiting e s" and "closer s = Some (c # cs)" and "exec_stmt c s = Some u"
  shows "exiting e (u\<lparr>closer := Some cs\<rparr>)"
proof -
  have suf: "suffix (c # cs) closer_stmts" using assms(1,2) by (simp add: exiting_def)
  then have suf': "suffix cs closer_stmts" by (rule suffix_ConsD)
  from assms(3) show ?thesis
    by (cases rule: exec_stmtE)
      (use assms(1,2) suf[unfolded closer_suffix] suf' in
        \<open>auto simp: exiting_def closer_stmts_def numeral_eq_Suc close_context_def\<close>)
qed

lemma exiting_cong:
  assumes "exiting e s" and "main t = main s" and "closer t = closer s" and "manager t = manager s"
    and "wait_ch t = wait_ch s" and "exit_err t = exit_err s" and "wait_result t = wait_result s"
    and "listener_open t = listener_open s" and "socket_file t = socket_file s"
    and "accept_done s \<longrightarrow> accept_done t" and "ctx_closed s \<longrightarrow> ctx_closed t"
  shows "exiting e t"
  using assms(1,10,11) unfolding exiting_def assms(2-9) by blast

lemma exiting_step:
  assumes "step port a s = Some t" and "exiting e s"
  shows "exiting e t"
  using assms(1)
proof (cases rule: stepE)
  case (closing c cs u)
  with exiting_statement[OF assms(2) closing(1,2)] show ?thesis by simp
next
  case (exits x)
  with assms(2) show ?thesis by (auto simp: exiting_def split: if_splits)
next
  case (reaped x)
  with assms(2) show ?thesis by (auto simp: exiting_def split: if_splits)
next
  case (cleanup c cs e u)
  with assms(2) show ?thesis by (simp add: exiting_def)
next
  case (booted valid)
  with assms(2) show ?thesis by (simp add: exiting_def)
next
  case user_close
  then show ?thesis by (intro exiting_cong[OF assms(2)]) (simp_all add: close_context_def)
next
  case (gave_up x)
  then show ?thesis by (intro exiting_cong[OF assms(2)]) (simp_all add: give_up_def)
next
  case closed
  then show ?thesis by (intro exiting_cong[OF assms(2)]) simp_all
next
  case (got c)
  then show ?thesis by (intro exiting_cong[OF assms(2)]) simp_all
next
  case (handed c)
  then show ?thesis by (intro exiting_cong[OF assms(2)]) simp_all
next
  case done1
  then show ?thesis by (intro exiting_cong[OF assms(2)]) simp_all
next
  case done2
  then show ?thesis by (intro exiting_cong[OF assms(2)]) simp_all
next
  case (fwd_recv c cs)
  then show ?thesis by (intro exiting_cong[OF assms(2)]) simp_all
next
  case fwd_done
  then show ?thesis by (intro exiting_cong[OF assms(2)]) simp_all
next
  case (fwd_send c)
  then show ?thesis by (intro exiting_cong[OF assms(2)]) simp_all
next
  case (took c cs)
  then show ?thesis by (intro exiting_cong[OF assms(2)]) simp_all
qed (use assms(2) in \<open>simp_all add: exiting_def\<close>)

lemma exiting_run: "run port as s = Some t \<Longrightarrow> exiting e s \<Longrightarrow> exiting e t"
  by (induction as arbitrary: s) (auto split: option.splits dest: exiting_step)

text \<open>A dead manager that has not been collected: the closing goroutine still waits for it.\<close>

definition closer_inv :: "runner \<Rightarrow> bool" where
  "closer_inv s \<longleftrightarrow> (main s = Running \<longrightarrow> (\<exists>cs. closer s = Some cs \<and> suffix cs closer_stmts \<and>
     (manager s \<noteq> Reaped \<longrightarrow> cs = closer_stmts)))"

lemma closer_inv_step:
  assumes "step port a s = Some t" and "closer_inv s" and "cleanup_inv s"
  shows "closer_inv t"
  using assms(1)
proof (cases rule: stepE)
  case (closing c cs u)
  show ?thesis
    unfolding closer_inv_def
  proof
    assume "main t = Running"
    then have "main s = Running" using closing exec_stmt_frame[OF closing(2)] by simp
    with assms(2) closing(1) have suf: "suffix (c # cs) closer_stmts" and
        full: "manager s \<noteq> Reaped \<longrightarrow> c # cs = closer_stmts" by (simp_all add: closer_inv_def)
    have "manager u = Reaped"
    proof (cases "manager s = Reaped")
      case True
      show ?thesis using closing(2) by (cases rule: exec_stmtE) (use True in \<open>simp_all add: close_context_def\<close>)
    next
      case False
      with full have "c = AwaitProc" by (simp add: closer_stmts_def)
      with closing(2) False assms(3) show ?thesis by (auto simp: exec_stmt_def cleanup_inv_def split: option.splits)
    qed
    with closing(3) suffix_ConsD[OF suf] show "\<exists>cs. closer t = Some cs \<and> suffix cs closer_stmts \<and>
        (manager t \<noteq> Reaped \<longrightarrow> cs = closer_stmts)" by simp
  qed
next
  case (cleanup c cs e u)
  with exec_stmt_frame[OF cleanup(2)] show ?thesis by (simp add: closer_inv_def)
qed (use assms(2) in \<open>auto simp: closer_inv_def give_up_def return_error_def bootstrap_def close_context_def\<close>)

lemma reachable_closer: "reachable port s \<Longrightarrow> closer_inv s"
proof (induction rule: reachable.induct)
  case start
  show ?case by (simp add: closer_inv_def started_def)
next
  case (next_step s a t)
  then have "cleanup_inv s" using reachable_inv by (simp add: runner_inv_def)
  with next_step show ?case using closer_inv_step by blast
qed

lemma dead_exiting:
  assumes "reachable port s" and "main s = Running" and "manager s = Dead e"
  shows "exiting e s"
proof -
  have "cleanup_inv s" using reachable_inv[OF assms(1)] by (simp add: runner_inv_def)
  with assms(3) have "wait_ch s = None" by (auto simp: cleanup_inv_def)
  moreover have "closer s = Some closer_stmts"
    using reachable_closer[OF assms(1)] assms(2,3) by (simp add: closer_inv_def)
  ultimately show ?thesis using assms(2,3) by (simp add: exiting_def closer_stmts_def)
qed

text \<open>The forwarder ends only when the accepting goroutine has.\<close>

definition forwarder_inv :: "runner \<Rightarrow> bool" where
  "forwarder_inv s \<longleftrightarrow> (forwarder s = FwdDone \<longrightarrow> accept_ch_closed s)"

lemma forwarder_inv_step:
  assumes "step port a s = Some t" and "forwarder_inv s"
  shows "forwarder_inv t"
  using assms(1)
proof (cases rule: stepE)
  case (cleanup c cs e u)
  with assms(2) exec_stmt_frame[OF cleanup(2)] show ?thesis by (simp add: forwarder_inv_def)
next
  case (closing c cs u)
  with assms(2) exec_stmt_frame[OF closing(2)] show ?thesis by (simp add: forwarder_inv_def)
qed (use assms(2) in \<open>auto simp: forwarder_inv_def give_up_def return_error_def bootstrap_def\<close>)

lemma reachable_forwarder: "reachable port s \<Longrightarrow> forwarder_inv s"
proof (induction rule: reachable.induct)
  case start
  show ?case by (simp add: forwarder_inv_def started_def)
next
  case (next_step s a t)
  then show ?case using forwarder_inv_step by blast
qed

section \<open>It never stops half way\<close>

definition can_drain :: "32 word \<Rightarrow> runner \<Rightarrow> bool" where
  "can_drain port s \<longleftrightarrow> (\<exists>a t. draining a \<and> step port a s = Some t)"

lemma can_drainI: "draining a \<Longrightarrow> step port a s = Some t \<Longrightarrow> can_drain port s"
  by (auto simp: can_drain_def)

text \<open>A connection that waits for room is let through by the forwarder and the caller.\<close>

lemma full_channel_drains:
  assumes "main s = Running" and "main_inv s" and "acceptor_inv s" and "forwarder_inv s" and "acceptor s = Handing c"
  shows "can_drain port s"
proof (cases "length (accept_ch s) < accept_cap")
  case True
  with assms(5) show ?thesis
    by (intro can_drainI[of HandOver]) (simp_all add: draining_def step_def hand_over_def)
next
  case False
  then obtain d ds where queue: "accept_ch s = d # ds" by (cases "accept_ch s") (auto simp: accept_cap_def)
  have open_ch: "\<not> accept_ch_closed s" using assms(3,5) by (simp add: acceptor_inv_def)
  show ?thesis
  proof (cases "forwarder s")
    case FwdRecv
    with queue show ?thesis by (intro can_drainI[of ForwardNext]) (simp_all add: draining_def step_def forward_next_def)
  next
    case (FwdSend f)
    show ?thesis
    proof (cases "proxy_ch s")
      case Nil
      with FwdSend show ?thesis
        by (intro can_drainI[of ForwardNext]) (simp_all add: draining_def step_def forward_next_def proxy_cap_def)
    next
      case (Cons x xs)
      with assms(1) show ?thesis
        by (intro can_drainI[of UserTake]) (simp_all add: draining_def step_def user_take_def)
    qed
  next
    case FwdIdle
    with assms(1,2) show ?thesis by (simp add: main_inv_def)
  next
    case FwdDone
    with assms(4) open_ch show ?thesis by (simp add: forwarder_inv_def)
  qed
qed

lemma exiting_drains:
  assumes inv: "runner_inv port s" and fwd: "forwarder_inv s" and exit: "exiting e s"
    and left: "closer s = Some (c # cs)"
  shows "can_drain port s"
proof (cases "\<exists>u. exec_stmt c s = Some u")
  case True
  with left show ?thesis by (auto intro!: can_drainI[of CloserNext] simp: draining_def step_def closer_next_def)
next
  case False
  have run: "main s = Running" and suf: "suffix (c # cs) closer_stmts" using exit left by (simp_all add: exiting_def)
  have acc: "acceptor_inv s" and main: "main_inv s" using inv by (simp_all add: runner_inv_def)
  from False consider (proc) "c = AwaitProc" "wait_ch s = None" | (acceptor) "c = AwaitAcceptDone" "\<not> accept_done s"
    by (cases c) (auto simp: exec_stmt_def split: option.splits if_splits)
  then show ?thesis
  proof cases
    case proc
    then have "manager s = Dead e" using exit left by (simp add: exiting_def)
    then show ?thesis by (intro can_drainI[of Reap]) (simp_all add: draining_def step_def)
  next
    case acceptor
    then have "CloseListener \<notin> set (c # cs)" using suf by (auto simp: suffix_Cons closer_stmts_def)
    then have closed: "\<not> listener_open s" using exit left by (simp add: exiting_def)
    show ?thesis
    proof (cases "acceptor s")
      case Accepting
      with closed show ?thesis
        by (intro can_drainI[of "AcceptReturns (AcceptError ErrClosed)"]) (simp_all add: draining_def step_def can_accept_def)
    next
      case (Handing d)
      with run main acc fwd show ?thesis by (rule full_channel_drains)
    next
      case ClosingDone
      then show ?thesis by (intro can_drainI[of AcceptorExit]) (simp_all add: draining_def step_def acceptor_exit_def)
    qed (use acc acceptor(2) in \<open>simp_all add: acceptor_inv_def\<close>)
  qed
qed

lemma reported:
  "exiting e s \<Longrightarrow> closer s = Some [] \<Longrightarrow> wait_result s = Some e \<and> ctx_closed s \<and> manager s = Reaped \<and>
     \<not> listener_open s \<and> \<not> socket_file s \<and> accept_done s"
  by (simp add: exiting_def)

text \<open>
  C37. The exit of the manager is reported: from any point at which it is dead while the context
  is in use, every schedule of the goroutines and of a caller that empties \<open>ProxyConnCh\<close> ends
  after a bounded number of steps, and where it ends the caller has the exit status in
  \<open>WaitCh\<close>, the context is closed, the lock is released, and process, listener and socket are gone.
\<close>

theorem exit_is_reported:
  assumes "reachable port s" and "main s = Running" and "manager s = Dead e"
    and "list_all draining as" and "run port as s = Some t"
  shows "length as \<le> left_to_do s \<and>
    ((\<forall>a. draining a \<longrightarrow> step port a t = None) \<longrightarrow>
       wait_result t = Some e \<and> ctx_closed t \<and> \<not> lock_held t \<and> manager t = Reaped \<and>
       \<not> listener_open t \<and> \<not> socket_file t)"
proof -
  have "length as \<le> left_to_do s" using draining_ends[OF assms(4,5,2)] by simp
  moreover have "wait_result t = Some e \<and> ctx_closed t \<and> \<not> lock_held t \<and> manager t = Reaped \<and>
       \<not> listener_open t \<and> \<not> socket_file t" if stop: "\<forall>a. draining a \<longrightarrow> step port a t = None"
  proof -
    have t: "reachable port t" using assms(1,5) run_reachable by blast
    have exit: "exiting e t" using exiting_run[OF assms(5) dead_exiting[OF assms(1-3)]] .
    then obtain cs where cs: "closer t = Some cs" by (auto simp: exiting_def)
    have "cs = []"
      using exiting_drains[OF reachable_inv[OF t] reachable_forwarder[OF t] exit] stop cs
      by (cases cs) (auto simp: can_drain_def)
    moreover have "ctx_closed t \<longrightarrow> \<not> lock_held t" using reachable_inv[OF t] by (simp add: runner_inv_def main_inv_def)
    ultimately show ?thesis using reported[OF exit] cs by blast
  qed
  ultimately show ?thesis by blast
qed

section \<open>A concrete exit\<close>

definition dying :: runner where
  "dying = the (run 7000 [AcceptReturns (Received 6 7000 None), HandOver, TakeAccept, TakeReady, Bootstrap True,
     MainNext, ManagerExits None] started)"

definition last_steps :: "action list" where
  "last_steps = [Reap, CloserNext, CloserNext, AcceptReturns (AcceptError ErrClosed), AcceptorExit, AcceptorExit,
     CloserNext, CloserNext, CloserNext, CloserNext, ForwardNext]"

definition ended :: runner where
  "ended = the (run 7000 last_steps dying)"

lemma dying_run: "reachable 7000 dying" "main dying = Running" "manager dying = Dead None"
  and ended_run: "run 7000 last_steps dying = Some ended" "draining a \<Longrightarrow> step 7000 a ended = None"
    "main ended = Running"
proof -
  obtain s where run: "run 7000 [AcceptReturns (Received 6 7000 None), HandOver, TakeAccept, TakeReady, Bootstrap True,
     MainNext, ManagerExits None] started = Some s" and s: "main s = Running" "manager s = Dead None"
     and next_steps: "\<exists>t. run 7000 last_steps s = Some t \<and> main t = Running \<and> (\<forall>a. draining a \<longrightarrow> step 7000 a t = None)"
    by (simp add: step_defs started_def accept_cap_def Let_def last_steps_def closer_stmts_def draining_def)
  then have "dying = s" by (simp add: dying_def)
  with s run_reachable[OF run reachable.start] show "reachable 7000 dying" "main dying = Running"
    "manager dying = Dead None" by simp_all
  from next_steps obtain t where "run 7000 last_steps s = Some t" "main t = Running"
    "\<forall>a. draining a \<longrightarrow> step 7000 a t = None" by blast
  with \<open>dying = s\<close> show "run 7000 last_steps dying = Some ended" "draining a \<Longrightarrow> step 7000 a ended = None"
    "main ended = Running" by (simp_all add: ended_def)
qed

theorem exit_is_reported_witness: "wait_result ended = Some None \<and> \<not> lock_held ended"
  using exit_is_reported[OF dying_run _ ended_run(1)] ended_run(2)
  by (simp add: last_steps_def draining_def)

section \<open>When nobody reads ProxyConnCh\<close>

definition clogged :: "runner \<Rightarrow> bool" where
  "clogged s \<longleftrightarrow> main s = Running \<and> (\<exists>c. acceptor s = Handing c) \<and> accept_cap \<le> length (accept_ch s) \<and>
     (\<exists>c. forwarder s = FwdSend c) \<and> proxy_cap \<le> length (proxy_ch s) \<and> \<not> accept_done s \<and>
     \<not> ctx_closed s \<and> lock_held s \<and> wait_result s = None \<and>
     (\<exists>cs. closer s = Some cs \<and> suffix cs closer_stmts \<and> AwaitAcceptDone \<in> set cs)"

lemma clogged_step:
  assumes "step port a s = Some t" and "clogged s" and "a \<noteq> UserTake" and "a \<noteq> UserClose"
  shows "clogged t"
proof (cases "a = CloserNext")
  case True
  with assms(1) obtain c cs u where u: "closer s = Some (c # cs)" "exec_stmt c s = Some u" "t = u\<lparr>closer := Some cs\<rparr>"
    by (auto simp: step_def closer_next_def split: option.splits list.splits)
  with assms(2) have suf: "suffix (c # cs) closer_stmts" and wait: "AwaitAcceptDone \<in> set (c # cs)"
    by (auto simp: clogged_def)
  have "c \<noteq> AwaitAcceptDone" using u(2) assms(2) by (auto simp: clogged_def exec_stmt_def)
  with wait suf have c: "c = AwaitProc \<or> c = CloseListener"
    by (auto simp: suffix_Cons closer_stmts_def)
  have "AwaitAcceptDone \<in> set cs" using wait \<open>c \<noteq> AwaitAcceptDone\<close> by simp
  with u(2,3) c assms(2) suffix_ConsD[OF suf] show ?thesis
    by (auto simp: clogged_def exec_stmt_def split: option.splits)
next
  case False
  with assms show ?thesis
    by (cases a) (auto simp: clogged_def step_def can_accept_def hand_over_def acceptor_exit_def main_next_def
        forward_next_def split: if_splits proc.splits)
qed

lemma clogged_run:
  "run port as s = Some t \<Longrightarrow> UserTake \<notin> set as \<Longrightarrow> UserClose \<notin> set as \<Longrightarrow> clogged s \<Longrightarrow> clogged t"
proof (induction as arbitrary: s)
  case (Cons a as)
  then obtain u where "step port a s = Some u" "run port as u = Some t" by (auto split: option.splits)
  with Cons clogged_step[of port a s u] show ?case by auto
qed simp

text \<open>One connection after the other goes through to the channel of the caller.\<close>

definition pass_one :: "32 word \<Rightarrow> action list" where
  "pass_one q = [AcceptReturns (Received 5 q None), HandOver, ForwardNext, ForwardNext]"

lemma fill_proxy:
  "acceptor s = Accepting \<Longrightarrow> listener_open s \<Longrightarrow> accept_ch s = [] \<Longrightarrow> forwarder s = FwdRecv \<Longrightarrow>
   length (proxy_ch s) + n \<le> proxy_cap \<Longrightarrow>
   run port (concat (replicate n (pass_one q))) s =
     Some (s\<lparr>proxy_ch := proxy_ch s @ replicate n (some_conn q),
             accepted := accepted s @ replicate n (some_conn q)\<rparr>)"
proof (induction n arbitrary: s)
  case (Suc n)
  let ?s = "s\<lparr>proxy_ch := proxy_ch s @ [some_conn q], accepted := accepted s @ [some_conn q]\<rparr>"
  have "run port (pass_one q) s = Some ?s"
    using Suc.prems
    by (simp add: pass_one_def step_def can_accept_def accept_returns_def hand_over_def forward_next_def some_conn_def
        accept_cap_def Let_def)
  moreover have "run port (concat (replicate n (pass_one q))) ?s =
     Some (?s\<lparr>proxy_ch := proxy_ch ?s @ replicate n (some_conn q),
             accepted := accepted ?s @ replicate n (some_conn q)\<rparr>)"
    by (rule Suc.IH) (use Suc.prems in simp_all)
  ultimately show ?case
    unfolding replicate_Suc concat.simps run_append by (simp del: run.simps)
qed simp

text \<open>
  When nobody reads \<open>ProxyConnCh\<close>, as the command \<open>vm\<close> does, the exit is never reported once 98
  connections beside the agent's have been accepted: the closing goroutine waits for the accepting
  one, which waits for room. Whatever happens without the caller, \<open>WaitCh\<close> stays empty and the
  lock is kept, although the manager is dead.
\<close>

theorem exit_can_go_unreported:
  "\<exists>s. reachable port s \<and> main s = Running \<and> manager s = Dead None \<and> length (accepted s) = 99 \<and>
     (\<forall>as t. UserTake \<notin> set as \<longrightarrow> UserClose \<notin> set as \<longrightarrow> run port as s = Some t \<longrightarrow>
        wait_result t = None \<and> lock_held t)"
proof -
  let ?agent = "\<lparr>conn_port = port, conn_file = 6\<rparr>" and ?q = "0 :: 32 word"
  let ?start = "[AcceptReturns (Received 6 port None), HandOver, TakeAccept, TakeReady, Bootstrap True, MainNext]"
  let ?fwd = "[AcceptReturns (Received 5 ?q None), HandOver, ForwardNext]"
  let ?last = "[AcceptReturns (Received 5 ?q None), ManagerExits None]"
  let ?pass = "concat (replicate 64 (pass_one ?q))"
  let ?fill = "concat (replicate 32 [AcceptReturns (Received 5 ?q None), HandOver])"
  let ?s1 = "started\<lparr>accepted := [?agent], agent_conn := Some ?agent, rpc_open := True, agent_open := True,
     forwarder := FwdRecv, closer := Some closer_stmts, main := Running\<rparr>"
  let ?s2 = "?s1\<lparr>proxy_ch := replicate 64 (some_conn ?q), accepted := ?agent # replicate 64 (some_conn ?q)\<rparr>"
  let ?s3 = "?s2\<lparr>forwarder := FwdSend (some_conn ?q), accepted := accepted ?s2 @ [some_conn ?q]\<rparr>"
  let ?s4 = "?s3\<lparr>accept_ch := replicate 32 (some_conn ?q), accepted := accepted ?s3 @ replicate 32 (some_conn ?q)\<rparr>"
  have r1: "run port ?start started = Some ?s1"
    by (simp add: step_defs started_def accept_cap_def Let_def)
  have r2: "run port ?pass ?s1 = Some ?s2"
    by (subst fill_proxy) (simp_all add: started_def proxy_cap_def)
  have r3: "run port ?fwd ?s2 = Some ?s3"
    by (simp add: step_defs started_def accept_cap_def some_conn_def Let_def)
  have r4: "run port ?fill ?s3 = Some ?s4"
    by (subst fill_channel) (simp_all add: started_def accept_cap_def)
  obtain s where r5: "run port ?last ?s4 = Some s" and s: "main s = Running" "manager s = Dead None"
      "length (accepted s) = 99" "clogged s"
    by (simp add: step_defs started_def Let_def clogged_def accept_cap_def proxy_cap_def closer_stmts_def)
  have "run port (?start @ ?pass @ ?fwd @ ?fill @ ?last) started = Some s"
    by (simp only: run_append r1 r2 r3 r4 r5 option.case)
  then have "reachable port s" using reachable.start by (rule run_reachable)
  moreover have "wait_result t = None \<and> lock_held t" if "UserTake \<notin> set as" "UserClose \<notin> set as" "run port as s = Some t" for as t
    using clogged_run[OF that(3,1,2) s(4)] by (simp add: clogged_def)
  ultimately show ?thesis using s(1-3) by blast
qed

section \<open>More early connections than ProxyConnCh holds\<close>

text \<open>
  \<open>Run\<close> itself sends the connections that came before the agent's to \<open>ProxyConnCh\<close>, and its caller
  can only read from it when \<open>Run\<close> has returned: with more than 64 of them it never does.
\<close>

definition handing_out :: "runner \<Rightarrow> bool" where
  "handing_out s \<longleftrightarrow> (\<exists>c cs. main s = Handover (c # cs)) \<and> proxy_cap \<le> length (proxy_ch s) \<and>
     forwarder s = FwdIdle \<and> closer s = None \<and> lock_held s"

lemma handing_out_step:
  assumes "step port a s = Some t" and "handing_out s"
  shows "handing_out t"
  using assms(1)
  by (cases rule: stepE) (use assms(2) in \<open>auto simp: handing_out_def give_up_def\<close>)

lemma handing_out_run: "run port as s = Some t \<Longrightarrow> handing_out s \<Longrightarrow> handing_out t"
  by (induction as arbitrary: s) (auto split: option.splits dest: handing_out_step)

definition early_one :: "32 word \<Rightarrow> action list" where
  "early_one q = [AcceptReturns (Received 5 q None), HandOver, TakeAccept]"

lemma fill_pending:
  "acceptor s = Accepting \<Longrightarrow> listener_open s \<Longrightarrow> accept_ch s = [] \<Longrightarrow> main s = Selecting \<Longrightarrow> q \<noteq> port \<Longrightarrow>
   run port (concat (replicate n (early_one q))) s =
     Some (s\<lparr>pending := pending s @ replicate n (some_conn q), accepted := accepted s @ replicate n (some_conn q)\<rparr>)"
proof (induction n arbitrary: s)
  case (Suc n)
  let ?s = "s\<lparr>pending := pending s @ [some_conn q], accepted := accepted s @ [some_conn q]\<rparr>"
  have "run port (early_one q) s = Some ?s"
    using Suc.prems
    by (simp add: early_one_def step_def can_accept_def accept_returns_def hand_over_def take_accept_def some_conn_def
        accept_cap_def Let_def)
  moreover have "run port (concat (replicate n (early_one q))) ?s =
     Some (?s\<lparr>pending := pending ?s @ replicate n (some_conn q), accepted := accepted ?s @ replicate n (some_conn q)\<rparr>)"
    by (rule Suc.IH) (use Suc.prems in simp_all)
  ultimately show ?case
    unfolding replicate_Suc concat.simps run_append by (simp del: run.simps)
qed simp

lemma fill_handover:
  "main s = Handover (replicate (n + k) c) \<Longrightarrow> length (proxy_ch s) + n \<le> proxy_cap \<Longrightarrow>
   run port (replicate n MainNext) s =
     Some (s\<lparr>proxy_ch := proxy_ch s @ replicate n c, main := Handover (replicate k c)\<rparr>)"
proof (induction n arbitrary: s)
  case (Suc n)
  let ?s = "s\<lparr>proxy_ch := proxy_ch s @ [c], main := Handover (replicate (n + k) c)\<rparr>"
  have "run port (replicate n MainNext) ?s =
     Some (?s\<lparr>proxy_ch := proxy_ch ?s @ replicate n c, main := Handover (replicate k c)\<rparr>)"
    by (rule Suc.IH) (use Suc.prems in simp_all)
  moreover have "step port MainNext s = Some ?s" using Suc.prems by (simp add: step_def main_next_def)
  ultimately show ?case by simp
qed simp

theorem handover_can_hang:
  "\<exists>s. reachable port s \<and> length (accepted s) = 66 \<and>
     (\<forall>as t. run port as s = Some t \<longrightarrow> main t \<noteq> Running \<and> (\<forall>e. main t \<noteq> Failed e) \<and> lock_held t)"
proof -
  let ?q = "port + 1" and ?agent = "\<lparr>conn_port = port, conn_file = 6\<rparr>"
  let ?early = "concat (replicate 65 (early_one ?q))"
  let ?start = "[AcceptReturns (Received 6 port None), HandOver, TakeAccept, TakeReady, Bootstrap True]"
  let ?s1 = "started\<lparr>pending := replicate 65 (some_conn ?q), accepted := replicate 65 (some_conn ?q)\<rparr>"
  let ?s2 = "?s1\<lparr>pending := [], accepted := accepted ?s1 @ [?agent], agent_conn := Some ?agent, rpc_open := True,
     agent_open := True, main := Handover (replicate (64 + 1) (some_conn ?q))\<rparr>"
  let ?s3 = "?s2\<lparr>proxy_ch := replicate 64 (some_conn ?q), main := Handover (replicate 1 (some_conn ?q))\<rparr>"
  have r1: "run port ?early started = Some ?s1"
    by (subst fill_pending) (simp_all add: started_def)
  have r2: "run port ?start ?s1 = Some ?s2"
    by (simp add: step_defs started_def accept_cap_def Let_def)
  have r3: "run port (replicate 64 MainNext) ?s2 = Some ?s3"
    by (subst fill_handover[where k = 1 and c = "some_conn ?q"]) (simp_all add: started_def proxy_cap_def)
  have "run port (?early @ ?start @ replicate 64 MainNext) started = Some ?s3"
    by (simp only: run_append r1 r2 r3 option.case)
  then have "reachable port ?s3" using reachable.start by (rule run_reachable)
  moreover have "handing_out ?s3" by (simp add: handing_out_def started_def proxy_cap_def)
  then have "main t \<noteq> Running \<and> (\<forall>e. main t \<noteq> Failed e) \<and> lock_held t" if "run port as ?s3 = Some t" for as t
    using handing_out_run[OF that] by (auto simp: handing_out_def)
  moreover have "length (accepted ?s3) = 66" by simp
  ultimately show ?thesis by blast
qed

end
