(* ===== verification/Machine_Chain.thy ===== *)
theory Machine_Chain
  imports Manager_VM Boot_Chain VM_Main_Props Runner_Exit
begin

text \<open>
  From the command to the virtual machine and back: the memory of the machine, the disks and the
  shared directory that the guest finds, and the way of the agent's connection through the
  manager's listener to \<open>Run\<close>.
\<close>

section \<open>The machine of an accepted configuration\<close>

lemma attach_extra_disks:
  "attach_extra h ps ds = Inr ds' \<Longrightarrow> ds' = ds @ map (\<lambda>p. \<lparr>disk_url = p, disk_read_only = False\<rparr>) ps"
proof (induction h ps ds rule: attach_extra.induct)
  case (2 h p ps ds)
  then show ?case by (auto simp: attach_def split: option.splits)
qed simp

lemma start_vm_fields:
  assumes "start_vm h m = Inr vz"
  shows "vz_storage vz = \<lparr>disk_url = or_else (m_root_image_path m) [], disk_read_only = True\<rparr> #
      map (\<lambda>p. \<lparr>disk_url = p, disk_read_only = False\<rparr>) (m_extra_disk_paths m)"
    and "shares_of m = Inr (vz_shares vz)" and "vz_sockets vz = 1"
    and "boot_loader_of h m = Inr (vz_boot_loader vz)" and "networks_of h m = Inr (vz_networks vz)"
  using assms
  by (auto simp: start_vm_def storage_of_def attach_def Let_def dest!: attach_extra_disks split: option.splits)

lemma start_vm_memory:
  assumes "0 \<le> m_memory_mib m" and "m_memory_mib m < 18446744073709551616"
  shows "m_memory_mib m < 17592186044416 \<Longrightarrow> start_vm h m = Inr vz \<Longrightarrow>
      vz_memory_size vz = word_of_int (m_memory_mib m * 1048576)"
    and "17592186044416 \<le> m_memory_mib m \<Longrightarrow> start_vm h m = Inl Trap"
  unfolding start_vm_def swift_times_mebi[OF assms]
  by (auto simp: Let_def split: option.splits)

text \<open>
  C40. The memory of the machine is what was asked for, below 2^44 MiB: the manager then gives it
  exactly that many bytes. From there on the multiplication does not fit into 64 bits and the
  manager stops, with a configuration that \<open>Validate\<close> has accepted.
\<close>

theorem machine_memory:
  assumes "manager_args c = Inr args" and "config_ints c"
    and "enable_network c \<or> network_mode c = [] \<or> net_valid (network_mode c)"
    and "parse_manager_args args = Inr m"
  shows "(memory_mib c < 2 ^ 44 \<and> start_vm h m = Inr vz \<longrightarrow> uint (vz_memory_size vz) = memory_mib c * 2 ^ 20) \<and>
    (2 ^ 44 \<le> memory_mib c \<longrightarrow> start_vm h m = Inl Trap)"
proof -
  have m: "m_memory_mib m = memory_mib c"
    using manager_args_parsed[OF assms(1-3)] assms(4) by (simp add: manager_view_def boot_default_def)
  have "config_ok (boot_default c)" using assms(1) manager_args_ok by blast
  then have pos: "0 < memory_mib c" by (simp add: config_ok_def boot_default_def split: if_splits)
  have "memory_mib c < 2 ^ 63" using assms(2) by (simp add: config_ints_def int64_def)
  with pos have "uint (word_of_int (memory_mib c * 1048576) :: 64 word) = memory_mib c * 1048576"
      if "memory_mib c < 17592186044416"
    using that by (simp add: uint_word_of_int_eq take_bit_int_eq_self del: of_int_mult)
  with pos \<open>memory_mib c < 2 ^ 63\<close> start_vm_memory[of m] show ?thesis by (auto simp: m simp del: of_int_mult)
qed

section \<open>The disks of the guest\<close>

text \<open>Linux names the virtio block devices \<open>/dev/vda\<close>, \<open>/dev/vdb\<close> and so on, in the order of the devices.\<close>

definition guest_disk :: "vz_config \<Rightarrow> string \<Rightarrow> vz_disk option" where
  "guest_disk vz dev = map_of (zip (map (\<lambda>c. ''/dev/vd'' @ [c]) ''abcdefghijklmnopqrstuvwxyz'') (vz_storage vz)) dev"

lemma guest_disks_two:
  "vz_storage vz = d # e # ds \<Longrightarrow> guest_disk vz ''/dev/vda'' = Some d \<and> guest_disk vz ''/dev/vdb'' = Some e"
  by (simp add: guest_disk_def)

section \<open>What the command configures\<close>

lemma parse_int_range: "parse_int s = Some i \<Longrightarrow> int64 i"
  by (auto simp: parse_int_def int64_def Let_def split: prod.splits option.splits if_splits)

definition flag_keeps :: "('o \<Rightarrow> bool) \<Rightarrow> 'o flag \<Rightarrow> bool" where
  "flag_keeps P f \<longleftrightarrow>
    (case f of
       StringVar g \<Rightarrow> \<forall>v x. P x \<longrightarrow> P (g v x)
     | IntVar g \<Rightarrow> \<forall>i x. int64 i \<longrightarrow> P x \<longrightarrow> P (g i x)
     | BoolVar g \<Rightarrow> \<forall>b x. P x \<longrightarrow> P (g b x))"

lemma set_value_keeps: "flag_keeps P f \<Longrightarrow> P x \<Longrightarrow> set_value f v x = Some y \<Longrightarrow> P y"
  by (auto simp: flag_keeps_def set_value_def dest: parse_int_range split: flag.splits)

text \<open>One argument: parsing ends here, or a flag is set and parsing goes on after it.\<close>

lemma flag_parse_step:
  assumes "flag_parse fs (s # args) x = Inr y"
  obtains "y = x"
  | n f x' rest where "map_of fs n = Some f" "(\<exists>v. set_value f v x = Some x') \<or> (\<exists>g. f = BoolVar g \<and> x' = g True x)"
      "flag_parse fs rest x' = Inr y" "length rest \<le> length args"
proof -
  from assms consider "y = x"
    | n v f where "map_of fs n = Some f" "(case (f, v, args) of
          (BoolVar g, None, _) \<Rightarrow> flag_parse fs args (g True x)
        | (_, Some z, _) \<Rightarrow>
            (case set_value f z x of
               None \<Rightarrow> Inl (2, Errorf ''invalid value %q for flag -%s'' [z, n])
             | Some p \<Rightarrow> flag_parse fs args p)
        | (_, None, z # rest) \<Rightarrow>
            (case set_value f z x of
               None \<Rightarrow> Inl (2, Errorf ''invalid value %q for flag -%s'' [z, n])
             | Some p \<Rightarrow> flag_parse fs rest p)
        | (_, None, []) \<Rightarrow> Inl (2, Errorf ''flag needs an argument: -%s'' [n])) = Inr y"
    by (auto simp: Let_def split: if_splits prod.splits option.splits)
  then show thesis
  proof cases
    case 1
    then show thesis by (rule that(1))
  next
    case 2
    note step = 2(2) and f = that(2)[OF 2(1)]
    show thesis
    proof (cases v)
      case (Some z)
      with step obtain p where "set_value f z x = Some p" "flag_parse fs args p = Inr y"
        by (cases f) (auto split: option.splits)
      then show thesis by (intro f[of p args]) auto
    next
      case None
      show thesis
      proof (cases "\<exists>g. f = BoolVar g")
        case True
        with step None show thesis by (auto intro: f[of _ args])
      next
        case False
        with step None obtain z rest p where "args = z # rest" "set_value f z x = Some p" "flag_parse fs rest p = Inr y"
          by (cases f; cases args) (auto split: option.splits)
        then show thesis by (intro f[of p rest]) auto
      qed
    qed
  qed
qed

text \<open>What every flag keeps holds after parsing.\<close>

lemma flag_parse_keeps:
  "flag_parse fs args x = Inr y \<Longrightarrow> list_all (\<lambda>(n, f). flag_keeps P f) fs \<Longrightarrow> P x \<Longrightarrow> P y"
proof (induction "length args" arbitrary: args x rule: less_induct)
  case less
  show ?case
  proof (cases args)
    case Nil
    with less.prems show ?thesis by simp
  next
    case (Cons s rest)
    from less.prems(1)[unfolded Cons] show ?thesis
    proof (cases rule: flag_parse_step)
      case 1
      with less.prems show ?thesis by simp
    next
      case (2 n f x' more)
      then have "flag_keeps P f" using less.prems(2) map_of_SomeD[OF 2(1)] by (auto simp: list_all_iff)
      with 2(2) less.prems(3) have "P x'" by (auto simp: flag_keeps_def dest: set_value_keeps[unfolded flag_keeps_def])
      with 2 Cons less.prems(2) show ?thesis by (intro less.hyps[of more x']) simp_all
    qed
  qed
qed

text \<open>The flags of the command set no disk, no proxy port, and only integers of 64 bits.\<close>

definition plain_options :: "main_opts \<Rightarrow> bool" where
  "plain_options x \<longleftrightarrow> extra_disk_paths (o_cfg x) = [] \<and> proxy_vsock_ports (o_cfg x) = [] \<and> config_ints (o_cfg x)"

lemma parsed_options: "parse_main_flags now args = Inr x \<Longrightarrow> plain_options x"
  unfolding parse_main_flags_def
  by (rule flag_parse_keeps[of main_flags args "default_opts now" x])
    (auto simp: main_flags_def flag_keeps_def plain_options_def on_cfg_def config_ints_def default_opts_def
      zero_config_def int64_def split: sum.splits prod.splits)

lemma setup_options:
  "run_state (main_setup now x) w = (Inr (st, y), w') \<Longrightarrow> plain_options x \<Longrightarrow> plain_options y"
  by (auto simp: main_setup_def with_defaults_def plain_options_def config_ints_def Let_def
      split: sum.splits prod.splits if_splits)

lemma mode_options:
  "main_modes x = Inr y \<Longrightarrow> plain_options x \<Longrightarrow> plain_options y \<and> net_valid (network_mode (o_cfg y))"
  by (auto simp: main_modes_def plain_options_def on_cfg_def config_ints_def parse_network_mode_def net_valid_def Let_def
      split: sum.splits if_splits)

text \<open>An absolute path of the command, as the machine gets it.\<close>

definition made_absolute :: "string \<Rightarrow> string \<Rightarrow> bool" where
  "made_absolute s t \<longleftrightarrow> (\<exists>w. fst (run_state (filepath_abs s) w) = Inr t)"

lemma made_absoluteI: "run_state (filepath_abs s) w = (Inr t, w') \<Longrightarrow> made_absolute s t"
  unfolding made_absolute_def by (metis fst_conv)

lemma made_absolute_is_abs: "made_absolute s t \<Longrightarrow> is_abs s \<Longrightarrow> t = clean s"
  by (auto simp: made_absolute_def filepath_abs_def)

lemma container_machine:
  assumes "run_state (main_container h reg st x) w = (Inr (y, rootfs, mount), w')"
    and "o_container_image_ref x \<noteq> []" and "plain_options x"
  shows "\<exists>shared state_disk. made_absolute (o_shared_host_dir x) shared \<and> made_absolute (container_state st) state_disk \<and>
    o_cfg y = (o_cfg x)\<lparr>enable_virtiofs := True, virtiofs_host_dir := shared, virtiofs_tag := o_virtiofs_tag x,
      virtiofs_mount_point := o_virtiofs_mount_point x, overlay_state_device := ''/dev/vdb'',
      overlay_state_mount := o_container_state_mount x, extra_disk_paths := [state_disk]\<rparr>"
proof -
  obtain u shared u' v state_disk v' where
      "run_state (filepath_abs (o_shared_host_dir x)) u = (Inr shared, u')"
      "run_state (filepath_abs (container_state st)) v = (Inr state_disk, v')"
      "o_cfg y = (o_cfg x)\<lparr>enable_virtiofs := True, virtiofs_host_dir := shared, virtiofs_tag := o_virtiofs_tag x,
        virtiofs_mount_point := o_virtiofs_mount_point x, overlay_state_device := ''/dev/vdb'',
        overlay_state_mount := o_container_state_mount x, extra_disk_paths := [state_disk]\<rparr>"
    using assms
    by (auto simp: main_container_def on_cfg_def Let_def plain_options_def split: sum.splits prod.splits)
  then show ?thesis
    by (intro exI[of _ shared] exI[of _ state_disk] conjI) (blast intro: made_absoluteI)+
qed


text \<open>The preparation does not look at the rest of the configuration.\<close>

lemma main_container_any_cfg:
  "run_state (main_container h reg st x) w = (Inr r, w') \<Longrightarrow>
   \<exists>y rootfs mount v. run_state (main_container h reg st (on_cfg f x)) w = (Inr (y, rootfs, mount), v)"
  by (auto simp: main_container_def on_cfg_def Let_def split: sum.splits prod.splits if_splits)

definition machine_opts :: main_opts where
  "machine_opts = on_cfg (\<lambda>c. c\<lparr>kernel_path := ''/k'', root_image := ''/r.raw'', agent_ready_socket_path := ''/s.sock'',
     boot_mode := boot_linux, network_mode := net_nat\<rparr>) busy_opts"

definition sample_host :: vz_host where
  "sample_host = \<lparr>file_bytes = (\<lambda>_. Inr (replicate 64 0)), hw_machine = ''x86_64'', attach_disk = (\<lambda>_ _. None),
     bridged_interfaces = [], vz_validate = (\<lambda>_. None)\<rparr>"

lemma machine_opts_simps [simp]:
  "o_container_image_ref machine_opts = ''img''" "o_virtiofs_tag machine_opts = ''vmrunnerfs0''"
  "o_virtiofs_mount_point machine_opts = ''/var/run/vmrunner''" "o_container_state_mount machine_opts = ''/containers''"
  "o_shared_host_dir machine_opts = ''/s''"
  by (simp_all add: machine_opts_def busy_opts_def on_cfg_def default_opts_def)

lemma machine_opts_plain: "plain_options machine_opts" "net_valid (network_mode (o_cfg machine_opts))"
  by (simp_all add: machine_opts_def busy_opts_def on_cfg_def default_opts_def zero_config_def plain_options_def
      config_ints_def int64_def net_valid_def)

definition machine_cfg :: vm_config where
  "machine_cfg = (o_cfg machine_opts)\<lparr>enable_virtiofs := True, virtiofs_host_dir := ''/s'', virtiofs_tag := ''vmrunnerfs0'',
      virtiofs_mount_point := ''/var/run/vmrunner'', overlay_state_device := ''/dev/vdb'',
      overlay_state_mount := ''/containers'', extra_disk_paths := [''/disk'']\<rparr>"

lemmas machine_cfg_defs = machine_cfg_def machine_opts_def busy_opts_def on_cfg_def default_opts_def zero_config_def

lemma machine_run:
  "\<exists>y rootfs mount w'. run_state (main_container busy_host (e_registry busy_env) busy_state machine_opts) busy_world =
     (Inr (y, rootfs, mount), w') \<and> o_cfg y = machine_cfg"
proof -
  obtain y rootfs mount w' where run: "run_state (main_container busy_host (e_registry busy_env) busy_state machine_opts)
      busy_world = (Inr (y, rootfs, mount), w')"
    using busy_container main_container_any_cfg unfolding machine_opts_def by blast
  then obtain shared state_disk where abs: "made_absolute (o_shared_host_dir machine_opts) shared"
      "made_absolute (container_state busy_state) state_disk" and
    cfg: "o_cfg y = (o_cfg machine_opts)\<lparr>enable_virtiofs := True, virtiofs_host_dir := shared,
      virtiofs_tag := o_virtiofs_tag machine_opts, virtiofs_mount_point := o_virtiofs_mount_point machine_opts,
      overlay_state_device := ''/dev/vdb'', overlay_state_mount := o_container_state_mount machine_opts,
      extra_disk_paths := [state_disk]\<rparr>"
    using container_machine[OF run _ machine_opts_plain(1)] by auto
  have "shared = ''/s''" using made_absolute_is_abs[OF abs(1)] by simp
  moreover have "state_disk = ''/disk''" using made_absolute_is_abs[OF abs(2)] by (simp add: busy_state_def)
  ultimately show ?thesis using run cfg by (auto simp: machine_cfg_def)
qed

lemma machine_spaceless: "spaceless ''/s''" "spaceless ''/var/run/vmrunner''" "spaceless ''/dev/vdb''" "spaceless ''/disk''"
  by (rule spaceless_plain; simp add: plain_byte_def space_runes_def)+

lemma machine_cfg_ok: "config_ok (boot_default machine_cfg)"
  using not_blank_plain[OF machine_spaceless(1)] not_blank_plain[OF machine_spaceless(4)]
    not_blank_plain[OF shared_spaceless(2)] not_blank_plain[OF shared_spaceless(3)]
  by (simp add: config_ok_def boot_default_def machine_cfg_defs boot_valid_def virtiofs_ok_def)

lemma machine_view:
  "boot_spaceless (manager_view (boot_default machine_cfg))"
  "\<exists>vz. start_vm sample_host (manager_view (boot_default machine_cfg)) = Inr vz"
proof -
  show "boot_spaceless (manager_view (boot_default machine_cfg))"
    by (simp add: boot_spaceless_def manager_view_def boot_default_def machine_cfg_defs opt_str_def spaceless_opt_def
        shared_spaceless machine_spaceless)
  show "\<exists>vz. start_vm sample_host (manager_view (boot_default machine_cfg)) = Inr vz"
    by (simp add: start_vm_def swift_times_def boot_loader_of_def storage_of_def attach_def networks_of_def shares_of_def
        validate_kernel_artifact_def sample_host_def manager_view_def boot_default_def machine_cfg_defs opt_str_def
        or_else_def Let_def mode_defs)
qed


theorem machine_memory_witness:
  "\<exists>vz. start_vm sample_host (manager_view (boot_default machine_cfg)) = Inr vz \<and> uint (vz_memory_size vz) = 512 * 2 ^ 20"
proof -
  let ?m = "manager_view (boot_default machine_cfg)"
  obtain args where args: "manager_args machine_cfg = Inr args" using machine_cfg_ok manager_args_ok by blast
  have c: "config_ints machine_cfg" "net_valid (network_mode machine_cfg)"
    using machine_opts_plain by (simp_all add: machine_cfg_def plain_options_def config_ints_def)
  then have parsed: "parse_manager_args args = Inr ?m" using manager_args_parsed[of machine_cfg args] args by simp
  obtain vz where vz: "start_vm sample_host ?m = Inr vz" using machine_view(2) by blast
  have "memory_mib machine_cfg = 512" by (simp add: machine_cfg_defs)
  with machine_memory[OF args c(1) _ parsed, of sample_host vz] c(2) vz show ?thesis by auto
qed

section \<open>The agent's connection\<close>

lemma add_ports_fit: "\<forall>p \<in> set ps. p < 4294967296 \<Longrightarrow> \<exists>ls. add_ports ports ps = Inr ls"
  by (induction ps arbitrary: ports) (simp_all add: swift_uint32_def)

lemma add_ports_trap: "p \<in> set ps \<Longrightarrow> \<not> p < 4294967296 \<Longrightarrow> add_ports ports ps = Inl Trap"
  by (induction ps arbitrary: ports) (auto simp: swift_uint32_def)

lemma listen_ports_ok:
  assumes "listen_ports m = Inr ports"
  shows "distinct ports" and "set ports = word_of_int ` insert (m_agent_vsock_port m) {p \<in> set (m_proxy_vsock_ports m). 0 < p}"
proof -
  have start: "add_ports [word_of_int (m_agent_vsock_port m)] (m_proxy_vsock_ports m) = Inr ports"
    using assms by (auto simp: listen_ports_def swift_uint32_def split: if_splits)
  show "distinct ports" "set ports = word_of_int ` insert (m_agent_vsock_port m) {p \<in> set (m_proxy_vsock_ports m). 0 < p}"
    using add_ports_ok[OF start] by auto
qed

text \<open>
  A port that does not fit into 32 bits passes \<open>Validate\<close>, and the manager stops on it, after the
  machine has been started; all others get their listener.
\<close>

theorem listeners_or_trap:
  assumes "manager_args c = Inr args" and "config_ints c"
    and "enable_network c \<or> network_mode c = [] \<or> net_valid (network_mode c)"
    and "parse_manager_args args = Inr m" and "start_vm host m = Inr vz"
  shows "if \<forall>p \<in> set (agent_vsock_port c # proxy_vsock_ports c). p < 2 ^ 32
    then \<exists>ports. enable_vsock_agent_listener vz m = Inr ports \<and> distinct ports \<and>
        set ports = word_of_int ` set (agent_vsock_port c # proxy_vsock_ports c)
    else enable_vsock_agent_listener vz m = Inl Trap"
proof -
  have m: "m_agent_vsock_port m = agent_vsock_port c" "m_proxy_vsock_ports m = proxy_vsock_ports c"
    using manager_args_parsed[OF assms(1-3)] assms(4) by (simp_all add: manager_view_def boot_default_def)
  have ok: "config_ok (boot_default c)" using assms(1) manager_args_ok by blast
  then have pos: "0 < agent_vsock_port c" "\<forall>p \<in> set (proxy_vsock_ports c). 0 < p"
    by (auto simp: config_ok_def boot_default_def split: if_splits)
  have listen: "enable_vsock_agent_listener vz m = listen_ports m"
    using start_vm_fields(3)[OF assms(5)] by (simp add: enable_vsock_agent_listener_def)
  show ?thesis
  proof (cases "\<forall>p \<in> set (agent_vsock_port c # proxy_vsock_ports c). p < 2 ^ 32")
    case True
    then have fits: "\<forall>p \<in> set (proxy_vsock_ports c). p < 4294967296" by simp
    obtain ports where "add_ports [word_of_int (agent_vsock_port c)] (proxy_vsock_ports c) = Inr ports"
      using add_ports_fit[OF fits] by blast
    with True pos(1) have "listen_ports m = Inr ports" by (simp add: listen_ports_def swift_uint32_def m)
    moreover have "{p \<in> set (proxy_vsock_ports c). 0 < p} = set (proxy_vsock_ports c)" using pos(2) by auto
    ultimately show ?thesis using True listen listen_ports_ok[of m] by (auto simp: m)
  next
    case False
    then have "listen_ports m = Inl Trap"
      using pos(1) by (auto simp: listen_ports_def swift_uint32_def m dest: add_ports_trap)
    with False listen show ?thesis by simp
  qed
qed



end
