(* ===== verification/Agent_Container_Cases.thy ===== *)
theory Agent_Container_Cases
  imports Agent_Container_Props Boot_Chain Image_Cases
begin

text \<open>
  Runs of \<open>Start\<close> on a concrete guest, step by step: without virtiofs the state disk is mounted
  over the bundle that was just written; with virtiofs it is mounted first. A start that fails
  late leaves its mounts behind.
\<close>

section \<open>The guest\<close>

type_synonym tree_of = "((string \<times> path) \<times> node) list"

definition guest_at ::
  "string \<Rightarrow> string option \<Rightarrow> nat \<Rightarrow> tree_of \<Rightarrow> (nat \<Rightarrow> nat \<times> string) \<Rightarrow> nat \<Rightarrow> nat \<Rightarrow> (path \<times> string) list \<Rightarrow> event list \<Rightarrow> world" where
  "guest_at cl e n t ino i fd ms tr = \<lparr>tree = t, inodes = ino, next_ino = i, open_files = (\<lambda>_. None), next_fd = fd,
     flocks = (\<lambda>_. None), mounts = ms, cwd = ''/'', env = (\<lambda>k. if k = ''AGENT_RUNC_PATH'' then e else None),
     link_follows = False, faults = (\<lambda>_. None), tick = n, trace = tr\<rparr>"

definition guest_tree :: tree_of where
  "guest_tree = [((''root'', []), Dir 493), ((''root'', [''proc'']), Dir 493), ((''root'', [''proc'', ''cmdline'']), Reg 0),
     ((''root'', [''dev'']), Dir 493), ((''root'', [''dev'', ''vdb'']), Reg 1), ((''root'', [''img'']), Dir 493),
     ((''root'', [''mnt'']), Dir 493), ((''root'', [''runc'']), Reg 2)]"

definition guest_inodes :: "string \<Rightarrow> nat \<Rightarrow> nat \<times> string" where
  "guest_inodes cl i = (if i = 0 then (420, cl) else (493, []))"

lemmas guest_defs = guest_at_def guest_tree_def guest_inodes_def

lemma start_paths:
  "join_path [''/mnt'', ''c1''] = ''/mnt/c1''" "join_path [''/mnt/c1'', ''bundle''] = ''/mnt/c1/bundle''"
  "join_path [''/mnt/c1'', ''runc-root''] = ''/mnt/c1/runc-root''"
  "join_path [''/mnt/c1/bundle'', ''config.json''] = ''/mnt/c1/bundle/config.json''"
  "join_path [''/mnt/c1'', ''overlays''] = ''/mnt/c1/overlays''"
  "join_path [''/mnt/c1/overlays'', ''diff''] = ''/mnt/c1/overlays/diff''"
  "join_path [''/mnt/c1/overlays'', ''work''] = ''/mnt/c1/overlays/work''"
  "join_path [''/mnt/c1/bundle'', ''rootfs''] = ''/mnt/c1/bundle/rootfs''"
  by (simp_all add: eval_paths)

lemma fs_ids: "fs_id ''/dev/vdb'' ''ext4'' n = ''ext4:/dev/vdb''"
  "fs_id ''overlay'' ''overlay'' (Suc 0) = ''overlay#1''"
  by (simp_all add: fs_id_def show_nat.simps digit_char_def char_of_def bit_0 bit_Suc)

lemmas eval_guest = eval_os comps_def render_def guest_defs fs_ids fun_eq_iff

definition t1 :: tree_of where
  "t1 = guest_tree @ [((''root'', [''mnt'', ''c1'']), Dir 493), ((''root'', [''mnt'', ''c1'', ''bundle'']), Dir 493)]"

lemma n_mkdir: "run_state (os_mkdir_all ''/mnt/c1/bundle'' 493)
    (guest_at cl e n guest_tree (guest_inodes cl) 3 3 [] []) =
  (Inr (), guest_at cl e (n + 5) t1 (guest_inodes cl) 3 3 [] [])"
  by (simp add: eval_guest t1_def)

definition t2 :: tree_of where
  "t2 = t1 @ [((''root'', [''mnt'', ''c1'', ''bundle'', ''config.json'']), Reg 3)]"

lemma n_write: "run_state (os_write_file ''/mnt/c1/bundle/config.json'' ''{}'' 420)
    (guest_at cl e n t1 (guest_inodes cl) 3 3 [] []) =
  (Inr (), guest_at cl e (n + 3) t2 ((guest_inodes cl)(3 := (420, ''{}''))) 4 4 [] [])"
  by (simp add: eval_guest t1_def t2_def splice_at_def write_at_def)

definition disk_mount :: "path \<times> string" where
  "disk_mount = ([''mnt''], ''ext4:/dev/vdb'')"

definition t3 :: tree_of where
  "t3 = ((''ext4:/dev/vdb'', []), Dir 493) # t2"

definition disk_event :: event where
  "disk_event = EvMount ''/dev/vdb'' [''mnt''] ''ext4'' []"

lemma n_cmdline: "run_state (read_kernel_cmdline []) (guest_at cl e n t2 ino 4 4 [] []) =
    (fields_of (snd (ino 0)), guest_at cl e (Suc n) t2 ino 4 4 [] [])"
  by (simp add: read_kernel_cmdline_def eval_guest t1_def t2_def)

lemma n_device: "run_state (os_stat ''/dev/vdb'') (guest_at cl e n t2 ino 4 4 [] []) =
    (Inr (Reg 1), guest_at cl e (Suc n) t2 ino 4 4 [] [])"
  by (simp add: eval_guest t1_def t2_def)

lemma n_disk_dir: "run_state (os_mkdir_all ''/mnt'' 493) (guest_at cl e n t2 ino 4 4 [] []) =
    (Inr (), guest_at cl e (Suc n) t2 ino 4 4 [] [])"
  by (simp add: eval_guest t1_def t2_def)

lemma n_disk_mount: "run_state (sys_mount ''/dev/vdb'' ''/mnt'' ''ext4'' []) (guest_at cl e n t2 ino 4 4 [] []) =
    (Inr (), guest_at cl e (Suc n) t3 ino 4 4 [disk_mount] [disk_event])"
  by (simp add: sys_mount_def eval_guest t1_def t2_def t3_def disk_mount_def disk_event_def)

lemma n_ensure:
  assumes "first_value ''agent.overlay_device='' (fields_of (snd (ino 0))) = None"
  shows "run_state (ensure_overlay_state_mounted [] ''/mnt'') (guest_at cl e n t2 ino 4 4 [] []) =
    (Inr ''/mnt'', guest_at cl e (Suc (Suc (Suc (Suc n)))) t3 ino 4 4 [disk_mount] [disk_event])"
  using assms sample_not_blank(3)
  by (simp add: ensure_overlay_state_mounted_def container_writable_disk_device_def setting_def n_cmdline n_device
      n_disk_dir n_disk_mount)

definition container_dirs :: tree_of where
  "container_dirs = [((''ext4:/dev/vdb'', [''c1'']), Dir 493), ((''ext4:/dev/vdb'', [''c1'', ''overlays'']), Dir 493),
     ((''ext4:/dev/vdb'', [''c1'', ''overlays'', ''diff'']), Dir 493),
     ((''ext4:/dev/vdb'', [''c1'', ''overlays'', ''work'']), Dir 493),
     ((''ext4:/dev/vdb'', [''c1'', ''bundle'']), Dir 493), ((''ext4:/dev/vdb'', [''c1'', ''bundle'', ''rootfs'']), Dir 493)]"

lemma n_upper: "run_state (os_mkdir_all ''/mnt/c1/overlays/diff'' 493) (guest_at cl e n t3 ino 4 4 [disk_mount] tr) =
    (Inr (), guest_at cl e (n + 7) (t3 @ take 3 container_dirs) ino 4 4 [disk_mount] tr)"
  by (simp add: eval_guest t1_def t2_def t3_def disk_mount_def container_dirs_def)

lemma n_work: "run_state (os_mkdir_all ''/mnt/c1/overlays/work'' 493)
     (guest_at cl e n (t3 @ take 3 container_dirs) ino 4 4 [disk_mount] tr) =
    (Inr (), guest_at cl e (n + 3) (t3 @ take 4 container_dirs) ino 4 4 [disk_mount] tr)"
  by (simp add: eval_guest t1_def t2_def t3_def disk_mount_def container_dirs_def)

lemma n_merged: "run_state (os_mkdir_all ''/mnt/c1/bundle/rootfs'' 493)
     (guest_at cl e n (t3 @ take 4 container_dirs) ino 4 4 [disk_mount] tr) =
    (Inr (), guest_at cl e (n + 5) (t3 @ container_dirs) ino 4 4 [disk_mount] tr)"
  by (simp add: eval_guest t1_def t2_def t3_def disk_mount_def container_dirs_def)

definition overlay_mount :: "path \<times> string" where
  "overlay_mount = ([''mnt'', ''c1'', ''bundle'', ''rootfs''], ''overlay#1'')"

definition overlay_event :: event where
  "overlay_event = EvMount ''overlay'' [''mnt'', ''c1'', ''bundle'', ''rootfs''] ''overlay''
     (overlay_opts ''/img'' ''/mnt/c1/overlays/diff'' ''/mnt/c1/overlays/work'')"

lemma n_overlay: "run_state (sys_mount ''overlay'' ''/mnt/c1/bundle/rootfs'' ''overlay''
       (overlay_opts ''/img'' ''/mnt/c1/overlays/diff'' ''/mnt/c1/overlays/work''))
     (guest_at cl e n (t3 @ container_dirs) ino 4 4 [disk_mount] tr) =
    (Inr (), guest_at cl e (Suc n) (((''overlay#1'', []), Dir 493) # t3 @ container_dirs) ino 4 4
       [overlay_mount, disk_mount] (tr @ [overlay_event]))"
  by (simp add: sys_mount_def eval_guest t1_def t2_def t3_def disk_mount_def container_dirs_def overlay_mount_def
      overlay_event_def)

lemma n_stat_image: "run_state (os_stat ''/img'') (guest_at cl e n t2 ino 4 4 [] []) =
    (Inr (Dir 493), guest_at cl e (Suc n) t2 ino 4 4 [] [])"
  by (simp add: eval_guest t1_def t2_def)

lemma n_bind:
  assumes "first_value ''agent.overlay_device='' (fields_of (snd (ino 0))) = None"
  shows "run_state (bind_image_rootfs [] ''c1'' ''/mnt/c1/bundle'' ''/img'' ''/mnt'') (guest_at cl e n t2 ino 4 4 [] []) =
    (Inr (), guest_at cl e (n + 21) (((''overlay#1'', []), Dir 493) # t3 @ container_dirs) ino 4 4
       [overlay_mount, disk_mount] [disk_event, overlay_event])"
  by (simp add: bind_image_rootfs_def mount_overlay_from_rootfs_def n_stat_image is_dir_def n_ensure[where ino = ino, OF assms]
      start_paths Let_def n_upper n_work n_merged n_overlay add.commute)

definition t4 :: tree_of where
  "t4 = (((''overlay#1'', []), Dir 493) # t3 @ container_dirs) @ [((''ext4:/dev/vdb'', [''c1'', ''runc-root'']), Dir 493)]"

lemma n_runc_root: "run_state (os_mkdir_all ''/mnt/c1/runc-root'' 493)
    (guest_at cl e n (((''overlay#1'', []), Dir 493) # t3 @ container_dirs) ino 4 4 [overlay_mount, disk_mount] tr) =
    (Inr (), guest_at cl e (n + 3) t4 ino 4 4 [overlay_mount, disk_mount] tr)"
  by (simp add: eval_guest t1_def t2_def t3_def t4_def disk_mount_def overlay_mount_def container_dirs_def)

definition task1 :: task_server where
  "task1 = \<lparr>wait_done = False, wait_err = None, exit_code_of = 0, cleanup_path = ''/mnt/c1/bundle/rootfs''\<rparr>"

definition exec_event :: event where
  "exec_event = EvExec ''/runc'' (runc_args ''/mnt/c1/runc-root'' ''/mnt/c1/bundle'' ''c1'')"

lemma n_runc: "run_state (start_runc [] ''/runc'' (runc_args ''/mnt/c1/runc-root'' ''/mnt/c1/bundle'' ''c1'')
      ''/mnt/c1/bundle'' all_good) (guest_at cl e n t4 ino 4 4 [overlay_mount, disk_mount] tr) =
    (Inr task1, guest_at cl e (n + 4) t4 ino 4 4 [overlay_mount, disk_mount] (tr @ [exec_event]))"
  by (simp add: start_runc_def std_pipe_def start_command_def look_path_def exec_start_def start_paths answer_def all_good_def
      task1_def exec_event_def eval_guest t1_def t2_def t3_def t4_def disk_mount_def overlay_mount_def container_dirs_def)

lemma n_no_runc: "\<exists>w. run_state (start_runc [] ''/none'' (runc_args ''/mnt/c1/runc-root'' ''/mnt/c1/bundle'' ''c1'')
      ''/mnt/c1/bundle'' all_good) (guest_at cl e n t4 ino 4 4 [overlay_mount, disk_mount] tr) =
    (Inl (Wrapf ''start runc: %w'' [] (Errno ENOENT)), w) \<and> mounts w = [overlay_mount, disk_mount]"
  by (simp add: start_runc_def std_pipe_def start_command_def look_path_def exec_start_def start_paths
      eval_guest t1_def t2_def t3_def t4_def disk_mount_def overlay_mount_def container_dirs_def)

section \<open>Without virtiofs\<close>

lemma fields_empty [simp]: "fields_of [] = []"
  by (rule fields_Nil)

lemma n_virtiofs: "run_state (virtiofs_enabled []) (guest_at [] e n guest_tree (guest_inodes []) 3 3 [] []) =
    (False, guest_at [] e (Suc n) guest_tree (guest_inodes []) 3 3 [] [])"
  by (simp add: virtiofs_enabled_def read_kernel_cmdline_def eval_guest)

lemma guest_env: "run_state (os_getenv ''AGENT_RUNC_PATH'') (guest_at cl (Some r) n t ino i fd ms tr) =
    (r, guest_at cl (Some r) n t ino i fd ms tr)"
  by (simp add: os_getenv_def get_env_def guest_at_def)

lemma n_start:
  "run_state (start [] [] (sample_container ''c1'') all_good)
     (guest_at [] (Some ''/runc'') 0 guest_tree (guest_inodes []) 3 3 [] []) =
   (Inr task1, guest_at [] (Some ''/runc'') 37 t4 ((guest_inodes [])(3 := (420, ''{}''))) 4 4
      [overlay_mount, disk_mount] [disk_event, overlay_event, exec_event])"
  by (simp add: start_def sample_container_def n_virtiofs guest_env start_paths Let_def n_mkdir n_write n_bind guest_inodes_def n_runc_root
      n_runc)

text \<open>
  Without virtiofs \<open>Start\<close> hides its own bundle: it writes \<open>config.json\<close>, then mounts the
  state disk over the directory it is in, and still executes \<open>runc\<close> with that bundle; when it
  returns the task there is no \<open>config.json\<close> in the bundle.
\<close>

theorem start_hides_config:
  "\<exists>w t w'.
     run_state (start [] [] (sample_container ''c1'') all_good) w = (Inr t, w') \<and>
     trace w' = [disk_event, overlay_event, exec_event] \<and>
     fst (run_state (os_read_file ''/mnt/c1/bundle/config.json'') w') = Inl (Errno ENOENT)"
proof -
  have "fst (run_state (os_read_file ''/mnt/c1/bundle/config.json'') (guest_at [] (Some ''/runc'') 37 t4 ino 4 4
      [overlay_mount, disk_mount] tr)) = Inl (Errno ENOENT)" for ino tr
    by (simp add: eval_guest t1_def t2_def t3_def t4_def disk_mount_def overlay_mount_def container_dirs_def)
  moreover have "trace (guest_at [] (Some ''/runc'') 37 t4 ino 4 4 [overlay_mount, disk_mount] tr) = tr" for ino tr
    by (simp add: guest_at_def)
  ultimately show ?thesis using n_start by metis
qed


text \<open>
  A start that fails keeps its mounts: when \<open>runc\<close> cannot be executed, \<open>Start\<close> returns the
  error, no task exists that would unmount anything, and the state disk and the overlay stay
  mounted.
\<close>

theorem failed_start_keeps_mounts:
  "\<exists>w w'. mounts w = [] \<and>
     run_state (start [] [] (sample_container ''c1'') all_good) w =
       (Inl (Wrapf ''start runc: %w'' [] (Errno ENOENT)), w') \<and>
     mounts w' = [overlay_mount, disk_mount]"
proof -
  let ?w = "guest_at [] (Some ''/none'') 0 guest_tree (guest_inodes []) 3 3 [] []"
  obtain w' where "run_state (start_runc [] ''/none'' (runc_args ''/mnt/c1/runc-root'' ''/mnt/c1/bundle'' ''c1'')
      ''/mnt/c1/bundle'' all_good) (guest_at [] (Some ''/none'') 33 t4 ((guest_inodes [])(3 := (420, ''{}''))) 4 4
      [overlay_mount, disk_mount] [disk_event, overlay_event]) =
    (Inl (Wrapf ''start runc: %w'' [] (Errno ENOENT)), w')" "mounts w' = [overlay_mount, disk_mount]"
    using n_no_runc by blast
  then have "run_state (start [] [] (sample_container ''c1'') all_good) ?w =
      (Inl (Wrapf ''start runc: %w'' [] (Errno ENOENT)), w') \<and> mounts w' = [overlay_mount, disk_mount]"
    by (simp add: start_def sample_container_def n_virtiofs guest_env start_paths Let_def n_mkdir n_write n_bind guest_inodes_def n_runc_root)
  moreover have "mounts ?w = []" by (simp add: guest_at_def)
  ultimately show ?thesis by blast
qed

end
