(* ===== verification/Agent_Stream.thy ===== *)
theory Agent_Stream
  imports Agent_Container Container_Client
begin

text \<open>
  Byte streams between host and guest: the agent's pump from a pipe of the container to a
  stream (\<open>container_service.go\<close>, \<open>pumpToByteStream\<close>), the servers that receive one (the
  container's standard input, the byte counter of \<open>debug_service.go\<close>, the line printer of the
  host) and the benchmark's sender. What a sender relies on is the interface \<open>byte_sink\<close>; the
  three servers are its interpretations.
\<close>

section \<open>The interface of a stream\<close>

text \<open>
  \<open>took s bs t\<close>: from state \<open>s\<close> to \<open>t\<close> the receiver has taken exactly the bytes \<open>bs\<close>, whatever
  the chunks were.
\<close>

locale byte_sink =
  fixes put :: "'s \<Rightarrow> string \<Rightarrow> goerr option \<times> 's"
    and took :: "'s \<Rightarrow> string \<Rightarrow> 's \<Rightarrow> bool"
  assumes took_nil: "took s [] s"
    and took_append: "took s a t \<Longrightarrow> took t b u \<Longrightarrow> took s (a @ b) u"
    and put_took: "put s c = (None, t) \<Longrightarrow> took s c t"
begin

lemma took_two: "put s a = (None, t) \<Longrightarrow> put t b = (None, u) \<Longrightarrow> took s (a @ b) u"
  by (blast intro: put_took took_append)

end

section \<open>pumpToByteStream\<close>

text \<open>
  The reads of the pipe are its script: the bytes each returns and its error. The pump ends when
  a put fails, at the end of the input, when the pipe is closed under it, or at another
  error; a script that runs out leaves it reading.
\<close>

datatype pump_end = Reading | WriteFailed goerr | ReadClosed | ReadFailed goerr | Finished

text \<open>\<open>errors.Is(err, os.ErrClosed)\<close>\<close>

fun is_closed :: "goerr \<Rightarrow> bool" where
  "is_closed ErrClosed = True"
| "is_closed (Wrapf m args e) = is_closed e"
| "is_closed _ = False"

fun pump_to_byte_stream ::
  "('s \<Rightarrow> string \<Rightarrow> goerr option \<times> 's) \<Rightarrow> ('s \<Rightarrow> 's) \<Rightarrow> (string \<times> goerr option) list \<Rightarrow> 's \<Rightarrow> pump_end \<times> 's" where
  "pump_to_byte_stream put fin [] s = (Reading, s)"
| "pump_to_byte_stream put fin ((bs, err) # rs) s =
    (case (if bs \<noteq> [] then put s bs else (None, s)) of
       (Some e, t) \<Rightarrow> (WriteFailed e, t)
     | (None, t) \<Rightarrow>
         (case err of
            Some EOF \<Rightarrow> (Finished, fin t)
          | Some e \<Rightarrow> if is_closed e then (ReadClosed, t) else (ReadFailed e, t)
          | None \<Rightarrow> pump_to_byte_stream put fin rs t))"

text \<open>The chunks up to the first read with an error.\<close>

fun chunks :: "(string \<times> goerr option) list \<Rightarrow> string list" where
  "chunks [] = []"
| "chunks ((bs, err) # rs) = (if err = None then bs # chunks rs else [bs])"

context byte_sink
begin

lemma put_or_skip: "(if bs \<noteq> [] then put s bs else (None, s)) = (None, t) \<Longrightarrow> took s bs t"
  by (cases "bs = []") (auto intro: took_nil put_took)

lemma pump_finished:
  "pump_to_byte_stream put fin rs s = (Finished, u) \<Longrightarrow> \<exists>t. took s (concat (chunks rs)) t \<and> u = fin t"
proof (induction rs arbitrary: s)
  case Nil
  then show ?case by simp
next
  case (Cons r rs)
  obtain bs err where r: "r = (bs, err)" by fastforce
  obtain e t where wr: "(if bs \<noteq> [] then put s bs else (None, s)) = (e, t)" by fastforce
  with Cons.prems r have "e = None" by (cases e) auto
  with wr have took: "took s bs t" by (auto intro: put_or_skip)
  show ?case
  proof (cases err)
    case None
    with Cons.prems r wr \<open>e = None\<close> have "pump_to_byte_stream put fin rs t = (Finished, u)" by simp
    from Cons.IH[OF this] took None r show ?thesis by (auto intro: took_append)
  next
    case (Some x)
    with Cons.prems r wr \<open>e = None\<close> have "u = fin t" by (auto split: goerr.splits if_splits)
    with took Some r show ?thesis by auto
  qed
qed

end

section \<open>The standard input of a container\<close>

text \<open>
  The write end of a pipe: open until \<open>Done\<close> closes it; the container may leave after taking
  some more bytes, and then a write beyond those breaks the pipe.
\<close>

record stdin_pipe =
  sp_open :: bool
  sp_data :: string
  sp_leaves_after :: "nat option"

definition pipe_write :: "stdin_pipe \<Rightarrow> string \<Rightarrow> goerr option \<times> stdin_pipe" where
  "pipe_write p bs =
    (if \<not> sp_open p then (Some ErrClosed, p)
     else (case sp_leaves_after p of
         None \<Rightarrow> (None, p\<lparr>sp_data := sp_data p @ bs\<rparr>)
       | Some k \<Rightarrow>
           if length bs \<le> k then (None, p\<lparr>sp_data := sp_data p @ bs, sp_leaves_after := Some (k - length bs)\<rparr>)
           else (Some (Errorf ''broken pipe'' []), p\<lparr>sp_data := sp_data p @ take k bs, sp_leaves_after := Some 0\<rparr>)))"

definition pipe_close :: "stdin_pipe \<Rightarrow> goerr option \<times> stdin_pipe" where
  "pipe_close p = (if sp_open p then (None, p\<lparr>sp_open := False\<rparr>) else (Some ErrClosed, p))"

text \<open>\<open>Task.Stdin\<close> hands out a stream over the pipe of the task.\<close>

definition task_stdin :: "rpc_results \<Rightarrow> stdin_pipe \<Rightarrow> stdin_pipe go" where
  "task_stdin rr p = answer rr p"

definition stdin_write :: "string go \<Rightarrow> stdin_pipe \<Rightarrow> goerr option \<times> stdin_pipe" where
  "stdin_write chunk p =
    (case chunk of
       Inl e \<Rightarrow> (Some e, p)
     | Inr bs \<Rightarrow> if bs = [] then (None, p) else pipe_write p bs)"

definition stdin_done :: "stdin_pipe option \<Rightarrow> goerr option \<times> stdin_pipe option" where
  "stdin_done w = (case w of None \<Rightarrow> (None, None) | Some p \<Rightarrow> (case pipe_close p of (e, q) \<Rightarrow> (e, Some q)))"

definition stdin_took :: "stdin_pipe \<Rightarrow> string \<Rightarrow> stdin_pipe \<Rightarrow> bool" where
  "stdin_took p bs q \<longleftrightarrow> sp_data q = sp_data p @ bs \<and> sp_open q = sp_open p"

interpretation stdin_sink: byte_sink "\<lambda>p bs. stdin_write (Inr bs) p" stdin_took
  by unfold_locales
    (auto simp: stdin_took_def stdin_write_def pipe_write_def split: if_splits option.splits)

section \<open>The debug service\<close>

definition agent_debug :: "rpc_results \<Rightarrow> service go" where
  "agent_debug rr = answer rr DebugServer"

definition debug_ping :: "rpc_results \<Rightarrow> string go" where
  "debug_ping rr = answer rr ''pong''"

text \<open>A byte counter is its value; a new one is zero.\<close>

definition debug_open_byte_stream :: "rpc_results \<Rightarrow> 64 word go" where
  "debug_open_byte_stream rr = answer rr 0"

definition counter_write :: "string go \<Rightarrow> 64 word \<Rightarrow> goerr option \<times> 64 word" where
  "counter_write chunk n =
    (case chunk of Inl e \<Rightarrow> (Some e, n) | Inr bs \<Rightarrow> (None, n + of_nat (length bs)))"

definition counter_done :: "64 word \<Rightarrow> goerr option \<times> 64 word" where
  "counter_done n = (None, n)"

definition counter_took :: "64 word \<Rightarrow> string \<Rightarrow> 64 word \<Rightarrow> bool" where
  "counter_took n bs m \<longleftrightarrow> m = n + of_nat (length bs)"

interpretation counter_sink: byte_sink "\<lambda>n bs. counter_write (Inr bs) n" counter_took
  by unfold_locales (auto simp: counter_took_def counter_write_def)

section \<open>The line printer of the host\<close>

definition printer_write :: "line_printer \<Rightarrow> string \<Rightarrow> goerr option \<times> line_printer" where
  "printer_write p bs =
    (case lp_write p bs of
       (Returned, q) \<Rightarrow> (None, q)
     | (Failed m, q) \<Rightarrow> (Some (Errorf m []), q)
     | (Panicked, q) \<Rightarrow> (Some (Errorf ''panic'' []), q))"

definition printer_took :: "line_printer \<Rightarrow> string \<Rightarrow> line_printer \<Rightarrow> bool" where
  "printer_took p bs q \<longleftrightarrow> (\<exists>cs. concat cs = bs \<and> lp_feed p cs = (Returned, q))"

lemma lp_feed_append:
  "lp_feed p cs = (Returned, q) \<Longrightarrow> lp_feed p (cs @ ds) = lp_feed q ds"
  by (induction p cs arbitrary: q rule: lp_feed.induct) (auto split: prod.splits outcome.splits)

interpretation printer_sink: byte_sink printer_write printer_took
proof
  fix p q :: line_printer and c
  assume "printer_write p c = (None, q)"
  then have "lp_write p c = (Returned, q)" by (auto simp: printer_write_def split: prod.splits outcome.splits)
  then show "printer_took p c q" by (auto simp: printer_took_def intro!: exI[of _ "[c]"])
next
  fix p q r :: line_printer and a b
  assume "printer_took p a q" "printer_took q b r"
  then show "printer_took p (a @ b) r"
    unfolding printer_took_def by (metis concat_append lp_feed_append)
qed (auto simp: printer_took_def intro!: exI[of _ "[]"])

section \<open>The benchmark\<close>

text \<open>
  The loop of \<open>StartBenchmarkVsock\<close> over 64-bit counters. \<open>conn w l\<close> is what \<open>Write\<close> of \<open>l\<close> bytes
  returns when \<open>w\<close> were written before; \<open>None\<close> is a loop that never ends.
\<close>

definition next_write :: "nat \<Rightarrow> 64 word \<Rightarrow> 64 word \<Rightarrow> nat" where
  "next_write buf_len total_bytes wrote =
    (let remaining = total_bytes - wrote in if remaining < of_nat buf_len then unat remaining else buf_len)"

partial_function (option) bench_loop ::
  "(64 word \<Rightarrow> nat \<Rightarrow> int \<times> goerr option) \<Rightarrow> nat \<Rightarrow> 64 word \<Rightarrow> 64 word \<Rightarrow> 64 word go option" where
  "bench_loop conn buf_len total_bytes wrote =
    (if wrote < total_bytes then
       (let (n, err) = conn wrote (next_write buf_len total_bytes wrote);
            wrote' = (if 0 < n then wrote + word_of_int n else wrote) in
        case err of
          Some e \<Rightarrow> Some (Inl (Wrapf ''startBenchmarkVsock write failed after %d bytes: %w'' [itoa (uint wrote')] e))
        | None \<Rightarrow>
            if n = 0 then Some (Inl (Errorf ''startBenchmarkVsock write returned 0 after %d bytes'' [itoa (uint wrote')]))
            else bench_loop conn buf_len total_bytes wrote')
     else Some (Inr wrote))"

definition bench_buffer :: "32 word \<Rightarrow> nat" where
  "bench_buffer chunk_bytes = (if chunk_bytes = 0 then 64 * 1024 else unat chunk_bytes)"

text \<open>
  The handler; the duration is measured, and \<open>rate\<close> is the floating-point quotient. The result
  is \<open>None\<close> when the loop does not end.
\<close>

definition start_benchmark_vsock ::
  "peer \<Rightarrow> (64 word \<Rightarrow> nat \<Rightarrow> int \<times> goerr option) \<Rightarrow> int \<Rightarrow> (64 word \<Rightarrow> int \<Rightarrow> 'f) \<Rightarrow> 'f \<Rightarrow>
   32 word \<Rightarrow> 64 word \<Rightarrow> 32 word \<Rightarrow> goerr option \<Rightarrow> (world, ('f \<times> 64 word) go option) state" where
  "start_benchmark_vsock peer conn duration rate zero port total_bytes chunk_bytes alloc =
    (if port = 0 then State_Monad.return (Some (Inl (Errorf ''startBenchmarkVsock: port must be > 0'' [])))
     else if total_bytes = 0 then
       State_Monad.return (Some (Inl (Errorf ''startBenchmarkVsock: totalBytes must be > 0'' [])))
     else do {
       _ \<leftarrow> log_event ''startBenchmarkVsock begin'' [];
       r \<leftarrow> dial_vsock peer 2 port;
       (case r of
          Inl e \<Rightarrow> State_Monad.return (Some (Inl (Wrapf ''startBenchmarkVsock dial cid=2 port=%d: %w'' [itoa (uint port)] e)))
        | Inr fd \<Rightarrow> do {
            x \<leftarrow> State_Monad.return (bench_loop conn (bench_buffer chunk_bytes) total_bytes 0);
            (case x of
               None \<Rightarrow> State_Monad.return None
             | Some (Inl e) \<Rightarrow> do { _ \<leftarrow> os_close fd; State_Monad.return (Some (Inl e)) }
             | Some (Inr wrote) \<Rightarrow> do {
                 _ \<leftarrow> log_event ''startBenchmarkVsock done'' [];
                 _ \<leftarrow> os_close fd;
                 State_Monad.return (Some (case alloc of
                     Some e \<Rightarrow> Inl e
                   | None \<Rightarrow> Inr (if 0 < duration then rate wrote duration else zero, word_of_int duration)))
               })
          })
     })"

end
