(* ===== verification/Agent_Stream_Props.thy ===== *)
theory Agent_Stream_Props
  imports Agent_Stream
begin

text \<open>
  What the byte streams guarantee: the agent's pump and the host's line printer together print
  the container's lines, counters count every byte, and the benchmark's loop ends with exactly
  the bytes asked for.
\<close>

section \<open>From the container to the host's output\<close>

lemma pump_lines:
  "\<forall>c \<in> set cs. whole_lines c \<Longrightarrow> partial p = [] \<Longrightarrow>
   pump_to_byte_stream printer_write lp_done (map (\<lambda>c. (c, None)) cs @ [([], Some EOF)]) p =
     (Finished, p\<lparr>printed := printed p @ labelled p (text_lines (concat cs))\<rparr>)"
proof (induction cs arbitrary: p)
  case Nil
  then show ?case by (simp add: lp_done_def text_lines_def labelled_def)
next
  case (Cons c cs)
  have c: "c \<noteq> []" "\<not> unterminated c" using Cons.prems by (auto simp: whole_lines_def)
  then have "text_lines (concat (c # cs)) = text_lines c @ text_lines (concat cs)"
    by (simp add: text_lines_append)
  with Cons c show ?case by (simp add: printer_write_def lp_write_whole labelled_def)
qed



text \<open>
  The pump delivers the pipe's bytes unchanged to every kind of receiver: when it finishes,
  the standard input of a container has got exactly the bytes that were read before the end of
  the input, in order, and a byte counter has counted each of them once (modulo 2^64).
\<close>

theorem pump_delivers_bytes:
  "(\<forall>q. pump_to_byte_stream (\<lambda>p bs. stdin_write (Inr bs) p) (\<lambda>p. snd (pipe_close p)) rs p = (Finished, q) \<longrightarrow>
      sp_data q = sp_data p @ concat (chunks rs)) \<and>
   (\<forall>m. pump_to_byte_stream (\<lambda>n bs. counter_write (Inr bs) n) (\<lambda>n. snd (counter_done n)) rs n = (Finished, m) \<longrightarrow>
      m = n + of_nat (length (concat (chunks rs))))"
proof (intro conjI allI impI)
  fix q assume "pump_to_byte_stream (\<lambda>p bs. stdin_write (Inr bs) p) (\<lambda>p. snd (pipe_close p)) rs p = (Finished, q)"
  from stdin_sink.pump_finished[OF this] show "sp_data q = sp_data p @ concat (chunks rs)"
    by (auto simp: stdin_took_def pipe_close_def)
next
  fix m assume "pump_to_byte_stream (\<lambda>n bs. counter_write (Inr bs) n) (\<lambda>n. snd (counter_done n)) rs n = (Finished, m)"
  from counter_sink.pump_finished[OF this] show "m = n + of_nat (length (concat (chunks rs)))"
    by (auto simp: counter_took_def counter_done_def)
qed

definition open_pipe :: stdin_pipe where
  "open_pipe = \<lparr>sp_open = True, sp_data = [], sp_leaves_after = None\<rparr>"

theorem pump_delivers_bytes_witness:
  "sp_data (snd (pump_to_byte_stream (\<lambda>p bs. stdin_write (Inr bs) p) (\<lambda>p. snd (pipe_close p))
     [(''ab'', None), (''c'', Some EOF)] open_pipe)) = ''abc''"
proof -
  have "pump_to_byte_stream (\<lambda>p bs. stdin_write (Inr bs) p) (\<lambda>p. snd (pipe_close p))
     [(''ab'', None), (''c'', Some EOF)] open_pipe =
     (Finished, \<lparr>sp_open = False, sp_data = ''abc'', sp_leaves_after = None\<rparr>)"
    by (simp add: stdin_write_def pipe_write_def pipe_close_def open_pipe_def)
  then show ?thesis
    using pump_delivers_bytes[THEN conjunct1, rule_format, of "[(''ab'', None), (''c'', Some EOF)]" open_pipe]
    by (simp add: open_pipe_def)
qed

section \<open>The benchmark's loop\<close>

text \<open>What \<open>io.Writer\<close> promises: at most as many bytes written as were given.\<close>

definition writer_contract :: "(64 word \<Rightarrow> nat \<Rightarrow> int \<times> goerr option) \<Rightarrow> bool" where
  "writer_contract conn \<longleftrightarrow> (\<forall>w l. 0 \<le> fst (conn w l) \<and> fst (conn w l) \<le> int l)"

lemma unat_below: "unat (x :: 64 word) < 2 ^ 64" "unat (y :: 32 word) < 2 ^ 32"
  using unsigned_less[of x] unsigned_less[of y] by simp_all

lemma next_write_le:
  assumes "wrote < total_bytes" and "buf_len < 2 ^ 64"
  shows "next_write buf_len total_bytes wrote \<le> unat total_bytes - unat wrote"
proof -
  have rem: "unat (total_bytes - wrote) = unat total_bytes - unat wrote"
    using assms(1) by (simp add: unat_sub order_less_imp_le)
  have buf: "unat (of_nat buf_len :: 64 word) = buf_len"
    using assms(2) by (simp add: unat_of_nat take_bit_nat_eq_self)
  show ?thesis
  proof (cases "total_bytes - wrote < of_nat buf_len")
    case True
    with rem show ?thesis by (simp add: next_write_def)
  next
    case False
    then have "unat (of_nat buf_len :: 64 word) \<le> unat (total_bytes - wrote)"
      by (simp add: word_less_nat_alt not_less)
    with False rem buf show ?thesis by (simp add: next_write_def)
  qed
qed

lemma bench_step:
  assumes "writer_contract conn" and "wrote < total_bytes" and "buf_len < 2 ^ 64"
    and "conn wrote (next_write buf_len total_bytes wrote) = (n, err)" and "n \<noteq> 0"
  shows "0 < n \<and> unat (wrote + word_of_int n) = unat wrote + nat n \<and> unat wrote + nat n \<le> unat total_bytes"
proof -
  have n: "0 < n" "nat n \<le> next_write buf_len total_bytes wrote"
    using assms(1,4,5) unfolding writer_contract_def by (metis fst_conv order_less_le, metis fst_conv nat_le_iff)
  then have le: "unat wrote + nat n \<le> unat total_bytes"
    using next_write_le[OF assms(2,3)] assms(2) by (simp add: word_less_nat_alt)
  have "unat (word_of_int n :: 64 word) = nat n"
  proof -
    have "nat n < 2 ^ 64" using le unat_below(1)[of total_bytes] by simp
    then have "n < 2 ^ 64" by (simp add: nat_less_iff)
    with n(1) show ?thesis by (simp add: unsigned_of_int take_bit_int_eq_self)
  qed
  then have "unat (wrote + word_of_int n) = unat wrote + nat n"
    using le unat_below(1)[of total_bytes] by (subst unat_add_lem[THEN iffD1]) simp_all
  with n le show ?thesis by simp
qed

lemma bench_ends:
  assumes "writer_contract conn" and "buf_len < 2 ^ 64"
  shows "wrote \<le> total_bytes \<Longrightarrow> \<exists>r. bench_loop conn buf_len total_bytes wrote = Some r \<and> (\<forall>k. r = Inr k \<longrightarrow> k = total_bytes)"
proof (induction "unat total_bytes - unat wrote" arbitrary: wrote rule: less_induct)
  case less
  show ?case
  proof (cases "wrote < total_bytes")
    case False
    with less.prems show ?thesis by (subst bench_loop.simps) simp
  next
    case True
    obtain n err where c: "conn wrote (next_write buf_len total_bytes wrote) = (n, err)" by fastforce
    show ?thesis
    proof (cases "err = None \<and> n \<noteq> 0")
      case False
      with True c show ?thesis by (subst bench_loop.simps) (auto split: option.splits)
    next
      case go: True
      note step = bench_step[OF assms(1) True assms(2) c, OF conjunct2[OF go]]
      then have "wrote + word_of_int n \<le> total_bytes" by (simp add: word_le_nat_alt)
      moreover have "unat total_bytes - unat (wrote + word_of_int n) < unat total_bytes - unat wrote"
        using step True by (auto simp: word_less_nat_alt intro!: diff_less_mono2)
      ultimately obtain r where "bench_loop conn buf_len total_bytes (wrote + word_of_int n) = Some r"
          "\<forall>k. r = Inr k \<longrightarrow> k = total_bytes"
        using less.hyps by blast
      with True c go step show ?thesis by (subst bench_loop.simps) simp
    qed
  qed
qed

text \<open>
  C31. The benchmark's loop ends: with a connection that keeps the contract of \<open>Write\<close>, whatever
  the chunk size and however short the writes, the 64-bit loop returns, and when it reports
  success it has written exactly the number of bytes asked for.
\<close>

theorem benchmark_ends_exactly:
  assumes "writer_contract conn"
  shows "\<exists>r. bench_loop conn (bench_buffer chunk_bytes) total_bytes 0 = Some r \<and> r \<in> range Inl \<union> {Inr total_bytes}"
proof -
  have "unat chunk_bytes < 2 ^ 32" by (rule unat_below)
  then have "bench_buffer chunk_bytes < 2 ^ 64" by (simp add: bench_buffer_def)
  from bench_ends[OF assms this, of 0 total_bytes] obtain r where
    "bench_loop conn (bench_buffer chunk_bytes) total_bytes 0 = Some r" "\<forall>k. r = Inr k \<longrightarrow> k = total_bytes" by auto
  then show ?thesis by (cases r) auto
qed

theorem benchmark_ends_exactly_witness:
  "\<exists>r. bench_loop (\<lambda>w l. (int (min l 7), None)) (bench_buffer 0) 1000000 0 = Some r \<and>
     r \<in> range Inl \<union> {Inr 1000000}"
  by (rule benchmark_ends_exactly) (simp add: writer_contract_def)

end
