(* ===== verification/Agent_Network.thy ===== *)
theory Agent_Network
  imports Agent_Container Go_Netip
begin

text \<open>
  The network service of the agent: \<open>network_service.go\<close> and \<open>network_link.go\<close>. The netlink
  library is a parameter, a record of its calls over the state of the kernel's network; what
  the handlers log and dial is in the guest's world.
\<close>

record ('s, 'l, 'a) netlink =
  link_by_name :: "string \<Rightarrow> ('s, 'l go) state"
  nl_parse_addr :: "string \<Rightarrow> 'a go"
  addr_replace :: "'l \<Rightarrow> 'a \<Rightarrow> ('s, unit go) state"
  link_set_up :: "'l \<Rightarrow> ('s, unit go) state"
  link_index :: "'l \<Rightarrow> int"
  route_replace :: "int \<Rightarrow> addr \<Rightarrow> ('s, unit go) state"

section \<open>configureInterfaceLink\<close>

definition set_up_loopback :: "('s, 'l, 'a) netlink \<Rightarrow> ('s, unit) state" where
  "set_up_loopback nl = do {
     r \<leftarrow> link_by_name nl ''lo'';
     (case r of
        Inl _ \<Rightarrow> State_Monad.return ()
      | Inr lo \<Rightarrow> do { _ \<leftarrow> link_set_up nl lo; State_Monad.return () })
   }"

definition configure_interface_link ::
  "('s, 'l, 'a) netlink \<Rightarrow> string \<Rightarrow> string \<Rightarrow> string \<Rightarrow> ('s, unit go) state" where
  "configure_interface_link nl if_name cidr gateway =
    or_fail (link_by_name nl if_name) (Wrapf ''lookup link %q: %w'' [if_name]) (\<lambda>link.
    or_fail (State_Monad.return (nl_parse_addr nl cidr)) (Wrapf ''parse cidr %q: %w'' [cidr]) (\<lambda>a.
    or_fail (addr_replace nl link a) (Wrapf ''set address %q on %q: %w'' [cidr, if_name]) (\<lambda>_.
    or_fail (link_set_up nl link) (Wrapf ''set link up %q: %w'' [if_name]) (\<lambda>_. do {
      _ \<leftarrow> set_up_loopback nl;
      (case parse_ip gateway of
         None \<Rightarrow> State_Monad.return (Inl (Errorf ''parse gateway %q'' [gateway]))
       | Some gw \<Rightarrow>
           or_fail (route_replace nl (link_index nl link) gw)
             (Wrapf ''set default route via %q dev %q: %w'' [gateway, if_name]) (\<lambda>_. State_Monad.return (Inr ())))
    }))))"

section \<open>The service\<close>

definition agent_network :: "rpc_results \<Rightarrow> service go" where
  "agent_network rr = answer rr NetworkServer"

definition join_host_port :: "string \<Rightarrow> string \<Rightarrow> string" where
  "join_host_port host port =
    (if CHR '':'' \<in> set host \<or> CHR ''%'' \<in> set host then CHR ''['' # host @ '']:'' @ port
     else host @ CHR '':'' # port)"

text \<open>The temporary probe: \<open>dial\<close> is the outcome of the connection within its two seconds.\<close>

definition probe_gateway_dial :: "(string \<Rightarrow> goerr option) \<Rightarrow> string \<Rightarrow> (world, unit) state" where
  "probe_gateway_dial dial gateway =
    (if gateway = [] then State_Monad.return ()
     else do {
       p \<leftarrow> os_getenv ''AGENT_GATEWAY_DIAL_PORT'';
       (let target = join_host_port gateway (if p = [] then ''8080'' else p) in do {
          _ \<leftarrow> log_event ''temporary gateway dial trying target=%s'' [target];
          (case dial target of
             Some _ \<Rightarrow> log_event ''temporary gateway dial failed target=%s'' [target]
           | None \<Rightarrow> log_event ''temporary gateway dial ok target=%s'' [target])
        })
     })"

definition in_net :: "('s, 'a) state \<Rightarrow> ('s \<times> world, 'a) state" where
  "in_net m = State (\<lambda>(s, w). case run_state m s of (x, s') \<Rightarrow> (x, (s', w)))"

definition in_world :: "(world, 'a) state \<Rightarrow> ('s \<times> world, 'a) state" where
  "in_world m = State (\<lambda>(s, w). case run_state m w of (x, w') \<Rightarrow> (x, (s, w')))"

definition configure_interface ::
  "('s, 'l, 'a) netlink \<Rightarrow> (string \<Rightarrow> goerr option) \<Rightarrow> string go \<Rightarrow> string go \<Rightarrow> string go \<Rightarrow>
   ('s \<times> world, unit go) state" where
  "configure_interface nl dial if_name cidr gateway =
    or_fail (State_Monad.return if_name) (\<lambda>e. e) (\<lambda>n.
    or_fail (State_Monad.return cidr) (\<lambda>e. e) (\<lambda>c.
    or_fail (State_Monad.return gateway) (\<lambda>e. e) (\<lambda>g.
    or_fail (in_net (configure_interface_link nl n c g)) (\<lambda>e. e) (\<lambda>_. do {
      _ \<leftarrow> in_world (log_event ''network configured'' [n, c, g]);
      _ \<leftarrow> in_world (probe_gateway_dial dial g);
      State_Monad.return (Inr ())
    }))))"

definition setup_vsock_proxy :: "32 word \<Rightarrow> unit sys" where
  "setup_vsock_proxy port =
    (if port = 0 then State_Monad.return (Inl (Errorf ''proxy vsock port must be > 0'' []))
     else do {
       _ \<leftarrow> log_event ''setupVsockProxy stub called port=%d'' [itoa (uint port)];
       State_Monad.return (Inr ())
     })"

section \<open>A bad gateway\<close>

lemma run_in_net [simp]: "run_state (in_net m) (s, w) = (case run_state m s of (x, s') \<Rightarrow> (x, (s', w)))"
  by (simp add: in_net_def)

text \<open>
  The gateway is checked last: when the link exists, the address parses and both kernel
  calls succeed, \<open>ConfigureInterface\<close> with a gateway that is not an address (an empty one
  among them, which the probe after it treats as "no gateway") returns an error, but the
  address is set, the link is up and so is the loopback device; only the route is missing.
\<close>

theorem bad_gateway_half_configures:
  assumes "run_state (link_by_name nl n) s = (Inr l, s1)" and "nl_parse_addr nl c = Inr a"
    and "run_state (addr_replace nl l a) s1 = (Inr (), s2)" and "run_state (link_set_up nl l) s2 = (Inr (), s3)"
    and "parse_ip g = None"
  shows "parse_ip [] = None \<and>
    run_state (configure_interface nl dial (Inr n) (Inr c) (Inr g)) (s, w) =
      (Inl (Errorf ''parse gateway %q'' [g]), (snd (run_state (set_up_loopback nl) s3), w))"
  using assms
  by (simp add: configure_interface_def configure_interface_link_def parse_ip_def parse_addr_def split: prod.splits)

text \<open>A kernel with named links, for the witness: their addresses and whether they are up.\<close>

type_synonym links = "(string \<times> string list \<times> bool) list"

definition find_link :: "string \<Rightarrow> (links, string go) state" where
  "find_link n = State (\<lambda>s. (if map_of s n = None then Inl (Errorf ''Link not found'' []) else Inr n, s))"

definition change_link :: "(string list \<times> bool \<Rightarrow> string list \<times> bool) \<Rightarrow> string \<Rightarrow> (links, unit go) state" where
  "change_link f n = State (\<lambda>s. (Inr (), map (\<lambda>(k, v). (k, if k = n then f v else v)) s))"

definition table_netlink :: "(links, string, string) netlink" where
  "table_netlink = \<lparr>link_by_name = find_link, nl_parse_addr = Inr,
     addr_replace = (\<lambda>n a. change_link (\<lambda>(as, up). (a # removeAll a as, up)) n),
     link_set_up = change_link (\<lambda>(as, up). (as, True)), link_index = (\<lambda>_. 1),
     route_replace = (\<lambda>_ _. State_Monad.return (Inr ()))\<rparr>"

theorem bad_gateway_half_configures_witness:
  "run_state (configure_interface table_netlink (\<lambda>_. None) (Inr ''eth0'') (Inr ''10.0.0.2/24'') (Inr []))
      ([(''lo'', [], False), (''eth0'', [], False)], empty_world) =
    (Inl (Errorf ''parse gateway %q'' [[]]),
      ([(''lo'', [], True), (''eth0'', [''10.0.0.2/24''], True)], empty_world))"
proof -
  have "run_state (configure_interface table_netlink (\<lambda>_. None) (Inr ''eth0'') (Inr ''10.0.0.2/24'') (Inr []))
      ([(''lo'', [], False), (''eth0'', [], False)], empty_world) =
    (Inl (Errorf ''parse gateway %q'' [[]]),
      (snd (run_state (set_up_loopback table_netlink) [(''lo'', [], False), (''eth0'', [''10.0.0.2/24''], True)]),
       empty_world))"
    by (rule bad_gateway_half_configures[of table_netlink "''eth0''" "[(''lo'', [], False), (''eth0'', [], False)]"
          "''eth0''" "[(''lo'', [], False), (''eth0'', [], False)]" "''10.0.0.2/24''" "''10.0.0.2/24''"
          "[(''lo'', [], False), (''eth0'', [''10.0.0.2/24''], False)]" _ _ _ empty_world, THEN conjunct2])
      (simp_all add: table_netlink_def find_link_def change_link_def parse_ip_def parse_addr_def)
  then show ?thesis
    by (simp add: set_up_loopback_def table_netlink_def find_link_def change_link_def)
qed

end
