(* ===== verification/OCI_Props.thy ===== *)
theory OCI_Props
  imports OCI_Spec
begin

text \<open>
  What a hostile image reference can do to the generated specification: the text of a string
  never leaves its quotes, whatever its bytes, so the reference changes one string of the
  specification and nothing else.
\<close>

section \<open>A quoted string ends at its own quote\<close>

text \<open>What follows a string whose opening quote has been read, as a JSON reader sees it.\<close>

fun string_end :: "string \<Rightarrow> string option" where
  "string_end [] = None"
| "string_end (c # s) =
    (if c = CHR 0x22 then Some s
     else if c = CHR 0x5C then (case s of [] \<Rightarrow> None | _ # s' \<Rightarrow> string_end s')
     else if (of_char c :: nat) < 32 then None
     else string_end s)"

definition inside :: "string \<Rightarrow> bool" where
  "inside xs \<longleftrightarrow> (\<forall>t. string_end (xs @ t) = string_end t)"

named_theorems inside_intros

lemma inside_Nil [inside_intros]: "inside []"
  by (simp add: inside_def)

lemma inside_Cons [inside_intros]:
  "c \<noteq> CHR 0x22 \<Longrightarrow> c \<noteq> CHR 0x5C \<Longrightarrow> 32 \<le> (of_char c :: nat) \<Longrightarrow> inside xs \<Longrightarrow> inside (c # xs)"
  by (simp add: inside_def)

lemma inside_escaped [inside_intros]: "inside xs \<Longrightarrow> inside (CHR 0x5C # c # xs)"
  by (simp add: inside_def)

lemma inside_append [inside_intros]: "inside xs \<Longrightarrow> inside ys \<Longrightarrow> inside (xs @ ys)"
  by (simp add: inside_def)

lemma inside_high: "(\<And>c. c \<in> set xs \<Longrightarrow> 128 \<le> (of_char c :: nat)) \<Longrightarrow> inside xs"
proof (induction xs)
  case (Cons c xs)
  have c: "128 \<le> (of_char c :: nat)" using Cons.prems by simp
  then have "c \<noteq> CHR 0x22" "c \<noteq> CHR 0x5C" by auto
  with Cons c show ?case by (intro inside_Cons) (auto intro: order_trans[OF _ c])
qed (rule inside_Nil)

lemma hex_digit_range: "n < 16 \<Longrightarrow> 48 \<le> (of_char (hex_digit n) :: nat) \<and> (of_char (hex_digit n) :: nat) < 103
    \<and> (of_char (hex_digit n) :: nat) \<noteq> 92"
  by (auto simp: hex_digit_def)

lemma inside_hex: "n < 16 \<Longrightarrow> inside xs \<Longrightarrow> inside (hex_digit n # xs)"
proof (rule inside_Cons)
  assume "n < 16"
  note range = hex_digit_range[OF this]
  show "hex_digit n \<noteq> CHR 0x22" "hex_digit n \<noteq> CHR 0x5C" using range by auto
  show "32 \<le> (of_char (hex_digit n) :: nat)" using range by simp
qed

lemma inside_u00 [inside_intros]: "b < 256 \<Longrightarrow> inside (u00 b)"
  unfolding u00_def by (intro inside_escaped inside_Cons inside_hex inside_Nil) (auto simp: less_mult_imp_div_less)

text \<open>The bytes of an encoded rune that is not ASCII.\<close>

lemma cont_high: "cont s i lo hi \<Longrightarrow> 128 \<le> lo \<Longrightarrow> 128 \<le> (of_char (s ! i) :: nat)"
  by (auto simp: cont_def)

lemma rune_len_cases:
  assumes "rune_len (c # s) = Some n" and "128 \<le> (of_char c :: nat)"
  defines "high i \<equiv> 128 \<le> (of_char ((c # s) ! i) :: nat)"
  shows "n = 2 \<and> high 1 \<or> n = 3 \<and> high 1 \<and> high 2 \<or> n = 4 \<and> high 1 \<and> high 2 \<and> high 3"
  using assms(1,2) unfolding rune_len_def high_def list.case Let_def
  by (auto simp del: nth_Cons_numeral simp: not_less[symmetric] dest: cont_high split: if_splits)

lemma rune_bytes_high:
  assumes "rune_len (c # s) = Some n" and "128 \<le> (of_char c :: nat)" and "x \<in> set (take n (c # s))"
  shows "128 \<le> (of_char x :: nat)"
proof -
  obtain i where i: "i < n" "x = (c # s) ! i"
    using assms(3) by (metis in_set_conv_nth length_take min_less_iff_conj nth_take)
  then have "i = 0 \<or> i = 1 \<or> i = 2 \<or> i = 3" using rune_len_cases[OF assms(1,2)] by auto
  then show ?thesis using rune_len_cases[OF assms(1,2)] i assms(2) by auto
qed

lemma escape_rune_inside: "inside (fst (escape_rune (c # s)))"
proof (cases "(of_char c :: nat) < 128")
  case True
  then show ?thesis
    unfolding escape_rune_def
    by (auto simp: Let_def intro!: inside_intros)
next
  case False
  then have "inside (take n (c # s))" if "rune_len (c # s) = Some n" for n
    using rune_bytes_high[OF that] by (intro inside_high) auto
  with False show ?thesis
    unfolding escape_rune_def by (auto simp: Let_def intro!: inside_intros split: option.splits)
qed

lemma escape_inside: "inside (escape s)"
proof (induction s rule: escape.induct)
  case (1 s)
  show ?case
  proof (cases s)
    case Nil
    then show ?thesis by (simp add: escape.simps inside_Nil)
  next
    case (Cons c s')
    then show ?thesis
      using 1 escape_rune_inside[of c s'] by (subst escape.simps) (simp add: inside_append)
  qed
qed

lemma string_end_escape: "string_end (escape s @ CHR 0x22 # t) = Some t"
  using escape_inside[of s] by (simp add: inside_def)

section \<open>The image reference in the specification\<close>

text \<open>A text with one place that depends on \<open>r\<close>, where it has \<open>q r\<close>.\<close>

definition hole :: "('r \<Rightarrow> string) \<Rightarrow> ('r \<Rightarrow> string) \<Rightarrow> bool" where
  "hole q g \<longleftrightarrow> (\<exists>pre post. \<forall>r. g r = pre @ q r @ post)"

lemma hole_here: "hole q q"
  unfolding hole_def by (intro exI[of _ "[]"]) simp

lemma hole_after: "hole q g \<Longrightarrow> hole q (\<lambda>r. c @ g r)"
  unfolding hole_def by (metis append.assoc)

lemma hole_before: "hole q g \<Longrightarrow> hole q (\<lambda>r. g r @ c)"
  unfolding hole_def by (metis append.assoc)

lemma hole_Cons: "hole q g \<Longrightarrow> hole q (\<lambda>r. x # g r)"
  using hole_after[of q g "[x]"] by simp

lemmas hole_intros = hole_here hole_after hole_Cons hole_before

text \<open>The shape of the specification, with one string that depends on \<open>r\<close>.\<close>

lemma print_spec_hole:
  "hole (\<lambda>r. quote (f r)) (\<lambda>r. print_json 0 (JObj
       [(''ociVersion'', version),
        (''process'', JObj [(''terminal'', terminal), (''user'', user), (''args'', args),
           (''env'', JArr [path, JStr (f r)]), (''cwd'', wd)]),
        (''root'', root), (''mounts'', mount_list), (''hostname'', host_name), (''linux'', linux)]))"
  by (simp del: append_assoc) (intro hole_intros)

definition reference_text :: "string \<Rightarrow> string" where
  "reference_text ref = escape (''VMRUNNER_IMAGE_REF='' @ (if ref = [] then ''unknown'' else ref))"

lemma default_spec_hole:
  "hole (\<lambda>ref. CHR 0x22 # reference_text ref @ [CHR 0x22])
     (\<lambda>ref. print_json 0 (default_spec (opts\<lparr>opt_image_ref := ref\<rparr>)))"
proof -
  have opts: "process_args (opts\<lparr>opt_image_ref := ref\<rparr>) = process_args opts"
    "opt_rootfs_path (opts\<lparr>opt_image_ref := ref\<rparr>) = opt_rootfs_path opts" "opt_terminal (opts\<lparr>opt_image_ref := ref\<rparr>) = opt_terminal opts"
    "opt_readonly_root (opts\<lparr>opt_image_ref := ref\<rparr>) = opt_readonly_root opts" "opt_image_ref (opts\<lparr>opt_image_ref := ref\<rparr>) = ref" for ref
    by (simp_all add: process_args_def)
  show ?thesis
    unfolding default_spec_def Let_def reference_text_def quote_def[symmetric] opts by (rule print_spec_hole)
qed

text \<open>
  C29. A hostile image reference cannot change the specification: for all other options there
  are a text before and a text after such that every reference, whatever its bytes, gives the
  specification with just its escaped text between them, and a JSON reader that has read the
  opening quote is at the text after when the string ends.
\<close>

theorem image_reference_confined:
  "\<exists>pre post. \<forall>ref. build_default_oci_spec_json (opts\<lparr>opt_image_ref := ref\<rparr>) =
       Inr (pre @ CHR 0x22 # reference_text ref @ CHR 0x22 # post) \<and>
     string_end (reference_text ref @ CHR 0x22 # post) = Some post"
proof -
  obtain pre post where "\<forall>ref. print_json 0 (default_spec (opts\<lparr>opt_image_ref := ref\<rparr>)) =
      pre @ CHR 0x22 # reference_text ref @ CHR 0x22 # post"
    using default_spec_hole[of opts] by (auto simp: hole_def)
  then show ?thesis
    unfolding build_default_oci_spec_json_def reference_text_def using string_end_escape by blast
qed

end
