(* ===== verification/World_Ok.thy ===== *)
theory World_Ok
  imports VM_Main Agent_Container
begin

text \<open>
  Well-formed worlds: names are unique, names and descriptors refer to inodes that have been
  allocated, and a lock belongs to a descriptor that is open on its inode. Every system call
  keeps them, so every program of the development does: the command, the agent's main and
  the handlers of a container. The rules \<open>keeps_intros\<close> follow the shape of a program.
\<close>

section \<open>The invariant and the programs that keep it\<close>

definition world_ok :: "world \<Rightarrow> bool" where
  "world_ok w \<longleftrightarrow>
     distinct (map fst (tree w)) \<and>
     (\<forall>k i. (k, Reg i) \<in> set (tree w) \<longrightarrow> i < next_ino w) \<and>
     (\<forall>fd i off. open_files w fd = Some (i, off) \<longrightarrow> fd < next_fd w \<and> i < next_ino w) \<and>
     (\<forall>i fd. flocks w i = Some fd \<longrightarrow> (\<exists>off. open_files w fd = Some (i, off)))"

definition world_kept :: "world \<Rightarrow> world \<Rightarrow> bool" where
  "world_kept w w' \<longleftrightarrow> (world_ok w \<longrightarrow> world_ok w')"

abbreviation keeps :: "(world, 'a) state \<Rightarrow> bool" where
  "keeps \<equiv> obeys world_kept"

named_theorems keeps_intros \<open>programs that keep worlds well-formed\<close>

interpretation keeps: state_preorder world_kept
  by unfold_locales (simp_all add: world_kept_def)

lemmas keeps_rules [keeps_intros] = keeps.rules

lemma keeps_def: "keeps m \<longleftrightarrow> (\<forall>w. world_ok w \<longrightarrow> world_ok (snd (run_state m w)))"
  unfolding obeys_def world_kept_def by (metis snd_conv surj_pair)

lemma keepsD: "keeps m \<Longrightarrow> world_ok w \<Longrightarrow> run_state m w = (r, w') \<Longrightarrow> world_ok w'"
  by (simp add: obeys_def world_kept_def)

lemma keepsI: "(\<And>w r w'. world_ok w \<Longrightarrow> run_state m w = (r, w') \<Longrightarrow> world_ok w') \<Longrightarrow> keeps m"
  by (simp add: obeys_def world_kept_def)

section \<open>System calls\<close>

lemma world_ok_tick [simp]: "world_ok (w\<lparr>tick := t\<rparr>) = world_ok w"
  by (simp add: world_ok_def)

lemma world_ok_trace [simp]: "world_ok (w\<lparr>trace := t\<rparr>) = world_ok w"
  by (simp add: world_ok_def)

lemma world_ok_mounts [simp]: "world_ok (w\<lparr>mounts := t\<rparr>) = world_ok w"
  by (simp add: world_ok_def)

lemma world_ok_inodes [simp]: "world_ok (w\<lparr>inodes := t\<rparr>) = world_ok w"
  by (simp add: world_ok_def)

lemma world_ok_more_inodes: "world_ok w \<Longrightarrow> world_ok (w\<lparr>next_ino := Suc (next_ino w)\<rparr>)"
  by (fastforce simp: world_ok_def less_Suc_eq)

lemma keeps_syscall: "(\<And>w. world_ok w \<Longrightarrow> world_ok (snd (f w))) \<Longrightarrow> keeps (syscall f)"
  by (auto simp: keeps_def run_syscall split: option.splits)

lemma keeps_on_node:
  "(\<And>p w. world_ok w \<Longrightarrow> world_ok (snd (k p (look w p) w))) \<Longrightarrow> keeps (on_node s fl k)"
  unfolding on_node_def by (rule keeps_syscall) (auto split: sum.splits)

lemma set_update: "set (AList.update k v al) \<subseteq> insert (k, v) (set al)"
  by (induction al) auto

lemma world_ok_set_node:
  assumes "world_ok w" and "\<And>i. n = Reg i \<Longrightarrow> i < next_ino w"
  shows "world_ok (set_node p n w)"
  using assms set_update[of "locate (mounts w) p" n "tree w"]
  by (auto simp: world_ok_def set_node_def distinct_update)

lemma world_ok_del_node: "world_ok w \<Longrightarrow> world_ok (del_node p w)"
  by (auto simp: world_ok_def del_node_def AList.delete_eq distinct_map_filter split: if_splits)

lemma world_ok_del_tree: "world_ok w \<Longrightarrow> world_ok (del_tree p w)"
  by (auto simp: world_ok_def del_tree_def distinct_map_filter split: prod.splits)

lemma look_reg: "world_ok w \<Longrightarrow> look w p = Some (Reg i) \<Longrightarrow> i < next_ino w"
  unfolding world_ok_def look_def by (blast dest: map_of_SomeD)

lemma world_ok_new_fd:
  assumes "world_ok w" and "i < next_ino w"
  shows "world_ok (snd (new_fd i w))"
proof -
  have "open_files w (next_fd w) = None" using assms(1) unfolding world_ok_def by (metis not_None_eq less_irrefl surj_pair)
  moreover from this have "flocks w j \<noteq> Some (next_fd w)" for j using assms(1) unfolding world_ok_def by fastforce
  ultimately show ?thesis using assms unfolding world_ok_def new_fd_def by (auto simp: less_Suc_eq)
qed

lemma keeps_stat [keeps_intros]: "keeps (os_stat s)"
  unfolding os_stat_def by (rule keeps_on_node) (auto split: option.splits)

lemma keeps_lstat [keeps_intros]: "keeps (os_lstat s)"
  unfolding os_lstat_def by (rule keeps_on_node) (auto split: option.splits)

lemma keeps_mkdir [keeps_intros]: "keeps (os_mkdir s m)"
  unfolding os_mkdir_def by (rule keeps_on_node) (auto split: option.splits intro: world_ok_set_node)

lemma keeps_mkdir_all_rev: "keeps (mkdir_all_rev ab m rc)"
proof (induction rc)
  case Nil
  show ?case by (simp only: mkdir_all_rev.simps) (intro keeps_intros)
next
  case (Cons c rc)
  show ?case by (simp only: mkdir_all_rev.simps) (intro keeps_intros Cons)
qed

lemma keeps_mkdir_all [keeps_intros]: "keeps (os_mkdir_all s m)"
  unfolding os_mkdir_all_def by (rule keeps_mkdir_all_rev)

lemma keeps_create [keeps_intros]: "keeps (os_create s t m)"
  unfolding os_create_def
proof (rule keeps_on_node)
  fix p w assume ok: "world_ok w"
  have "world_ok (set_node p (Reg (next_ino w)) (w\<lparr>next_ino := Suc (next_ino w)\<rparr>))"
    by (intro world_ok_set_node world_ok_more_inodes ok) auto
  then have "world_ok ((set_node p (Reg (next_ino w)) w)\<lparr>inodes := g, next_ino := Suc (next_ino w)\<rparr>)" for g
    by (simp add: world_ok_def set_node_def)
  with ok show "world_ok (snd (case look w p of
       None \<Rightarrow> (let i = next_ino w in new_fd i ((set_node p (Reg i) w)
            \<lparr>inodes := (inodes w)(i := (m, [])), next_ino := Suc i\<rparr>))
     | Some (Reg i) \<Rightarrow> new_fd i (if t then w\<lparr>inodes := (inodes w)(i := (fst (inodes w i), []))\<rparr> else w)
     | Some _ \<Rightarrow> (Inl (Errno EISDIR), w)))"
    by (auto simp: Let_def split: option.splits node.splits intro!: world_ok_new_fd dest: look_reg)
qed

lemma keeps_open [keeps_intros]: "keeps (os_open s)"
  unfolding os_open_def by (rule keeps_on_node) (auto split: option.splits node.splits intro!: world_ok_new_fd dest: look_reg)

lemma keeps_close [keeps_intros]: "keeps (os_close fd)"
  by (auto simp: keeps_def os_close_def Let_def world_ok_def split: option.splits if_splits)

lemma world_ok_write_at: "world_ok w \<Longrightarrow> open_files w fd = Some (i, off) \<Longrightarrow> world_ok (write_at fd i off bs w)"
  unfolding world_ok_def write_at_def by auto fastforce+

lemma keeps_write [keeps_intros]: "keeps (os_write fd bs)"
  by (auto simp: keeps_def os_write_def Let_def world_ok_write_at split: option.splits)

lemma keeps_copy [keeps_intros]: "keeps (os_copy d s)"
  using keeps_write unfolding keeps_def os_copy_def by (auto split: option.splits)

lemma keeps_truncate [keeps_intros]: "keeps (os_truncate fd n)"
  unfolding os_truncate_def by (rule keeps_syscall) (auto split: option.splits)

lemma keeps_seek0 [keeps_intros]: "keeps (os_seek0 fd)"
  unfolding os_seek0_def by (rule keeps_syscall) (fastforce simp: world_ok_def split: option.splits)

lemma keeps_remove [keeps_intros]: "keeps (os_remove s)"
  unfolding os_remove_def by (rule keeps_on_node) (auto split: option.splits node.splits intro: world_ok_del_node)

lemma keeps_remove_all [keeps_intros]: "keeps (os_remove_all s)"
  unfolding os_remove_all_def by (rule keeps_on_node) (auto split: option.splits intro: world_ok_del_tree)

lemma keeps_symlink [keeps_intros]: "keeps (os_symlink t s)"
  unfolding os_symlink_def by (rule keeps_on_node) (auto split: option.splits intro: world_ok_set_node)

lemma keeps_link [keeps_intros]: "keeps (os_link a b)"
  unfolding os_link_def
  by (rule keeps_syscall) (auto split: option.splits sum.splits node.splits intro!: world_ok_set_node dest: look_reg)

lemma keeps_read_file [keeps_intros]: "keeps (os_read_file s)"
  unfolding os_read_file_def by (rule keeps_on_node) (auto split: option.splits node.splits)

lemma keeps_write_file [keeps_intros]: "keeps (os_write_file s bs m)"
  unfolding os_write_file_def by (intro keeps_intros)

lemma keeps_flock_ex [keeps_intros]: "keeps (sys_flock_ex fd)"
  unfolding sys_flock_ex_def by (rule keeps_syscall) (auto simp: world_ok_def split: option.splits)

lemma keeps_flock_un [keeps_intros]: "keeps (sys_flock_un fd)"
  unfolding sys_flock_un_def by (rule keeps_syscall) (auto simp: world_ok_def split: option.splits)

lemma keeps_mount [keeps_intros]: "keeps (sys_mount s t ty opts)"
  unfolding sys_mount_def
  by (rule keeps_on_node) (auto simp: world_ok_def Let_def map_of_eq_None_iff split: option.splits node.splits)

lemma keeps_unmount [keeps_intros]: "keeps (sys_unmount s)"
  unfolding sys_unmount_def by (rule keeps_on_node) (auto split: option.splits)

lemma keeps_listen [keeps_intros]: "keeps (net_listen_unix s)"
  unfolding net_listen_unix_def
proof (rule keeps_on_node)
  fix p w assume ok: "world_ok w"
  have "world_ok (set_node p (Reg (next_ino w)) (w\<lparr>next_ino := Suc (next_ino w)\<rparr>))"
    by (intro world_ok_set_node world_ok_more_inodes ok) auto
  then have "world_ok ((set_node p (Reg (next_ino w)) w)\<lparr>inodes := g, next_ino := Suc (next_ino w)\<rparr>)" for g
    by (simp add: world_ok_def set_node_def)
  with ok show "world_ok (snd (case look w p of Some _ \<Rightarrow> (Inl (Errno EADDRINUSE), w)
     | None \<Rightarrow> (let i = next_ino w in
          (Inr (), (set_node p (Reg i) w)\<lparr>inodes := (inodes w)(i := (493, [])), next_ino := Suc i\<rparr>))))"
    by (auto simp: Let_def split: option.splits)
qed

lemma keeps_exec [keeps_intros]: "keeps (exec_start p args)"
  unfolding exec_start_def by (rule keeps_on_node) (auto split: option.splits node.splits)

lemma keeps_search_path: "keeps (search_path ds f)"
  by (induction ds f rule: search_path.induct) (auto simp: Let_def intro!: keeps_intros split: node.splits)

lemma keeps_events [keeps_intros]: "keeps (log_event m a)" "keeps kill_event" "keeps (os_getenv k)"
  by (simp_all add: keeps_def log_event_def kill_event_def os_getenv_def)

lemma keeps_look_path [keeps_intros]: "keeps (look_path ds f)"
  unfolding look_path_def by (intro keeps_intros keeps_search_path)

section \<open>The command\<close>

lemma keeps_getwd [keeps_intros]: "keeps os_getwd"
  unfolding os_getwd_def by (rule keeps_syscall) simp

lemma keeps_acquire [keeps_intros]: "keeps (acquire st p)"
  unfolding acquire_def by (intro keeps_intros)

lemma keeps_release [keeps_intros]: "keeps (release f p)"
  unfolding release_def by (intro keeps_intros)

lemma keeps_abs [keeps_intros]: "keeps (filepath_abs s)"
  unfolding filepath_abs_def by (intro keeps_intros)

lemma keeps_start_command [keeps_intros]: "keeps (start_command ds c)"
  unfolding start_command_def by (intro keeps_intros)

lemma keeps_launch [keeps_intros]: "keeps (launch ds r c)"
  unfolding launch_def command_def by (intro keeps_intros)

lemma keeps_run_start [keeps_intros]: "keeps (run_start st ds r c)"
  unfolding run_start_def under_lock_def by (intro keeps_intros)

lemma keeps_resolve [keeps_intros]: "keeps (resolve_vm_runner_state now wd n hr wr)"
  unfolding resolve_vm_runner_state_def user_home_dir_def by (intro keeps_intros)

lemma keeps_ensure_dirs [keeps_intros]: "keeps (ensure_dirs s)"
  unfolding ensure_dirs_def ensure_dir_def by (intro keeps_intros)

lemma keeps_ensure_image [keeps_intros]: "keeps (ensure_vm_root_image s)"
  unfolding ensure_vm_root_image_def by (intro keeps_intros)

lemma keeps_typeflag:
  "keeps a \<Longrightarrow> keeps b \<Longrightarrow> keeps c \<Longrightarrow> keeps d \<Longrightarrow> keeps e \<Longrightarrow> keeps f \<Longrightarrow> keeps (case_typeflag a b c d e f t)"
  by (cases t) simp_all

lemma keeps_extract_entry: "keeps (extract_entry root e)"
  unfolding extract_entry_def write_entry_def by (intro keeps_intros keeps_typeflag)

lemma keeps_extract [keeps_intros]: "keeps (extract_tar_into root tr)"
  unfolding extract_tar_into_def by (intro keeps_intros keeps_extract_entry)

lemma keeps_create_disk:
  "(\<And>args. keeps (mkfs_ext4 h args)) \<Longrightarrow> keeps (create_ext4_disk_from_dir h d n l src)"
  unfolding create_ext4_disk_from_dir_def truncate_to_def by (intro keeps_intros)

lemma keeps_prepare [keeps_intros]: "keeps (prepare_shared_container_rootfs h reg img d)"
  unfolding prepare_shared_container_rootfs_def by (intro keeps_intros)

lemma keeps_main_setup [keeps_intros]: "keeps (main_setup now o')"
  unfolding main_setup_def by (intro keeps_intros)

lemma keeps_main_container:
  "(\<And>args. keeps (mkfs_ext4 h args)) \<Longrightarrow> keeps (main_container h reg st o')"
  unfolding main_container_def create_ext4_disk_def by (intro keeps_intros keeps_create_disk)

lemma keeps_vm_close [keeps_intros]: "keeps (vm_close v)"
  unfolding vm_close_def rpc_event_def by (intro keeps_intros)

lemma keeps_main_spec [keeps_intros]: "keeps (main_spec o')"
  unfolding main_spec_def logger_info_def by (intro keeps_intros)

lemma keeps_main_serve [keeps_intros]: "keeps (main_serve me o' r d ctx)"
  unfolding main_serve_def or_kill_def main_run_container_def logger_info_def by (intro keeps_intros)

lemma keeps_main_run [keeps_intros]: "keeps (main_run me o' r d)"
  unfolding main_run_def by (intro keeps_intros)

lemma keeps_vm_main: "(\<And>args. keeps (mkfs_ext4 (e_host me) args)) \<Longrightarrow> keeps (vm_main me args)"
  unfolding vm_main_def by (intro keeps_intros keeps_main_container)



section \<open>The agent\<close>

lemma keeps_cmdline [keeps_intros]: "keeps (read_kernel_cmdline a)"
  unfolding read_kernel_cmdline_def by (intro keeps_intros)

lemma keeps_settings [keeps_intros]:
  "keeps (setting k d a)" "keeps (virtiofs_enabled a)" "keeps (env_uint32 k n)" "keeps (parse_vsock_target a)"
  "keeps (virtiofs_tag_of a)" "keeps (virtiofs_mount_point_of a)" "keeps (container_writable_disk_device a)"
  "keeps (overlay_state_mount_point_fs a)"
  unfolding parse_vsock_target_def virtiofs_tag_of_def virtiofs_mount_point_of_def container_writable_disk_device_def
    overlay_state_mount_point_fs_def setting_def virtiofs_enabled_def env_uint32_def by (intro keeps_intros)+

lemma keeps_runtime_mounts [keeps_intros]: "keeps (setup_runtime_mounts a)"
  unfolding setup_runtime_mounts_def mount_one_def mount_virtiofs_def by (intro keeps_intros)

lemma keeps_socket [keeps_intros]: "keeps sys_socket"
  unfolding sys_socket_def
  by (rule keeps_syscall, rule world_ok_new_fd) (simp_all add: world_ok_more_inodes)

lemma keeps_connect [keeps_intros]: "keeps (sys_connect peer fd a)"
  unfolding sys_connect_def by (rule keeps_syscall) (auto split: option.splits)

lemma keeps_round [keeps_intros]: "keeps (agent_round peer c cid port)"
  unfolding agent_round_def dial_vsock_def serve_rpc_def rpc_event_def by (intro keeps_intros)

lemma keeps_rounds [keeps_intros]: "keeps (agent_rounds script cid port n)"
  by (induction n) (auto intro: keeps_intros)

lemma keeps_agent_main: "keeps (agent_main pid a script n)"
  unfolding agent_main_def by (intro keeps_intros)

lemma keeps_overlay_state [keeps_intros]: "keeps (ensure_overlay_state_mounted a m)"
  unfolding ensure_overlay_state_mounted_def by (intro keeps_intros)

lemma keeps_std_pipe [keeps_intros]: "keeps std_pipe"
  unfolding std_pipe_def by (rule keeps_syscall) simp

lemma keeps_start: "keeps (start a ds c rr)"
  unfolding start_def bind_image_rootfs_def mount_overlay_from_rootfs_def start_runc_def by (intro keeps_intros)

lemma keeps_task_exit_code: "keeps (task_exit_code waited alloc t)"
  unfolding task_exit_code_def by (intro keeps_intros)



end
