(* ===== verification/RPC_Schema.thy ===== *)
theory RPC_Schema
  imports Go_Prelude "HOL-Library.Word"
begin

text \<open>
  \<open>api/gen/go/capnp/agent.capnp.go\<close>, the calls: for every method of every interface what the
  client sends, and for every interface the table of methods that its server is built from. The
  capnp library that sends and dispatches is not part of the program. An interface's server is a
  record of its handlers, of any type. The identifiers are those of \<open>api/capnp/agent.capnp\<close> as
  the compiler assigned them.
\<close>

section \<open>Methods and calls\<close>

record capnp_method =
  interface_id :: "64 word"
  method_id :: "16 word"
  interface_name :: string
  method_name :: string

text \<open>\<open>capnp.Send\<close>: the size and the function that places the arguments are set when there is one.\<close>

record 's send =
  send_method :: capnp_method
  args_size :: "nat \<times> nat"
  place_args :: "('s \<Rightarrow> 's go) option"
  streaming :: bool

definition send_of :: "capnp_method \<Rightarrow> nat \<times> nat \<Rightarrow> bool \<Rightarrow> ('s \<Rightarrow> 's go) option \<Rightarrow> 's send" where
  "send_of m sz stream params =
    \<lparr>send_method = m, args_size = (case params of None \<Rightarrow> (0, 0) | Some _ \<Rightarrow> sz), place_args = params,
     streaming = stream\<rparr>"

section \<open>ByteStream\<close>

definition ByteStream_Write :: "('s \<Rightarrow> 's go) option \<Rightarrow> 's send" where
  "ByteStream_Write params =
    send_of \<lparr>interface_id = 0xed83e41c1767406f, method_id = 0, interface_name = ''capnp/agent.capnp:ByteStream'',
       method_name = ''write''\<rparr> (0, 1) True params"

definition ByteStream_Done :: "('s \<Rightarrow> 's go) option \<Rightarrow> 's send" where
  "ByteStream_Done params =
    send_of \<lparr>interface_id = 0xed83e41c1767406f, method_id = 1, interface_name = ''capnp/agent.capnp:ByteStream'',
       method_name = ''done''\<rparr> (0, 0) False params"

record 'h byte_stream_handlers =
  ByteStream_Server_Write :: 'h
  ByteStream_Server_Done :: 'h

definition ByteStream_Methods ::
  "(capnp_method \<times> 'h) list \<Rightarrow> 'h byte_stream_handlers \<Rightarrow> (capnp_method \<times> 'h) list" where
  "ByteStream_Methods methods s =
    methods @
     [(\<lparr>interface_id = 0xed83e41c1767406f, method_id = 0, interface_name = ''capnp/agent.capnp:ByteStream'',
       method_name = ''write''\<rparr>, ByteStream_Server_Write s),
      (\<lparr>interface_id = 0xed83e41c1767406f, method_id = 1, interface_name = ''capnp/agent.capnp:ByteStream'',
       method_name = ''done''\<rparr>, ByteStream_Server_Done s)]"

section \<open>Debug\<close>

definition Debug_Ping :: "('s \<Rightarrow> 's go) option \<Rightarrow> 's send" where
  "Debug_Ping params =
    send_of \<lparr>interface_id = 0x9bfe39fa0de18382, method_id = 0, interface_name = ''capnp/agent.capnp:Debug'',
       method_name = ''ping''\<rparr> (0, 0) False params"

definition Debug_OpenByteStream :: "('s \<Rightarrow> 's go) option \<Rightarrow> 's send" where
  "Debug_OpenByteStream params =
    send_of \<lparr>interface_id = 0x9bfe39fa0de18382, method_id = 1, interface_name = ''capnp/agent.capnp:Debug'',
       method_name = ''openByteStream''\<rparr> (0, 0) False params"

definition Debug_StartBenchmarkVsock :: "('s \<Rightarrow> 's go) option \<Rightarrow> 's send" where
  "Debug_StartBenchmarkVsock params =
    send_of \<lparr>interface_id = 0x9bfe39fa0de18382, method_id = 2, interface_name = ''capnp/agent.capnp:Debug'',
       method_name = ''startBenchmarkVsock''\<rparr> (16, 0) False params"

record 'h debug_handlers =
  Debug_Server_Ping :: 'h
  Debug_Server_OpenByteStream :: 'h
  Debug_Server_StartBenchmarkVsock :: 'h

definition Debug_Methods ::
  "(capnp_method \<times> 'h) list \<Rightarrow> 'h debug_handlers \<Rightarrow> (capnp_method \<times> 'h) list" where
  "Debug_Methods methods s =
    methods @
     [(\<lparr>interface_id = 0x9bfe39fa0de18382, method_id = 0, interface_name = ''capnp/agent.capnp:Debug'',
       method_name = ''ping''\<rparr>, Debug_Server_Ping s),
      (\<lparr>interface_id = 0x9bfe39fa0de18382, method_id = 1, interface_name = ''capnp/agent.capnp:Debug'',
       method_name = ''openByteStream''\<rparr>, Debug_Server_OpenByteStream s),
      (\<lparr>interface_id = 0x9bfe39fa0de18382, method_id = 2, interface_name = ''capnp/agent.capnp:Debug'',
       method_name = ''startBenchmarkVsock''\<rparr>, Debug_Server_StartBenchmarkVsock s)]"

section \<open>Network\<close>

definition Network_ConfigureInterface :: "('s \<Rightarrow> 's go) option \<Rightarrow> 's send" where
  "Network_ConfigureInterface params =
    send_of \<lparr>interface_id = 0x9fe9a01a06e6f3f2, method_id = 0, interface_name = ''capnp/agent.capnp:Network'',
       method_name = ''configureInterface''\<rparr> (0, 3) False params"

definition Network_SetupVsockProxy :: "('s \<Rightarrow> 's go) option \<Rightarrow> 's send" where
  "Network_SetupVsockProxy params =
    send_of \<lparr>interface_id = 0x9fe9a01a06e6f3f2, method_id = 1, interface_name = ''capnp/agent.capnp:Network'',
       method_name = ''setupVsockProxy''\<rparr> (8, 0) False params"

record 'h network_handlers =
  Network_Server_ConfigureInterface :: 'h
  Network_Server_SetupVsockProxy :: 'h

definition Network_Methods ::
  "(capnp_method \<times> 'h) list \<Rightarrow> 'h network_handlers \<Rightarrow> (capnp_method \<times> 'h) list" where
  "Network_Methods methods s =
    methods @
     [(\<lparr>interface_id = 0x9fe9a01a06e6f3f2, method_id = 0, interface_name = ''capnp/agent.capnp:Network'',
       method_name = ''configureInterface''\<rparr>, Network_Server_ConfigureInterface s),
      (\<lparr>interface_id = 0x9fe9a01a06e6f3f2, method_id = 1, interface_name = ''capnp/agent.capnp:Network'',
       method_name = ''setupVsockProxy''\<rparr>, Network_Server_SetupVsockProxy s)]"

section \<open>Task\<close>

definition Task_Stdin :: "('s \<Rightarrow> 's go) option \<Rightarrow> 's send" where
  "Task_Stdin params =
    send_of \<lparr>interface_id = 0xdb908bfde268273c, method_id = 0, interface_name = ''capnp/agent.capnp:Task'',
       method_name = ''stdin''\<rparr> (0, 0) False params"

definition Task_ExitCode :: "('s \<Rightarrow> 's go) option \<Rightarrow> 's send" where
  "Task_ExitCode params =
    send_of \<lparr>interface_id = 0xdb908bfde268273c, method_id = 1, interface_name = ''capnp/agent.capnp:Task'',
       method_name = ''exitCode''\<rparr> (0, 0) False params"

record 'h task_handlers =
  Task_Server_Stdin :: 'h
  Task_Server_ExitCode :: 'h

definition Task_Methods ::
  "(capnp_method \<times> 'h) list \<Rightarrow> 'h task_handlers \<Rightarrow> (capnp_method \<times> 'h) list" where
  "Task_Methods methods s =
    methods @
     [(\<lparr>interface_id = 0xdb908bfde268273c, method_id = 0, interface_name = ''capnp/agent.capnp:Task'',
       method_name = ''stdin''\<rparr>, Task_Server_Stdin s),
      (\<lparr>interface_id = 0xdb908bfde268273c, method_id = 1, interface_name = ''capnp/agent.capnp:Task'',
       method_name = ''exitCode''\<rparr>, Task_Server_ExitCode s)]"

section \<open>Container\<close>

definition Container_Start :: "('s \<Rightarrow> 's go) option \<Rightarrow> 's send" where
  "Container_Start params =
    send_of \<lparr>interface_id = 0xb14b772e399f13cc, method_id = 0, interface_name = ''capnp/agent.capnp:Container'',
       method_name = ''start''\<rparr> (0, 2) False params"

record 'h container_handlers =
  Container_Server_Start :: 'h

definition Container_Methods ::
  "(capnp_method \<times> 'h) list \<Rightarrow> 'h container_handlers \<Rightarrow> (capnp_method \<times> 'h) list" where
  "Container_Methods methods s =
    methods @
     [(\<lparr>interface_id = 0xb14b772e399f13cc, method_id = 0, interface_name = ''capnp/agent.capnp:Container'',
       method_name = ''start''\<rparr>, Container_Server_Start s)]"

section \<open>ContainerService\<close>

definition ContainerService_Create :: "('s \<Rightarrow> 's go) option \<Rightarrow> 's send" where
  "ContainerService_Create params =
    send_of \<lparr>interface_id = 0xe216702839ab5c1d, method_id = 0, interface_name = ''capnp/agent.capnp:ContainerService'',
       method_name = ''create''\<rparr> (0, 5) False params"

record 'h container_service_handlers =
  ContainerService_Server_Create :: 'h

definition ContainerService_Methods ::
  "(capnp_method \<times> 'h) list \<Rightarrow> 'h container_service_handlers \<Rightarrow> (capnp_method \<times> 'h) list" where
  "ContainerService_Methods methods s =
    methods @
     [(\<lparr>interface_id = 0xe216702839ab5c1d, method_id = 0, interface_name = ''capnp/agent.capnp:ContainerService'',
       method_name = ''create''\<rparr>, ContainerService_Server_Create s)]"

section \<open>Agent\<close>

definition Agent_Debug :: "('s \<Rightarrow> 's go) option \<Rightarrow> 's send" where
  "Agent_Debug params =
    send_of \<lparr>interface_id = 0x87e7b4ba75da6311, method_id = 0, interface_name = ''capnp/agent.capnp:Agent'',
       method_name = ''debug''\<rparr> (0, 0) False params"

definition Agent_Network :: "('s \<Rightarrow> 's go) option \<Rightarrow> 's send" where
  "Agent_Network params =
    send_of \<lparr>interface_id = 0x87e7b4ba75da6311, method_id = 1, interface_name = ''capnp/agent.capnp:Agent'',
       method_name = ''network''\<rparr> (0, 0) False params"

definition Agent_ContainerService :: "('s \<Rightarrow> 's go) option \<Rightarrow> 's send" where
  "Agent_ContainerService params =
    send_of \<lparr>interface_id = 0x87e7b4ba75da6311, method_id = 2, interface_name = ''capnp/agent.capnp:Agent'',
       method_name = ''containerService''\<rparr> (0, 0) False params"

record 'h agent_handlers =
  Agent_Server_Debug :: 'h
  Agent_Server_Network :: 'h
  Agent_Server_ContainerService :: 'h

definition Agent_Methods ::
  "(capnp_method \<times> 'h) list \<Rightarrow> 'h agent_handlers \<Rightarrow> (capnp_method \<times> 'h) list" where
  "Agent_Methods methods s =
    methods @
     [(\<lparr>interface_id = 0x87e7b4ba75da6311, method_id = 0, interface_name = ''capnp/agent.capnp:Agent'',
       method_name = ''debug''\<rparr>, Agent_Server_Debug s),
      (\<lparr>interface_id = 0x87e7b4ba75da6311, method_id = 1, interface_name = ''capnp/agent.capnp:Agent'',
       method_name = ''network''\<rparr>, Agent_Server_Network s),
      (\<lparr>interface_id = 0x87e7b4ba75da6311, method_id = 2, interface_name = ''capnp/agent.capnp:Agent'',
       method_name = ''containerService''\<rparr>, Agent_Server_ContainerService s)]"

end
