(* ===== verification/RPC_Messages.thy ===== *)
theory RPC_Messages
  imports RPC_Schema
begin

text \<open>
  \<open>api/gen/go/capnp/agent.capnp.go\<close>, the messages: the accessors of the parameters and results
  of every method. A message is a struct of the capnp library, which is a parameter here: a
  record \<open>capnp\<close> of the library's operations that the accessors call, on structs \<open>'s\<close>,
  pointers \<open>'p\<close> and capabilities \<open>'c\<close>. A setter writes through the struct it is given; the
  model returns the struct after it. Offsets in the data section are in bytes. A Float64 is
  its 64 bits.
\<close>

record ('s, 'p, 'c) capnp =
  new_struct :: "nat \<times> nat \<Rightarrow> 's"
  ptr :: "'s \<Rightarrow> nat \<Rightarrow> 'p \<times> goerr option"
  set_ptr :: "'s \<Rightarrow> nat \<Rightarrow> 'p \<Rightarrow> 's go"
  null_ptr :: 'p
  ptr_text :: "'p \<Rightarrow> string"
  ptr_data :: "'p \<Rightarrow> string"
  ptr_client :: "'p \<Rightarrow> 'c"
  set_text :: "'s \<Rightarrow> nat \<Rightarrow> string \<Rightarrow> 's go"
  set_data :: "'s \<Rightarrow> nat \<Rightarrow> string \<Rightarrow> 's go"
  add_cap :: "'s \<Rightarrow> 'c \<Rightarrow> 's \<times> 'p"
  client_valid :: "'c \<Rightarrow> bool"
  uint32 :: "'s \<Rightarrow> nat \<Rightarrow> 32 word"
  set_uint32 :: "'s \<Rightarrow> nat \<Rightarrow> 32 word \<Rightarrow> 's"
  uint64 :: "'s \<Rightarrow> nat \<Rightarrow> 64 word"
  set_uint64 :: "'s \<Rightarrow> nat \<Rightarrow> 64 word \<Rightarrow> 's"

text \<open>The bodies that the accessors share.\<close>

definition text_at :: "('s, 'p, 'c) capnp \<Rightarrow> 's \<Rightarrow> nat \<Rightarrow> string go" where
  "text_at lib s i = (case ptr lib s i of (p, None) \<Rightarrow> Inr (ptr_text lib p) | (p, Some e) \<Rightarrow> Inl e)"

definition data_at :: "('s, 'p, 'c) capnp \<Rightarrow> 's \<Rightarrow> nat \<Rightarrow> string go" where
  "data_at lib s i = (case ptr lib s i of (p, None) \<Rightarrow> Inr (ptr_data lib p) | (p, Some e) \<Rightarrow> Inl e)"

definition client_at :: "('s, 'p, 'c) capnp \<Rightarrow> 's \<Rightarrow> nat \<Rightarrow> 'c" where
  "client_at lib s i = ptr_client lib (fst (ptr lib s i))"

definition set_client :: "('s, 'p, 'c) capnp \<Rightarrow> 's \<Rightarrow> nat \<Rightarrow> 'c \<Rightarrow> 's go" where
  "set_client lib s i v =
    (if \<not> client_valid lib v then set_ptr lib s i (null_ptr lib)
     else case add_cap lib s v of (s', p) \<Rightarrow> set_ptr lib s' i p)"

section \<open>ByteStream_write_Params\<close>

definition ByteStream_write_Params_Chunk :: "('s, 'p, 'c) capnp \<Rightarrow> 's \<Rightarrow> string go" where
  "ByteStream_write_Params_Chunk lib s = data_at lib s 0"

definition ByteStream_write_Params_SetChunk :: "('s, 'p, 'c) capnp \<Rightarrow> 's \<Rightarrow> string \<Rightarrow> 's go" where
  "ByteStream_write_Params_SetChunk lib s v = set_data lib s 0 v"

section \<open>Debug_ping_Results\<close>

definition Debug_ping_AllocResults :: "(nat \<times> nat \<Rightarrow> 's go) \<Rightarrow> 's go" where
  "Debug_ping_AllocResults alloc = alloc (0, 1)"

definition Debug_ping_Results_Message :: "('s, 'p, 'c) capnp \<Rightarrow> 's \<Rightarrow> string go" where
  "Debug_ping_Results_Message lib s = text_at lib s 0"

definition Debug_ping_Results_SetMessage :: "('s, 'p, 'c) capnp \<Rightarrow> 's \<Rightarrow> string \<Rightarrow> 's go" where
  "Debug_ping_Results_SetMessage lib s v = set_text lib s 0 v"

section \<open>Debug_openByteStream_Results\<close>

definition Debug_openByteStream_AllocResults :: "(nat \<times> nat \<Rightarrow> 's go) \<Rightarrow> 's go" where
  "Debug_openByteStream_AllocResults alloc = alloc (0, 1)"

definition Debug_openByteStream_Results_Stream :: "('s, 'p, 'c) capnp \<Rightarrow> 's \<Rightarrow> 'c" where
  "Debug_openByteStream_Results_Stream lib s = client_at lib s 0"

definition Debug_openByteStream_Results_SetStream :: "('s, 'p, 'c) capnp \<Rightarrow> 's \<Rightarrow> 'c \<Rightarrow> 's go" where
  "Debug_openByteStream_Results_SetStream lib s v = set_client lib s 0 v"

section \<open>Debug_startBenchmarkVsock_Params\<close>

definition Debug_startBenchmarkVsock_Params_Port :: "('s, 'p, 'c) capnp \<Rightarrow> 's \<Rightarrow> 32 word" where
  "Debug_startBenchmarkVsock_Params_Port lib s = uint32 lib s 0"

definition Debug_startBenchmarkVsock_Params_SetPort :: "('s, 'p, 'c) capnp \<Rightarrow> 's \<Rightarrow> 32 word \<Rightarrow> 's" where
  "Debug_startBenchmarkVsock_Params_SetPort lib s v = set_uint32 lib s 0 v"

definition Debug_startBenchmarkVsock_Params_TotalBytes :: "('s, 'p, 'c) capnp \<Rightarrow> 's \<Rightarrow> 64 word" where
  "Debug_startBenchmarkVsock_Params_TotalBytes lib s = uint64 lib s 8"

definition Debug_startBenchmarkVsock_Params_SetTotalBytes :: "('s, 'p, 'c) capnp \<Rightarrow> 's \<Rightarrow> 64 word \<Rightarrow> 's" where
  "Debug_startBenchmarkVsock_Params_SetTotalBytes lib s v = set_uint64 lib s 8 v"

definition Debug_startBenchmarkVsock_Params_ChunkBytes :: "('s, 'p, 'c) capnp \<Rightarrow> 's \<Rightarrow> 32 word" where
  "Debug_startBenchmarkVsock_Params_ChunkBytes lib s = uint32 lib s 4"

definition Debug_startBenchmarkVsock_Params_SetChunkBytes :: "('s, 'p, 'c) capnp \<Rightarrow> 's \<Rightarrow> 32 word \<Rightarrow> 's" where
  "Debug_startBenchmarkVsock_Params_SetChunkBytes lib s v = set_uint32 lib s 4 v"

section \<open>Debug_startBenchmarkVsock_Results\<close>

definition Debug_startBenchmarkVsock_AllocResults :: "(nat \<times> nat \<Rightarrow> 's go) \<Rightarrow> 's go" where
  "Debug_startBenchmarkVsock_AllocResults alloc = alloc (16, 0)"

definition Debug_startBenchmarkVsock_Results_BytesPerSec :: "('s, 'p, 'c) capnp \<Rightarrow> 's \<Rightarrow> 64 word" where
  "Debug_startBenchmarkVsock_Results_BytesPerSec lib s = uint64 lib s 0"

definition Debug_startBenchmarkVsock_Results_SetBytesPerSec :: "('s, 'p, 'c) capnp \<Rightarrow> 's \<Rightarrow> 64 word \<Rightarrow> 's" where
  "Debug_startBenchmarkVsock_Results_SetBytesPerSec lib s v = set_uint64 lib s 0 v"

definition Debug_startBenchmarkVsock_Results_DurationNanos :: "('s, 'p, 'c) capnp \<Rightarrow> 's \<Rightarrow> 64 word" where
  "Debug_startBenchmarkVsock_Results_DurationNanos lib s = uint64 lib s 8"

definition Debug_startBenchmarkVsock_Results_SetDurationNanos :: "('s, 'p, 'c) capnp \<Rightarrow> 's \<Rightarrow> 64 word \<Rightarrow> 's" where
  "Debug_startBenchmarkVsock_Results_SetDurationNanos lib s v = set_uint64 lib s 8 v"

section \<open>Network_configureInterface_Params\<close>

definition Network_configureInterface_Params_IfName :: "('s, 'p, 'c) capnp \<Rightarrow> 's \<Rightarrow> string go" where
  "Network_configureInterface_Params_IfName lib s = text_at lib s 0"

definition Network_configureInterface_Params_SetIfName :: "('s, 'p, 'c) capnp \<Rightarrow> 's \<Rightarrow> string \<Rightarrow> 's go" where
  "Network_configureInterface_Params_SetIfName lib s v = set_text lib s 0 v"

definition Network_configureInterface_Params_Cidr :: "('s, 'p, 'c) capnp \<Rightarrow> 's \<Rightarrow> string go" where
  "Network_configureInterface_Params_Cidr lib s = text_at lib s 1"

definition Network_configureInterface_Params_SetCidr :: "('s, 'p, 'c) capnp \<Rightarrow> 's \<Rightarrow> string \<Rightarrow> 's go" where
  "Network_configureInterface_Params_SetCidr lib s v = set_text lib s 1 v"

definition Network_configureInterface_Params_Gateway :: "('s, 'p, 'c) capnp \<Rightarrow> 's \<Rightarrow> string go" where
  "Network_configureInterface_Params_Gateway lib s = text_at lib s 2"

definition Network_configureInterface_Params_SetGateway :: "('s, 'p, 'c) capnp \<Rightarrow> 's \<Rightarrow> string \<Rightarrow> 's go" where
  "Network_configureInterface_Params_SetGateway lib s v = set_text lib s 2 v"

section \<open>Network_setupVsockProxy_Params\<close>

definition Network_setupVsockProxy_Params_Port :: "('s, 'p, 'c) capnp \<Rightarrow> 's \<Rightarrow> 32 word" where
  "Network_setupVsockProxy_Params_Port lib s = uint32 lib s 0"

definition Network_setupVsockProxy_Params_SetPort :: "('s, 'p, 'c) capnp \<Rightarrow> 's \<Rightarrow> 32 word \<Rightarrow> 's" where
  "Network_setupVsockProxy_Params_SetPort lib s v = set_uint32 lib s 0 v"

section \<open>Task_stdin_Results\<close>

definition Task_stdin_AllocResults :: "(nat \<times> nat \<Rightarrow> 's go) \<Rightarrow> 's go" where
  "Task_stdin_AllocResults alloc = alloc (0, 1)"

definition Task_stdin_Results_Stream :: "('s, 'p, 'c) capnp \<Rightarrow> 's \<Rightarrow> 'c" where
  "Task_stdin_Results_Stream lib s = client_at lib s 0"

definition Task_stdin_Results_SetStream :: "('s, 'p, 'c) capnp \<Rightarrow> 's \<Rightarrow> 'c \<Rightarrow> 's go" where
  "Task_stdin_Results_SetStream lib s v = set_client lib s 0 v"

section \<open>Task_exitCode_Results\<close>

definition Task_exitCode_AllocResults :: "(nat \<times> nat \<Rightarrow> 's go) \<Rightarrow> 's go" where
  "Task_exitCode_AllocResults alloc = alloc (8, 0)"

definition Task_exitCode_Results_Code :: "('s, 'p, 'c) capnp \<Rightarrow> 's \<Rightarrow> 32 word" where
  "Task_exitCode_Results_Code lib s = uint32 lib s 0"

definition Task_exitCode_Results_SetCode :: "('s, 'p, 'c) capnp \<Rightarrow> 's \<Rightarrow> 32 word \<Rightarrow> 's" where
  "Task_exitCode_Results_SetCode lib s v = set_uint32 lib s 0 v"

section \<open>Container_start_Params\<close>

definition Container_start_Params_Stdout :: "('s, 'p, 'c) capnp \<Rightarrow> 's \<Rightarrow> 'c" where
  "Container_start_Params_Stdout lib s = client_at lib s 0"

definition Container_start_Params_SetStdout :: "('s, 'p, 'c) capnp \<Rightarrow> 's \<Rightarrow> 'c \<Rightarrow> 's go" where
  "Container_start_Params_SetStdout lib s v = set_client lib s 0 v"

definition Container_start_Params_Stderr :: "('s, 'p, 'c) capnp \<Rightarrow> 's \<Rightarrow> 'c" where
  "Container_start_Params_Stderr lib s = client_at lib s 1"

definition Container_start_Params_SetStderr :: "('s, 'p, 'c) capnp \<Rightarrow> 's \<Rightarrow> 'c \<Rightarrow> 's go" where
  "Container_start_Params_SetStderr lib s v = set_client lib s 1 v"

section \<open>Container_start_Results\<close>

definition Container_start_AllocResults :: "(nat \<times> nat \<Rightarrow> 's go) \<Rightarrow> 's go" where
  "Container_start_AllocResults alloc = alloc (0, 1)"

definition Container_start_Results_Task :: "('s, 'p, 'c) capnp \<Rightarrow> 's \<Rightarrow> 'c" where
  "Container_start_Results_Task lib s = client_at lib s 0"

definition Container_start_Results_SetTask :: "('s, 'p, 'c) capnp \<Rightarrow> 's \<Rightarrow> 'c \<Rightarrow> 's go" where
  "Container_start_Results_SetTask lib s v = set_client lib s 0 v"

section \<open>ContainerService_create_Params\<close>

definition ContainerService_create_Params_Oci :: "('s, 'p, 'c) capnp \<Rightarrow> 's \<Rightarrow> string go" where
  "ContainerService_create_Params_Oci lib s = data_at lib s 0"

definition ContainerService_create_Params_SetOci :: "('s, 'p, 'c) capnp \<Rightarrow> 's \<Rightarrow> string \<Rightarrow> 's go" where
  "ContainerService_create_Params_SetOci lib s v = set_data lib s 0 v"

definition ContainerService_create_Params_Image :: "('s, 'p, 'c) capnp \<Rightarrow> 's \<Rightarrow> string go" where
  "ContainerService_create_Params_Image lib s = text_at lib s 1"

definition ContainerService_create_Params_SetImage :: "('s, 'p, 'c) capnp \<Rightarrow> 's \<Rightarrow> string \<Rightarrow> 's go" where
  "ContainerService_create_Params_SetImage lib s v = set_text lib s 1 v"

definition ContainerService_create_Params_Id :: "('s, 'p, 'c) capnp \<Rightarrow> 's \<Rightarrow> string go" where
  "ContainerService_create_Params_Id lib s = text_at lib s 2"

definition ContainerService_create_Params_SetId :: "('s, 'p, 'c) capnp \<Rightarrow> 's \<Rightarrow> string \<Rightarrow> 's go" where
  "ContainerService_create_Params_SetId lib s v = set_text lib s 2 v"

definition ContainerService_create_Params_RootfsPath :: "('s, 'p, 'c) capnp \<Rightarrow> 's \<Rightarrow> string go" where
  "ContainerService_create_Params_RootfsPath lib s = text_at lib s 3"

definition ContainerService_create_Params_SetRootfsPath :: "('s, 'p, 'c) capnp \<Rightarrow> 's \<Rightarrow> string \<Rightarrow> 's go" where
  "ContainerService_create_Params_SetRootfsPath lib s v = set_text lib s 3 v"

definition ContainerService_create_Params_ContainerStateDisk :: "('s, 'p, 'c) capnp \<Rightarrow> 's \<Rightarrow> string go" where
  "ContainerService_create_Params_ContainerStateDisk lib s = text_at lib s 4"

definition ContainerService_create_Params_SetContainerStateDisk :: "('s, 'p, 'c) capnp \<Rightarrow> 's \<Rightarrow> string \<Rightarrow> 's go" where
  "ContainerService_create_Params_SetContainerStateDisk lib s v = set_text lib s 4 v"

section \<open>ContainerService_create_Results\<close>

definition ContainerService_create_AllocResults :: "(nat \<times> nat \<Rightarrow> 's go) \<Rightarrow> 's go" where
  "ContainerService_create_AllocResults alloc = alloc (0, 1)"

definition ContainerService_create_Results_Container :: "('s, 'p, 'c) capnp \<Rightarrow> 's \<Rightarrow> 'c" where
  "ContainerService_create_Results_Container lib s = client_at lib s 0"

definition ContainerService_create_Results_SetContainer :: "('s, 'p, 'c) capnp \<Rightarrow> 's \<Rightarrow> 'c \<Rightarrow> 's go" where
  "ContainerService_create_Results_SetContainer lib s v = set_client lib s 0 v"

section \<open>Agent_debug_Results\<close>

definition Agent_debug_AllocResults :: "(nat \<times> nat \<Rightarrow> 's go) \<Rightarrow> 's go" where
  "Agent_debug_AllocResults alloc = alloc (0, 1)"

definition Agent_debug_Results_Debug :: "('s, 'p, 'c) capnp \<Rightarrow> 's \<Rightarrow> 'c" where
  "Agent_debug_Results_Debug lib s = client_at lib s 0"

definition Agent_debug_Results_SetDebug :: "('s, 'p, 'c) capnp \<Rightarrow> 's \<Rightarrow> 'c \<Rightarrow> 's go" where
  "Agent_debug_Results_SetDebug lib s v = set_client lib s 0 v"

section \<open>Agent_network_Results\<close>

definition Agent_network_AllocResults :: "(nat \<times> nat \<Rightarrow> 's go) \<Rightarrow> 's go" where
  "Agent_network_AllocResults alloc = alloc (0, 1)"

definition Agent_network_Results_Network :: "('s, 'p, 'c) capnp \<Rightarrow> 's \<Rightarrow> 'c" where
  "Agent_network_Results_Network lib s = client_at lib s 0"

definition Agent_network_Results_SetNetwork :: "('s, 'p, 'c) capnp \<Rightarrow> 's \<Rightarrow> 'c \<Rightarrow> 's go" where
  "Agent_network_Results_SetNetwork lib s v = set_client lib s 0 v"

section \<open>Agent_containerService_Results\<close>

definition Agent_containerService_AllocResults :: "(nat \<times> nat \<Rightarrow> 's go) \<Rightarrow> 's go" where
  "Agent_containerService_AllocResults alloc = alloc (0, 1)"

definition Agent_containerService_Results_Service :: "('s, 'p, 'c) capnp \<Rightarrow> 's \<Rightarrow> 'c" where
  "Agent_containerService_Results_Service lib s = client_at lib s 0"

definition Agent_containerService_Results_SetService :: "('s, 'p, 'c) capnp \<Rightarrow> 's \<Rightarrow> 'c \<Rightarrow> 's go" where
  "Agent_containerService_Results_SetService lib s v = set_client lib s 0 v"

end
