(* ===== verification/RPC_Structs.thy ===== *)
theory RPC_Structs
  imports RPC_Messages
begin

text \<open>
  \<open>api/gen/go/capnp/agent.capnp.go\<close>, the structs: how each message is allocated on its own, as
  the root of a message and in a list, how it is read from a root and from the answer to a call,
  whether a pointer field is set, and the capabilities that are called before the answer has
  come. An allocator of the library takes the sizes of the two sections. A function that
  returns \<open>(X, error)\<close> from a pointer gives both, as the code does.
\<close>

section \<open>The library\<close>

record ('s, 'p) pointers =
  struct_of :: "'p \<Rightarrow> 's"
  text_bytes :: "'p \<Rightarrow> string"
  has_ptr :: "'s \<Rightarrow> nat \<Rightarrow> bool"

text \<open>\<open>capnp.Future\<close>: the pointer that the answer resolves to, and the client of one of its fields.\<close>

record ('p, 'c) future =
  future_ptr :: "'p \<times> goerr option"
  future_client :: "nat \<Rightarrow> 'c"

definition struct_from :: "('s, 'p) pointers \<Rightarrow> 'p \<times> goerr option \<Rightarrow> 's \<times> goerr option" where
  "struct_from pt r = (struct_of pt (fst r), snd r)"

definition bytes_at :: "('s, 'p, 'c) capnp \<Rightarrow> ('s, 'p) pointers \<Rightarrow> 's \<Rightarrow> nat \<Rightarrow> string \<times> goerr option" where
  "bytes_at lib pt s i = (text_bytes pt (fst (ptr lib s i)), snd (ptr lib s i))"

section \<open>ByteStream_write_Params\<close>

definition NewByteStream_write_Params :: "(nat \<times> nat \<Rightarrow> 's go) \<Rightarrow> 's go" where
  "NewByteStream_write_Params alloc = alloc (0, 1)"

definition NewRootByteStream_write_Params :: "(nat \<times> nat \<Rightarrow> 's go) \<Rightarrow> 's go" where
  "NewRootByteStream_write_Params alloc = alloc (0, 1)"

definition NewByteStream_write_Params_List ::
  "(nat \<times> nat \<Rightarrow> 32 word \<Rightarrow> 'l go) \<Rightarrow> 32 word \<Rightarrow> 'l go" where
  "NewByteStream_write_Params_List alloc sz = alloc (0, 1) sz"

definition ReadRootByteStream_write_Params ::
  "('s, 'p) pointers \<Rightarrow> 'p \<times> goerr option \<Rightarrow> 's \<times> goerr option" where
  "ReadRootByteStream_write_Params pt root = struct_from pt root"

definition ByteStream_write_Params_HasChunk :: "('s, 'p) pointers \<Rightarrow> 's \<Rightarrow> bool" where
  "ByteStream_write_Params_HasChunk pt s = has_ptr pt s 0"

definition ByteStream_write_Params_Future_Struct ::
  "('s, 'p) pointers \<Rightarrow> ('p, 'c) future \<Rightarrow> 's \<times> goerr option" where
  "ByteStream_write_Params_Future_Struct pt f = struct_from pt (future_ptr f)"

section \<open>ByteStream_done_Params\<close>

definition NewByteStream_done_Params :: "(nat \<times> nat \<Rightarrow> 's go) \<Rightarrow> 's go" where
  "NewByteStream_done_Params alloc = alloc (0, 0)"

definition NewRootByteStream_done_Params :: "(nat \<times> nat \<Rightarrow> 's go) \<Rightarrow> 's go" where
  "NewRootByteStream_done_Params alloc = alloc (0, 0)"

definition NewByteStream_done_Params_List ::
  "(nat \<times> nat \<Rightarrow> 32 word \<Rightarrow> 'l go) \<Rightarrow> 32 word \<Rightarrow> 'l go" where
  "NewByteStream_done_Params_List alloc sz = alloc (0, 0) sz"

definition ReadRootByteStream_done_Params ::
  "('s, 'p) pointers \<Rightarrow> 'p \<times> goerr option \<Rightarrow> 's \<times> goerr option" where
  "ReadRootByteStream_done_Params pt root = struct_from pt root"

definition ByteStream_done_Params_Future_Struct ::
  "('s, 'p) pointers \<Rightarrow> ('p, 'c) future \<Rightarrow> 's \<times> goerr option" where
  "ByteStream_done_Params_Future_Struct pt f = struct_from pt (future_ptr f)"

section \<open>ByteStream_done_Results\<close>

definition NewByteStream_done_Results :: "(nat \<times> nat \<Rightarrow> 's go) \<Rightarrow> 's go" where
  "NewByteStream_done_Results alloc = alloc (0, 0)"

definition NewRootByteStream_done_Results :: "(nat \<times> nat \<Rightarrow> 's go) \<Rightarrow> 's go" where
  "NewRootByteStream_done_Results alloc = alloc (0, 0)"

definition NewByteStream_done_Results_List ::
  "(nat \<times> nat \<Rightarrow> 32 word \<Rightarrow> 'l go) \<Rightarrow> 32 word \<Rightarrow> 'l go" where
  "NewByteStream_done_Results_List alloc sz = alloc (0, 0) sz"

definition ByteStream_done_AllocResults :: "(nat \<times> nat \<Rightarrow> 's go) \<Rightarrow> 's go" where
  "ByteStream_done_AllocResults alloc = alloc (0, 0)"

definition ReadRootByteStream_done_Results ::
  "('s, 'p) pointers \<Rightarrow> 'p \<times> goerr option \<Rightarrow> 's \<times> goerr option" where
  "ReadRootByteStream_done_Results pt root = struct_from pt root"

definition ByteStream_done_Results_Future_Struct ::
  "('s, 'p) pointers \<Rightarrow> ('p, 'c) future \<Rightarrow> 's \<times> goerr option" where
  "ByteStream_done_Results_Future_Struct pt f = struct_from pt (future_ptr f)"

section \<open>Debug_ping_Params\<close>

definition NewDebug_ping_Params :: "(nat \<times> nat \<Rightarrow> 's go) \<Rightarrow> 's go" where
  "NewDebug_ping_Params alloc = alloc (0, 0)"

definition NewRootDebug_ping_Params :: "(nat \<times> nat \<Rightarrow> 's go) \<Rightarrow> 's go" where
  "NewRootDebug_ping_Params alloc = alloc (0, 0)"

definition NewDebug_ping_Params_List ::
  "(nat \<times> nat \<Rightarrow> 32 word \<Rightarrow> 'l go) \<Rightarrow> 32 word \<Rightarrow> 'l go" where
  "NewDebug_ping_Params_List alloc sz = alloc (0, 0) sz"

definition ReadRootDebug_ping_Params ::
  "('s, 'p) pointers \<Rightarrow> 'p \<times> goerr option \<Rightarrow> 's \<times> goerr option" where
  "ReadRootDebug_ping_Params pt root = struct_from pt root"

definition Debug_ping_Params_Future_Struct ::
  "('s, 'p) pointers \<Rightarrow> ('p, 'c) future \<Rightarrow> 's \<times> goerr option" where
  "Debug_ping_Params_Future_Struct pt f = struct_from pt (future_ptr f)"

section \<open>Debug_ping_Results\<close>

definition NewDebug_ping_Results :: "(nat \<times> nat \<Rightarrow> 's go) \<Rightarrow> 's go" where
  "NewDebug_ping_Results alloc = alloc (0, 1)"

definition NewRootDebug_ping_Results :: "(nat \<times> nat \<Rightarrow> 's go) \<Rightarrow> 's go" where
  "NewRootDebug_ping_Results alloc = alloc (0, 1)"

definition NewDebug_ping_Results_List ::
  "(nat \<times> nat \<Rightarrow> 32 word \<Rightarrow> 'l go) \<Rightarrow> 32 word \<Rightarrow> 'l go" where
  "NewDebug_ping_Results_List alloc sz = alloc (0, 1) sz"

definition ReadRootDebug_ping_Results ::
  "('s, 'p) pointers \<Rightarrow> 'p \<times> goerr option \<Rightarrow> 's \<times> goerr option" where
  "ReadRootDebug_ping_Results pt root = struct_from pt root"

definition Debug_ping_Results_HasMessage :: "('s, 'p) pointers \<Rightarrow> 's \<Rightarrow> bool" where
  "Debug_ping_Results_HasMessage pt s = has_ptr pt s 0"

definition Debug_ping_Results_Message_Bytes ::
  "('s, 'p, 'c) capnp \<Rightarrow> ('s, 'p) pointers \<Rightarrow> 's \<Rightarrow> string \<times> goerr option" where
  "Debug_ping_Results_Message_Bytes lib pt s = bytes_at lib pt s 0"

definition Debug_ping_Results_Future_Struct ::
  "('s, 'p) pointers \<Rightarrow> ('p, 'c) future \<Rightarrow> 's \<times> goerr option" where
  "Debug_ping_Results_Future_Struct pt f = struct_from pt (future_ptr f)"

section \<open>Debug_openByteStream_Params\<close>

definition NewDebug_openByteStream_Params :: "(nat \<times> nat \<Rightarrow> 's go) \<Rightarrow> 's go" where
  "NewDebug_openByteStream_Params alloc = alloc (0, 0)"

definition NewRootDebug_openByteStream_Params :: "(nat \<times> nat \<Rightarrow> 's go) \<Rightarrow> 's go" where
  "NewRootDebug_openByteStream_Params alloc = alloc (0, 0)"

definition NewDebug_openByteStream_Params_List ::
  "(nat \<times> nat \<Rightarrow> 32 word \<Rightarrow> 'l go) \<Rightarrow> 32 word \<Rightarrow> 'l go" where
  "NewDebug_openByteStream_Params_List alloc sz = alloc (0, 0) sz"

definition ReadRootDebug_openByteStream_Params ::
  "('s, 'p) pointers \<Rightarrow> 'p \<times> goerr option \<Rightarrow> 's \<times> goerr option" where
  "ReadRootDebug_openByteStream_Params pt root = struct_from pt root"

definition Debug_openByteStream_Params_Future_Struct ::
  "('s, 'p) pointers \<Rightarrow> ('p, 'c) future \<Rightarrow> 's \<times> goerr option" where
  "Debug_openByteStream_Params_Future_Struct pt f = struct_from pt (future_ptr f)"

section \<open>Debug_openByteStream_Results\<close>

definition NewDebug_openByteStream_Results :: "(nat \<times> nat \<Rightarrow> 's go) \<Rightarrow> 's go" where
  "NewDebug_openByteStream_Results alloc = alloc (0, 1)"

definition NewRootDebug_openByteStream_Results :: "(nat \<times> nat \<Rightarrow> 's go) \<Rightarrow> 's go" where
  "NewRootDebug_openByteStream_Results alloc = alloc (0, 1)"

definition NewDebug_openByteStream_Results_List ::
  "(nat \<times> nat \<Rightarrow> 32 word \<Rightarrow> 'l go) \<Rightarrow> 32 word \<Rightarrow> 'l go" where
  "NewDebug_openByteStream_Results_List alloc sz = alloc (0, 1) sz"

definition ReadRootDebug_openByteStream_Results ::
  "('s, 'p) pointers \<Rightarrow> 'p \<times> goerr option \<Rightarrow> 's \<times> goerr option" where
  "ReadRootDebug_openByteStream_Results pt root = struct_from pt root"

definition Debug_openByteStream_Results_HasStream :: "('s, 'p) pointers \<Rightarrow> 's \<Rightarrow> bool" where
  "Debug_openByteStream_Results_HasStream pt s = has_ptr pt s 0"

definition Debug_openByteStream_Results_Future_Struct ::
  "('s, 'p) pointers \<Rightarrow> ('p, 'c) future \<Rightarrow> 's \<times> goerr option" where
  "Debug_openByteStream_Results_Future_Struct pt f = struct_from pt (future_ptr f)"

definition Debug_openByteStream_Results_Future_Stream :: "('p, 'c) future \<Rightarrow> 'c" where
  "Debug_openByteStream_Results_Future_Stream p = future_client p 0"

section \<open>Debug_startBenchmarkVsock_Params\<close>

definition NewDebug_startBenchmarkVsock_Params :: "(nat \<times> nat \<Rightarrow> 's go) \<Rightarrow> 's go" where
  "NewDebug_startBenchmarkVsock_Params alloc = alloc (16, 0)"

definition NewRootDebug_startBenchmarkVsock_Params :: "(nat \<times> nat \<Rightarrow> 's go) \<Rightarrow> 's go" where
  "NewRootDebug_startBenchmarkVsock_Params alloc = alloc (16, 0)"

definition NewDebug_startBenchmarkVsock_Params_List ::
  "(nat \<times> nat \<Rightarrow> 32 word \<Rightarrow> 'l go) \<Rightarrow> 32 word \<Rightarrow> 'l go" where
  "NewDebug_startBenchmarkVsock_Params_List alloc sz = alloc (16, 0) sz"

definition ReadRootDebug_startBenchmarkVsock_Params ::
  "('s, 'p) pointers \<Rightarrow> 'p \<times> goerr option \<Rightarrow> 's \<times> goerr option" where
  "ReadRootDebug_startBenchmarkVsock_Params pt root = struct_from pt root"

definition Debug_startBenchmarkVsock_Params_Future_Struct ::
  "('s, 'p) pointers \<Rightarrow> ('p, 'c) future \<Rightarrow> 's \<times> goerr option" where
  "Debug_startBenchmarkVsock_Params_Future_Struct pt f = struct_from pt (future_ptr f)"

section \<open>Debug_startBenchmarkVsock_Results\<close>

definition NewDebug_startBenchmarkVsock_Results :: "(nat \<times> nat \<Rightarrow> 's go) \<Rightarrow> 's go" where
  "NewDebug_startBenchmarkVsock_Results alloc = alloc (16, 0)"

definition NewRootDebug_startBenchmarkVsock_Results :: "(nat \<times> nat \<Rightarrow> 's go) \<Rightarrow> 's go" where
  "NewRootDebug_startBenchmarkVsock_Results alloc = alloc (16, 0)"

definition NewDebug_startBenchmarkVsock_Results_List ::
  "(nat \<times> nat \<Rightarrow> 32 word \<Rightarrow> 'l go) \<Rightarrow> 32 word \<Rightarrow> 'l go" where
  "NewDebug_startBenchmarkVsock_Results_List alloc sz = alloc (16, 0) sz"

definition ReadRootDebug_startBenchmarkVsock_Results ::
  "('s, 'p) pointers \<Rightarrow> 'p \<times> goerr option \<Rightarrow> 's \<times> goerr option" where
  "ReadRootDebug_startBenchmarkVsock_Results pt root = struct_from pt root"

definition Debug_startBenchmarkVsock_Results_Future_Struct ::
  "('s, 'p) pointers \<Rightarrow> ('p, 'c) future \<Rightarrow> 's \<times> goerr option" where
  "Debug_startBenchmarkVsock_Results_Future_Struct pt f = struct_from pt (future_ptr f)"

section \<open>Network_configureInterface_Params\<close>

definition NewNetwork_configureInterface_Params :: "(nat \<times> nat \<Rightarrow> 's go) \<Rightarrow> 's go" where
  "NewNetwork_configureInterface_Params alloc = alloc (0, 3)"

definition NewRootNetwork_configureInterface_Params :: "(nat \<times> nat \<Rightarrow> 's go) \<Rightarrow> 's go" where
  "NewRootNetwork_configureInterface_Params alloc = alloc (0, 3)"

definition NewNetwork_configureInterface_Params_List ::
  "(nat \<times> nat \<Rightarrow> 32 word \<Rightarrow> 'l go) \<Rightarrow> 32 word \<Rightarrow> 'l go" where
  "NewNetwork_configureInterface_Params_List alloc sz = alloc (0, 3) sz"

definition ReadRootNetwork_configureInterface_Params ::
  "('s, 'p) pointers \<Rightarrow> 'p \<times> goerr option \<Rightarrow> 's \<times> goerr option" where
  "ReadRootNetwork_configureInterface_Params pt root = struct_from pt root"

definition Network_configureInterface_Params_HasIfName :: "('s, 'p) pointers \<Rightarrow> 's \<Rightarrow> bool" where
  "Network_configureInterface_Params_HasIfName pt s = has_ptr pt s 0"

definition Network_configureInterface_Params_IfNameBytes ::
  "('s, 'p, 'c) capnp \<Rightarrow> ('s, 'p) pointers \<Rightarrow> 's \<Rightarrow> string \<times> goerr option" where
  "Network_configureInterface_Params_IfNameBytes lib pt s = bytes_at lib pt s 0"

definition Network_configureInterface_Params_HasCidr :: "('s, 'p) pointers \<Rightarrow> 's \<Rightarrow> bool" where
  "Network_configureInterface_Params_HasCidr pt s = has_ptr pt s 1"

definition Network_configureInterface_Params_CidrBytes ::
  "('s, 'p, 'c) capnp \<Rightarrow> ('s, 'p) pointers \<Rightarrow> 's \<Rightarrow> string \<times> goerr option" where
  "Network_configureInterface_Params_CidrBytes lib pt s = bytes_at lib pt s 1"

definition Network_configureInterface_Params_HasGateway :: "('s, 'p) pointers \<Rightarrow> 's \<Rightarrow> bool" where
  "Network_configureInterface_Params_HasGateway pt s = has_ptr pt s 2"

definition Network_configureInterface_Params_GatewayBytes ::
  "('s, 'p, 'c) capnp \<Rightarrow> ('s, 'p) pointers \<Rightarrow> 's \<Rightarrow> string \<times> goerr option" where
  "Network_configureInterface_Params_GatewayBytes lib pt s = bytes_at lib pt s 2"

definition Network_configureInterface_Params_Future_Struct ::
  "('s, 'p) pointers \<Rightarrow> ('p, 'c) future \<Rightarrow> 's \<times> goerr option" where
  "Network_configureInterface_Params_Future_Struct pt f = struct_from pt (future_ptr f)"

section \<open>Network_configureInterface_Results\<close>

definition NewNetwork_configureInterface_Results :: "(nat \<times> nat \<Rightarrow> 's go) \<Rightarrow> 's go" where
  "NewNetwork_configureInterface_Results alloc = alloc (0, 0)"

definition NewRootNetwork_configureInterface_Results :: "(nat \<times> nat \<Rightarrow> 's go) \<Rightarrow> 's go" where
  "NewRootNetwork_configureInterface_Results alloc = alloc (0, 0)"

definition NewNetwork_configureInterface_Results_List ::
  "(nat \<times> nat \<Rightarrow> 32 word \<Rightarrow> 'l go) \<Rightarrow> 32 word \<Rightarrow> 'l go" where
  "NewNetwork_configureInterface_Results_List alloc sz = alloc (0, 0) sz"

definition Network_configureInterface_AllocResults :: "(nat \<times> nat \<Rightarrow> 's go) \<Rightarrow> 's go" where
  "Network_configureInterface_AllocResults alloc = alloc (0, 0)"

definition ReadRootNetwork_configureInterface_Results ::
  "('s, 'p) pointers \<Rightarrow> 'p \<times> goerr option \<Rightarrow> 's \<times> goerr option" where
  "ReadRootNetwork_configureInterface_Results pt root = struct_from pt root"

definition Network_configureInterface_Results_Future_Struct ::
  "('s, 'p) pointers \<Rightarrow> ('p, 'c) future \<Rightarrow> 's \<times> goerr option" where
  "Network_configureInterface_Results_Future_Struct pt f = struct_from pt (future_ptr f)"

section \<open>Network_setupVsockProxy_Params\<close>

definition NewNetwork_setupVsockProxy_Params :: "(nat \<times> nat \<Rightarrow> 's go) \<Rightarrow> 's go" where
  "NewNetwork_setupVsockProxy_Params alloc = alloc (8, 0)"

definition NewRootNetwork_setupVsockProxy_Params :: "(nat \<times> nat \<Rightarrow> 's go) \<Rightarrow> 's go" where
  "NewRootNetwork_setupVsockProxy_Params alloc = alloc (8, 0)"

definition NewNetwork_setupVsockProxy_Params_List ::
  "(nat \<times> nat \<Rightarrow> 32 word \<Rightarrow> 'l go) \<Rightarrow> 32 word \<Rightarrow> 'l go" where
  "NewNetwork_setupVsockProxy_Params_List alloc sz = alloc (8, 0) sz"

definition ReadRootNetwork_setupVsockProxy_Params ::
  "('s, 'p) pointers \<Rightarrow> 'p \<times> goerr option \<Rightarrow> 's \<times> goerr option" where
  "ReadRootNetwork_setupVsockProxy_Params pt root = struct_from pt root"

definition Network_setupVsockProxy_Params_Future_Struct ::
  "('s, 'p) pointers \<Rightarrow> ('p, 'c) future \<Rightarrow> 's \<times> goerr option" where
  "Network_setupVsockProxy_Params_Future_Struct pt f = struct_from pt (future_ptr f)"

section \<open>Network_setupVsockProxy_Results\<close>

definition NewNetwork_setupVsockProxy_Results :: "(nat \<times> nat \<Rightarrow> 's go) \<Rightarrow> 's go" where
  "NewNetwork_setupVsockProxy_Results alloc = alloc (0, 0)"

definition NewRootNetwork_setupVsockProxy_Results :: "(nat \<times> nat \<Rightarrow> 's go) \<Rightarrow> 's go" where
  "NewRootNetwork_setupVsockProxy_Results alloc = alloc (0, 0)"

definition NewNetwork_setupVsockProxy_Results_List ::
  "(nat \<times> nat \<Rightarrow> 32 word \<Rightarrow> 'l go) \<Rightarrow> 32 word \<Rightarrow> 'l go" where
  "NewNetwork_setupVsockProxy_Results_List alloc sz = alloc (0, 0) sz"

definition Network_setupVsockProxy_AllocResults :: "(nat \<times> nat \<Rightarrow> 's go) \<Rightarrow> 's go" where
  "Network_setupVsockProxy_AllocResults alloc = alloc (0, 0)"

definition ReadRootNetwork_setupVsockProxy_Results ::
  "('s, 'p) pointers \<Rightarrow> 'p \<times> goerr option \<Rightarrow> 's \<times> goerr option" where
  "ReadRootNetwork_setupVsockProxy_Results pt root = struct_from pt root"

definition Network_setupVsockProxy_Results_Future_Struct ::
  "('s, 'p) pointers \<Rightarrow> ('p, 'c) future \<Rightarrow> 's \<times> goerr option" where
  "Network_setupVsockProxy_Results_Future_Struct pt f = struct_from pt (future_ptr f)"

section \<open>Task_stdin_Params\<close>

definition NewTask_stdin_Params :: "(nat \<times> nat \<Rightarrow> 's go) \<Rightarrow> 's go" where
  "NewTask_stdin_Params alloc = alloc (0, 0)"

definition NewRootTask_stdin_Params :: "(nat \<times> nat \<Rightarrow> 's go) \<Rightarrow> 's go" where
  "NewRootTask_stdin_Params alloc = alloc (0, 0)"

definition NewTask_stdin_Params_List ::
  "(nat \<times> nat \<Rightarrow> 32 word \<Rightarrow> 'l go) \<Rightarrow> 32 word \<Rightarrow> 'l go" where
  "NewTask_stdin_Params_List alloc sz = alloc (0, 0) sz"

definition ReadRootTask_stdin_Params ::
  "('s, 'p) pointers \<Rightarrow> 'p \<times> goerr option \<Rightarrow> 's \<times> goerr option" where
  "ReadRootTask_stdin_Params pt root = struct_from pt root"

definition Task_stdin_Params_Future_Struct ::
  "('s, 'p) pointers \<Rightarrow> ('p, 'c) future \<Rightarrow> 's \<times> goerr option" where
  "Task_stdin_Params_Future_Struct pt f = struct_from pt (future_ptr f)"

section \<open>Task_stdin_Results\<close>

definition NewTask_stdin_Results :: "(nat \<times> nat \<Rightarrow> 's go) \<Rightarrow> 's go" where
  "NewTask_stdin_Results alloc = alloc (0, 1)"

definition NewRootTask_stdin_Results :: "(nat \<times> nat \<Rightarrow> 's go) \<Rightarrow> 's go" where
  "NewRootTask_stdin_Results alloc = alloc (0, 1)"

definition NewTask_stdin_Results_List ::
  "(nat \<times> nat \<Rightarrow> 32 word \<Rightarrow> 'l go) \<Rightarrow> 32 word \<Rightarrow> 'l go" where
  "NewTask_stdin_Results_List alloc sz = alloc (0, 1) sz"

definition ReadRootTask_stdin_Results ::
  "('s, 'p) pointers \<Rightarrow> 'p \<times> goerr option \<Rightarrow> 's \<times> goerr option" where
  "ReadRootTask_stdin_Results pt root = struct_from pt root"

definition Task_stdin_Results_HasStream :: "('s, 'p) pointers \<Rightarrow> 's \<Rightarrow> bool" where
  "Task_stdin_Results_HasStream pt s = has_ptr pt s 0"

definition Task_stdin_Results_Future_Struct ::
  "('s, 'p) pointers \<Rightarrow> ('p, 'c) future \<Rightarrow> 's \<times> goerr option" where
  "Task_stdin_Results_Future_Struct pt f = struct_from pt (future_ptr f)"

definition Task_stdin_Results_Future_Stream :: "('p, 'c) future \<Rightarrow> 'c" where
  "Task_stdin_Results_Future_Stream p = future_client p 0"

section \<open>Task_exitCode_Params\<close>

definition NewTask_exitCode_Params :: "(nat \<times> nat \<Rightarrow> 's go) \<Rightarrow> 's go" where
  "NewTask_exitCode_Params alloc = alloc (0, 0)"

definition NewRootTask_exitCode_Params :: "(nat \<times> nat \<Rightarrow> 's go) \<Rightarrow> 's go" where
  "NewRootTask_exitCode_Params alloc = alloc (0, 0)"

definition NewTask_exitCode_Params_List ::
  "(nat \<times> nat \<Rightarrow> 32 word \<Rightarrow> 'l go) \<Rightarrow> 32 word \<Rightarrow> 'l go" where
  "NewTask_exitCode_Params_List alloc sz = alloc (0, 0) sz"

definition ReadRootTask_exitCode_Params ::
  "('s, 'p) pointers \<Rightarrow> 'p \<times> goerr option \<Rightarrow> 's \<times> goerr option" where
  "ReadRootTask_exitCode_Params pt root = struct_from pt root"

definition Task_exitCode_Params_Future_Struct ::
  "('s, 'p) pointers \<Rightarrow> ('p, 'c) future \<Rightarrow> 's \<times> goerr option" where
  "Task_exitCode_Params_Future_Struct pt f = struct_from pt (future_ptr f)"

section \<open>Task_exitCode_Results\<close>

definition NewTask_exitCode_Results :: "(nat \<times> nat \<Rightarrow> 's go) \<Rightarrow> 's go" where
  "NewTask_exitCode_Results alloc = alloc (8, 0)"

definition NewRootTask_exitCode_Results :: "(nat \<times> nat \<Rightarrow> 's go) \<Rightarrow> 's go" where
  "NewRootTask_exitCode_Results alloc = alloc (8, 0)"

definition NewTask_exitCode_Results_List ::
  "(nat \<times> nat \<Rightarrow> 32 word \<Rightarrow> 'l go) \<Rightarrow> 32 word \<Rightarrow> 'l go" where
  "NewTask_exitCode_Results_List alloc sz = alloc (8, 0) sz"

definition ReadRootTask_exitCode_Results ::
  "('s, 'p) pointers \<Rightarrow> 'p \<times> goerr option \<Rightarrow> 's \<times> goerr option" where
  "ReadRootTask_exitCode_Results pt root = struct_from pt root"

definition Task_exitCode_Results_Future_Struct ::
  "('s, 'p) pointers \<Rightarrow> ('p, 'c) future \<Rightarrow> 's \<times> goerr option" where
  "Task_exitCode_Results_Future_Struct pt f = struct_from pt (future_ptr f)"

section \<open>Container_start_Params\<close>

definition NewContainer_start_Params :: "(nat \<times> nat \<Rightarrow> 's go) \<Rightarrow> 's go" where
  "NewContainer_start_Params alloc = alloc (0, 2)"

definition NewRootContainer_start_Params :: "(nat \<times> nat \<Rightarrow> 's go) \<Rightarrow> 's go" where
  "NewRootContainer_start_Params alloc = alloc (0, 2)"

definition NewContainer_start_Params_List ::
  "(nat \<times> nat \<Rightarrow> 32 word \<Rightarrow> 'l go) \<Rightarrow> 32 word \<Rightarrow> 'l go" where
  "NewContainer_start_Params_List alloc sz = alloc (0, 2) sz"

definition ReadRootContainer_start_Params ::
  "('s, 'p) pointers \<Rightarrow> 'p \<times> goerr option \<Rightarrow> 's \<times> goerr option" where
  "ReadRootContainer_start_Params pt root = struct_from pt root"

definition Container_start_Params_HasStdout :: "('s, 'p) pointers \<Rightarrow> 's \<Rightarrow> bool" where
  "Container_start_Params_HasStdout pt s = has_ptr pt s 0"

definition Container_start_Params_HasStderr :: "('s, 'p) pointers \<Rightarrow> 's \<Rightarrow> bool" where
  "Container_start_Params_HasStderr pt s = has_ptr pt s 1"

definition Container_start_Params_Future_Struct ::
  "('s, 'p) pointers \<Rightarrow> ('p, 'c) future \<Rightarrow> 's \<times> goerr option" where
  "Container_start_Params_Future_Struct pt f = struct_from pt (future_ptr f)"

definition Container_start_Params_Future_Stdout :: "('p, 'c) future \<Rightarrow> 'c" where
  "Container_start_Params_Future_Stdout p = future_client p 0"

definition Container_start_Params_Future_Stderr :: "('p, 'c) future \<Rightarrow> 'c" where
  "Container_start_Params_Future_Stderr p = future_client p 1"

section \<open>Container_start_Results\<close>

definition NewContainer_start_Results :: "(nat \<times> nat \<Rightarrow> 's go) \<Rightarrow> 's go" where
  "NewContainer_start_Results alloc = alloc (0, 1)"

definition NewRootContainer_start_Results :: "(nat \<times> nat \<Rightarrow> 's go) \<Rightarrow> 's go" where
  "NewRootContainer_start_Results alloc = alloc (0, 1)"

definition NewContainer_start_Results_List ::
  "(nat \<times> nat \<Rightarrow> 32 word \<Rightarrow> 'l go) \<Rightarrow> 32 word \<Rightarrow> 'l go" where
  "NewContainer_start_Results_List alloc sz = alloc (0, 1) sz"

definition ReadRootContainer_start_Results ::
  "('s, 'p) pointers \<Rightarrow> 'p \<times> goerr option \<Rightarrow> 's \<times> goerr option" where
  "ReadRootContainer_start_Results pt root = struct_from pt root"

definition Container_start_Results_HasTask :: "('s, 'p) pointers \<Rightarrow> 's \<Rightarrow> bool" where
  "Container_start_Results_HasTask pt s = has_ptr pt s 0"

definition Container_start_Results_Future_Struct ::
  "('s, 'p) pointers \<Rightarrow> ('p, 'c) future \<Rightarrow> 's \<times> goerr option" where
  "Container_start_Results_Future_Struct pt f = struct_from pt (future_ptr f)"

definition Container_start_Results_Future_Task :: "('p, 'c) future \<Rightarrow> 'c" where
  "Container_start_Results_Future_Task p = future_client p 0"

section \<open>ContainerService_create_Params\<close>

definition NewContainerService_create_Params :: "(nat \<times> nat \<Rightarrow> 's go) \<Rightarrow> 's go" where
  "NewContainerService_create_Params alloc = alloc (0, 5)"

definition NewRootContainerService_create_Params :: "(nat \<times> nat \<Rightarrow> 's go) \<Rightarrow> 's go" where
  "NewRootContainerService_create_Params alloc = alloc (0, 5)"

definition NewContainerService_create_Params_List ::
  "(nat \<times> nat \<Rightarrow> 32 word \<Rightarrow> 'l go) \<Rightarrow> 32 word \<Rightarrow> 'l go" where
  "NewContainerService_create_Params_List alloc sz = alloc (0, 5) sz"

definition ReadRootContainerService_create_Params ::
  "('s, 'p) pointers \<Rightarrow> 'p \<times> goerr option \<Rightarrow> 's \<times> goerr option" where
  "ReadRootContainerService_create_Params pt root = struct_from pt root"

definition ContainerService_create_Params_HasOci :: "('s, 'p) pointers \<Rightarrow> 's \<Rightarrow> bool" where
  "ContainerService_create_Params_HasOci pt s = has_ptr pt s 0"

definition ContainerService_create_Params_HasImage :: "('s, 'p) pointers \<Rightarrow> 's \<Rightarrow> bool" where
  "ContainerService_create_Params_HasImage pt s = has_ptr pt s 1"

definition ContainerService_create_Params_ImageBytes ::
  "('s, 'p, 'c) capnp \<Rightarrow> ('s, 'p) pointers \<Rightarrow> 's \<Rightarrow> string \<times> goerr option" where
  "ContainerService_create_Params_ImageBytes lib pt s = bytes_at lib pt s 1"

definition ContainerService_create_Params_HasId :: "('s, 'p) pointers \<Rightarrow> 's \<Rightarrow> bool" where
  "ContainerService_create_Params_HasId pt s = has_ptr pt s 2"

definition ContainerService_create_Params_IdBytes ::
  "('s, 'p, 'c) capnp \<Rightarrow> ('s, 'p) pointers \<Rightarrow> 's \<Rightarrow> string \<times> goerr option" where
  "ContainerService_create_Params_IdBytes lib pt s = bytes_at lib pt s 2"

definition ContainerService_create_Params_HasRootfsPath :: "('s, 'p) pointers \<Rightarrow> 's \<Rightarrow> bool" where
  "ContainerService_create_Params_HasRootfsPath pt s = has_ptr pt s 3"

definition ContainerService_create_Params_RootfsPathBytes ::
  "('s, 'p, 'c) capnp \<Rightarrow> ('s, 'p) pointers \<Rightarrow> 's \<Rightarrow> string \<times> goerr option" where
  "ContainerService_create_Params_RootfsPathBytes lib pt s = bytes_at lib pt s 3"

definition ContainerService_create_Params_HasContainerStateDisk :: "('s, 'p) pointers \<Rightarrow> 's \<Rightarrow> bool" where
  "ContainerService_create_Params_HasContainerStateDisk pt s = has_ptr pt s 4"

definition ContainerService_create_Params_ContainerStateDiskBytes ::
  "('s, 'p, 'c) capnp \<Rightarrow> ('s, 'p) pointers \<Rightarrow> 's \<Rightarrow> string \<times> goerr option" where
  "ContainerService_create_Params_ContainerStateDiskBytes lib pt s = bytes_at lib pt s 4"

definition ContainerService_create_Params_Future_Struct ::
  "('s, 'p) pointers \<Rightarrow> ('p, 'c) future \<Rightarrow> 's \<times> goerr option" where
  "ContainerService_create_Params_Future_Struct pt f = struct_from pt (future_ptr f)"

section \<open>ContainerService_create_Results\<close>

definition NewContainerService_create_Results :: "(nat \<times> nat \<Rightarrow> 's go) \<Rightarrow> 's go" where
  "NewContainerService_create_Results alloc = alloc (0, 1)"

definition NewRootContainerService_create_Results :: "(nat \<times> nat \<Rightarrow> 's go) \<Rightarrow> 's go" where
  "NewRootContainerService_create_Results alloc = alloc (0, 1)"

definition NewContainerService_create_Results_List ::
  "(nat \<times> nat \<Rightarrow> 32 word \<Rightarrow> 'l go) \<Rightarrow> 32 word \<Rightarrow> 'l go" where
  "NewContainerService_create_Results_List alloc sz = alloc (0, 1) sz"

definition ReadRootContainerService_create_Results ::
  "('s, 'p) pointers \<Rightarrow> 'p \<times> goerr option \<Rightarrow> 's \<times> goerr option" where
  "ReadRootContainerService_create_Results pt root = struct_from pt root"

definition ContainerService_create_Results_HasContainer :: "('s, 'p) pointers \<Rightarrow> 's \<Rightarrow> bool" where
  "ContainerService_create_Results_HasContainer pt s = has_ptr pt s 0"

definition ContainerService_create_Results_Future_Struct ::
  "('s, 'p) pointers \<Rightarrow> ('p, 'c) future \<Rightarrow> 's \<times> goerr option" where
  "ContainerService_create_Results_Future_Struct pt f = struct_from pt (future_ptr f)"

definition ContainerService_create_Results_Future_Container :: "('p, 'c) future \<Rightarrow> 'c" where
  "ContainerService_create_Results_Future_Container p = future_client p 0"

section \<open>Agent_debug_Params\<close>

definition NewAgent_debug_Params :: "(nat \<times> nat \<Rightarrow> 's go) \<Rightarrow> 's go" where
  "NewAgent_debug_Params alloc = alloc (0, 0)"

definition NewRootAgent_debug_Params :: "(nat \<times> nat \<Rightarrow> 's go) \<Rightarrow> 's go" where
  "NewRootAgent_debug_Params alloc = alloc (0, 0)"

definition NewAgent_debug_Params_List ::
  "(nat \<times> nat \<Rightarrow> 32 word \<Rightarrow> 'l go) \<Rightarrow> 32 word \<Rightarrow> 'l go" where
  "NewAgent_debug_Params_List alloc sz = alloc (0, 0) sz"

definition ReadRootAgent_debug_Params ::
  "('s, 'p) pointers \<Rightarrow> 'p \<times> goerr option \<Rightarrow> 's \<times> goerr option" where
  "ReadRootAgent_debug_Params pt root = struct_from pt root"

definition Agent_debug_Params_Future_Struct ::
  "('s, 'p) pointers \<Rightarrow> ('p, 'c) future \<Rightarrow> 's \<times> goerr option" where
  "Agent_debug_Params_Future_Struct pt f = struct_from pt (future_ptr f)"

section \<open>Agent_debug_Results\<close>

definition NewAgent_debug_Results :: "(nat \<times> nat \<Rightarrow> 's go) \<Rightarrow> 's go" where
  "NewAgent_debug_Results alloc = alloc (0, 1)"

definition NewRootAgent_debug_Results :: "(nat \<times> nat \<Rightarrow> 's go) \<Rightarrow> 's go" where
  "NewRootAgent_debug_Results alloc = alloc (0, 1)"

definition NewAgent_debug_Results_List ::
  "(nat \<times> nat \<Rightarrow> 32 word \<Rightarrow> 'l go) \<Rightarrow> 32 word \<Rightarrow> 'l go" where
  "NewAgent_debug_Results_List alloc sz = alloc (0, 1) sz"

definition ReadRootAgent_debug_Results ::
  "('s, 'p) pointers \<Rightarrow> 'p \<times> goerr option \<Rightarrow> 's \<times> goerr option" where
  "ReadRootAgent_debug_Results pt root = struct_from pt root"

definition Agent_debug_Results_HasDebug :: "('s, 'p) pointers \<Rightarrow> 's \<Rightarrow> bool" where
  "Agent_debug_Results_HasDebug pt s = has_ptr pt s 0"

definition Agent_debug_Results_Future_Struct ::
  "('s, 'p) pointers \<Rightarrow> ('p, 'c) future \<Rightarrow> 's \<times> goerr option" where
  "Agent_debug_Results_Future_Struct pt f = struct_from pt (future_ptr f)"

definition Agent_debug_Results_Future_Debug :: "('p, 'c) future \<Rightarrow> 'c" where
  "Agent_debug_Results_Future_Debug p = future_client p 0"

section \<open>Agent_network_Params\<close>

definition NewAgent_network_Params :: "(nat \<times> nat \<Rightarrow> 's go) \<Rightarrow> 's go" where
  "NewAgent_network_Params alloc = alloc (0, 0)"

definition NewRootAgent_network_Params :: "(nat \<times> nat \<Rightarrow> 's go) \<Rightarrow> 's go" where
  "NewRootAgent_network_Params alloc = alloc (0, 0)"

definition NewAgent_network_Params_List ::
  "(nat \<times> nat \<Rightarrow> 32 word \<Rightarrow> 'l go) \<Rightarrow> 32 word \<Rightarrow> 'l go" where
  "NewAgent_network_Params_List alloc sz = alloc (0, 0) sz"

definition ReadRootAgent_network_Params ::
  "('s, 'p) pointers \<Rightarrow> 'p \<times> goerr option \<Rightarrow> 's \<times> goerr option" where
  "ReadRootAgent_network_Params pt root = struct_from pt root"

definition Agent_network_Params_Future_Struct ::
  "('s, 'p) pointers \<Rightarrow> ('p, 'c) future \<Rightarrow> 's \<times> goerr option" where
  "Agent_network_Params_Future_Struct pt f = struct_from pt (future_ptr f)"

section \<open>Agent_network_Results\<close>

definition NewAgent_network_Results :: "(nat \<times> nat \<Rightarrow> 's go) \<Rightarrow> 's go" where
  "NewAgent_network_Results alloc = alloc (0, 1)"

definition NewRootAgent_network_Results :: "(nat \<times> nat \<Rightarrow> 's go) \<Rightarrow> 's go" where
  "NewRootAgent_network_Results alloc = alloc (0, 1)"

definition NewAgent_network_Results_List ::
  "(nat \<times> nat \<Rightarrow> 32 word \<Rightarrow> 'l go) \<Rightarrow> 32 word \<Rightarrow> 'l go" where
  "NewAgent_network_Results_List alloc sz = alloc (0, 1) sz"

definition ReadRootAgent_network_Results ::
  "('s, 'p) pointers \<Rightarrow> 'p \<times> goerr option \<Rightarrow> 's \<times> goerr option" where
  "ReadRootAgent_network_Results pt root = struct_from pt root"

definition Agent_network_Results_HasNetwork :: "('s, 'p) pointers \<Rightarrow> 's \<Rightarrow> bool" where
  "Agent_network_Results_HasNetwork pt s = has_ptr pt s 0"

definition Agent_network_Results_Future_Struct ::
  "('s, 'p) pointers \<Rightarrow> ('p, 'c) future \<Rightarrow> 's \<times> goerr option" where
  "Agent_network_Results_Future_Struct pt f = struct_from pt (future_ptr f)"

definition Agent_network_Results_Future_Network :: "('p, 'c) future \<Rightarrow> 'c" where
  "Agent_network_Results_Future_Network p = future_client p 0"

section \<open>Agent_containerService_Params\<close>

definition NewAgent_containerService_Params :: "(nat \<times> nat \<Rightarrow> 's go) \<Rightarrow> 's go" where
  "NewAgent_containerService_Params alloc = alloc (0, 0)"

definition NewRootAgent_containerService_Params :: "(nat \<times> nat \<Rightarrow> 's go) \<Rightarrow> 's go" where
  "NewRootAgent_containerService_Params alloc = alloc (0, 0)"

definition NewAgent_containerService_Params_List ::
  "(nat \<times> nat \<Rightarrow> 32 word \<Rightarrow> 'l go) \<Rightarrow> 32 word \<Rightarrow> 'l go" where
  "NewAgent_containerService_Params_List alloc sz = alloc (0, 0) sz"

definition ReadRootAgent_containerService_Params ::
  "('s, 'p) pointers \<Rightarrow> 'p \<times> goerr option \<Rightarrow> 's \<times> goerr option" where
  "ReadRootAgent_containerService_Params pt root = struct_from pt root"

definition Agent_containerService_Params_Future_Struct ::
  "('s, 'p) pointers \<Rightarrow> ('p, 'c) future \<Rightarrow> 's \<times> goerr option" where
  "Agent_containerService_Params_Future_Struct pt f = struct_from pt (future_ptr f)"

section \<open>Agent_containerService_Results\<close>

definition NewAgent_containerService_Results :: "(nat \<times> nat \<Rightarrow> 's go) \<Rightarrow> 's go" where
  "NewAgent_containerService_Results alloc = alloc (0, 1)"

definition NewRootAgent_containerService_Results :: "(nat \<times> nat \<Rightarrow> 's go) \<Rightarrow> 's go" where
  "NewRootAgent_containerService_Results alloc = alloc (0, 1)"

definition NewAgent_containerService_Results_List ::
  "(nat \<times> nat \<Rightarrow> 32 word \<Rightarrow> 'l go) \<Rightarrow> 32 word \<Rightarrow> 'l go" where
  "NewAgent_containerService_Results_List alloc sz = alloc (0, 1) sz"

definition ReadRootAgent_containerService_Results ::
  "('s, 'p) pointers \<Rightarrow> 'p \<times> goerr option \<Rightarrow> 's \<times> goerr option" where
  "ReadRootAgent_containerService_Results pt root = struct_from pt root"

definition Agent_containerService_Results_HasService :: "('s, 'p) pointers \<Rightarrow> 's \<Rightarrow> bool" where
  "Agent_containerService_Results_HasService pt s = has_ptr pt s 0"

definition Agent_containerService_Results_Future_Struct ::
  "('s, 'p) pointers \<Rightarrow> ('p, 'c) future \<Rightarrow> 's \<times> goerr option" where
  "Agent_containerService_Results_Future_Struct pt f = struct_from pt (future_ptr f)"

definition Agent_containerService_Results_Future_Service :: "('p, 'c) future \<Rightarrow> 'c" where
  "Agent_containerService_Results_Future_Service p = future_client p 0"

section \<open>All the routes to a message\<close>

text \<open>
  The allocators of every message with the sections that the call of a client or the results of
  a server give it, and the capabilities of an answer with the accessor of the same field.
\<close>

definition message_routes ::
  "('a \<Rightarrow> 'a go) \<Rightarrow> (((nat \<times> nat \<Rightarrow> 's go) \<Rightarrow> 's go) \<times> ((nat \<times> nat \<Rightarrow> 's go) \<Rightarrow> 's go) \<times>
    ((nat \<times> nat \<Rightarrow> 32 word \<Rightarrow> 'l go) \<Rightarrow> 32 word \<Rightarrow> 'l go) \<times> nat \<times> nat) list" where
  "message_routes place =
    [(NewByteStream_write_Params, NewRootByteStream_write_Params, NewByteStream_write_Params_List,
      args_size (ByteStream_Write (Some place))),
     (NewByteStream_done_Params, NewRootByteStream_done_Params, NewByteStream_done_Params_List,
      args_size (ByteStream_Done (Some place))),
     (NewByteStream_done_Results, NewRootByteStream_done_Results, NewByteStream_done_Results_List,
      projr (ByteStream_done_AllocResults Inr)),
     (NewDebug_ping_Params, NewRootDebug_ping_Params, NewDebug_ping_Params_List,
      args_size (Debug_Ping (Some place))),
     (NewDebug_ping_Results, NewRootDebug_ping_Results, NewDebug_ping_Results_List,
      projr (Debug_ping_AllocResults Inr)),
     (NewDebug_openByteStream_Params, NewRootDebug_openByteStream_Params, NewDebug_openByteStream_Params_List,
      args_size (Debug_OpenByteStream (Some place))),
     (NewDebug_openByteStream_Results, NewRootDebug_openByteStream_Results, NewDebug_openByteStream_Results_List,
      projr (Debug_openByteStream_AllocResults Inr)),
     (NewDebug_startBenchmarkVsock_Params, NewRootDebug_startBenchmarkVsock_Params, NewDebug_startBenchmarkVsock_Params_List,
      args_size (Debug_StartBenchmarkVsock (Some place))),
     (NewDebug_startBenchmarkVsock_Results, NewRootDebug_startBenchmarkVsock_Results, NewDebug_startBenchmarkVsock_Results_List,
      projr (Debug_startBenchmarkVsock_AllocResults Inr)),
     (NewNetwork_configureInterface_Params, NewRootNetwork_configureInterface_Params, NewNetwork_configureInterface_Params_List,
      args_size (Network_ConfigureInterface (Some place))),
     (NewNetwork_configureInterface_Results, NewRootNetwork_configureInterface_Results, NewNetwork_configureInterface_Results_List,
      projr (Network_configureInterface_AllocResults Inr)),
     (NewNetwork_setupVsockProxy_Params, NewRootNetwork_setupVsockProxy_Params, NewNetwork_setupVsockProxy_Params_List,
      args_size (Network_SetupVsockProxy (Some place))),
     (NewNetwork_setupVsockProxy_Results, NewRootNetwork_setupVsockProxy_Results, NewNetwork_setupVsockProxy_Results_List,
      projr (Network_setupVsockProxy_AllocResults Inr)),
     (NewTask_stdin_Params, NewRootTask_stdin_Params, NewTask_stdin_Params_List,
      args_size (Task_Stdin (Some place))),
     (NewTask_stdin_Results, NewRootTask_stdin_Results, NewTask_stdin_Results_List,
      projr (Task_stdin_AllocResults Inr)),
     (NewTask_exitCode_Params, NewRootTask_exitCode_Params, NewTask_exitCode_Params_List,
      args_size (Task_ExitCode (Some place))),
     (NewTask_exitCode_Results, NewRootTask_exitCode_Results, NewTask_exitCode_Results_List,
      projr (Task_exitCode_AllocResults Inr)),
     (NewContainer_start_Params, NewRootContainer_start_Params, NewContainer_start_Params_List,
      args_size (Container_Start (Some place))),
     (NewContainer_start_Results, NewRootContainer_start_Results, NewContainer_start_Results_List,
      projr (Container_start_AllocResults Inr)),
     (NewContainerService_create_Params, NewRootContainerService_create_Params, NewContainerService_create_Params_List,
      args_size (ContainerService_Create (Some place))),
     (NewContainerService_create_Results, NewRootContainerService_create_Results, NewContainerService_create_Results_List,
      projr (ContainerService_create_AllocResults Inr)),
     (NewAgent_debug_Params, NewRootAgent_debug_Params, NewAgent_debug_Params_List,
      args_size (Agent_Debug (Some place))),
     (NewAgent_debug_Results, NewRootAgent_debug_Results, NewAgent_debug_Results_List,
      projr (Agent_debug_AllocResults Inr)),
     (NewAgent_network_Params, NewRootAgent_network_Params, NewAgent_network_Params_List,
      args_size (Agent_Network (Some place))),
     (NewAgent_network_Results, NewRootAgent_network_Results, NewAgent_network_Results_List,
      projr (Agent_network_AllocResults Inr)),
     (NewAgent_containerService_Params, NewRootAgent_containerService_Params, NewAgent_containerService_Params_List,
      args_size (Agent_ContainerService (Some place))),
     (NewAgent_containerService_Results, NewRootAgent_containerService_Results, NewAgent_containerService_Results_List,
      projr (Agent_containerService_AllocResults Inr))]"

definition pipelined_fields :: "('s, 'p, 'c) capnp \<Rightarrow> ((('p, 'c) future \<Rightarrow> 'c) \<times> ('s \<Rightarrow> 'c)) list" where
  "pipelined_fields lib =
    [(Debug_openByteStream_Results_Future_Stream, Debug_openByteStream_Results_Stream lib),
     (Task_stdin_Results_Future_Stream, Task_stdin_Results_Stream lib),
     (Container_start_Params_Future_Stdout, Container_start_Params_Stdout lib),
     (Container_start_Params_Future_Stderr, Container_start_Params_Stderr lib),
     (Container_start_Results_Future_Task, Container_start_Results_Task lib),
     (ContainerService_create_Results_Future_Container, ContainerService_create_Results_Container lib),
     (Agent_debug_Results_Future_Debug, Agent_debug_Results_Debug lib),
     (Agent_network_Results_Future_Network, Agent_network_Results_Network lib),
     (Agent_containerService_Results_Future_Service, Agent_containerService_Results_Service lib)]"

lemmas allocation_defs =
  NewByteStream_write_Params_def NewRootByteStream_write_Params_def NewByteStream_write_Params_List_def
  NewByteStream_done_Params_def NewRootByteStream_done_Params_def NewByteStream_done_Params_List_def
  NewByteStream_done_Results_def NewRootByteStream_done_Results_def NewByteStream_done_Results_List_def
  NewDebug_ping_Params_def NewRootDebug_ping_Params_def NewDebug_ping_Params_List_def
  NewDebug_ping_Results_def NewRootDebug_ping_Results_def NewDebug_ping_Results_List_def
  NewDebug_openByteStream_Params_def NewRootDebug_openByteStream_Params_def
  NewDebug_openByteStream_Params_List_def NewDebug_openByteStream_Results_def
  NewRootDebug_openByteStream_Results_def NewDebug_openByteStream_Results_List_def
  NewDebug_startBenchmarkVsock_Params_def NewRootDebug_startBenchmarkVsock_Params_def
  NewDebug_startBenchmarkVsock_Params_List_def NewDebug_startBenchmarkVsock_Results_def
  NewRootDebug_startBenchmarkVsock_Results_def NewDebug_startBenchmarkVsock_Results_List_def
  NewNetwork_configureInterface_Params_def NewRootNetwork_configureInterface_Params_def
  NewNetwork_configureInterface_Params_List_def NewNetwork_configureInterface_Results_def
  NewRootNetwork_configureInterface_Results_def NewNetwork_configureInterface_Results_List_def
  NewNetwork_setupVsockProxy_Params_def NewRootNetwork_setupVsockProxy_Params_def
  NewNetwork_setupVsockProxy_Params_List_def NewNetwork_setupVsockProxy_Results_def
  NewRootNetwork_setupVsockProxy_Results_def NewNetwork_setupVsockProxy_Results_List_def
  NewTask_stdin_Params_def NewRootTask_stdin_Params_def NewTask_stdin_Params_List_def
  NewTask_stdin_Results_def NewRootTask_stdin_Results_def NewTask_stdin_Results_List_def
  NewTask_exitCode_Params_def NewRootTask_exitCode_Params_def NewTask_exitCode_Params_List_def
  NewTask_exitCode_Results_def NewRootTask_exitCode_Results_def NewTask_exitCode_Results_List_def
  NewContainer_start_Params_def NewRootContainer_start_Params_def NewContainer_start_Params_List_def
  NewContainer_start_Results_def NewRootContainer_start_Results_def NewContainer_start_Results_List_def
  NewContainerService_create_Params_def NewRootContainerService_create_Params_def
  NewContainerService_create_Params_List_def NewContainerService_create_Results_def
  NewRootContainerService_create_Results_def NewContainerService_create_Results_List_def
  NewAgent_debug_Params_def NewRootAgent_debug_Params_def NewAgent_debug_Params_List_def
  NewAgent_debug_Results_def NewRootAgent_debug_Results_def NewAgent_debug_Results_List_def
  NewAgent_network_Params_def NewRootAgent_network_Params_def NewAgent_network_Params_List_def
  NewAgent_network_Results_def NewRootAgent_network_Results_def NewAgent_network_Results_List_def
  NewAgent_containerService_Params_def NewRootAgent_containerService_Params_def
  NewAgent_containerService_Params_List_def NewAgent_containerService_Results_def
  NewRootAgent_containerService_Results_def NewAgent_containerService_Results_List_def
  ByteStream_done_AllocResults_def Debug_ping_AllocResults_def Debug_openByteStream_AllocResults_def
  Debug_startBenchmarkVsock_AllocResults_def Network_configureInterface_AllocResults_def
  Network_setupVsockProxy_AllocResults_def Task_stdin_AllocResults_def Task_exitCode_AllocResults_def
  Container_start_AllocResults_def ContainerService_create_AllocResults_def Agent_debug_AllocResults_def
  Agent_network_AllocResults_def Agent_containerService_AllocResults_def

lemmas pipeline_defs =
  Debug_openByteStream_Results_Future_Stream_def Task_stdin_Results_Future_Stream_def
  Container_start_Params_Future_Stdout_def Container_start_Params_Future_Stderr_def
  Container_start_Results_Future_Task_def ContainerService_create_Results_Future_Container_def
  Agent_debug_Results_Future_Debug_def Agent_network_Results_Future_Network_def
  Agent_containerService_Results_Future_Service_def Debug_openByteStream_Results_Stream_def
  Task_stdin_Results_Stream_def Container_start_Params_Stdout_def Container_start_Params_Stderr_def
  Container_start_Results_Task_def ContainerService_create_Results_Container_def
  Agent_debug_Results_Debug_def Agent_network_Results_Network_def
  Agent_containerService_Results_Service_def

end
