(* ===== verification/RPC_Types.thy ===== *)
theory RPC_Types
  imports RPC_Structs
begin

text \<open>
  \<open>api/gen/go/capnp/agent.capnp.go\<close>, the types: the identifier of every type of
  \<open>api/capnp/agent.capnp\<close>, the methods that every message and every capability has beside its own
  fields and calls, the arguments of the calls, the servers, the clients made of servers, and
  the registration of the schema. A message is a \<open>capnp.Struct\<close> and a capability a
  \<open>capnp.Client\<close>; the operations of both are records here. Those of a client act on a state
  \<open>'w\<close>, which holds the references, and take the context \<open>'x\<close> and the limiter \<open>'f\<close> as they are.
\<close>

section \<open>The library\<close>

record ('s, 'p, 'g, 'm) struct_ops =
  marshal_text :: "64 word \<Rightarrow> 's \<Rightarrow> string \<times> goerr option"
  struct_encode :: "'s \<Rightarrow> 'g \<Rightarrow> 'p"
  struct_decode :: "'p \<Rightarrow> 's"
  struct_ptr :: "'s \<Rightarrow> 'p"
  struct_valid :: "'s \<Rightarrow> bool"
  struct_message :: "'s \<Rightarrow> 'm"
  struct_segment :: "'s \<Rightarrow> 'g"

record ('w, 'c, 'p, 'g, 'x, 'f) client_ops =
  client_wait :: "'c \<Rightarrow> ('w, goerr option) state"
  client_text :: "'c \<Rightarrow> ('w, string) state"
  client_ref :: "'c \<Rightarrow> ('w, 'c) state"
  client_release :: "'c \<Rightarrow> ('w, unit) state"
  client_resolve :: "'c \<Rightarrow> 'x \<Rightarrow> ('w, goerr option) state"
  client_encode :: "'c \<Rightarrow> 'g \<Rightarrow> ('w, 'p) state"
  client_decode :: "'p \<Rightarrow> 'c"
  client_ok :: "'c \<Rightarrow> ('w, bool) state"
  client_same :: "'c \<Rightarrow> 'c \<Rightarrow> ('w, bool) state"
  client_set_limiter :: "'c \<Rightarrow> 'f \<Rightarrow> ('w, unit) state"
  client_limiter :: "'c \<Rightarrow> ('w, 'f) state"

text \<open>
  \<open>server.New\<close> takes the table of methods, the implementation as a brand and, when the
  implementation has one, its shutdown; \<open>capnp.NewClient\<close> takes the server.
\<close>

record ('h, 'b, 'd, 'v, 'c) server_ops =
  server_new :: "(capnp_method \<times> 'h) list \<Rightarrow> 'b \<Rightarrow> 'd option \<Rightarrow> 'v"
  client_new :: "'v \<Rightarrow> 'c"

record 's server_call =
  call_args :: 's

section \<open>What all messages and all capabilities have\<close>

record ('s, 'p, 'g, 'm) message_methods =
  msg_String :: "'s \<Rightarrow> string"
  msg_EncodeAsPtr :: "'s \<Rightarrow> 'g \<Rightarrow> 'p"
  msg_DecodeFromPtr :: "'p \<Rightarrow> 's"
  msg_ToPtr :: "'s \<Rightarrow> 'p"
  msg_IsValid :: "'s \<Rightarrow> bool"
  msg_Message :: "'s \<Rightarrow> 'm"
  msg_Segment :: "'s \<Rightarrow> 'g"

definition message_of :: "('s, 'p, 'g, 'm) struct_ops \<Rightarrow> 64 word \<Rightarrow> ('s, 'p, 'g, 'm) message_methods" where
  "message_of ops tid =
    \<lparr>msg_String = (\<lambda>s. fst (marshal_text ops tid s)), msg_EncodeAsPtr = struct_encode ops,
     msg_DecodeFromPtr = struct_decode ops, msg_ToPtr = struct_ptr ops, msg_IsValid = struct_valid ops,
     msg_Message = struct_message ops, msg_Segment = struct_segment ops\<rparr>"

record ('w, 'c, 'p, 'g, 'x, 'f) capability_methods =
  cap_WaitStreaming :: "'c \<Rightarrow> ('w, goerr option) state"
  cap_String :: "'c \<Rightarrow> ('w, string) state"
  cap_AddRef :: "'c \<Rightarrow> ('w, 'c) state"
  cap_Release :: "'c \<Rightarrow> ('w, unit) state"
  cap_Resolve :: "'c \<Rightarrow> 'x \<Rightarrow> ('w, goerr option) state"
  cap_EncodeAsPtr :: "'c \<Rightarrow> 'g \<Rightarrow> ('w, 'p) state"
  cap_DecodeFromPtr :: "'p \<Rightarrow> 'c"
  cap_IsValid :: "'c \<Rightarrow> ('w, bool) state"
  cap_IsSame :: "'c \<Rightarrow> 'c \<Rightarrow> ('w, bool) state"
  cap_SetFlowLimiter :: "'c \<Rightarrow> 'f \<Rightarrow> ('w, unit) state"
  cap_GetFlowLimiter :: "'c \<Rightarrow> ('w, 'f) state"

definition capability_of ::
  "('w, 'c, 'p, 'g, 'x, 'f) client_ops \<Rightarrow> string \<Rightarrow> ('w, 'c, 'p, 'g, 'x, 'f) capability_methods" where
  "capability_of ops name =
    \<lparr>cap_WaitStreaming = client_wait ops,
     cap_String = (\<lambda>c. do { t \<leftarrow> client_text ops c; State_Monad.return (name @ ''('' @ t @ '')'') }),
     cap_AddRef = client_ref ops, cap_Release = client_release ops, cap_Resolve = client_resolve ops,
     cap_EncodeAsPtr = client_encode ops, cap_DecodeFromPtr = client_decode ops, cap_IsValid = client_ok ops,
     cap_IsSame = client_same ops, cap_SetFlowLimiter = client_set_limiter ops, cap_GetFlowLimiter = client_limiter ops\<rparr>"

section \<open>ByteStream\<close>

definition ByteStream_TypeID :: "64 word" where
  "ByteStream_TypeID = 0xed83e41c1767406f"

definition ByteStream_capability ::
  "('w, 'c, 'p, 'g, 'x, 'f) client_ops \<Rightarrow> ('w, 'c, 'p, 'g, 'x, 'f) capability_methods" where
  "ByteStream_capability ops = capability_of ops ''ByteStream''"

definition ByteStream_NewServer ::
  "('h, 'b, 'd, 'v, 'c) server_ops \<Rightarrow> ('h byte_stream_handlers \<Rightarrow> 'b) \<Rightarrow> ('h byte_stream_handlers \<Rightarrow> 'd option) \<Rightarrow>
   'h byte_stream_handlers \<Rightarrow> 'v" where
  "ByteStream_NewServer srv brand shutdowner s = server_new srv (ByteStream_Methods [] s) (brand s) (shutdowner s)"

definition ByteStream_ServerToClient ::
  "('h, 'b, 'd, 'v, 'c) server_ops \<Rightarrow> ('h byte_stream_handlers \<Rightarrow> 'b) \<Rightarrow> ('h byte_stream_handlers \<Rightarrow> 'd option) \<Rightarrow>
   'h byte_stream_handlers \<Rightarrow> 'c" where
  "ByteStream_ServerToClient srv brand shutdowner s = client_new srv (ByteStream_NewServer srv brand shutdowner s)"

definition ByteStream_write_Args :: "'s server_call \<Rightarrow> 's" where
  "ByteStream_write_Args c = call_args c"

definition ByteStream_write_AllocResults :: "(nat \<times> nat \<Rightarrow> 's go) \<Rightarrow> 's go" where
  "ByteStream_write_AllocResults alloc = alloc (0, 0)"

definition ByteStream_done_Args :: "'s server_call \<Rightarrow> 's" where
  "ByteStream_done_Args c = call_args c"

definition NewByteStream_List :: "(32 word \<Rightarrow> 'l go) \<Rightarrow> 32 word \<Rightarrow> 'l go" where
  "NewByteStream_List new_pointer_list sz = new_pointer_list sz"

subsection \<open>ByteStream_write_Params\<close>

definition ByteStream_write_Params_TypeID :: "64 word" where
  "ByteStream_write_Params_TypeID = 0xd323469991789ac3"

definition ByteStream_write_Params_message :: "('s, 'p, 'g, 'm) struct_ops \<Rightarrow> ('s, 'p, 'g, 'm) message_methods" where
  "ByteStream_write_Params_message ops = message_of ops 0xd323469991789ac3"

subsection \<open>ByteStream_done_Params\<close>

definition ByteStream_done_Params_TypeID :: "64 word" where
  "ByteStream_done_Params_TypeID = 0xe328afbb2bb947e4"

definition ByteStream_done_Params_message :: "('s, 'p, 'g, 'm) struct_ops \<Rightarrow> ('s, 'p, 'g, 'm) message_methods" where
  "ByteStream_done_Params_message ops = message_of ops 0xe328afbb2bb947e4"

subsection \<open>ByteStream_done_Results\<close>

definition ByteStream_done_Results_TypeID :: "64 word" where
  "ByteStream_done_Results_TypeID = 0x9073f4654fca93de"

definition ByteStream_done_Results_message :: "('s, 'p, 'g, 'm) struct_ops \<Rightarrow> ('s, 'p, 'g, 'm) message_methods" where
  "ByteStream_done_Results_message ops = message_of ops 0x9073f4654fca93de"

section \<open>Debug\<close>

definition Debug_TypeID :: "64 word" where
  "Debug_TypeID = 0x9bfe39fa0de18382"

definition Debug_capability ::
  "('w, 'c, 'p, 'g, 'x, 'f) client_ops \<Rightarrow> ('w, 'c, 'p, 'g, 'x, 'f) capability_methods" where
  "Debug_capability ops = capability_of ops ''Debug''"

definition Debug_NewServer ::
  "('h, 'b, 'd, 'v, 'c) server_ops \<Rightarrow> ('h debug_handlers \<Rightarrow> 'b) \<Rightarrow> ('h debug_handlers \<Rightarrow> 'd option) \<Rightarrow>
   'h debug_handlers \<Rightarrow> 'v" where
  "Debug_NewServer srv brand shutdowner s = server_new srv (Debug_Methods [] s) (brand s) (shutdowner s)"

definition Debug_ServerToClient ::
  "('h, 'b, 'd, 'v, 'c) server_ops \<Rightarrow> ('h debug_handlers \<Rightarrow> 'b) \<Rightarrow> ('h debug_handlers \<Rightarrow> 'd option) \<Rightarrow>
   'h debug_handlers \<Rightarrow> 'c" where
  "Debug_ServerToClient srv brand shutdowner s = client_new srv (Debug_NewServer srv brand shutdowner s)"

definition Debug_ping_Args :: "'s server_call \<Rightarrow> 's" where
  "Debug_ping_Args c = call_args c"

definition Debug_openByteStream_Args :: "'s server_call \<Rightarrow> 's" where
  "Debug_openByteStream_Args c = call_args c"

definition Debug_startBenchmarkVsock_Args :: "'s server_call \<Rightarrow> 's" where
  "Debug_startBenchmarkVsock_Args c = call_args c"

definition NewDebug_List :: "(32 word \<Rightarrow> 'l go) \<Rightarrow> 32 word \<Rightarrow> 'l go" where
  "NewDebug_List new_pointer_list sz = new_pointer_list sz"

subsection \<open>Debug_ping_Params\<close>

definition Debug_ping_Params_TypeID :: "64 word" where
  "Debug_ping_Params_TypeID = 0xba2d83d3bac29188"

definition Debug_ping_Params_message :: "('s, 'p, 'g, 'm) struct_ops \<Rightarrow> ('s, 'p, 'g, 'm) message_methods" where
  "Debug_ping_Params_message ops = message_of ops 0xba2d83d3bac29188"

subsection \<open>Debug_ping_Results\<close>

definition Debug_ping_Results_TypeID :: "64 word" where
  "Debug_ping_Results_TypeID = 0xc21543481a853078"

definition Debug_ping_Results_message :: "('s, 'p, 'g, 'm) struct_ops \<Rightarrow> ('s, 'p, 'g, 'm) message_methods" where
  "Debug_ping_Results_message ops = message_of ops 0xc21543481a853078"

subsection \<open>Debug_openByteStream_Params\<close>

definition Debug_openByteStream_Params_TypeID :: "64 word" where
  "Debug_openByteStream_Params_TypeID = 0xa501244f0cecf79b"

definition Debug_openByteStream_Params_message :: "('s, 'p, 'g, 'm) struct_ops \<Rightarrow> ('s, 'p, 'g, 'm) message_methods" where
  "Debug_openByteStream_Params_message ops = message_of ops 0xa501244f0cecf79b"

subsection \<open>Debug_openByteStream_Results\<close>

definition Debug_openByteStream_Results_TypeID :: "64 word" where
  "Debug_openByteStream_Results_TypeID = 0xd8528fc126c10ff9"

definition Debug_openByteStream_Results_message :: "('s, 'p, 'g, 'm) struct_ops \<Rightarrow> ('s, 'p, 'g, 'm) message_methods" where
  "Debug_openByteStream_Results_message ops = message_of ops 0xd8528fc126c10ff9"

subsection \<open>Debug_startBenchmarkVsock_Params\<close>

definition Debug_startBenchmarkVsock_Params_TypeID :: "64 word" where
  "Debug_startBenchmarkVsock_Params_TypeID = 0xd02dccb90bb2ab63"

definition Debug_startBenchmarkVsock_Params_message :: "('s, 'p, 'g, 'm) struct_ops \<Rightarrow> ('s, 'p, 'g, 'm) message_methods" where
  "Debug_startBenchmarkVsock_Params_message ops = message_of ops 0xd02dccb90bb2ab63"

subsection \<open>Debug_startBenchmarkVsock_Results\<close>

definition Debug_startBenchmarkVsock_Results_TypeID :: "64 word" where
  "Debug_startBenchmarkVsock_Results_TypeID = 0xf14ced2f372e0c33"

definition Debug_startBenchmarkVsock_Results_message :: "('s, 'p, 'g, 'm) struct_ops \<Rightarrow> ('s, 'p, 'g, 'm) message_methods" where
  "Debug_startBenchmarkVsock_Results_message ops = message_of ops 0xf14ced2f372e0c33"

section \<open>Network\<close>

definition Network_TypeID :: "64 word" where
  "Network_TypeID = 0x9fe9a01a06e6f3f2"

definition Network_capability ::
  "('w, 'c, 'p, 'g, 'x, 'f) client_ops \<Rightarrow> ('w, 'c, 'p, 'g, 'x, 'f) capability_methods" where
  "Network_capability ops = capability_of ops ''Network''"

definition Network_NewServer ::
  "('h, 'b, 'd, 'v, 'c) server_ops \<Rightarrow> ('h network_handlers \<Rightarrow> 'b) \<Rightarrow> ('h network_handlers \<Rightarrow> 'd option) \<Rightarrow>
   'h network_handlers \<Rightarrow> 'v" where
  "Network_NewServer srv brand shutdowner s = server_new srv (Network_Methods [] s) (brand s) (shutdowner s)"

definition Network_ServerToClient ::
  "('h, 'b, 'd, 'v, 'c) server_ops \<Rightarrow> ('h network_handlers \<Rightarrow> 'b) \<Rightarrow> ('h network_handlers \<Rightarrow> 'd option) \<Rightarrow>
   'h network_handlers \<Rightarrow> 'c" where
  "Network_ServerToClient srv brand shutdowner s = client_new srv (Network_NewServer srv brand shutdowner s)"

definition Network_configureInterface_Args :: "'s server_call \<Rightarrow> 's" where
  "Network_configureInterface_Args c = call_args c"

definition Network_setupVsockProxy_Args :: "'s server_call \<Rightarrow> 's" where
  "Network_setupVsockProxy_Args c = call_args c"

definition NewNetwork_List :: "(32 word \<Rightarrow> 'l go) \<Rightarrow> 32 word \<Rightarrow> 'l go" where
  "NewNetwork_List new_pointer_list sz = new_pointer_list sz"

subsection \<open>Network_configureInterface_Params\<close>

definition Network_configureInterface_Params_TypeID :: "64 word" where
  "Network_configureInterface_Params_TypeID = 0xaaec55c0254f1c1b"

definition Network_configureInterface_Params_message :: "('s, 'p, 'g, 'm) struct_ops \<Rightarrow> ('s, 'p, 'g, 'm) message_methods" where
  "Network_configureInterface_Params_message ops = message_of ops 0xaaec55c0254f1c1b"

subsection \<open>Network_configureInterface_Results\<close>

definition Network_configureInterface_Results_TypeID :: "64 word" where
  "Network_configureInterface_Results_TypeID = 0xd8320c178a73a4db"

definition Network_configureInterface_Results_message :: "('s, 'p, 'g, 'm) struct_ops \<Rightarrow> ('s, 'p, 'g, 'm) message_methods" where
  "Network_configureInterface_Results_message ops = message_of ops 0xd8320c178a73a4db"

subsection \<open>Network_setupVsockProxy_Params\<close>

definition Network_setupVsockProxy_Params_TypeID :: "64 word" where
  "Network_setupVsockProxy_Params_TypeID = 0xd814659ac0b8ea38"

definition Network_setupVsockProxy_Params_message :: "('s, 'p, 'g, 'm) struct_ops \<Rightarrow> ('s, 'p, 'g, 'm) message_methods" where
  "Network_setupVsockProxy_Params_message ops = message_of ops 0xd814659ac0b8ea38"

subsection \<open>Network_setupVsockProxy_Results\<close>

definition Network_setupVsockProxy_Results_TypeID :: "64 word" where
  "Network_setupVsockProxy_Results_TypeID = 0xce4b1363ebaaea03"

definition Network_setupVsockProxy_Results_message :: "('s, 'p, 'g, 'm) struct_ops \<Rightarrow> ('s, 'p, 'g, 'm) message_methods" where
  "Network_setupVsockProxy_Results_message ops = message_of ops 0xce4b1363ebaaea03"

section \<open>Task\<close>

definition Task_TypeID :: "64 word" where
  "Task_TypeID = 0xdb908bfde268273c"

definition Task_capability ::
  "('w, 'c, 'p, 'g, 'x, 'f) client_ops \<Rightarrow> ('w, 'c, 'p, 'g, 'x, 'f) capability_methods" where
  "Task_capability ops = capability_of ops ''Task''"

definition Task_NewServer ::
  "('h, 'b, 'd, 'v, 'c) server_ops \<Rightarrow> ('h task_handlers \<Rightarrow> 'b) \<Rightarrow> ('h task_handlers \<Rightarrow> 'd option) \<Rightarrow>
   'h task_handlers \<Rightarrow> 'v" where
  "Task_NewServer srv brand shutdowner s = server_new srv (Task_Methods [] s) (brand s) (shutdowner s)"

definition Task_ServerToClient ::
  "('h, 'b, 'd, 'v, 'c) server_ops \<Rightarrow> ('h task_handlers \<Rightarrow> 'b) \<Rightarrow> ('h task_handlers \<Rightarrow> 'd option) \<Rightarrow>
   'h task_handlers \<Rightarrow> 'c" where
  "Task_ServerToClient srv brand shutdowner s = client_new srv (Task_NewServer srv brand shutdowner s)"

definition Task_stdin_Args :: "'s server_call \<Rightarrow> 's" where
  "Task_stdin_Args c = call_args c"

definition Task_exitCode_Args :: "'s server_call \<Rightarrow> 's" where
  "Task_exitCode_Args c = call_args c"

definition NewTask_List :: "(32 word \<Rightarrow> 'l go) \<Rightarrow> 32 word \<Rightarrow> 'l go" where
  "NewTask_List new_pointer_list sz = new_pointer_list sz"

subsection \<open>Task_stdin_Params\<close>

definition Task_stdin_Params_TypeID :: "64 word" where
  "Task_stdin_Params_TypeID = 0xaa3fbf0a9bd5c7a4"

definition Task_stdin_Params_message :: "('s, 'p, 'g, 'm) struct_ops \<Rightarrow> ('s, 'p, 'g, 'm) message_methods" where
  "Task_stdin_Params_message ops = message_of ops 0xaa3fbf0a9bd5c7a4"

subsection \<open>Task_stdin_Results\<close>

definition Task_stdin_Results_TypeID :: "64 word" where
  "Task_stdin_Results_TypeID = 0xbb50b5b0c7bdd6cd"

definition Task_stdin_Results_message :: "('s, 'p, 'g, 'm) struct_ops \<Rightarrow> ('s, 'p, 'g, 'm) message_methods" where
  "Task_stdin_Results_message ops = message_of ops 0xbb50b5b0c7bdd6cd"

subsection \<open>Task_exitCode_Params\<close>

definition Task_exitCode_Params_TypeID :: "64 word" where
  "Task_exitCode_Params_TypeID = 0xa4f0e70ea22b631a"

definition Task_exitCode_Params_message :: "('s, 'p, 'g, 'm) struct_ops \<Rightarrow> ('s, 'p, 'g, 'm) message_methods" where
  "Task_exitCode_Params_message ops = message_of ops 0xa4f0e70ea22b631a"

subsection \<open>Task_exitCode_Results\<close>

definition Task_exitCode_Results_TypeID :: "64 word" where
  "Task_exitCode_Results_TypeID = 0xbabf3d4b17b7f730"

definition Task_exitCode_Results_message :: "('s, 'p, 'g, 'm) struct_ops \<Rightarrow> ('s, 'p, 'g, 'm) message_methods" where
  "Task_exitCode_Results_message ops = message_of ops 0xbabf3d4b17b7f730"

section \<open>Container\<close>

definition Container_TypeID :: "64 word" where
  "Container_TypeID = 0xb14b772e399f13cc"

definition Container_capability ::
  "('w, 'c, 'p, 'g, 'x, 'f) client_ops \<Rightarrow> ('w, 'c, 'p, 'g, 'x, 'f) capability_methods" where
  "Container_capability ops = capability_of ops ''Container''"

definition Container_NewServer ::
  "('h, 'b, 'd, 'v, 'c) server_ops \<Rightarrow> ('h container_handlers \<Rightarrow> 'b) \<Rightarrow> ('h container_handlers \<Rightarrow> 'd option) \<Rightarrow>
   'h container_handlers \<Rightarrow> 'v" where
  "Container_NewServer srv brand shutdowner s = server_new srv (Container_Methods [] s) (brand s) (shutdowner s)"

definition Container_ServerToClient ::
  "('h, 'b, 'd, 'v, 'c) server_ops \<Rightarrow> ('h container_handlers \<Rightarrow> 'b) \<Rightarrow> ('h container_handlers \<Rightarrow> 'd option) \<Rightarrow>
   'h container_handlers \<Rightarrow> 'c" where
  "Container_ServerToClient srv brand shutdowner s = client_new srv (Container_NewServer srv brand shutdowner s)"

definition Container_start_Args :: "'s server_call \<Rightarrow> 's" where
  "Container_start_Args c = call_args c"

definition NewContainer_List :: "(32 word \<Rightarrow> 'l go) \<Rightarrow> 32 word \<Rightarrow> 'l go" where
  "NewContainer_List new_pointer_list sz = new_pointer_list sz"

subsection \<open>Container_start_Params\<close>

definition Container_start_Params_TypeID :: "64 word" where
  "Container_start_Params_TypeID = 0xf979d215a72ad0d4"

definition Container_start_Params_message :: "('s, 'p, 'g, 'm) struct_ops \<Rightarrow> ('s, 'p, 'g, 'm) message_methods" where
  "Container_start_Params_message ops = message_of ops 0xf979d215a72ad0d4"

subsection \<open>Container_start_Results\<close>

definition Container_start_Results_TypeID :: "64 word" where
  "Container_start_Results_TypeID = 0xa57677d64d643c51"

definition Container_start_Results_message :: "('s, 'p, 'g, 'm) struct_ops \<Rightarrow> ('s, 'p, 'g, 'm) message_methods" where
  "Container_start_Results_message ops = message_of ops 0xa57677d64d643c51"

section \<open>ContainerService\<close>

definition ContainerService_TypeID :: "64 word" where
  "ContainerService_TypeID = 0xe216702839ab5c1d"

definition ContainerService_capability ::
  "('w, 'c, 'p, 'g, 'x, 'f) client_ops \<Rightarrow> ('w, 'c, 'p, 'g, 'x, 'f) capability_methods" where
  "ContainerService_capability ops = capability_of ops ''ContainerService''"

definition ContainerService_NewServer ::
  "('h, 'b, 'd, 'v, 'c) server_ops \<Rightarrow> ('h container_service_handlers \<Rightarrow> 'b) \<Rightarrow> ('h container_service_handlers \<Rightarrow> 'd option) \<Rightarrow>
   'h container_service_handlers \<Rightarrow> 'v" where
  "ContainerService_NewServer srv brand shutdowner s = server_new srv (ContainerService_Methods [] s) (brand s) (shutdowner s)"

definition ContainerService_ServerToClient ::
  "('h, 'b, 'd, 'v, 'c) server_ops \<Rightarrow> ('h container_service_handlers \<Rightarrow> 'b) \<Rightarrow> ('h container_service_handlers \<Rightarrow> 'd option) \<Rightarrow>
   'h container_service_handlers \<Rightarrow> 'c" where
  "ContainerService_ServerToClient srv brand shutdowner s = client_new srv (ContainerService_NewServer srv brand shutdowner s)"

definition ContainerService_create_Args :: "'s server_call \<Rightarrow> 's" where
  "ContainerService_create_Args c = call_args c"

definition NewContainerService_List :: "(32 word \<Rightarrow> 'l go) \<Rightarrow> 32 word \<Rightarrow> 'l go" where
  "NewContainerService_List new_pointer_list sz = new_pointer_list sz"

subsection \<open>ContainerService_create_Params\<close>

definition ContainerService_create_Params_TypeID :: "64 word" where
  "ContainerService_create_Params_TypeID = 0xabd7b3bc3bfb0b25"

definition ContainerService_create_Params_message :: "('s, 'p, 'g, 'm) struct_ops \<Rightarrow> ('s, 'p, 'g, 'm) message_methods" where
  "ContainerService_create_Params_message ops = message_of ops 0xabd7b3bc3bfb0b25"

subsection \<open>ContainerService_create_Results\<close>

definition ContainerService_create_Results_TypeID :: "64 word" where
  "ContainerService_create_Results_TypeID = 0xf4ec3acde3d6209e"

definition ContainerService_create_Results_message :: "('s, 'p, 'g, 'm) struct_ops \<Rightarrow> ('s, 'p, 'g, 'm) message_methods" where
  "ContainerService_create_Results_message ops = message_of ops 0xf4ec3acde3d6209e"

section \<open>Agent\<close>

definition Agent_TypeID :: "64 word" where
  "Agent_TypeID = 0x87e7b4ba75da6311"

definition Agent_capability ::
  "('w, 'c, 'p, 'g, 'x, 'f) client_ops \<Rightarrow> ('w, 'c, 'p, 'g, 'x, 'f) capability_methods" where
  "Agent_capability ops = capability_of ops ''Agent''"

definition Agent_NewServer ::
  "('h, 'b, 'd, 'v, 'c) server_ops \<Rightarrow> ('h agent_handlers \<Rightarrow> 'b) \<Rightarrow> ('h agent_handlers \<Rightarrow> 'd option) \<Rightarrow>
   'h agent_handlers \<Rightarrow> 'v" where
  "Agent_NewServer srv brand shutdowner s = server_new srv (Agent_Methods [] s) (brand s) (shutdowner s)"

definition Agent_ServerToClient ::
  "('h, 'b, 'd, 'v, 'c) server_ops \<Rightarrow> ('h agent_handlers \<Rightarrow> 'b) \<Rightarrow> ('h agent_handlers \<Rightarrow> 'd option) \<Rightarrow>
   'h agent_handlers \<Rightarrow> 'c" where
  "Agent_ServerToClient srv brand shutdowner s = client_new srv (Agent_NewServer srv brand shutdowner s)"

definition Agent_debug_Args :: "'s server_call \<Rightarrow> 's" where
  "Agent_debug_Args c = call_args c"

definition Agent_network_Args :: "'s server_call \<Rightarrow> 's" where
  "Agent_network_Args c = call_args c"

definition Agent_containerService_Args :: "'s server_call \<Rightarrow> 's" where
  "Agent_containerService_Args c = call_args c"

definition NewAgent_List :: "(32 word \<Rightarrow> 'l go) \<Rightarrow> 32 word \<Rightarrow> 'l go" where
  "NewAgent_List new_pointer_list sz = new_pointer_list sz"

subsection \<open>Agent_debug_Params\<close>

definition Agent_debug_Params_TypeID :: "64 word" where
  "Agent_debug_Params_TypeID = 0xd24f141e29f56191"

definition Agent_debug_Params_message :: "('s, 'p, 'g, 'm) struct_ops \<Rightarrow> ('s, 'p, 'g, 'm) message_methods" where
  "Agent_debug_Params_message ops = message_of ops 0xd24f141e29f56191"

subsection \<open>Agent_debug_Results\<close>

definition Agent_debug_Results_TypeID :: "64 word" where
  "Agent_debug_Results_TypeID = 0xf66219dcd10bae83"

definition Agent_debug_Results_message :: "('s, 'p, 'g, 'm) struct_ops \<Rightarrow> ('s, 'p, 'g, 'm) message_methods" where
  "Agent_debug_Results_message ops = message_of ops 0xf66219dcd10bae83"

subsection \<open>Agent_network_Params\<close>

definition Agent_network_Params_TypeID :: "64 word" where
  "Agent_network_Params_TypeID = 0xac55a0efb669f5af"

definition Agent_network_Params_message :: "('s, 'p, 'g, 'm) struct_ops \<Rightarrow> ('s, 'p, 'g, 'm) message_methods" where
  "Agent_network_Params_message ops = message_of ops 0xac55a0efb669f5af"

subsection \<open>Agent_network_Results\<close>

definition Agent_network_Results_TypeID :: "64 word" where
  "Agent_network_Results_TypeID = 0xf2d726cbb665a8f2"

definition Agent_network_Results_message :: "('s, 'p, 'g, 'm) struct_ops \<Rightarrow> ('s, 'p, 'g, 'm) message_methods" where
  "Agent_network_Results_message ops = message_of ops 0xf2d726cbb665a8f2"

subsection \<open>Agent_containerService_Params\<close>

definition Agent_containerService_Params_TypeID :: "64 word" where
  "Agent_containerService_Params_TypeID = 0xa6a04ff0898a64d7"

definition Agent_containerService_Params_message :: "('s, 'p, 'g, 'm) struct_ops \<Rightarrow> ('s, 'p, 'g, 'm) message_methods" where
  "Agent_containerService_Params_message ops = message_of ops 0xa6a04ff0898a64d7"

subsection \<open>Agent_containerService_Results\<close>

definition Agent_containerService_Results_TypeID :: "64 word" where
  "Agent_containerService_Results_TypeID = 0xef1ec08b1dafc984"

definition Agent_containerService_Results_message :: "('s, 'p, 'g, 'm) struct_ops \<Rightarrow> ('s, 'p, 'g, 'm) message_methods" where
  "Agent_containerService_Results_message ops = message_of ops 0xef1ec08b1dafc984"

section \<open>The schema\<close>

text \<open>The compressed text of the schema, a constant of the source, is an argument here.\<close>

record 'z schema =
  schema_string :: 'z
  schema_nodes :: "64 word list"
  schema_compressed :: bool

definition schema_node_ids :: "64 word list" where
  "schema_node_ids =
    [0x87e7b4ba75da6311, 0x9073f4654fca93de, 0x9bfe39fa0de18382, 0x9fe9a01a06e6f3f2, 0xa4f0e70ea22b631a,
     0xa501244f0cecf79b, 0xa57677d64d643c51, 0xa6a04ff0898a64d7, 0xaa3fbf0a9bd5c7a4, 0xaaec55c0254f1c1b,
     0xabd7b3bc3bfb0b25, 0xac55a0efb669f5af, 0xb14b772e399f13cc, 0xba2d83d3bac29188, 0xbabf3d4b17b7f730,
     0xbb50b5b0c7bdd6cd, 0xc21543481a853078, 0xce4b1363ebaaea03, 0xd02dccb90bb2ab63, 0xd24f141e29f56191,
     0xd323469991789ac3, 0xd814659ac0b8ea38, 0xd8320c178a73a4db, 0xd8528fc126c10ff9, 0xdb908bfde268273c,
     0xe216702839ab5c1d, 0xe328afbb2bb947e4, 0xed83e41c1767406f, 0xef1ec08b1dafc984, 0xf14ced2f372e0c33,
     0xf2d726cbb665a8f2, 0xf4ec3acde3d6209e, 0xf66219dcd10bae83, 0xf979d215a72ad0d4]"

definition RegisterSchema :: "('z schema \<Rightarrow> 'r \<Rightarrow> 'r go) \<Rightarrow> 'z \<Rightarrow> 'r \<Rightarrow> 'r go" where
  "RegisterSchema register text reg =
    register \<lparr>schema_string = text, schema_nodes = schema_node_ids, schema_compressed = True\<rparr> reg"

text \<open>All messages and all interfaces, with the identifiers of their types.\<close>

definition message_types ::
  "('s, 'p, 'g, 'm) struct_ops \<Rightarrow> (64 word \<times> ('s, 'p, 'g, 'm) message_methods) list" where
  "message_types ops =
    [(ByteStream_write_Params_TypeID, ByteStream_write_Params_message ops),
     (ByteStream_done_Params_TypeID, ByteStream_done_Params_message ops),
     (ByteStream_done_Results_TypeID, ByteStream_done_Results_message ops),
     (Debug_ping_Params_TypeID, Debug_ping_Params_message ops),
     (Debug_ping_Results_TypeID, Debug_ping_Results_message ops),
     (Debug_openByteStream_Params_TypeID, Debug_openByteStream_Params_message ops),
     (Debug_openByteStream_Results_TypeID, Debug_openByteStream_Results_message ops),
     (Debug_startBenchmarkVsock_Params_TypeID, Debug_startBenchmarkVsock_Params_message ops),
     (Debug_startBenchmarkVsock_Results_TypeID, Debug_startBenchmarkVsock_Results_message ops),
     (Network_configureInterface_Params_TypeID, Network_configureInterface_Params_message ops),
     (Network_configureInterface_Results_TypeID, Network_configureInterface_Results_message ops),
     (Network_setupVsockProxy_Params_TypeID, Network_setupVsockProxy_Params_message ops),
     (Network_setupVsockProxy_Results_TypeID, Network_setupVsockProxy_Results_message ops),
     (Task_stdin_Params_TypeID, Task_stdin_Params_message ops),
     (Task_stdin_Results_TypeID, Task_stdin_Results_message ops),
     (Task_exitCode_Params_TypeID, Task_exitCode_Params_message ops),
     (Task_exitCode_Results_TypeID, Task_exitCode_Results_message ops),
     (Container_start_Params_TypeID, Container_start_Params_message ops),
     (Container_start_Results_TypeID, Container_start_Results_message ops),
     (ContainerService_create_Params_TypeID, ContainerService_create_Params_message ops),
     (ContainerService_create_Results_TypeID, ContainerService_create_Results_message ops),
     (Agent_debug_Params_TypeID, Agent_debug_Params_message ops),
     (Agent_debug_Results_TypeID, Agent_debug_Results_message ops),
     (Agent_network_Params_TypeID, Agent_network_Params_message ops),
     (Agent_network_Results_TypeID, Agent_network_Results_message ops),
     (Agent_containerService_Params_TypeID, Agent_containerService_Params_message ops),
     (Agent_containerService_Results_TypeID, Agent_containerService_Results_message ops)]"

definition interface_types :: "(64 word \<times> string \<times> capnp_method list) list" where
  "interface_types =
    [(ByteStream_TypeID, ''ByteStream'', map fst (ByteStream_Methods []
        \<lparr>ByteStream_Server_Write = (), ByteStream_Server_Done = ()\<rparr>)),
     (Debug_TypeID, ''Debug'', map fst (Debug_Methods []
        \<lparr>Debug_Server_Ping = (), Debug_Server_OpenByteStream = (), Debug_Server_StartBenchmarkVsock = ()\<rparr>)),
     (Network_TypeID, ''Network'', map fst (Network_Methods []
        \<lparr>Network_Server_ConfigureInterface = (), Network_Server_SetupVsockProxy = ()\<rparr>)),
     (Task_TypeID, ''Task'', map fst (Task_Methods []
        \<lparr>Task_Server_Stdin = (), Task_Server_ExitCode = ()\<rparr>)),
     (Container_TypeID, ''Container'', map fst (Container_Methods []
        \<lparr>Container_Server_Start = ()\<rparr>)),
     (ContainerService_TypeID, ''ContainerService'', map fst (ContainerService_Methods []
        \<lparr>ContainerService_Server_Create = ()\<rparr>)),
     (Agent_TypeID, ''Agent'', map fst (Agent_Methods []
        \<lparr>Agent_Server_Debug = (), Agent_Server_Network = (), Agent_Server_ContainerService = ()\<rparr>))]"

lemmas type_ids =
  ByteStream_TypeID_def ByteStream_write_Params_TypeID_def ByteStream_done_Params_TypeID_def
  ByteStream_done_Results_TypeID_def Debug_TypeID_def Debug_ping_Params_TypeID_def
  Debug_ping_Results_TypeID_def Debug_openByteStream_Params_TypeID_def
  Debug_openByteStream_Results_TypeID_def Debug_startBenchmarkVsock_Params_TypeID_def
  Debug_startBenchmarkVsock_Results_TypeID_def Network_TypeID_def
  Network_configureInterface_Params_TypeID_def Network_configureInterface_Results_TypeID_def
  Network_setupVsockProxy_Params_TypeID_def Network_setupVsockProxy_Results_TypeID_def Task_TypeID_def
  Task_stdin_Params_TypeID_def Task_stdin_Results_TypeID_def Task_exitCode_Params_TypeID_def
  Task_exitCode_Results_TypeID_def Container_TypeID_def Container_start_Params_TypeID_def
  Container_start_Results_TypeID_def ContainerService_TypeID_def
  ContainerService_create_Params_TypeID_def ContainerService_create_Results_TypeID_def Agent_TypeID_def
  Agent_debug_Params_TypeID_def Agent_debug_Results_TypeID_def Agent_network_Params_TypeID_def
  Agent_network_Results_TypeID_def Agent_containerService_Params_TypeID_def
  Agent_containerService_Results_TypeID_def

lemmas message_defs =
  ByteStream_write_Params_message_def ByteStream_done_Params_message_def
  ByteStream_done_Results_message_def Debug_ping_Params_message_def Debug_ping_Results_message_def
  Debug_openByteStream_Params_message_def Debug_openByteStream_Results_message_def
  Debug_startBenchmarkVsock_Params_message_def Debug_startBenchmarkVsock_Results_message_def
  Network_configureInterface_Params_message_def Network_configureInterface_Results_message_def
  Network_setupVsockProxy_Params_message_def Network_setupVsockProxy_Results_message_def
  Task_stdin_Params_message_def Task_stdin_Results_message_def Task_exitCode_Params_message_def
  Task_exitCode_Results_message_def Container_start_Params_message_def
  Container_start_Results_message_def ContainerService_create_Params_message_def
  ContainerService_create_Results_message_def Agent_debug_Params_message_def
  Agent_debug_Results_message_def Agent_network_Params_message_def Agent_network_Results_message_def
  Agent_containerService_Params_message_def Agent_containerService_Results_message_def

lemmas server_defs =
  ByteStream_NewServer_def ByteStream_ServerToClient_def Debug_NewServer_def Debug_ServerToClient_def
  Network_NewServer_def Network_ServerToClient_def Task_NewServer_def Task_ServerToClient_def
  Container_NewServer_def Container_ServerToClient_def ContainerService_NewServer_def
  ContainerService_ServerToClient_def Agent_NewServer_def Agent_ServerToClient_def

end
