(* ===== verification/RPC_Props.thy ===== *)
theory RPC_Props
  imports RPC_Types Agent_Container Container_Client
begin

text \<open>
  What the generated code promises to both sides: a call reaches the handler of its name, and
  the fields of a message are read as they were set. The promises of the capnp library are the
  locale \<open>capnp_messages\<close>; it is interpreted on the layout that Cap'n Proto documents, a data
  section of little-endian numbers and a section of pointers.
\<close>

section \<open>Calls reach their handlers\<close>

definition method_key :: "capnp_method \<Rightarrow> 64 word \<times> 16 word" where
  "method_key m = (interface_id m, method_id m)"

text \<open>
  The library's servers: a call on the client of a server goes, by the two identifiers of its
  method, to the handler in the table the server was made of, when the table has them once.
\<close>

locale capnp_servers =
  fixes srv :: "('h, 'b, 'd, 'v, 'c) server_ops" and deliver :: "'c \<Rightarrow> capnp_method \<Rightarrow> 'h option"
  assumes deliver_law: "distinct (map (method_key \<circ> fst) table) \<Longrightarrow> (m', h) \<in> set table \<Longrightarrow>
      method_key m' = method_key m \<Longrightarrow> deliver (client_new srv (server_new srv table brand shutdown)) m = Some h"
begin

lemma delivered:
  "distinct (map (method_key \<circ> fst) table) \<Longrightarrow> (m, h) \<in> set table \<Longrightarrow>
   deliver (client_new srv (server_new srv table brand shutdown)) m = Some h"
  using deliver_law by blast

end

lemmas method_tables = ByteStream_Methods_def Debug_Methods_def Network_Methods_def Task_Methods_def
  Container_Methods_def ContainerService_Methods_def Agent_Methods_def

lemmas client_methods = ByteStream_Write_def ByteStream_Done_def Debug_Ping_def Debug_OpenByteStream_def
  Debug_StartBenchmarkVsock_def Network_ConfigureInterface_def Network_SetupVsockProxy_def Task_Stdin_def
  Task_ExitCode_def Container_Start_def ContainerService_Create_def Agent_Debug_def Agent_Network_def
  Agent_ContainerService_def send_of_def

definition find_by_key :: "(capnp_method \<times> 'h) list \<Rightarrow> capnp_method \<Rightarrow> 'h option" where
  "find_by_key table m = map_option snd (find (\<lambda>(m', h). method_key m' = method_key m) table)"

lemma find_by_key_found:
  "distinct (map (method_key \<circ> fst) table) \<Longrightarrow> (m', h) \<in> set table \<Longrightarrow> method_key m' = method_key m \<Longrightarrow>
   find_by_key table m = Some h"
proof (induction table)
  case (Cons e table)
  show ?case
  proof (cases "method_key (fst e) = method_key m")
    case True
    with Cons.prems have "e = (m', h)" by (force simp: image_iff)
    with True show ?thesis by (simp add: find_by_key_def)
  next
    case False
    with Cons have "find_by_key table m = Some h" by auto
    with False show ?thesis by (cases e) (simp add: find_by_key_def)
  qed
qed simp

definition flat_servers :: "('h, 'b, 'd, (capnp_method \<times> 'h) list, (capnp_method \<times> 'h) list) server_ops" where
  "flat_servers = \<lparr>server_new = (\<lambda>table brand shutdown. table), client_new = (\<lambda>table. table)\<rparr>"

interpretation flat_server: capnp_servers "flat_servers :: ('h, 'b, 'd, (capnp_method \<times> 'h) list, (capnp_method \<times> 'h) list) server_ops" find_by_key
  by unfold_locales (simp add: flat_servers_def find_by_key_found)

text \<open>
  C19. Every call of a client reaches the handler of the same name: for servers that dispatch by
  interface and method identifier, each of the fourteen methods, called on the client that is
  made of an implementation, gives that implementation's handler for it. No two entries of a
  table have one identifier, and no server is made of the table of another interface.
\<close>

theorem calls_reach_their_handlers:
  assumes "capnp_servers srv deliver"
  shows "deliver (ByteStream_ServerToClient srv bb bd b) (send_method (ByteStream_Write p)) =
      Some (ByteStream_Server_Write b) \<and>
    deliver (ByteStream_ServerToClient srv bb bd b) (send_method (ByteStream_Done p)) =
      Some (ByteStream_Server_Done b) \<and>
    deliver (Debug_ServerToClient srv db dd d) (send_method (Debug_Ping p)) =
      Some (Debug_Server_Ping d) \<and>
    deliver (Debug_ServerToClient srv db dd d) (send_method (Debug_OpenByteStream p)) =
      Some (Debug_Server_OpenByteStream d) \<and>
    deliver (Debug_ServerToClient srv db dd d) (send_method (Debug_StartBenchmarkVsock p)) =
      Some (Debug_Server_StartBenchmarkVsock d) \<and>
    deliver (Network_ServerToClient srv nb nd n) (send_method (Network_ConfigureInterface p)) =
      Some (Network_Server_ConfigureInterface n) \<and>
    deliver (Network_ServerToClient srv nb nd n) (send_method (Network_SetupVsockProxy p)) =
      Some (Network_Server_SetupVsockProxy n) \<and>
    deliver (Task_ServerToClient srv tb td t) (send_method (Task_Stdin p)) =
      Some (Task_Server_Stdin t) \<and>
    deliver (Task_ServerToClient srv tb td t) (send_method (Task_ExitCode p)) =
      Some (Task_Server_ExitCode t) \<and>
    deliver (Container_ServerToClient srv cb cd c) (send_method (Container_Start p)) =
      Some (Container_Server_Start c) \<and>
    deliver (ContainerService_ServerToClient srv sb sd s) (send_method (ContainerService_Create p)) =
      Some (ContainerService_Server_Create s) \<and>
    deliver (Agent_ServerToClient srv ab ad a) (send_method (Agent_Debug p)) =
      Some (Agent_Server_Debug a) \<and>
    deliver (Agent_ServerToClient srv ab ad a) (send_method (Agent_Network p)) =
      Some (Agent_Server_Network a) \<and>
    deliver (Agent_ServerToClient srv ab ad a) (send_method (Agent_ContainerService p)) =
      Some (Agent_Server_ContainerService a)"
  unfolding server_defs
  by (intro conjI; rule capnp_servers.delivered[OF assms]; simp add: method_tables client_methods method_key_def)

theorem calls_reach_their_handlers_witness:
  "find_by_key (Task_ServerToClient flat_servers (\<lambda>_. ()) (\<lambda>_. None :: nat option)
     \<lparr>Task_Server_Stdin = 1, Task_Server_ExitCode = 2\<rparr>)
     (send_method (Task_ExitCode (None :: (nat \<Rightarrow> nat go) option))) = Some (2 :: nat)"
  using calls_reach_their_handlers[OF flat_server.capnp_servers_axioms,
      where t = "\<lparr>Task_Server_Stdin = 1 :: nat, Task_Server_ExitCode = 2\<rparr>" and tb = "\<lambda>_. ()"
      and td = "\<lambda>_. None :: nat option" and p = "None :: (nat \<Rightarrow> nat go) option"]
  by (simp del: One_nat_def)

section \<open>Messages\<close>

text \<open>
  What the accessors rely on: \<open>sized s sz\<close> says that a struct was allocated with the data and
  pointer sections \<open>sz\<close>. Setting a field inside of them, when it succeeds, makes it read as it
  was set and leaves the other fields alone.
\<close>

definition same_data :: "('s, 'p, 'c) capnp \<Rightarrow> 's \<Rightarrow> 's \<Rightarrow> bool" where
  "same_data lib s s' \<longleftrightarrow> uint32 lib s' = uint32 lib s \<and> uint64 lib s' = uint64 lib s"

definition apart :: "nat \<Rightarrow> nat \<Rightarrow> nat \<Rightarrow> nat \<Rightarrow> bool" where
  "apart a n b m \<longleftrightarrow> a + n \<le> b \<or> b + m \<le> a"

locale capnp_messages =
  fixes lib :: "('s, 'p, 'c) capnp" and sized :: "'s \<Rightarrow> nat \<times> nat \<Rightarrow> bool"
  assumes new_sized: "sized (new_struct lib sz) sz"
    and set_text_law: "sized s sz \<Longrightarrow> i < snd sz \<Longrightarrow> set_text lib s i v = Inr s' \<Longrightarrow>
      sized s' sz \<and> text_at lib s' i = Inr v \<and> (\<forall>j. j \<noteq> i \<longrightarrow> ptr lib s' j = ptr lib s j) \<and> same_data lib s s'"
    and set_data_law: "sized s sz \<Longrightarrow> i < snd sz \<Longrightarrow> set_data lib s i v = Inr s' \<Longrightarrow>
      sized s' sz \<and> data_at lib s' i = Inr v \<and> (\<forall>j. j \<noteq> i \<longrightarrow> ptr lib s' j = ptr lib s j) \<and> same_data lib s s'"
    and add_cap_law: "sized s sz \<Longrightarrow> add_cap lib s c = (s', p) \<Longrightarrow>
      sized s' sz \<and> ptr lib s' = ptr lib s \<and> same_data lib s s' \<and> ptr_client lib p = c"
    and set_ptr_law: "sized s sz \<Longrightarrow> i < snd sz \<Longrightarrow> set_ptr lib s i p = Inr s' \<Longrightarrow>
      sized s' sz \<and> ptr lib s' i = (p, None) \<and> (\<forall>j. j \<noteq> i \<longrightarrow> ptr lib s' j = ptr lib s j) \<and> same_data lib s s'"
    and set_uint32_law: "sized s sz \<Longrightarrow> off + 4 \<le> fst sz \<Longrightarrow>
      sized (set_uint32 lib s off n) sz \<and> uint32 lib (set_uint32 lib s off n) off = n \<and>
      ptr lib (set_uint32 lib s off n) = ptr lib s \<and>
      (\<forall>o'. apart off 4 o' 4 \<longrightarrow> uint32 lib (set_uint32 lib s off n) o' = uint32 lib s o') \<and>
      (\<forall>o'. apart off 4 o' 8 \<longrightarrow> uint64 lib (set_uint32 lib s off n) o' = uint64 lib s o')"
    and set_uint64_law: "sized s sz \<Longrightarrow> off + 8 \<le> fst sz \<Longrightarrow>
      sized (set_uint64 lib s off w) sz \<and> uint64 lib (set_uint64 lib s off w) off = w \<and>
      ptr lib (set_uint64 lib s off w) = ptr lib s \<and>
      (\<forall>o'. apart off 8 o' 4 \<longrightarrow> uint32 lib (set_uint64 lib s off w) o' = uint32 lib s o') \<and>
      (\<forall>o'. apart off 8 o' 8 \<longrightarrow> uint64 lib (set_uint64 lib s off w) o' = uint64 lib s o')"
begin

text \<open>A field that one setter sets survives the setters of the other fields.\<close>

lemma set_text_steps:
  assumes "sized s sz" and "set_text lib s i v = Inr s'" and "i < snd sz"
  shows "sized s' sz" and "text_at lib s' i = Inr v"
    and "j \<noteq> i \<Longrightarrow> text_at lib s' j = text_at lib s j" and "j \<noteq> i \<Longrightarrow> data_at lib s' j = data_at lib s j"
  using set_text_law[OF assms(1,3,2)] by (auto simp: text_at_def data_at_def)

lemma set_data_steps:
  assumes "sized s sz" and "set_data lib s i v = Inr s'" and "i < snd sz"
  shows "sized s' sz" and "data_at lib s' i = Inr v"
    and "j \<noteq> i \<Longrightarrow> text_at lib s' j = text_at lib s j" and "j \<noteq> i \<Longrightarrow> data_at lib s' j = data_at lib s j"
  using set_data_law[OF assms(1,3,2)] by (auto simp: text_at_def data_at_def)

lemma set_client_steps:
  assumes "sized s sz" and "set_client lib s i c = Inr s'" and "i < snd sz" and "client_valid lib c"
  shows "sized s' sz" and "client_at lib s' i = c" and "j \<noteq> i \<Longrightarrow> client_at lib s' j = client_at lib s j"
proof -
  obtain s1 p where add: "add_cap lib s c = (s1, p)" by fastforce
  with assms(2,4) have set: "set_ptr lib s1 i p = Inr s'" by (simp add: set_client_def)
  note a = add_cap_law[OF assms(1) add] and b = set_ptr_law[OF _ assms(3) set]
  show "sized s' sz" "client_at lib s' i = c" "j \<noteq> i \<Longrightarrow> client_at lib s' j = client_at lib s j"
    using a b by (auto simp: client_at_def)
qed

end

subsection \<open>The layout of Cap'n Proto\<close>

text \<open>Little-endian numbers of \<open>n\<close> bytes.\<close>

definition write_le :: "nat \<Rightarrow> 'a :: len word \<Rightarrow> 8 word list" where
  "write_le n w = map (\<lambda>k. ucast (drop_bit (8 * k) w)) [0..<n]"

fun read_le :: "8 word list \<Rightarrow> 'a :: len word" where
  "read_le [] = 0"
| "read_le (b # bs) = ucast b OR push_bit 8 (read_le bs)"

lemma bit_read_le:
  "bit (read_le bs :: 'a :: len word) i \<longleftrightarrow> i < LENGTH('a) \<and> i < 8 * length bs \<and> bit (bs ! (i div 8)) (i mod 8)"
proof (induction bs arbitrary: i)
  case (Cons b bs)
  show ?case
  proof (cases "i < 8")
    case True
    then show ?thesis by (auto simp: bit_simps)
  next
    case False
    then have "i div 8 = Suc ((i - 8) div 8)" "i mod 8 = (i - 8) mod 8" by (simp_all add: le_div_geq le_mod_geq)
    with False Cons[of "i - 8"] show ?thesis by (auto simp: bit_simps dest: bit_imp_le_length)
  qed
qed simp

lemma read_write_le: "LENGTH('a) = 8 * n \<Longrightarrow> read_le (write_le n w) = (w :: 'a :: len word)"
  by (rule bit_word_eqI) (auto simp: bit_read_le write_le_def bit_simps)

lemma length_write_le [simp]: "length (write_le n w) = n"
  by (simp add: write_le_def)

datatype 'c flat_ptr = Null_Ptr | Bytes_Ptr string | Cap_Ptr 'c

record 'c flat =
  flat_size :: "nat \<times> nat"
  flat_data :: "nat \<Rightarrow> 8 word"
  flat_ptrs :: "nat \<Rightarrow> 'c option flat_ptr"

definition bytes_of :: "'c flat_ptr \<Rightarrow> string" where
  "bytes_of p = (case p of Bytes_Ptr bs \<Rightarrow> bs | _ \<Rightarrow> [])"

definition cap_of :: "'c option flat_ptr \<Rightarrow> 'c option" where
  "cap_of p = (case p of Cap_Ptr c \<Rightarrow> c | _ \<Rightarrow> None)"

definition flat_set_ptr :: "'c flat \<Rightarrow> nat \<Rightarrow> 'c option flat_ptr \<Rightarrow> 'c flat go" where
  "flat_set_ptr s i p =
    (if i < snd (flat_size s) then Inr (s\<lparr>flat_ptrs := (flat_ptrs s)(i := p)\<rparr>)
     else Inl (Errorf ''capnp: set field outside struct boundaries'' []))"

definition read_num :: "nat \<Rightarrow> 'c flat \<Rightarrow> nat \<Rightarrow> 'a :: len word" where
  "read_num n s off = read_le (map (\<lambda>k. flat_data s (off + k)) [0..<n])"

definition write_num :: "nat \<Rightarrow> 'c flat \<Rightarrow> nat \<Rightarrow> 'a :: len word \<Rightarrow> 'c flat" where
  "write_num n s off v =
    s\<lparr>flat_data := (\<lambda>k. if off \<le> k \<and> k < off + n then write_le n v ! (k - off) else flat_data s k)\<rparr>"

definition flat_lib :: "('c flat, 'c option flat_ptr, 'c option) capnp" where
  "flat_lib =
    \<lparr>new_struct = (\<lambda>sz. \<lparr>flat_size = sz, flat_data = (\<lambda>_. 0), flat_ptrs = (\<lambda>_. Null_Ptr)\<rparr>),
     ptr = (\<lambda>s i. (flat_ptrs s i, None)), set_ptr = flat_set_ptr, null_ptr = Null_Ptr,
     ptr_text = bytes_of, ptr_data = bytes_of, ptr_client = cap_of,
     set_text = (\<lambda>s i v. flat_set_ptr s i (Bytes_Ptr v)), set_data = (\<lambda>s i v. flat_set_ptr s i (Bytes_Ptr v)),
     add_cap = (\<lambda>s c. (s, Cap_Ptr c)), client_valid = (\<lambda>c. c \<noteq> None),
     uint32 = read_num 4, set_uint32 = write_num 4, uint64 = read_num 8, set_uint64 = write_num 8\<rparr>"

definition flat_sized :: "'c flat \<Rightarrow> nat \<times> nat \<Rightarrow> bool" where
  "flat_sized s sz \<longleftrightarrow> flat_size s = sz"

lemma read_written_num: "LENGTH('a) = 8 * n \<Longrightarrow> read_num n (write_num n s off v) off = (v :: 'a :: len word)"
proof -
  assume n: "LENGTH('a) = 8 * n"
  have "map (\<lambda>k. flat_data (write_num n s off v) (off + k)) [0..<n] = write_le n v"
    by (rule nth_equalityI) (simp_all add: write_num_def)
  with n show ?thesis unfolding read_num_def by (simp add: read_write_le)
qed

lemma read_other_num: "apart off n o' m \<Longrightarrow> read_num m (write_num n s off v) o' = read_num m s o'"
  unfolding read_num_def by (rule arg_cong[where f = read_le]) (auto simp: write_num_def apart_def)

lemma write_num_rest [simp]: "flat_size (write_num n s off v) = flat_size s" "flat_ptrs (write_num n s off v) = flat_ptrs s"
  by (simp_all add: write_num_def)

lemma read_num_ptrs [simp]: "read_num n (s\<lparr>flat_ptrs := f\<rparr>) = read_num n s"
  by (simp add: fun_eq_iff read_num_def)

interpretation flat: capnp_messages "flat_lib :: ('c flat, 'c option flat_ptr, 'c option) capnp" flat_sized
  by unfold_locales
    (auto simp: flat_lib_def flat_sized_def flat_set_ptr_def same_data_def text_at_def data_at_def bytes_of_def cap_of_def
      read_written_num read_other_num split: if_splits)

section \<open>The arguments of Create\<close>

text \<open>
  What \<open>RunContainer\<close> places (\<open>vm/container.go\<close>) and what the agent's \<open>Create\<close> reads
  (\<open>container_service.go\<close>), both with the accessors of the generated code.
\<close>

definition place_create ::
  "('s, 'p, 'c) capnp \<Rightarrow> string \<Rightarrow> string \<Rightarrow> string \<Rightarrow> string \<Rightarrow> string \<Rightarrow> 's \<Rightarrow> 's go" where
  "place_create lib spec_json image_ref cid rootfs_path container_state_disk s =
    and_then (ContainerService_create_Params_SetOci lib s spec_json) (\<lambda>s.
    and_then (ContainerService_create_Params_SetImage lib s image_ref) (\<lambda>s.
    and_then (ContainerService_create_Params_SetId lib s cid) (\<lambda>s.
    and_then (ContainerService_create_Params_SetRootfsPath lib s rootfs_path) (\<lambda>s.
    ContainerService_create_Params_SetContainerStateDisk lib s container_state_disk))))"

definition read_create :: "('s, 'p, 'c) capnp \<Rightarrow> 's \<Rightarrow> create_args" where
  "read_create lib s =
    \<lparr>arg_id = ContainerService_create_Params_Id lib s, arg_image = ContainerService_create_Params_Image lib s,
     arg_oci = ContainerService_create_Params_Oci lib s,
     arg_rootfs_path = ContainerService_create_Params_RootfsPath lib s,
     arg_state_disk = ContainerService_create_Params_ContainerStateDisk lib s\<rparr>"

lemmas create_accessors = ContainerService_create_Params_SetOci_def ContainerService_create_Params_SetImage_def
  ContainerService_create_Params_SetId_def ContainerService_create_Params_SetRootfsPath_def
  ContainerService_create_Params_SetContainerStateDisk_def ContainerService_create_Params_Id_def
  ContainerService_create_Params_Image_def ContainerService_create_Params_Oci_def
  ContainerService_create_Params_RootfsPath_def ContainerService_create_Params_ContainerStateDisk_def

lemma and_then_Inr_iff: "and_then r k = Inr y \<longleftrightarrow> (\<exists>x. r = Inr x \<and> k x = Inr y)"
  by (cases r) (auto simp: and_then_def)

context capnp_messages
begin

lemma create_fields:
  assumes "sized s (0, 5)" and "place_create lib spec img cid rootfs disk s = Inr t"
  shows "read_create lib t = \<lparr>arg_id = Inr cid, arg_image = Inr img, arg_oci = Inr spec,
     arg_rootfs_path = Inr rootfs, arg_state_disk = Inr disk\<rparr>"
proof -
  obtain s1 s2 s3 s4 where set: "set_data lib s 0 spec = Inr s1" "set_text lib s1 1 img = Inr s2"
      "set_text lib s2 2 cid = Inr s3" "set_text lib s3 3 rootfs = Inr s4" "set_text lib s4 4 disk = Inr t"
    using assms(2) by (auto simp: place_create_def create_accessors and_then_Inr_iff)
  note a = set_data_steps[OF assms(1) set(1), simplified]
  note b = set_text_steps[OF a(1) set(2), simplified]
  note c = set_text_steps[OF b(1) set(3), simplified]
  note d = set_text_steps[OF c(1) set(4), simplified]
  note e = set_text_steps[OF d(1) set(5), simplified]
  show ?thesis
    by (simp add: read_create_def create_accessors a b c d e)
qed

end

text \<open>
  C17. The arguments of \<open>RunContainer\<close> are those \<open>Create\<close> decides on: when the library keeps its
  promises and the message that the client allocates for \<open>Create\<close> takes the five fields, the
  agent's handler reads the specification, the image, the identifier and the two paths as they
  were given, each in its place, and so decides as it would on them.
\<close>

theorem create_arguments_arrive:
  assumes "capnp_messages lib sized"
    and "place_args call = Some place" and "place s = Inr t" and "s = new_struct lib (args_size call)"
    and "call = ContainerService_Create (Some (place_create lib spec img cid rootfs disk))"
  shows "create (read_create lib (ContainerService_create_Args \<lparr>call_args = t\<rparr>)) rr = create \<lparr>arg_id = Inr cid, arg_image = Inr img, arg_oci = Inr spec,
     arg_rootfs_path = Inr rootfs, arg_state_disk = Inr disk\<rparr> rr"
proof -
  have "sized s (0, 5)"
    using capnp_messages.new_sized[OF assms(1)] assms(4,5) by (simp add: ContainerService_Create_def send_of_def)
  moreover have "place = place_create lib spec img cid rootfs disk"
    using assms(2,5) by (simp add: ContainerService_Create_def send_of_def)
  ultimately show ?thesis using capnp_messages.create_fields[OF assms(1)] assms(3)
    by (metis ContainerService_create_Args_def server_call.select_convs(1))
qed

theorem create_arguments_arrive_witness:
  "\<exists>t. place_create (flat_lib :: (nat flat, nat option flat_ptr, nat option) capnp) ''{}'' ''img'' ''c1'' ''/r'' ''/d''
       (new_struct flat_lib (0, 5)) = Inr t \<and>
     create (read_create flat_lib (ContainerService_create_Args \<lparr>call_args = t\<rparr>)) \<lparr>alloc_err = None, set_err = None\<rparr> =
       create \<lparr>arg_id = Inr ''c1'', arg_image = Inr ''img'', arg_oci = Inr ''{}'', arg_rootfs_path = Inr ''/r'',
         arg_state_disk = Inr ''/d''\<rparr> \<lparr>alloc_err = None, set_err = None\<rparr>"
proof -
  let ?lib = "flat_lib :: (nat flat, nat option flat_ptr, nat option) capnp"
  obtain t where t: "place_create ?lib ''{}'' ''img'' ''c1'' ''/r'' ''/d'' (new_struct ?lib (0, 5)) = Inr t"
    by (simp add: place_create_def create_accessors and_then_def flat_lib_def flat_set_ptr_def)
  let ?place = "place_create ?lib ''{}'' ''img'' ''c1'' ''/r'' ''/d''"
  have "place_args (ContainerService_Create (Some ?place)) = Some ?place"
    "new_struct ?lib (0, 5) = new_struct ?lib (args_size (ContainerService_Create (Some ?place)))"
    by (simp_all add: ContainerService_Create_def send_of_def)
  from create_arguments_arrive[where place = ?place, OF flat.capnp_messages_axioms this(1) t this(2) refl] t
  show ?thesis by blast
qed

section \<open>The other messages\<close>

context capnp_messages
begin

lemma uint32_steps:
  assumes "sized s sz" and "off + 4 \<le> fst sz"
  shows "sized (set_uint32 lib s off n) sz" and "uint32 lib (set_uint32 lib s off n) off = n"
    and "apart off 4 o' 4 \<Longrightarrow> uint32 lib (set_uint32 lib s off n) o' = uint32 lib s o'"
    and "apart off 4 o' 8 \<Longrightarrow> uint64 lib (set_uint32 lib s off n) o' = uint64 lib s o'"
  using set_uint32_law[OF assms] by auto

lemma uint64_steps:
  assumes "sized s sz" and "off + 8 \<le> fst sz"
  shows "sized (set_uint64 lib s off w) sz" and "uint64 lib (set_uint64 lib s off w) off = w"
    and "apart off 8 o' 4 \<Longrightarrow> uint32 lib (set_uint64 lib s off w) o' = uint32 lib s o'"
    and "apart off 8 o' 8 \<Longrightarrow> uint64 lib (set_uint64 lib s off w) o' = uint64 lib s o'"
  using set_uint64_law[OF assms] by auto

lemma benchmark_fields:
  fixes port chunk :: "32 word" and total_bytes :: "64 word"
  assumes "sized s (16, 0)"
  defines "t \<equiv> set_uint32 lib (set_uint64 lib (set_uint32 lib s 0 port) 8 total_bytes) 4 chunk"
  shows "uint32 lib t 0 = port \<and> uint64 lib t 8 = total_bytes \<and> uint32 lib t 4 = chunk"
proof -
  note a = uint32_steps[OF assms(1), where off = 0 and n = port, simplified]
  note b = uint64_steps[OF a(1), where off = 8 and w = total_bytes, simplified]
  note c = uint32_steps[OF b(1), where off = 4 and n = chunk, simplified]
  show ?thesis unfolding t_def by (simp add: a b c apart_def)
qed

lemma result_fields:
  assumes "sized s (16, 0)"
  shows "uint64 lib (set_uint64 lib (set_uint64 lib s 0 v) 8 w) 0 = v \<and>
    uint64 lib (set_uint64 lib (set_uint64 lib s 0 v) 8 w) 8 = w"
proof -
  note a = uint64_steps[OF assms(1), where off = 0 and w = v, simplified]
  note b = uint64_steps[OF a(1), where off = 8 and w = w, simplified]
  show ?thesis by (simp add: a b apart_def)
qed

lemma start_fields:
  assumes "sized s (0, 2)" and "set_client lib s 0 c = Inr s1" and "set_client lib s1 1 d = Inr s2"
    and "client_valid lib c" and "client_valid lib d"
  shows "client_at lib s2 0 = c \<and> client_at lib s2 1 = d"
proof -
  note a = set_client_steps[OF assms(1,2) _ assms(4), simplified]
  note b = set_client_steps[OF a(1) assms(3) _ assms(5), simplified]
  show ?thesis by (simp add: a b)
qed

end

lemmas number_accessors = Debug_startBenchmarkVsock_Params_Port_def Debug_startBenchmarkVsock_Params_TotalBytes_def
  Debug_startBenchmarkVsock_Params_ChunkBytes_def Debug_startBenchmarkVsock_Params_SetPort_def
  Debug_startBenchmarkVsock_Params_SetTotalBytes_def Debug_startBenchmarkVsock_Params_SetChunkBytes_def
  Debug_startBenchmarkVsock_Results_BytesPerSec_def Debug_startBenchmarkVsock_Results_DurationNanos_def
  Debug_startBenchmarkVsock_Results_SetBytesPerSec_def Debug_startBenchmarkVsock_Results_SetDurationNanos_def
  Task_exitCode_Results_Code_def Task_exitCode_Results_SetCode_def Network_setupVsockProxy_Params_Port_def
  Network_setupVsockProxy_Params_SetPort_def

text \<open>
  C35. The numbers of the protocol keep their place and their width: in messages of the sizes
  that client and server allocate, the three parameters and the two results of the benchmark,
  the port of the proxy and the exit code of a task are read as they were set, so no field
  overlaps another or leaves its struct.
\<close>

theorem numbers_arrive:
  assumes "capnp_messages lib sized"
  shows "(let t = Debug_startBenchmarkVsock_Params_SetChunkBytes lib
            (Debug_startBenchmarkVsock_Params_SetTotalBytes lib
              (Debug_startBenchmarkVsock_Params_SetPort lib
                (new_struct lib (args_size (Debug_StartBenchmarkVsock (Some place)))) port) total_bytes) chunk in
      Debug_startBenchmarkVsock_Params_Port lib t = port \<and>
      Debug_startBenchmarkVsock_Params_TotalBytes lib t = total_bytes \<and>
      Debug_startBenchmarkVsock_Params_ChunkBytes lib t = chunk) \<and>
    (\<exists>s t. Debug_startBenchmarkVsock_AllocResults (\<lambda>sz. Inr (new_struct lib sz)) = Inr s \<and>
      t = Debug_startBenchmarkVsock_Results_SetDurationNanos lib
            (Debug_startBenchmarkVsock_Results_SetBytesPerSec lib s rate) nanos \<and>
      Debug_startBenchmarkVsock_Results_BytesPerSec lib t = rate \<and>
      Debug_startBenchmarkVsock_Results_DurationNanos lib t = nanos) \<and>
    Network_setupVsockProxy_Params_Port lib (Network_setupVsockProxy_Params_SetPort lib
      (new_struct lib (args_size (Network_SetupVsockProxy (Some place)))) port) = port \<and>
    (\<exists>s. Task_exitCode_AllocResults (\<lambda>sz. Inr (new_struct lib sz)) = Inr s \<and>
      Task_exitCode_Results_Code lib (Task_exitCode_Results_SetCode lib s code) = code)"
proof -
  have size: "args_size (Debug_StartBenchmarkVsock (Some place)) = (16, 0)" "args_size (Network_SetupVsockProxy (Some place)) = (8, 0)"
    by (simp_all add: client_methods)
  note new = capnp_messages.new_sized[OF assms]
  show ?thesis
    unfolding Let_def size number_accessors Debug_startBenchmarkVsock_AllocResults_def Task_exitCode_AllocResults_def
    using capnp_messages.benchmark_fields[OF assms new] capnp_messages.result_fields[OF assms new]
      capnp_messages.uint32_steps(2)[OF assms new] by simp
qed

theorem numbers_arrive_witness:
  "Task_exitCode_Results_Code flat_lib (Task_exitCode_Results_SetCode flat_lib
      (new_struct (flat_lib :: (nat flat, nat option flat_ptr, nat option) capnp) (8, 0)) (-1)) = -1"
  using numbers_arrive[where lib = "flat_lib :: (nat flat, nat option flat_ptr, nat option) capnp",
      OF flat.capnp_messages_axioms, where code = "-1" and place = Inr and port = 0 and total_bytes = 0
      and chunk = 0 and rate = 0 and nanos = 0]
  by (elim conjE exE) (simp add: Task_exitCode_AllocResults_def)

text \<open>
  The streams of \<open>Start\<close> (\<open>vm/container.go\<close>): the capability for the standard output and the
  one for the standard error are not exchanged on the way.
\<close>

definition place_start :: "('s, 'p, 'c) capnp \<Rightarrow> 'c \<Rightarrow> 'c \<Rightarrow> 's \<Rightarrow> 's go" where
  "place_start lib stdout_cap stderr_cap s =
    and_then (Container_start_Params_SetStdout lib s stdout_cap) (\<lambda>s.
    Container_start_Params_SetStderr lib s stderr_cap)"

theorem start_streams_arrive:
  assumes "capnp_messages lib sized" and "client_valid lib c" and "client_valid lib d"
    and "place_start lib c d (new_struct lib (args_size (Container_Start (Some place)))) = Inr t"
  shows "Container_start_Params_Stdout lib t = c \<and> Container_start_Params_Stderr lib t = d"
proof -
  have "args_size (Container_Start (Some place)) = (0, 2)" by (simp add: client_methods)
  with capnp_messages.start_fields[OF assms(1) capnp_messages.new_sized[OF assms(1)] _ _ assms(2,3)] assms(4)
  show ?thesis
    by (auto simp: place_start_def Container_start_Params_SetStdout_def Container_start_Params_SetStderr_def
        Container_start_Params_Stdout_def Container_start_Params_Stderr_def and_then_Inr_iff)
qed

end
