(* ===== verification/RPC_Answers.thy ===== *)
theory RPC_Answers
  imports RPC_Structs RPC_Props
begin

text \<open>
  The way back: what a handler of the agent sets in its results is what \<open>RunContainer\<close> reads from
  the answer, and a capability that is called before the answer has come is the one the answer
  holds. All routes to a message allocate the same sections.
\<close>

section \<open>Allocation\<close>

text \<open>
  Each of the twenty-seven messages has the same sections however it is allocated: alone, as a
  root, in a list, as the arguments of its call or as the results of its server.
\<close>

theorem messages_allocated_alike:
  "list_all (\<lambda>(new, root, lst, sz). (\<forall>alloc. new alloc = alloc sz \<and> root alloc = alloc sz) \<and>
     (\<forall>alloc n. lst alloc n = alloc sz n)) (message_routes place)"
  unfolding message_routes_def list.pred_inject prod.case
  by (intro conjI allI TrueI; simp add: allocation_defs client_methods)

section \<open>Answers\<close>

text \<open>
  A call is answered with the results \<open>s\<close> when its future resolves to a struct with the same
  fields. The client of a field of the future is then the capability in that field.
\<close>

definition answered :: "('s, 'p, 'c) capnp \<Rightarrow> ('s, 'p) pointers \<Rightarrow> ('p, 'c) future \<Rightarrow> 's \<Rightarrow> bool" where
  "answered lib pt f s \<longleftrightarrow>
    (case future_ptr f of
       (p, None) \<Rightarrow> ptr lib (struct_of pt p) = ptr lib s \<and> same_data lib s (struct_of pt p)
     | (_, Some _) \<Rightarrow> False) \<and>
    (\<forall>i. future_client f i = client_at lib s i)"

text \<open>\<open>res, err := future.Struct(); if err != nil { return err }; use res\<close>.\<close>

definition read_answer :: "'s \<times> goerr option \<Rightarrow> ('s \<Rightarrow> 'r) \<Rightarrow> 'r go" where
  "read_answer r get = (case r of (res, None) \<Rightarrow> Inr (get res) | (_, Some e) \<Rightarrow> Inl e)"

subsection \<open>The agent\<close>

definition answer_service :: "('s, 'p, 'c) capnp \<Rightarrow> (nat \<times> nat \<Rightarrow> 's go) \<Rightarrow> 'c \<Rightarrow> 's go" where
  "answer_service lib alloc svc =
    and_then (Agent_containerService_AllocResults alloc) (\<lambda>res.
    Agent_containerService_Results_SetService lib res svc)"

definition answer_create :: "('s, 'p, 'c) capnp \<Rightarrow> (nat \<times> nat \<Rightarrow> 's go) \<Rightarrow> 'c \<Rightarrow> 's go" where
  "answer_create lib alloc container =
    and_then (ContainerService_create_AllocResults alloc) (\<lambda>res.
    ContainerService_create_Results_SetContainer lib res container)"

definition answer_start :: "('s, 'p, 'c) capnp \<Rightarrow> (nat \<times> nat \<Rightarrow> 's go) \<Rightarrow> 'c \<Rightarrow> 's go" where
  "answer_start lib alloc task =
    and_then (Container_start_AllocResults alloc) (\<lambda>res. Container_start_Results_SetTask lib res task)"

definition answer_exit_code :: "('s, 'p, 'c) capnp \<Rightarrow> (nat \<times> nat \<Rightarrow> 's go) \<Rightarrow> 32 word \<Rightarrow> 's go" where
  "answer_exit_code lib alloc code =
    and_then (Task_exitCode_AllocResults alloc) (\<lambda>res. Inr (Task_exitCode_Results_SetCode lib res code))"

subsection \<open>The host\<close>

definition read_service :: "('s, 'p, 'c) capnp \<Rightarrow> ('s, 'p) pointers \<Rightarrow> ('p, 'c) future \<Rightarrow> 'c go" where
  "read_service lib pt f =
    read_answer (Agent_containerService_Results_Future_Struct pt f) (\<lambda>r. Agent_containerService_Results_Service lib r)"

definition read_container :: "('s, 'p, 'c) capnp \<Rightarrow> ('s, 'p) pointers \<Rightarrow> ('p, 'c) future \<Rightarrow> 'c go" where
  "read_container lib pt f =
    read_answer (ContainerService_create_Results_Future_Struct pt f) (\<lambda>r. ContainerService_create_Results_Container lib r)"

definition read_task :: "('s, 'p, 'c) capnp \<Rightarrow> ('s, 'p) pointers \<Rightarrow> ('p, 'c) future \<Rightarrow> 'c go" where
  "read_task lib pt f =
    read_answer (Container_start_Results_Future_Struct pt f) (\<lambda>r. Container_start_Results_Task lib r)"

definition read_exit_code :: "('s, 'p, 'c) capnp \<Rightarrow> ('s, 'p) pointers \<Rightarrow> ('p, 'c) future \<Rightarrow> 32 word go" where
  "read_exit_code lib pt f =
    read_answer (Task_exitCode_Results_Future_Struct pt f) (\<lambda>r. Task_exitCode_Results_Code lib r)"

subsection \<open>What is set is read\<close>

lemma answered_from:
  assumes "answered lib pt f s"
  obtains r where "struct_from pt (future_ptr f) = (r, None)" and "ptr lib r = ptr lib s" and "same_data lib s r"
    and "\<And>i. future_client f i = client_at lib s i"
  using assms unfolding answered_def struct_from_def
  by (cases "future_ptr f") (auto split: option.splits)

lemma client_at_same: "ptr lib r = ptr lib s \<Longrightarrow> client_at lib r i = client_at lib s i"
  by (simp add: client_at_def)

context capnp_messages
begin

lemma set_client_new:
  assumes "set_client lib (new_struct lib (0, 1)) 0 c = Inr s" and "client_valid lib c"
  shows "client_at lib s 0 = c"
  using set_client_steps(2)[OF new_sized assms(1) _ assms(2)] by simp

lemma client_answer:
  assumes "set_client lib (new_struct lib (0, 1)) 0 c = Inr s" and "client_valid lib c" and "answered lib pt f s"
  shows "read_answer (struct_from pt (future_ptr f)) (\<lambda>r. client_at lib r 0) = Inr c \<and> future_client f 0 = c"
  using assms(3)
proof (rule answered_from)
  fix r assume "struct_from pt (future_ptr f) = (r, None)" "ptr lib r = ptr lib s"
    and "\<And>i. future_client f i = client_at lib s i"
  with set_client_new[OF assms(1,2)] show ?thesis by (simp add: read_answer_def client_at_same[of lib r s])
qed

lemma number_answer:
  assumes "answered lib pt f (set_uint32 lib (new_struct lib (8, 0)) 0 n)"
  shows "read_answer (struct_from pt (future_ptr f)) (\<lambda>r. uint32 lib r 0) = Inr n"
  using assms
proof (rule answered_from)
  fix r assume "struct_from pt (future_ptr f) = (r, None)"
    and "same_data lib (set_uint32 lib (new_struct lib (8, 0)) 0 n) r"
  moreover have "uint32 lib (set_uint32 lib (new_struct lib (8, 0)) 0 n) 0 = n"
    by (rule uint32_steps(2)[OF new_sized]) simp
  ultimately show ?thesis by (simp add: read_answer_def same_data_def)
qed

end

lemmas answer_defs = answer_service_def answer_create_def answer_start_def answer_exit_code_def
  read_service_def read_container_def read_task_def read_exit_code_def
  Agent_containerService_AllocResults_def Agent_containerService_Results_SetService_def
  Agent_containerService_Results_Future_Struct_def Agent_containerService_Results_Service_def
  ContainerService_create_AllocResults_def ContainerService_create_Results_SetContainer_def
  ContainerService_create_Results_Future_Struct_def ContainerService_create_Results_Container_def
  Container_start_AllocResults_def Container_start_Results_SetTask_def
  Container_start_Results_Future_Struct_def Container_start_Results_Task_def
  Task_exitCode_AllocResults_def Task_exitCode_Results_SetCode_def
  Task_exitCode_Results_Future_Struct_def Task_exitCode_Results_Code_def

text \<open>
  C18. The answers of the agent arrive at the host: the service, the container and the task that a
  handler sets in the results it allocates are those \<open>RunContainer\<close> goes on with, and the
  exit code that \<open>ExitCode\<close> sets is the one it returns. The capabilities are the same when
  they are called on the future, before the answer has come.
\<close>

theorem answers_arrive:
  assumes "capnp_messages lib sized" and "client_valid lib c" and "alloc = (\<lambda>sz. Inr (new_struct lib sz))"
  shows "(answer_service lib alloc c = Inr s \<and> answered lib pt f s \<longrightarrow>
      read_service lib pt f = Inr c \<and> Agent_containerService_Results_Future_Service f = c) \<and>
    (answer_create lib alloc c = Inr s \<and> answered lib pt f s \<longrightarrow>
      read_container lib pt f = Inr c \<and> ContainerService_create_Results_Future_Container f = c) \<and>
    (answer_start lib alloc c = Inr s \<and> answered lib pt f s \<longrightarrow>
      read_task lib pt f = Inr c \<and> Container_start_Results_Future_Task f = c) \<and>
    (answer_exit_code lib alloc code = Inr s \<and> answered lib pt f s \<longrightarrow> read_exit_code lib pt f = Inr code)"
  using capnp_messages.client_answer[OF assms(1) _ assms(2)] capnp_messages.number_answer[OF assms(1)]
  by (auto simp: answer_defs assms(3) and_then_def pipeline_defs)

theorem answers_arrive_witness:
  "\<exists>s f. answer_create (flat_lib :: (nat flat, nat option flat_ptr, nat option) capnp)
       (\<lambda>sz. Inr (new_struct flat_lib sz)) (Some 7) = Inr s \<and>
     read_container flat_lib \<lparr>struct_of = (\<lambda>_. s), text_bytes = (\<lambda>_. []), has_ptr = (\<lambda>_ _. True)\<rparr> f = Inr (Some 7) \<and>
     ContainerService_create_Results_Future_Container f = Some 7"
proof -
  let ?lib = "flat_lib :: (nat flat, nat option flat_ptr, nat option) capnp"
  obtain s where s: "answer_create ?lib (\<lambda>sz. Inr (new_struct ?lib sz)) (Some 7) = Inr s"
    by (simp add: answer_defs and_then_def flat_lib_def flat_set_ptr_def set_client_def)
  let ?pt = "\<lparr>struct_of = (\<lambda>_. s), text_bytes = (\<lambda>_. []), has_ptr = (\<lambda>_ _. True)\<rparr>"
  let ?f = "\<lparr>future_ptr = (Null_Ptr :: nat option flat_ptr, None), future_client = client_at ?lib s\<rparr>"
  have "client_valid ?lib (Some 7)" "answered ?lib ?pt ?f s"
    by (simp_all add: flat_lib_def answered_def same_data_def)
  with answers_arrive[OF flat.capnp_messages_axioms this(1) refl, where s = s and pt = ?pt and f = ?f] s
  show ?thesis by blast
qed

text \<open>For every capability of every answer, the field that is called early is the field that is read.\<close>

theorem pipelining_agrees:
  assumes "answered lib pt f s"
  shows "list_all (\<lambda>(early, late). early f = late s) (pipelined_fields lib)"
  using assms unfolding pipelined_fields_def
  by (auto simp: answered_def pipeline_defs)

end
