(* ===== verification/RPC_Registry.thy ===== *)
theory RPC_Registry
  imports RPC_Types
begin

text \<open>
  The identifiers of \<open>api/gen/go/capnp/agent.capnp.go\<close> agree with each other: those of the types,
  those that the messages give to the library for their text, those of the methods, and those
  under which the schema is registered.
\<close>

section \<open>The registry of the library\<close>

text \<open>
  \<open>Register\<close> accepts a schema whose nodes are new and given once, and \<open>Find\<close> then gives its
  text for each of them.
\<close>

locale capnp_registry =
  fixes register :: "'z schema \<Rightarrow> 'r \<Rightarrow> 'r go" and find_node :: "'r \<Rightarrow> 64 word \<Rightarrow> 'z option"
  assumes register_law: "distinct (schema_nodes z) \<Longrightarrow> \<forall>i \<in> set (schema_nodes z). find_node r i = None \<Longrightarrow>
      \<exists>r'. register z r = Inr r' \<and>
        (\<forall>i. find_node r' i = (if i \<in> set (schema_nodes z) then Some (schema_string z) else find_node r i))"

definition map_register :: "'z schema \<Rightarrow> (64 word \<rightharpoonup> 'z) \<Rightarrow> (64 word \<rightharpoonup> 'z) go" where
  "map_register z r =
    (if distinct (schema_nodes z) \<and> list_all (\<lambda>i. r i = None) (schema_nodes z)
     then Inr (\<lambda>i. if i \<in> set (schema_nodes z) then Some (schema_string z) else r i)
     else Inl (Errorf ''schemas: overlapping nodes'' []))"

interpretation map_registry: capnp_registry "map_register :: 'z schema \<Rightarrow> (64 word \<rightharpoonup> 'z) \<Rightarrow> (64 word \<rightharpoonup> 'z) go" "\<lambda>r. r"
  by unfold_locales (auto simp: map_register_def list_all_iff)

section \<open>The identifiers agree\<close>

lemma node_ids_distinct: "distinct schema_node_ids"
proof -
  have "successively (<) (map uint schema_node_ids)"
    by (simp add: schema_node_ids_def)
  then have "sorted_wrt (<) (map uint schema_node_ids)"
    by (simp add: successively_conv_sorted_wrt transp_def)
  then show ?thesis using strict_sorted_iff distinct_map by blast
qed

lemma type_ids_are_nodes:
  "set (map fst (message_types ops) @ map fst interface_types) = set schema_node_ids"
  unfolding message_types_def interface_types_def schema_node_ids_def type_ids
  by (simp only: list.map append_Cons append_Nil fst_conv list.set insert_commute)

lemma type_ids_distinct: "distinct (map fst (message_types ops) @ map fst interface_types)"
proof (rule card_distinct)
  have "length (map fst (message_types ops) @ map fst interface_types) = length schema_node_ids"
    by (simp add: message_types_def interface_types_def schema_node_ids_def)
  then show "card (set (map fst (message_types ops) @ map fst interface_types)) =
      length (map fst (message_types ops) @ map fst interface_types)"
    unfolding type_ids_are_nodes using node_ids_distinct by (simp add: distinct_card)
qed

lemma messages_use_their_id: "list_all (\<lambda>(i, m). m = message_of ops i) (message_types ops)"
  unfolding message_types_def by (simp add: message_defs type_ids)

lemma methods_use_their_id:
  "list_all (\<lambda>(i, name, ms). list_all (\<lambda>m. interface_id m = i \<and> interface_name m = ''capnp/agent.capnp:'' @ name) ms)
     interface_types"
  by (simp add: interface_types_def type_ids ByteStream_Methods_def Debug_Methods_def Network_Methods_def
      Task_Methods_def Container_Methods_def ContainerService_Methods_def Agent_Methods_def)

text \<open>
  C36. Every type is known under its own identifier: in a registry that has none of them yet the
  schema of the protocol is registered, exactly the 34 types of the file are found in it
  afterwards, no two under one identifier, every message gives its own to the library for its
  text, and every method of an interface is called under the identifier and the name of that
  interface.
\<close>

theorem types_registered:
  assumes "capnp_registry register find_node" and "\<forall>i. find_node r i = None"
  shows "\<exists>r'. RegisterSchema register schema_text r = Inr r' \<and>
    (\<forall>i. find_node r' i = (if i \<in> set (map fst (message_types ops) @ map fst interface_types)
       then Some schema_text else None)) \<and>
    distinct (map fst (message_types ops) @ map fst interface_types) \<and>
    list_all (\<lambda>(i, m). \<forall>s. msg_String m s = fst (marshal_text ops i s)) (message_types ops) \<and>
    list_all (\<lambda>(i, name, ms). list_all (\<lambda>m. interface_id m = i \<and>
       interface_name m = ''capnp/agent.capnp:'' @ name) ms) interface_types"
proof -
  let ?z = "\<lparr>schema_string = schema_text, schema_nodes = schema_node_ids, schema_compressed = True\<rparr>"
  obtain r' where r': "register ?z r = Inr r'"
      "\<forall>i. find_node r' i = (if i \<in> set schema_node_ids then Some schema_text else find_node r i)"
    using capnp_registry.register_law[OF assms(1), of ?z r] node_ids_distinct assms(2) by auto
  moreover have "list_all (\<lambda>(i, m). \<forall>s. msg_String m s = fst (marshal_text ops i s)) (message_types ops)"
    by (rule list.pred_mono_strong[OF messages_use_their_id]) (auto simp: message_of_def)
  ultimately show ?thesis
    unfolding RegisterSchema_def type_ids_are_nodes
    by (intro exI[of _ r'] conjI type_ids_distinct methods_use_their_id) (simp_all add: assms(2))
qed

theorem types_registered_witness:
  "\<exists>r'. RegisterSchema map_register ''schema'' (\<lambda>_. None) = Inr r' \<and> r' Task_TypeID = Some ''schema'' \<and> r' 0 = None"
proof -
  obtain r' where r': "RegisterSchema map_register ''schema'' (\<lambda>_. None) = Inr r'"
      "\<forall>i. r' i = (if i \<in> set (map fst (message_types \<lparr>marshal_text = \<lambda>i s. (s, None), struct_encode = \<lambda>s g. s,
           struct_decode = \<lambda>p. p, struct_ptr = \<lambda>s. s, struct_valid = \<lambda>s. True, struct_message = \<lambda>s. (),
           struct_segment = \<lambda>s. ()\<rparr>) @
         map fst interface_types) then Some ''schema'' else None)"
    using types_registered[OF map_registry.capnp_registry_axioms, of "\<lambda>_. None" "''schema''"] by blast
  then show ?thesis unfolding type_ids_are_nodes by (simp add: schema_node_ids_def Task_TypeID_def)
qed

end
