(* ===== verification/Manager_Listener.thy ===== *)
theory Manager_Listener
  imports Manager_VM
begin

text \<open>
  The running manager (\<open>manager/Sources/vmmanager/main.swift\<close>): the delegate of a vsock listener,
  which keeps every accepted connection and sends its descriptor to the runner, the address of
  the Unix socket it sends to, the log of the machine's states, and \<open>main\<close>. What the system
  calls return for one notification is the record \<open>notify_calls\<close>.
\<close>

section \<open>The address of the socket\<close>

text \<open>
  \<open>sun_path\<close> has 104 bytes on macOS and starts as zeros; \<open>strncpy\<close> copies up to the first NUL,
  at most 103 bytes, and fills up with zeros. The length of the address counts the family, two
  bytes, the path and one byte more.
\<close>

definition nul :: char where "nul = CHR 0x00"

definition c_string :: "string \<Rightarrow> string" where
  "c_string s = takeWhile (\<lambda>c. c \<noteq> nul) s"

definition sun_path :: "string \<Rightarrow> string" where
  "sun_path path = take 103 (c_string path) @ replicate (104 - length (take 103 (c_string path))) nul"

definition address_length :: "string \<Rightarrow> nat" where
  "address_length path = 2 + length path + 1"

text \<open>
  The guard on the length is the right one: whatever path passes it is in the address in full,
  with its terminator, and inside the field.
\<close>

theorem path_addressed:
  assumes "socket_path_fits path" and "nul \<notin> set path"
  shows "length (sun_path path) = 104 \<and> address_length path - 2 \<le> length (sun_path path) \<and>
    take (address_length path - 2) (sun_path path) = path @ [nul]"
proof -
  have "c_string path = path"
    unfolding c_string_def using assms(2) by (intro takeWhile_eq_all_conv[THEN iffD2]) auto
  moreover have "length path \<le> 103" using assms(1) by (simp add: socket_path_fits_def)
  moreover from this obtain k where "104 - length path = Suc k" by (cases "104 - length path") auto
  ultimately show ?thesis by (simp add: sun_path_def address_length_def)
qed

theorem path_addressed_witness:
  "take 5 (sun_path ''/s/a'') = ''/s/a'' @ [nul]"
  using path_addressed[of "''/s/a''"] by (simp add: socket_path_fits_def nul_def address_length_def)

section \<open>The delegate\<close>

text \<open>The calls of one notification: the new socket or a negative number, and two results.\<close>

record notify_calls =
  new_socket :: int
  connect_result :: int
  send_result :: int

datatype notify_event =
    Opened int
  | Sent string "8 word list" "cmsg list"
  | Closed int
  | Warning string

record delegate =
  connections :: "int list"
  notified :: "notify_event list"

definition noted :: "notify_event list \<Rightarrow> delegate \<Rightarrow> delegate" where
  "noted es d = d\<lparr>notified := notified d @ es\<rparr>"

definition send_connection_fd :: "string option \<Rightarrow> notify_calls \<Rightarrow> int \<Rightarrow> 32 word \<Rightarrow> delegate \<Rightarrow> delegate" where
  "send_connection_fd ready_path sys fd_to_send destination_port d =
    (case ready_path of
       None \<Rightarrow> d
     | Some path \<Rightarrow>
         if \<not> socket_path_fits path then noted [Warning (''unix socket path too long: '' @ path)] d
         else if new_socket sys < 0 then noted [Warning ''failed to create unix socket for readiness notify''] d
         else (let fd = new_socket sys; d = noted [Opened fd] d in
           if connect_result sys \<noteq> 0 then
             noted [Warning (''failed to connect readiness socket at '' @ path), Closed fd] d
           else if send_result sys < 0 then noted [Warning ''sendmsg(SCM_RIGHTS) failed'', Closed fd] d
           else (case readiness_message fd_to_send destination_port of
             (payload, control) \<Rightarrow> noted [Sent path payload control, Closed fd] d)))"

definition should_accept ::
  "string option \<Rightarrow> notify_calls \<Rightarrow> int \<times> 32 word \<Rightarrow> delegate \<Rightarrow> bool \<times> delegate" where
  "should_accept ready_path sys c d =
    (True, send_connection_fd ready_path sys (fst c) (snd c) (d\<lparr>connections := connections d @ [fst c]\<rparr>))"

text \<open>The connections of one listener, one after the other: the delegate holds its lock meanwhile.\<close>

fun accept_all :: "string option \<Rightarrow> (notify_calls \<times> int \<times> 32 word) list \<Rightarrow> delegate \<Rightarrow> delegate" where
  "accept_all ready_path [] d = d"
| "accept_all ready_path ((sys, c) # cs) d = accept_all ready_path cs (snd (should_accept ready_path sys c d))"

definition calls_succeed :: "notify_calls \<Rightarrow> bool" where
  "calls_succeed sys \<longleftrightarrow> 0 \<le> new_socket sys \<and> connect_result sys = 0 \<and> 0 \<le> send_result sys"

section \<open>The log of the states\<close>

text \<open>The handler of the timer: a state is logged when it is not the last one logged.\<close>

definition state_line :: "string \<Rightarrow> string" where
  "state_line now = ''[vmmanager] state='' @ now @ [CHR 0x0A]"

definition log_state :: "string \<Rightarrow> string option \<times> string list \<Rightarrow> string option \<times> string list" where
  "log_state now st =
    (case st of (seen, out) \<Rightarrow> if seen \<noteq> Some now then (Some now, out @ [state_line now]) else (seen, out))"

definition log_states :: "bool \<Rightarrow> string list \<Rightarrow> string list" where
  "log_states log states = (if log then snd (fold log_state states (None, [])) else [])"

text \<open>The log shows every change of the state once: the states without adjacent repetitions.\<close>

lemma map_remdups_adj_Cons: "f x # map f (tl (remdups_adj (x # xs))) = map f (remdups_adj (x # xs))"
  by (metis list.simps(9) remdups_adj_Cons_alt)

lemma log_state_fold:
  "snd (fold log_state states (Some s, out)) = out @ map state_line (tl (remdups_adj (s # states)))"
proof (induction states arbitrary: s out)
  case (Cons t states)
  then show ?case by (cases "s = t") (simp_all add: log_state_def map_remdups_adj_Cons)
qed simp

theorem log_states_changes: "log_states True states = map state_line (remdups_adj states)"
proof (cases states)
  case (Cons s rest)
  then show ?thesis
    using log_state_fold[of rest s "[state_line s]"] map_remdups_adj_Cons[of state_line s rest]
    by (simp add: log_states_def log_state_def)
qed (simp add: log_states_def)

section \<open>The manager\<close>

text \<open>
  \<open>main\<close>: the arguments, the machine, its start with the outcome \<open>start\<close> of the framework, and
  then the listeners. An error is printed and ends the process with 1; a process that goes on
  has its machine and its listening ports.
\<close>

datatype manager_end = ExitsWith int | Traps | Serves vz_config "32 word list"

definition after_start :: "vz_config \<Rightarrow> manager_config \<Rightarrow> goerr option \<Rightarrow> manager_end" where
  "after_start vz m start =
    (case start of
       Some e \<Rightarrow> ExitsWith 1
     | None \<Rightarrow> (case enable_vsock_agent_listener vz m of Inr ports \<Rightarrow> Serves vz ports | Inl _ \<Rightarrow> Traps))"

definition manager_main :: "vz_host \<Rightarrow> (vz_config \<Rightarrow> goerr option) \<Rightarrow> string list \<Rightarrow> manager_end" where
  "manager_main h start args =
    (case parse_manager_args args of
       Inl (UsageExit n message) \<Rightarrow> ExitsWith n
     | Inl (InvalidArg _) \<Rightarrow> ExitsWith 1
     | Inr m \<Rightarrow>
         (case start_vm h m of
            Inl Trap \<Rightarrow> Traps
          | Inl _ \<Rightarrow> ExitsWith 1
          | Inr vz \<Rightarrow> after_start vz m (start vz)))"

text \<open>A manager that goes on has the machine of its arguments and listens for the agent.\<close>

theorem manager_serves_iff:
  "manager_main h start args = Serves vz ports \<longleftrightarrow>
     (\<exists>m. parse_manager_args args = Inr m \<and> start_vm h m = Inr vz \<and> start vz = None \<and>
        enable_vsock_agent_listener vz m = Inr ports)"
  by (auto simp: manager_main_def after_start_def split: sum.splits cli_error.splits vm_error.splits option.splits)

section \<open>From the listener to the runner\<close>

lemma accept_all_kept: "connections (accept_all ready_path cs d) = connections d @ map (\<lambda>(sys, fd, port). fd) cs"
proof (induction cs arbitrary: d)
  case (Cons c cs)
  obtain sys fd port where c: "c = (sys, fd, port)" by (cases c) auto
  have "connections (send_connection_fd ready_path sys fd port d') = connections d'" for d'
    by (simp add: send_connection_fd_def noted_def Let_def split: option.splits prod.splits)
  with Cons show ?case by (simp add: c should_accept_def)
qed simp

text \<open>The sockets of the events: every one that is opened is closed next but one.\<close>

fun sockets_closed :: "notify_event list \<Rightarrow> bool" where
  "sockets_closed [] = True"
| "sockets_closed (Opened fd # e # Closed fd' # es) = (fd = fd' \<and> sockets_closed es)"
| "sockets_closed (Warning t # es) = sockets_closed es"
| "sockets_closed es = False"

lemma sockets_closed_append: "sockets_closed es \<Longrightarrow> sockets_closed (es @ es') = sockets_closed es'"
  by (induction es rule: sockets_closed.induct) auto

fun sent_messages :: "notify_event list \<Rightarrow> (string \<times> 8 word list \<times> cmsg list) list" where
  "sent_messages [] = []"
| "sent_messages (Sent path payload control # es) = (path, payload, control) # sent_messages es"
| "sent_messages (_ # es) = sent_messages es"

lemma sent_messages_append [simp]: "sent_messages (es @ es') = sent_messages es @ sent_messages es'"
  by (induction es rule: sent_messages.induct) auto

lemma send_connection_events:
  "\<exists>es. send_connection_fd (Some path) sys fd port d = noted es d \<and> sockets_closed es \<and>
     sent_messages es = (if socket_path_fits path \<and> calls_succeed sys
       then [(path, fst (readiness_message fd port), snd (readiness_message fd port))] else [])"
  by (cases "readiness_message fd port")
    (auto simp: send_connection_fd_def noted_def calls_succeed_def Let_def intro!: exI)

text \<open>With calls that succeed, what is sent is the message of \<open>notify_runner\<close>.\<close>

lemma send_connection_notifies:
  assumes "calls_succeed sys"
  shows "sent_messages (notified (send_connection_fd (m_agent_ready_socket_path m) sys fd port d)) =
    sent_messages (notified d) @ (case notify_runner m fd port of None \<Rightarrow> [] | Some message \<Rightarrow> [message])"
proof (cases "m_agent_ready_socket_path m")
  case None
  then show ?thesis by (simp add: send_connection_fd_def notify_runner_def)
next
  case (Some path)
  obtain es where "send_connection_fd (Some path) sys fd port d = noted es d"
      "sent_messages es = (if socket_path_fits path \<and> calls_succeed sys
         then [(path, fst (readiness_message fd port), snd (readiness_message fd port))] else [])"
    using send_connection_events by blast
  with Some assms show ?thesis by (simp add: noted_def notify_runner_def)
qed

lemma accept_all_events:
  "\<exists>es. notified (accept_all (Some path) cs d) = notified d @ es \<and> sockets_closed es \<and>
     sent_messages es = (if socket_path_fits path then map (\<lambda>(sys, fd, port).
       (path, fst (readiness_message fd port), snd (readiness_message fd port))) (filter (calls_succeed \<circ> fst) cs) else [])"
proof (induction cs arbitrary: d)
  case Nil
  then show ?case by (intro exI[of _ "[]"]) simp
next
  case (Cons c cs)
  obtain sys fd port where c: "c = (sys, fd, port)" by (cases c) auto
  let ?d = "d\<lparr>connections := connections d @ [fd]\<rparr>"
  obtain es where es: "send_connection_fd (Some path) sys fd port ?d = noted es ?d" "sockets_closed es"
      "sent_messages es = (if socket_path_fits path \<and> calls_succeed sys
         then [(path, fst (readiness_message fd port), snd (readiness_message fd port))] else [])"
    using send_connection_events by blast
  obtain es' where es': "notified (accept_all (Some path) cs (noted es ?d)) = notified (noted es ?d) @ es'" "sockets_closed es'"
      "sent_messages es' = (if socket_path_fits path then map (\<lambda>(sys, fd, port).
       (path, fst (readiness_message fd port), snd (readiness_message fd port))) (filter (calls_succeed \<circ> fst) cs) else [])"
    using Cons by blast
  have "notified (accept_all (Some path) (c # cs) d) = notified d @ (es @ es')"
    using es(1) es'(1) by (simp add: c should_accept_def noted_def)
  moreover have "sockets_closed (es @ es')" using es(2) es'(2) sockets_closed_append by blast
  ultimately show ?case using es(3) es'(3) by (intro exI[of _ "es @ es'"]) (simp add: c)
qed

text \<open>
  C24. The connections of the guest reach the runner: from what the manager sends for any number of
  them, \<open>recvFD\<close> reads their descriptors and ports in the order in which they were accepted,
  none for a connection whose notification failed and none when the path does not fit. Every
  socket opened for a notification is closed again, and every connection is kept, also
  one that the runner was never told of.
\<close>

theorem connections_reach_runner:
  "let d = accept_all (Some path) cs \<lparr>connections = [], notified = []\<rparr> in
     connections d = map (fst \<circ> snd) cs \<and> sockets_closed (notified d) \<and>
     map (\<lambda>(dest, payload, control). (dest, recv_fd (Inr (payload, Inr control)))) (sent_messages (notified d)) =
       (if socket_path_fits path
        then map (\<lambda>(sys, fd, port). (path, fd, port, None)) (filter (calls_succeed \<circ> fst) cs) else [])"
proof -
  obtain es where es: "notified (accept_all (Some path) cs \<lparr>connections = [], notified = []\<rparr>) = es" "sockets_closed es"
      "sent_messages es = (if socket_path_fits path then map (\<lambda>(sys, fd, port).
       (path, fst (readiness_message fd port), snd (readiness_message fd port))) (filter (calls_succeed \<circ> fst) cs) else [])"
    using accept_all_events[of path cs "\<lparr>connections = [], notified = []\<rparr>"] by auto
  have "recv_fd (Inr (fst (readiness_message fd port), Inr (snd (readiness_message fd port)))) = (fd, port, None)" for fd port
    using readiness_received[of fd port "[]"] by simp
  with es show ?thesis
    by (auto simp: Let_def accept_all_kept comp_def split_def)
qed

end
