(* ===== verification/Agent_Output.thy ===== *)
theory Agent_Output
  imports Agent_Stream_Props
begin

text \<open>
  A running task (\<open>agent/cmd/agent/container_service.go\<close>, from \<open>cmd.Start\<close> on): the container that
  writes to its two pipes, the two pumps as goroutines, and the handler of \<open>ExitCode\<close> that
  waits for the process. They share the read ends of the pipes: \<open>cmd.Wait\<close> closes them when
  the process has exited, as package \<open>os/exec\<close> documents. Each action is one call that returns;
  a goroutine that is blocked has no action.
\<close>

section \<open>State\<close>

datatype std = Stdout | Stderr

datatype stream_call = WriteCall string | DoneCall

datatype wait_pc = NotAsked | Waiting | Waited "goerr option" | Answered "32 word go"

text \<open>
  \<open>stream_calls\<close> are the calls a pump has made on the stream of the host, of which the first \<open>arrived\<close>
  have been received: the calls on one capability arrive in order. \<open>reads\<close> and \<open>written\<close> record what
  the reads of a pump returned and what the container has written.
\<close>

record task_run =
  exit_status :: "goerr option option"
  pipe :: "std \<Rightarrow> string"
  read_open :: "std \<Rightarrow> bool"
  pump_state :: "std \<Rightarrow> pump_end"
  reads :: "std \<Rightarrow> (string \<times> goerr option) list"
  stream_calls :: "std \<Rightarrow> stream_call list"
  arrived :: "std \<Rightarrow> nat"
  wait_state :: wait_pc
  link_up :: bool
  written :: "std \<Rightarrow> string"

definition task_started :: task_run where
  "task_started = \<lparr>exit_status = None, pipe = (\<lambda>_. []), read_open = (\<lambda>_. True), pump_state = (\<lambda>_. Reading),
     reads = (\<lambda>_. []), stream_calls = (\<lambda>_. []), arrived = (\<lambda>_. 0), wait_state = NotAsked, link_up = True,
     written = (\<lambda>_. [])\<rparr>"

definition pipe_size :: nat where "pipe_size = 64 * 1024"
definition pump_buffer :: nat where "pump_buffer = 64 * 1024"

section \<open>Steps\<close>

datatype task_action =
    ContainerWrites std string
  | ContainerExits "goerr option"
  | PumpReads std nat
  | PumpEnds std
  | Arrives std
  | AskExitCode
  | WaitReturns
  | AnswerExitCode
  | LinkBreaks

text \<open>The deferred \<open>src.Close\<close> of a pump that ends.\<close>

definition pump_ends :: "std \<Rightarrow> pump_end \<Rightarrow> (string \<times> goerr option) \<Rightarrow> task_run \<Rightarrow> task_run" where
  "pump_ends x e r s = s\<lparr>pump_state := (pump_state s)(x := e), reads := (reads s)(x := reads s x @ [r]),
     read_open := (read_open s)(x := False)\<rparr>"

text \<open>A read that returns bytes, and the call of \<open>Write\<close> with them.\<close>

definition pump_reads :: "std \<Rightarrow> string \<Rightarrow> task_run \<Rightarrow> task_run" where
  "pump_reads x bs s =
    (let s' = s\<lparr>pipe := (pipe s)(x := drop (length bs) (pipe s x))\<rparr> in
     if link_up s then s'\<lparr>reads := (reads s)(x := reads s x @ [(bs, None)]), stream_calls := (stream_calls s)(x := stream_calls s x @ [WriteCall bs])\<rparr>
     else pump_ends x (WriteFailed ErrClosed) (bs, None) s')"

text \<open>A read that returns no bytes: the end of the input and the call of \<open>Done\<close>, or a closed pipe.\<close>

definition pump_stops :: "std \<Rightarrow> task_run \<Rightarrow> task_run option" where
  "pump_stops x s =
    (if \<not> read_open s x then Some (pump_ends x ReadClosed ([], Some ErrClosed) s)
     else if pipe s x = [] \<and> exit_status s \<noteq> None then
       Some ((pump_ends x Finished ([], Some EOF) s)\<lparr>stream_calls := (stream_calls s)(x := stream_calls s x @ [DoneCall])\<rparr>)
     else None)"

text \<open>
  \<open>ExitCode\<close>: \<open>cmd.Wait\<close> returns after the exit and has closed the pipes; then the clean-up and
  the answer.
\<close>

definition answer_of :: "goerr option \<Rightarrow> 32 word go" where
  "answer_of waited =
    (case wait_fn waited of (code, None) \<Rightarrow> Inr code | (code, Some e) \<Rightarrow> Inl (Wrapf ''wait container: %w'' [] e))"

definition task_step :: "task_action \<Rightarrow> task_run \<Rightarrow> task_run option" where
  "task_step a s =
    (case a of
       ContainerWrites x bs \<Rightarrow>
         if exit_status s = None \<and> read_open s x \<and> length (pipe s x) + length bs \<le> pipe_size
         then Some (s\<lparr>pipe := (pipe s)(x := pipe s x @ bs), written := (written s)(x := written s x @ bs)\<rparr>) else None
     | ContainerExits e \<Rightarrow> if exit_status s = None then Some (s\<lparr>exit_status := Some e\<rparr>) else None
     | PumpReads x n \<Rightarrow>
         if pump_state s x = Reading \<and> read_open s x \<and> 0 < n \<and> n \<le> length (pipe s x) \<and> n \<le> pump_buffer
         then Some (pump_reads x (take n (pipe s x)) s) else None
     | PumpEnds x \<Rightarrow> if pump_state s x = Reading then pump_stops x s else None
     | Arrives x \<Rightarrow>
         if link_up s \<and> arrived s x < length (stream_calls s x)
         then Some (s\<lparr>arrived := (arrived s)(x := Suc (arrived s x))\<rparr>) else None
     | AskExitCode \<Rightarrow> if wait_state s = NotAsked then Some (s\<lparr>wait_state := Waiting\<rparr>) else None
     | WaitReturns \<Rightarrow>
         (case (wait_state s, exit_status s) of
            (Waiting, Some e) \<Rightarrow> Some (s\<lparr>wait_state := Waited e, read_open := (\<lambda>_. False)\<rparr>)
          | _ \<Rightarrow> None)
     | AnswerExitCode \<Rightarrow>
         (case wait_state s of Waited e \<Rightarrow> Some (s\<lparr>wait_state := Answered (answer_of e)\<rparr>) | _ \<Rightarrow> None)
     | LinkBreaks \<Rightarrow> Some (s\<lparr>link_up := False\<rparr>))"

fun task_runs :: "task_action list \<Rightarrow> task_run \<Rightarrow> task_run option" where
  "task_runs [] s = Some s"
| "task_runs (a # as) s = (case task_step a s of None \<Rightarrow> None | Some t \<Rightarrow> task_runs as t)"

inductive task_reachable :: "task_run \<Rightarrow> bool" where
  task_start: "task_reachable task_started"
| task_next: "task_reachable s \<Longrightarrow> task_step a s = Some t \<Longrightarrow> task_reachable t"

lemma task_runs_reachable: "task_runs as s = Some t \<Longrightarrow> task_reachable s \<Longrightarrow> task_reachable t"
  by (induction as arbitrary: s) (auto split: option.splits intro: task_next)

section \<open>What reaches the host\<close>

definition call_bytes :: "stream_call list \<Rightarrow> string" where
  "call_bytes cs = concat (map (\<lambda>c. case c of WriteCall bs \<Rightarrow> bs | DoneCall \<Rightarrow> []) cs)"

definition received :: "task_run \<Rightarrow> std \<Rightarrow> string" where
  "received s x = call_bytes (take (arrived s x) (stream_calls s x))"

definition done_received :: "task_run \<Rightarrow> std \<Rightarrow> bool" where
  "done_received s x \<longleftrightarrow> DoneCall \<in> set (take (arrived s x) (stream_calls s x))"

lemma call_bytes_simps [simp]:
  "call_bytes [] = []" "call_bytes (cs @ ds) = call_bytes cs @ call_bytes ds"
  "call_bytes [WriteCall bs] = bs" "call_bytes [DoneCall] = []"
  by (simp_all add: call_bytes_def)

definition calls_inv :: "task_run \<Rightarrow> std \<Rightarrow> bool" where
  "calls_inv s x \<longleftrightarrow>
    (case pump_state s x of
       Reading \<Rightarrow> written s x = call_bytes (stream_calls s x) @ pipe s x \<and> DoneCall \<notin> set (stream_calls s x)
     | Finished \<Rightarrow> (\<exists>cs. stream_calls s x = cs @ [DoneCall] \<and> DoneCall \<notin> set cs \<and> written s x = call_bytes cs)
     | _ \<Rightarrow> prefix (call_bytes (stream_calls s x)) (written s x) \<and> DoneCall \<notin> set (stream_calls s x)) \<and>
    (pump_state s x \<noteq> Reading \<longrightarrow> \<not> read_open s x)"

lemmas task_step_defs = task_step_def pump_reads_def pump_stops_def pump_ends_def

lemma calls_inv_step: "calls_inv s x \<Longrightarrow> task_step a s = Some t \<Longrightarrow> calls_inv t x"
  by (cases a; cases "pump_state s x")
    (auto simp: calls_inv_def task_step_defs Let_def prefix_def split: if_splits option.splits wait_pc.splits prod.splits)

lemma reachable_calls_inv: "task_reachable s \<Longrightarrow> calls_inv s x"
proof (induction rule: task_reachable.induct)
  case task_start
  show ?case by (simp add: calls_inv_def task_started_def)
qed (rule calls_inv_step)

section \<open>The goroutine is the pump\<close>

text \<open>A stream that takes \<open>k\<close> calls and then fails, as the list of the calls made on it.\<close>

definition put_until :: "nat \<Rightarrow> stream_call list \<Rightarrow> string \<Rightarrow> goerr option \<times> stream_call list" where
  "put_until k cs bs = (if length cs < k then (None, cs @ [WriteCall bs]) else (Some ErrClosed, cs))"

definition put_done :: "stream_call list \<Rightarrow> stream_call list" where
  "put_done cs = cs @ [DoneCall]"

definition pumped :: "nat \<Rightarrow> task_run \<Rightarrow> std \<Rightarrow> bool" where
  "pumped k s x \<longleftrightarrow> pump_to_byte_stream (put_until k) put_done (reads s x) [] = (pump_state s x, stream_calls s x)"

lemma pump_more:
  "pump_to_byte_stream put fin rs s = (Reading, t) \<Longrightarrow>
   pump_to_byte_stream put fin (rs @ [r]) s = pump_to_byte_stream put fin [r] t"
  by (induction put fin rs s rule: pump_to_byte_stream.induct)
    (auto split: option.splits prod.splits goerr.splits if_splits)

definition pump_inv :: "task_run \<Rightarrow> std \<Rightarrow> bool" where
  "pump_inv s x \<longleftrightarrow>
    (if pump_state s x = Reading then \<forall>k \<ge> length (stream_calls s x). pumped k s x else \<exists>k. pumped k s x)"

text \<open>A step leaves a pump alone or is its next read.\<close>

lemma pump_moves:
  "task_step a s = Some t \<Longrightarrow>
   reads t x = reads s x \<and> pump_state t x = pump_state s x \<and> stream_calls t x = stream_calls s x \<or>
   pump_state s x = Reading \<and>
   ((\<exists>bs. bs \<noteq> [] \<and> reads t x = reads s x @ [(bs, None)] \<and>
      (pump_state t x = Reading \<and> stream_calls t x = stream_calls s x @ [WriteCall bs] \<or>
       pump_state t x = WriteFailed ErrClosed \<and> stream_calls t x = stream_calls s x)) \<or>
    reads t x = reads s x @ [([], Some ErrClosed)] \<and> pump_state t x = ReadClosed \<and> stream_calls t x = stream_calls s x \<or>
    reads t x = reads s x @ [([], Some EOF)] \<and> pump_state t x = Finished \<and> stream_calls t x = stream_calls s x @ [DoneCall])"
proof (cases a)
  case (PumpReads y n)
  assume "task_step a s = Some t"
  with PumpReads have pre: "pump_state s y = Reading" "take n (pipe s y) \<noteq> []"
    and t: "t = pump_reads y (take n (pipe s y)) s"
    by (auto simp: task_step_def split: if_split_asm)
  show ?thesis
    unfolding t using pre by (cases "y = x"; cases "link_up s") (simp_all add: pump_reads_def pump_ends_def Let_def)
next
  case (PumpEnds y)
  assume "task_step a s = Some t"
  with PumpEnds have pre: "pump_state s y = Reading" and t: "pump_stops y s = Some t"
    by (simp_all add: task_step_def split: if_split_asm)
  from t have "t = pump_ends y ReadClosed ([], Some ErrClosed) s \<or>
      t = (pump_ends y Finished ([], Some EOF) s)\<lparr>stream_calls := (stream_calls s)(y := stream_calls s y @ [DoneCall])\<rparr>"
    by (simp add: pump_stops_def split: if_split_asm)
  then show ?thesis
    using pre by (elim disjE; cases "y = x") (simp_all add: pump_ends_def)
next
  case WaitReturns
  assume "task_step a s = Some t"
  with WaitReturns obtain e where "t = s\<lparr>wait_state := Waited e, read_open := (\<lambda>_. False)\<rparr>"
    by (auto simp: task_step_def split: option.split_asm wait_pc.split_asm)
  then show ?thesis by simp
next
  case AnswerExitCode
  assume "task_step a s = Some t"
  with AnswerExitCode obtain e where "t = s\<lparr>wait_state := Answered e\<rparr>"
    by (auto simp: task_step_def split: wait_pc.split_asm)
  then show ?thesis by simp
qed (auto simp: task_step_def split: if_split_asm)

lemma pump_move_cases:
  assumes "task_step a s = Some t"
  obtains
    (same) "reads t x = reads s x" "pump_state t x = pump_state s x" "stream_calls t x = stream_calls s x"
  | (wrote) bs where "pump_state s x = Reading" "bs \<noteq> []" "reads t x = reads s x @ [(bs, None)]"
      "pump_state t x = Reading" "stream_calls t x = stream_calls s x @ [WriteCall bs]"
  | (failed) bs where "pump_state s x = Reading" "bs \<noteq> []" "reads t x = reads s x @ [(bs, None)]"
      "pump_state t x = WriteFailed ErrClosed" "stream_calls t x = stream_calls s x"
  | (closed) "pump_state s x = Reading" "reads t x = reads s x @ [([], Some ErrClosed)]"
      "pump_state t x = ReadClosed" "stream_calls t x = stream_calls s x"
  | (eof) "pump_state s x = Reading" "reads t x = reads s x @ [([], Some EOF)]"
      "pump_state t x = Finished" "stream_calls t x = stream_calls s x @ [DoneCall]"
  using pump_moves[OF assms, of x] by blast

lemma pump_inv_step:
  assumes "pump_inv s x" and "task_step a s = Some t"
  shows "pump_inv t x"
proof -
  have read: "pump_to_byte_stream (put_until k) put_done (reads s x @ [r]) [] =
      pump_to_byte_stream (put_until k) put_done [r] (stream_calls s x)"
    if "pump_state s x = Reading" "length (stream_calls s x) \<le> k" for k r
    using that assms(1) by (intro pump_more) (simp add: pump_inv_def pumped_def)
  from assms(2) show ?thesis
  proof (cases rule: pump_move_cases[where x = x])
    case same
    with assms(1) show ?thesis by (auto simp: pump_inv_def pumped_def split: if_splits)
  next
    case (wrote bs)
    then show ?thesis by (simp add: pump_inv_def pumped_def read put_until_def)
  next
    case (failed bs)
    then show ?thesis
      by (auto simp: pump_inv_def pumped_def read put_until_def intro!: exI[of _ "length (stream_calls s x)"])
  next
    case closed
    then show ?thesis
      by (auto simp: pump_inv_def pumped_def read intro!: exI[of _ "length (stream_calls s x)"])
  next
    case eof
    then show ?thesis
      by (auto simp: pump_inv_def pumped_def read put_done_def intro!: exI[of _ "length (stream_calls s x)"])
  qed
qed

lemma reachable_pump_inv: "task_reachable s \<Longrightarrow> pump_inv s x"
proof (induction rule: task_reachable.induct)
  case task_start
  show ?case by (simp add: pump_inv_def pumped_def task_started_def)
qed (rule pump_inv_step)

text \<open>
  The goroutines run the code of the pump: in every reachable state there is a number of calls
  after which the stream fails such that \<open>pumpToByteStream\<close>, run on the reads so far, is where the
  goroutine is and has made its calls.
\<close>

theorem goroutine_is_pump:
  assumes "task_reachable s"
  shows "\<exists>k. pump_to_byte_stream (put_until k) put_done (reads s x) [] = (pump_state s x, stream_calls s x)"
  using reachable_pump_inv[OF assms, of x] by (auto simp: pump_inv_def pumped_def split: if_splits)

section \<open>Output that arrives and output that is lost\<close>

lemma call_bytes_take: "prefix (call_bytes (take n cs)) (call_bytes cs)"
  by (metis append_take_drop_id call_bytes_simps(2) prefixI)

lemma last_done: "DoneCall \<in> set (take n (cs @ [DoneCall])) \<Longrightarrow> DoneCall \<notin> set cs \<Longrightarrow> take n (cs @ [DoneCall]) = cs @ [DoneCall]"
  by (cases "n \<le> length cs") (auto dest: in_set_takeD)

text \<open>
  C28. The output arrives in order, and \<open>Done\<close> certifies it: in every interleaving of the container,
  the pumps, the wait and the link, what the host has received of a stream is a prefix of what
  the container has written to it, and it is all of it when the host has received \<open>Done\<close>. A
  pump that finishes has sent everything.
\<close>

theorem output_in_order:
  assumes "task_reachable s"
  shows "prefix (received s x) (written s x) \<and> (done_received s x \<longrightarrow> received s x = written s x) \<and>
    (pump_state s x = Finished \<longrightarrow> call_bytes (stream_calls s x) = written s x)"
proof -
  note inv = reachable_calls_inv[OF assms, of x]
  have sent: "prefix (call_bytes (stream_calls s x)) (written s x)"
    using inv by (auto simp: calls_inv_def split: pump_end.splits)
  have "received s x = written s x" if d: "done_received s x"
  proof -
    have "DoneCall \<in> set (stream_calls s x)" using d by (auto simp: done_received_def dest: in_set_takeD)
    with inv obtain cs where cs: "stream_calls s x = cs @ [DoneCall]" "DoneCall \<notin> set cs" "written s x = call_bytes cs"
      by (auto simp: calls_inv_def split: pump_end.splits)
    with d have "take (arrived s x) (stream_calls s x) = cs @ [DoneCall]"
      using last_done[of "arrived s x" cs] by (simp add: done_received_def)
    with cs show ?thesis by (simp add: received_def)
  qed
  moreover have "prefix (received s x) (written s x)"
    using call_bytes_take sent unfolding received_def by (rule prefix_order.trans)
  moreover have "call_bytes (stream_calls s x) = written s x" if "pump_state s x = Finished"
    using inv that by (auto simp: calls_inv_def)
  ultimately show ?thesis by blast
qed

definition short_run :: "task_action list" where
  "short_run = [ContainerWrites Stdout ''done'', PumpReads Stdout 4, ContainerExits None, PumpEnds Stdout,
     Arrives Stdout, Arrives Stdout]"

theorem output_in_order_witness:
  "\<exists>s. task_runs short_run task_started = Some s \<and> done_received s Stdout \<and> received s Stdout = ''done''"
proof -
  obtain s where s: "task_runs short_run task_started = Some s" "done_received s Stdout" "written s Stdout = ''done''"
    by (simp add: short_run_def task_started_def task_step_defs pipe_size_def pump_buffer_def done_received_def Let_def)
  from s(1) have "task_reachable s" by (rule task_runs_reachable) (rule task_start)
  with output_in_order[of s Stdout] s show ?thesis by auto
qed

text \<open>A pump that has ended makes no more calls.\<close>

lemma ended_pump:
  "task_step a s = Some t \<Longrightarrow> pump_state s x \<noteq> Reading \<Longrightarrow>
   pump_state t x = pump_state s x \<and> stream_calls t x = stream_calls s x"
  by (cases rule: pump_move_cases[of a s t x]) auto

lemma ended_pump_runs:
  "task_runs as s = Some t \<Longrightarrow> pump_state s x \<noteq> Reading \<Longrightarrow>
   pump_state t x = pump_state s x \<and> stream_calls t x = stream_calls s x"
proof (induction as arbitrary: s)
  case (Cons a as)
  then obtain u where u: "task_step a s = Some u" "task_runs as u = Some t" by (auto split: option.splits)
  with Cons.IH[OF u(2)] ended_pump[OF u(1) Cons.prems(2)] Cons.prems(2) show ?case by auto
qed simp

text \<open>
  C25. Output can be lost without any failure: \<open>RunContainer\<close> asks for the exit code at once, so
  \<open>cmd.Wait\<close> may close the pipe between the exit of the container and the next read of the pump.
  The container writes a line and exits with 0, the exit code is answered, the link is up, and
  nothing of the line ever arrives, nor \<open>Done\<close>, whatever happens later.
\<close>

theorem output_can_be_lost:
  "\<exists>s. task_reachable s \<and> wait_state s = Answered (Inr 0) \<and> link_up s \<and> written s Stdout = ''result\<newline>'' \<and>
     (\<forall>as. pred_option (\<lambda>t. received t Stdout = [] \<and> \<not> done_received t Stdout) (task_runs as s))"
proof -
  let ?as = "[AskExitCode, ContainerWrites Stdout ''result\<newline>'', ContainerExits None, WaitReturns, AnswerExitCode, PumpEnds Stdout]"
  obtain s where s: "task_runs ?as task_started = Some s" "wait_state s = Answered (Inr 0)" "link_up s"
      "written s Stdout = ''result\<newline>''" "pump_state s Stdout = ReadClosed" "stream_calls s Stdout = []"
    by (simp add: task_started_def task_step_defs pipe_size_def answer_of_def wait_fn_def)
  have "received t Stdout = [] \<and> \<not> done_received t Stdout" if "task_runs as s = Some t" for as t
    using ended_pump_runs[OF that, of Stdout] s(5,6) by (simp add: received_def done_received_def)
  then have "pred_option (\<lambda>t. received t Stdout = [] \<and> \<not> done_received t Stdout) (task_runs as s)" for as
    by (cases "task_runs as s") simp_all
  moreover have "task_reachable s" using s(1) task_start by (rule task_runs_reachable)
  ultimately show ?thesis using s(2-4) by blast
qed

end
