(* ===== verification/Spec2Isabelle.thy ===== *)
theory Spec2Isabelle
  imports Lock Config_Props Container_Client Runner Runner_Props VM_State Image_Props Image_Cases
    Machine_Chain Agent_Container_Cases Agent_Stream_Props Agent_Network OCI_Props World_Ok RPC_Answers RPC_Registry Manager_Listener Agent_Output
begin

text \<open>
  A runner of containers in a virtual machine of their own. On the host the Go package \<open>vm\<close>
  (\<open>vm/*.go\<close>, \<open>vm/lock\<close>) prepares state, disks and images, starts the Swift \<open>manager\<close> as a
  process and drives a container over Cap'n Proto; the command \<open>vm/cmd/vm/main.go\<close> ties this
  together. In the guest the Go \<open>agent\<close> (\<open>agent/cmd/agent/*.go\<close>) mounts file systems, connects
  back over vsock and serves the calls that create and run containers with \<open>runc\<close>.

  \<^bold>\<open>Foundations.\<close> \<open>Go_Prelude\<close>: Go errors as a sum type, \<open>if err != nil { return }\<close> as
  \<open>or_fail\<close> over \<open>State_Monad\<close>, Hoare triples, and the locale \<open>state_preorder\<close>: what follows the
  shape of a program, from a relation between the states before and after its calls. It is
  interpreted for the calls that only add to the tree, leave no event, touch no lock, keep
  worlds well-formed, leak no descriptor, mount only the state disk, or stay below a
  directory. \<open>Go_Strings\<close>, \<open>Go_Path\<close>, \<open>Go_Netip\<close>, \<open>Go_Flag\<close>: what the code uses of the standard
  library. \<open>Go_OS\<close>, \<open>Go_OS_Lemmas\<close>: the operating system, a record \<open>world\<close> of a tree, inodes, open files, advisory locks, mounts, a
  trace of executions and mounts and a script of faults. Every system call first consults the
  script at the current tick, so a theorem about all worlds is about every way the calls can
  fail. A panic is a value of its own where the code can panic.

  \<^bold>\<open>Host components.\<close>
  \<^item> \<open>Lock\<close> (\<open>vm/lock/lock.go\<close>): \<open>acquire\<close>, \<open>release\<close>, and their system calls one by one as the
    steps \<open>next_call\<close> of any number of processes. One holder per inode always; one holder per
    path only while no process removes the file.
  \<^item> \<open>VM_Config\<close>, \<open>Manager_CLI\<close>, \<open>Config_Props\<close> (\<open>vm/runner.go\<close> lines 20 to 237 and
    \<open>parseArgs\<close>, \<open>bootArgs\<close> of \<open>manager/.../main.swift\<close>): validation, the argument vector, its
    parser, and that the parser inverts the printer.
  \<^item> \<open>Manager_VM\<close> (the rest of \<open>main.swift\<close>): \<open>startVM\<close> and the devices it configures, the check of
    the kernel file and the vsock listeners, over the Virtualization framework as the record
    \<open>vz_host\<close>; Swift's traps are an outcome. \<open>Manager_Listener\<close>: the delegate of a listener and what
    it sends to the runner, the log of the states, and \<open>main\<close>.
  \<^item> \<open>Runner\<close> (\<open>Run\<close> up to the started manager, through the locale \<open>exclusive\<close> that the lock
    interprets), \<open>Runner_Conn\<close> (\<open>recvFD\<close>, \<open>VMContext\<close>), \<open>Runner_Loop\<close> and \<open>Runner_Props\<close> (the
    goroutines of \<open>Run\<close> as an inductive step relation over channels; their invariants by rule
    induction). The capacities 32, 64 and 1 of the channels are the code's. \<open>Runner_Exit\<close>: what happens
    once the manager has exited, as a measure that every step lowers, and where it does not end.
  \<^item> \<open>VM_State\<close> (\<open>vm/state.go\<close>), \<open>Image_Disk\<close> with \<open>Image_Props\<close>, \<open>Image_Confined\<close>,
    \<open>Image_Cases\<close> (\<open>vm/image_disk.go\<close>, \<open>image_shared.go\<close>, \<open>disk_ext4.go\<close>): directories, the
    extraction of archives and what it can reach, the caches.
  \<^item> \<open>Container_Client\<close> (\<open>vm/container.go\<close>): the line printer and \<open>RunContainer\<close>.
  \<^item> \<open>OCI_Spec\<close>, \<open>OCI_Props\<close> (\<open>vm/oci_spec.go\<close>): the default specification, its text, and that an
    image reference stays inside its string.
  \<^item> \<open>VM_Main\<close>, \<open>VM_Main_Props\<close> (\<open>vm/cmd/vm/main.go\<close>): the command from its flags to its exit.

  \<^bold>\<open>Guest components.\<close>
  \<^item> \<open>Agent_Boot\<close>, \<open>Agent_Boot_Props\<close> (\<open>main.go\<close>, \<open>vsock.go\<close>, \<open>runtime_mounts.go\<close>): settings,
    mounts, the socket address, the reconnecting loop. The loop never ends; the theorems speak
    of its first \<open>n\<close> rounds, for every \<open>n\<close>.
  \<^item> \<open>Agent_Container\<close>, \<open>Agent_Container_Props\<close>, \<open>Agent_Container_Cases\<close>
    (\<open>container_service.go\<close>): \<open>Create\<close>, \<open>Start\<close>, \<open>ExitCode\<close>.
  \<^item> \<open>Agent_Stream\<close>, \<open>Agent_Stream_Props\<close> (the streams of \<open>container_service.go\<close>, and
    \<open>debug_service.go\<close>): the pump over the locale \<open>byte_sink\<close>, which three receivers interpret,
    and the benchmark's loop, a \<open>partial_function\<close> that is proved to return. \<open>Agent_Output\<close>: the pumps
    as goroutines beside the container and the handler that waits for it; they run the pump's code
    (\<open>goroutine_is_pump\<close>), what arrives is a prefix of what was written, and the wait can cut it short.
  \<^item> \<open>Agent_Network\<close> (\<open>network_service.go\<close>, \<open>network_link.go\<close>) over a record of the netlink calls.

  \<^bold>\<open>The protocol.\<close> \<open>RPC_Schema\<close> (the calls and method tables of
  \<open>api/gen/go/capnp/agent.capnp.go\<close>), \<open>RPC_Messages\<close> (the accessors of its messages), \<open>RPC_Structs\<close>
  (their allocation and how they are read from an answer), \<open>RPC_Types\<close> (what every message and
  capability has, the servers, the type identifiers), with the capnp library as records of its
  operations. \<open>RPC_Props\<close>, \<open>RPC_Answers\<close> and \<open>RPC_Registry\<close> state what it promises as the locales
  \<open>capnp_messages\<close>, \<open>capnp_servers\<close> and \<open>capnp_registry\<close>, interpreted on the documented layout of
  a struct, on tables of methods and on finite maps.

  \<^bold>\<open>Across components.\<close> \<open>RPC_Props\<close>: the arguments of \<open>RunContainer\<close> reach the agent's \<open>Create\<close>.
  \<open>RPC_Answers\<close>: the results of the agent reach \<open>RunContainer\<close>. \<open>Boot_Chain\<close>: a configuration
  accepted on the host reaches the agent through the manager's kernel command line.
  \<open>Machine_Chain\<close>: the memory, disks, shares and connections of the machine, from the command to
  the guest. \<open>Manager_Listener\<close>: the connections of the guest reach the runner. \<open>VM_Main_Props\<close>:
  what the command asks for is what the agent's \<open>Create\<close> accepts. \<open>Agent_Stream_Props\<close>: the output
  of a container reaches the host's line printer. \<open>World_Ok\<close>: every program keeps worlds
  well-formed.

  \<^bold>\<open>Parameters.\<close> The image registry, \<open>mkfs.ext4\<close>, the vsock peer, netlink, the outcome of
  processes, and the remote side of the RPC library are arguments of the definitions.

  \<^bold>\<open>Not modelled.\<close> The compressed text of the schema in \<open>api/gen/go/capnp/agent.capnp.go\<close>, an
  argument of \<open>RegisterSchema\<close>; of the manager, its usage text and what the Virtualization
  framework does with a configuration; the end-to-end tests, the build and image scripts;
  permissions (left to the fault script), time, the text of the errors of package \<open>netip\<close>. A
  signal to the command, or its limit of five minutes, is seen only as the error of the call that
  it cancels.
\<close>

end
